(* ===== verification/Py_Prelude.thy ===== *)
theory Py_Prelude
  imports Main "HOL-Library.AList"
begin

text \<open>
  Shared vocabulary of the development: Python exceptions and results, programs that pass
  a state and may raise or fail to return, the reasoning rules for them (invariants kept by
  a program, \<open>keeps\<close>), and Python dictionaries as association lists in insertion order.
\<close>

named_theorems prog_simps \<open>unfolding rules for programs\<close>
named_theorems keeps_intros \<open>invariant preservation, rule by rule\<close>

section \<open>Results and programs\<close>

datatype pyexn =
    TypeError | ValueError | IndexError | KeyError | ZeroDivisionError | AttributeError
  | NameError | UnboundLocalError | StructError | OSError | RecursionError
  | UnicodeDecodeError | UnicodeEncodeError | LookupError | ImportError | OverflowError
  | ArgumentError

text \<open>
  \<open>NoReturn\<close> is the result of a call that does not come back: a busy-wait loop whose
  condition no other process makes false, or a C function handed a NULL pointer it follows.
\<close>

datatype 'a result = Val 'a | Exn pyexn | NoReturn

type_synonym ('s, 'a) prog = "'s \<Rightarrow> 'a result \<times> 's"

definition ret :: "'a \<Rightarrow> ('s, 'a) prog" where
  "ret x s = (Val x, s)"

definition raise :: "pyexn \<Rightarrow> ('s, 'a) prog" where
  "raise e s = (Exn e, s)"

definition bnd :: "('s, 'a) prog \<Rightarrow> ('a \<Rightarrow> ('s, 'b) prog) \<Rightarrow> ('s, 'b) prog" where
  "bnd m f s = (case m s of
     (Val x, s') \<Rightarrow> f x s'
   | (Exn e, s') \<Rightarrow> (Exn e, s')
   | (NoReturn, s') \<Rightarrow> (NoReturn, s'))"

definition andthen :: "('s, 'a) prog \<Rightarrow> ('s, 'b) prog \<Rightarrow> ('s, 'b) prog" where
  "andthen m k = bnd m (\<lambda>_. k)"

definition lift :: "'a result \<Rightarrow> ('s, 'a) prog" where
  "lift r s = (r, s)"

definition gets :: "('s \<Rightarrow> 'a) \<Rightarrow> ('s, 'a) prog" where
  "gets f s = (Val (f s), s)"

definition modify :: "('s \<Rightarrow> 's) \<Rightarrow> ('s, unit) prog" where
  "modify f s = (Val (), f s)"

text \<open>The same sequencing for computations without a state.\<close>

fun rbind :: "'a result \<Rightarrow> ('a \<Rightarrow> 'b result) \<Rightarrow> 'b result" where
  "rbind (Val x) f = f x"
| "rbind (Exn e) f = Exn e"
| "rbind NoReturn f = NoReturn"

text \<open>A Python \<open>for\<close> loop over a list, left to right, that stops at the first exception.\<close>

primrec for_each :: "'a list \<Rightarrow> ('a \<Rightarrow> ('s, unit) prog) \<Rightarrow> ('s, unit) prog" where
  "for_each [] f = ret ()"
| "for_each (x # xs) f = andthen (f x) (for_each xs f)"

text \<open>
  A \<open>for\<close> loop that carries a value, and one whose body may \<open>return\<close> from the enclosing
  function: \<open>Done\<close> is that return, \<open>Cont\<close> the next round.
\<close>

primrec loop_acc :: "'a list \<Rightarrow> ('a \<Rightarrow> 'b \<Rightarrow> ('s, 'b) prog) \<Rightarrow> 'b \<Rightarrow> ('s, 'b) prog" where
  "loop_acc [] f acc = ret acc"
| "loop_acc (x # xs) f acc = bnd (f x acc) (loop_acc xs f)"

datatype 'b flow = Cont 'b | Done 'b

primrec loop_until :: "'a list \<Rightarrow> ('a \<Rightarrow> 'b \<Rightarrow> ('s, 'b flow) prog) \<Rightarrow> 'b \<Rightarrow> ('s, 'b flow) prog" where
  "loop_until [] f acc = ret (Cont acc)"
| "loop_until (x # xs) f acc =
     bnd (f x acc) (\<lambda>r. case r of Cont acc' \<Rightarrow> loop_until xs f acc' | Done acc' \<Rightarrow> ret (Done acc'))"

primrec flow_value :: "'b flow \<Rightarrow> 'b" where
  "flow_value (Cont x) = x"
| "flow_value (Done x) = x"

lemma ret_run [simp, prog_simps]: "ret x s = (Val x, s)"
  by (simp add: ret_def)

lemma raise_run [simp, prog_simps]: "raise e s = (Exn e, s)"
  by (simp add: raise_def)

lemma lift_run [simp, prog_simps]: "lift r s = (r, s)"
  by (simp add: lift_def)

lemma gets_run [simp, prog_simps]: "gets f s = (Val (f s), s)"
  by (simp add: gets_def)

lemma modify_run [simp, prog_simps]: "modify f s = (Val (), f s)"
  by (simp add: modify_def)

lemma bnd_Val [simp]: "m s = (Val x, s') \<Longrightarrow> bnd m f s = f x s'"
  by (simp add: bnd_def)

lemma bnd_Exn [simp]: "m s = (Exn e, s') \<Longrightarrow> bnd m f s = (Exn e, s')"
  by (simp add: bnd_def)

lemma bnd_NoReturn [simp]: "m s = (NoReturn, s') \<Longrightarrow> bnd m f s = (NoReturn, s')"
  by (simp add: bnd_def)

lemma andthen_Val [simp]: "m s = (Val x, s') \<Longrightarrow> andthen m k s = k s'"
  by (simp add: andthen_def)

lemma andthen_Exn [simp]: "m s = (Exn e, s') \<Longrightarrow> andthen m k s = (Exn e, s')"
  by (simp add: andthen_def)

lemma andthen_NoReturn [simp]: "m s = (NoReturn, s') \<Longrightarrow> andthen m k s = (NoReturn, s')"
  by (simp add: andthen_def)

lemma ret_bnd [simp]: "bnd (ret x) f = f x"
  by (rule ext) simp

lemma bnd_ret [simp]: "bnd m ret = m"
  by (rule ext) (simp add: bnd_def split: prod.split result.split)

lemma bnd_assoc: "bnd (bnd m f) g = bnd m (\<lambda>x. bnd (f x) g)"
  by (rule ext) (simp add: bnd_def split: prod.split result.split)

text \<open>A bind that returns a value was a first part that returned, then the second.\<close>

lemma bnd_eq_Val:
  "bnd m f s = (Val y, t) \<longleftrightarrow> (\<exists>x s'. m s = (Val x, s') \<and> f x s' = (Val y, t))"
  by (auto simp: bnd_def split: prod.splits result.splits)

lemma andthen_eq_Val:
  "andthen m k s = (Val y, t) \<longleftrightarrow> (\<exists>x s'. m s = (Val x, s') \<and> k s' = (Val y, t))"
  by (simp add: andthen_def bnd_eq_Val)

lemma bnd_ValE:
  assumes "bnd m f s = (Val y, t)"
  obtains x s' where "m s = (Val x, s')" and "f x s' = (Val y, t)"
  using assms by (auto simp: bnd_eq_Val)

lemma andthen_ValE:
  assumes "andthen m k s = (Val y, t)"
  obtains x s' where "m s = (Val x, s')" and "k s' = (Val y, t)"
  using assms by (auto simp: andthen_eq_Val)

section \<open>Invariants kept by a program\<close>

text \<open>However a program ends, the invariant holds in the state it leaves.\<close>

definition keeps :: "('s \<Rightarrow> bool) \<Rightarrow> ('s, 'a) prog \<Rightarrow> bool" where
  "keeps I m \<longleftrightarrow> (\<forall>s. I s \<longrightarrow> I (snd (m s)))"

lemma keepsI: "(\<And>s. I s \<Longrightarrow> I (snd (m s))) \<Longrightarrow> keeps I m"
  by (simp add: keeps_def)

lemma keepsD: "keeps I m \<Longrightarrow> I s \<Longrightarrow> I (snd (m s))"
  by (simp add: keeps_def)

lemma keeps_run: "keeps I m \<Longrightarrow> I s \<Longrightarrow> m s = (r, s') \<Longrightarrow> I s'"
  using keepsD [of I m s] by simp

lemma keeps_ret [keeps_intros]: "keeps I (ret x)"
  by (simp add: keeps_def)

lemma keeps_raise [keeps_intros]: "keeps I (raise e)"
  by (simp add: keeps_def)

lemma keeps_lift [keeps_intros]: "keeps I (lift r)"
  by (simp add: keeps_def)

lemma keeps_gets [keeps_intros]: "keeps I (gets f)"
  by (simp add: keeps_def)

lemma keeps_modify: "(\<And>s. I s \<Longrightarrow> I (f s)) \<Longrightarrow> keeps I (modify f)"
  by (simp add: keeps_def)

lemma keeps_bnd [keeps_intros]:
  assumes "keeps I m" and "\<And>x. keeps I (f x)"
  shows "keeps I (bnd m f)"
  using assms by (fastforce simp: keeps_def bnd_def split: prod.splits result.splits)

lemma keeps_andthen [keeps_intros]: "keeps I m \<Longrightarrow> keeps I k \<Longrightarrow> keeps I (andthen m k)"
  by (simp add: andthen_def keeps_bnd)

lemma keeps_if [keeps_intros]: "keeps I m \<Longrightarrow> keeps I k \<Longrightarrow> keeps I (if b then m else k)"
  by simp

lemma keeps_case_option [keeps_intros]:
  "keeps I m \<Longrightarrow> (\<And>x. keeps I (f x)) \<Longrightarrow>
   keeps I (case opt of None \<Rightarrow> m | Some x \<Rightarrow> f x)"
  by (cases opt) simp_all

lemma keeps_case_prod [keeps_intros]:
  "(\<And>x y. keeps I (f x y)) \<Longrightarrow> keeps I (case p of (x, y) \<Rightarrow> f x y)"
  by (cases p) simp

lemma keeps_let [keeps_intros]: "keeps I (f x) \<Longrightarrow> keeps I (Let x f)"
  by simp

lemma keeps_case_flow [keeps_intros]:
  "(\<And>x. keeps I (f x)) \<Longrightarrow> (\<And>x. keeps I (g x)) \<Longrightarrow>
   keeps I (case r of Cont x \<Rightarrow> f x | Done x \<Rightarrow> g x)"
  by (cases r) simp_all

lemma keeps_loop_acc [keeps_intros]:
  "(\<And>x acc. keeps I (f x acc)) \<Longrightarrow> keeps I (loop_acc xs f acc)"
  by (induction xs arbitrary: acc) (auto intro: keeps_intros)

lemma keeps_loop_until [keeps_intros]:
  "(\<And>x acc. keeps I (f x acc)) \<Longrightarrow> keeps I (loop_until xs f acc)"
  by (induction xs arbitrary: acc) (auto intro!: keeps_intros)

lemma keeps_for_each [keeps_intros]:
  "(\<And>x. keeps I (f x)) \<Longrightarrow> keeps I (for_each xs f)"
  by (induction xs) (auto intro: keeps_intros)

section \<open>Triples\<close>

text \<open>
  From a state with \<open>P\<close> the program returns a value and a state related by \<open>Q\<close>, or raises
  or does not return in a state with \<open>E\<close>.
\<close>

definition triple ::
  "('s \<Rightarrow> bool) \<Rightarrow> ('s, 'a) prog \<Rightarrow> ('a \<Rightarrow> 's \<Rightarrow> bool) \<Rightarrow> ('s \<Rightarrow> bool) \<Rightarrow> bool" where
  "triple P m Q E \<longleftrightarrow>
     (\<forall>s. P s \<longrightarrow> (case m s of (Val x, t) \<Rightarrow> Q x t | (Exn e, t) \<Rightarrow> E t | (NoReturn, t) \<Rightarrow> E t))"

lemma triple_bnd:
  assumes "triple P m R E" and "\<And>x. triple (R x) (f x) Q E"
  shows "triple P (bnd m f) Q E"
  using assms unfolding triple_def bnd_def
  by (fastforce split: prod.splits result.splits)

lemma triple_andthen:
  "triple P m (\<lambda>_. R) E \<Longrightarrow> triple R k Q E \<Longrightarrow> triple P (andthen m k) Q E"
  unfolding andthen_def by (rule triple_bnd)

lemma triple_ret: "(\<And>s. P s \<Longrightarrow> Q x s) \<Longrightarrow> triple P (ret x) Q E"
  by (simp add: triple_def)

lemma triple_pre: "triple P m Q E \<Longrightarrow> (\<And>s. P' s \<Longrightarrow> P s) \<Longrightarrow> triple P' m Q E"
  by (simp add: triple_def)

lemma triple_post:
  "triple P m Q E \<Longrightarrow> (\<And>x s. Q x s \<Longrightarrow> Q' x s) \<Longrightarrow> (\<And>s. E s \<Longrightarrow> E' s) \<Longrightarrow> triple P m Q' E'"
  unfolding triple_def by (fastforce split: prod.splits result.splits)

lemma triple_lift: "(\<And>s. P s \<Longrightarrow> E s) \<Longrightarrow> (\<And>x s. P s \<Longrightarrow> r = Val x \<Longrightarrow> Q x s) \<Longrightarrow> triple P (lift r) Q E"
  by (cases r) (simp_all add: triple_def)

lemma triple_gets: "(\<And>s. P s \<Longrightarrow> Q (f s) s) \<Longrightarrow> triple P (gets f) Q E"
  by (simp add: triple_def)

lemma triple_keeps: "keeps I m \<Longrightarrow> (\<And>s. I s \<Longrightarrow> E s) \<Longrightarrow> triple I m (\<lambda>_. I) E"
  unfolding triple_def keeps_def by (fastforce split: prod.splits result.splits)

lemma keeps_triple: "triple I m (\<lambda>_. I) I \<Longrightarrow> keeps I m"
  unfolding triple_def keeps_def by (fastforce split: prod.splits result.splits)

lemma triple_if:
  "(b \<Longrightarrow> triple P m Q E) \<Longrightarrow> (\<not> b \<Longrightarrow> triple P k Q E) \<Longrightarrow> triple P (if b then m else k) Q E"
  by simp

lemma triple_run:
  assumes "triple P m Q E" and "P s" and "m s = (Val x, t)"
  shows "Q x t"
  using assms by (auto simp: triple_def split: prod.splits)

lemma list_cases3 [case_names Nil One More]:
  assumes "xs = [] \<Longrightarrow> P" and "\<And>x. xs = [x] \<Longrightarrow> P" and "\<And>x y zs. xs = x # y # zs \<Longrightarrow> P"
  shows P
  using assms by (cases xs; cases "tl xs") auto

section \<open>Dictionaries in insertion order\<close>

type_synonym ('k, 'v) dict = "('k \<times> 'v) list"

text \<open>
  \<open>d[k] = v\<close> replaces the value in place when the key exists and appends otherwise, as
  a Python dictionary does; this is the library's \<open>AList.update\<close>. \<open>d[k]\<close> raises
  KeyError for a missing key.
\<close>

abbreviation dset :: "'k \<Rightarrow> 'v \<Rightarrow> ('k, 'v) dict \<Rightarrow> ('k, 'v) dict" where
  "dset \<equiv> AList.update"

definition dhas :: "'k \<Rightarrow> ('k, 'v) dict \<Rightarrow> bool" where
  "dhas k d \<longleftrightarrow> k \<in> fst ` set d"

definition dget :: "'k \<Rightarrow> ('k, 'v) dict \<Rightarrow> 'v result" where
  "dget k d = (case map_of d k of None \<Rightarrow> Exn KeyError | Some v \<Rightarrow> Val v)"

lemma dhas_iff: "dhas k d \<longleftrightarrow> (\<exists>v. map_of d k = Some v)"
  by (metis dhas_def map_of_eq_None_iff not_None_eq)

lemma dhas_code [code]: "dhas k d = list_ex (\<lambda>p. fst p = k) d"
  by (auto simp: dhas_def list_ex_iff)

lemma dget_dset [simp]: "dget k' (dset k v d) = (if k' = k then Val v else dget k' d)"
  by (simp add: dget_def update_conv')

lemma dhas_dset [simp]: "dhas k' (dset k v d) \<longleftrightarrow> k' = k \<or> dhas k' d"
  by (auto simp: dhas_iff update_conv')

lemma dget_Val: "dget k d = Val v \<longleftrightarrow> map_of d k = Some v"
  by (simp add: dget_def split: option.split)

lemma dget_dhas: "dhas k d \<longleftrightarrow> (\<exists>v. dget k d = Val v)"
  by (simp add: dhas_iff dget_Val)

lemma distinct_dset [simp]:
  "distinct (map fst d) \<Longrightarrow> distinct (map fst (dset k v d))"
  by (rule distinct_update)

lemma keys_dset_present:
  "dhas k d \<Longrightarrow> map fst (dset k v d) = map fst d"
  by (induction d) (auto simp: dhas_def)

lemma keys_dset_absent:
  "\<not> dhas k d \<Longrightarrow> dset k v d = d @ [(k, v)]"
  by (induction d) (auto simp: dhas_def)

lemma dset_same: "map_of d k = Some v \<Longrightarrow> dset k v d = d"
  by (induction d) (auto split: if_splits)

text \<open>
  What every user of a dictionary relies on: a lookup after an insertion, and insertion
  order (an existing key keeps its place, a new key goes last).
\<close>

locale ordered_dict =
  fixes lookup :: "'k \<Rightarrow> 'd \<Rightarrow> 'v option"
    and insert_at :: "'k \<Rightarrow> 'v \<Rightarrow> 'd \<Rightarrow> 'd"
    and keys_of :: "'d \<Rightarrow> 'k list"
  assumes lookup_insert: "lookup k' (insert_at k v d) = (if k' = k then Some v else lookup k' d)"
    and keys_present: "lookup k d \<noteq> None \<Longrightarrow> keys_of (insert_at k v d) = keys_of d"
    and keys_absent: "lookup k d = None \<Longrightarrow> keys_of (insert_at k v d) = keys_of d @ [k]"
begin

lemma insert_overwrites: "lookup k (insert_at k v (insert_at k u d)) = Some v"
  by (simp add: lookup_insert)

lemma insert_keeps_order: "\<exists>ks. keys_of (insert_at k v d) = keys_of d @ ks"
  by (cases "lookup k d") (auto simp: keys_present keys_absent)

lemma insert_twice_keys: "keys_of (insert_at k v (insert_at k u d)) = keys_of (insert_at k u d)"
  by (simp add: keys_present lookup_insert)

end

interpretation pydict: ordered_dict "\<lambda>k d. map_of d k" AList.update "map fst"
proof unfold_locales
  show "map_of (AList.update k v d) k' = (if k' = k then Some v else map_of d k')"
    for k :: 'k and v :: 'v and d k'
    by (simp add: update_conv')
  show "map_of d k \<noteq> None \<Longrightarrow> map fst (AList.update k v d) = map fst d"
    for k :: 'k and v :: 'v and d
    by (rule keys_dset_present) (auto simp: dhas_iff)
  show "map_of d k = None \<Longrightarrow> map fst (AList.update k v d) = map fst d @ [k]"
    for k :: 'k and v :: 'v and d
    by (subst keys_dset_absent) (auto simp: dhas_iff)
qed

end
