(* ===== verification/Py_Struct.thy ===== *)
theory Py_Struct
  imports Py_Prelude "HOL-Library.Word"
begin

text \<open>
  Bytes and the part of Python's \<open>struct\<close> module the program uses: the native formats
  \<open>i\<close>, \<open>h\<close>, \<open>b\<close> and \<open>?\<close> on the little-endian, two's-complement machines the program
  runs on. A byte is an \<open>8 word\<close>. Packing an integer out of the format's range and
  unpacking a buffer of the wrong length raise \<open>struct.error\<close>.
\<close>

type_synonym byte = "8 word"

section \<open>Little-endian digits\<close>

primrec le_bytes :: "nat \<Rightarrow> int \<Rightarrow> byte list" where
  "le_bytes 0 v = []"
| "le_bytes (Suc n) v = word_of_int v # le_bytes n (v div 256)"

primrec le_uint :: "byte list \<Rightarrow> int" where
  "le_uint [] = 0"
| "le_uint (b # bs) = uint b + 256 * le_uint bs"

lemma length_le_bytes [simp]: "length (le_bytes n v) = n"
  by (induction n arbitrary: v) simp_all

lemma uint_byte_range: "0 \<le> uint (b :: byte)" "uint (b :: byte) < 256"
  using uint_range_size [of b] by (simp_all add: word_size)

lemma uint_word_of_int_byte: "uint (word_of_int k :: byte) = k mod 256"
  by (simp add: uint_word_of_int)

lemma le_uint_range: "0 \<le> le_uint bs" "le_uint bs < 256 ^ length bs"
proof -
  show "0 \<le> le_uint bs"
    by (induction bs) (simp_all add: uint_byte_range)
  show "le_uint bs < 256 ^ length bs"
  proof (induction bs)
    case Nil
    show ?case by simp
  next
    case (Cons b bs)
    have "uint b < 256" by (rule uint_byte_range)
    with Cons show ?case by simp
  qed
qed

lemma le_uint_le_bytes: "le_uint (le_bytes n v) = v mod 256 ^ n"
proof (induction n arbitrary: v)
  case 0
  show ?case by simp
next
  case (Suc n)
  have "v mod 256 + 256 * (v div 256 mod 256 ^ n) = v mod (256 * 256 ^ n)"
    using mod_mult2_eq' [of v 256 "256 ^ n"]
    by (metis add.commute mult.commute zmod_zmult2_eq zero_le_numeral zero_le_power)
  with Suc show ?case
    by (simp add: uint_word_of_int)
qed

lemma le_bytes_le_uint: "le_bytes (length bs) (le_uint bs) = bs"
proof (induction bs)
  case Nil
  show ?case by simp
next
  case (Cons b bs)
  have "(uint b + 256 * le_uint bs) div 256 = le_uint bs"
    using uint_byte_range [of b] by simp
  moreover have "word_of_int (uint b + 256 * le_uint bs) = b"
  proof (rule word_uint_eqI)
    show "uint (word_of_int (uint b + 256 * le_uint bs) :: byte) = uint b"
      using uint_byte_range [of b] by (simp only: uint_word_of_int_byte) simp
  qed
  ultimately show ?case using Cons by simp
qed

section \<open>Reading and overwriting part of a buffer\<close>

definition read_at :: "nat \<Rightarrow> nat \<Rightarrow> 'a list \<Rightarrow> 'a list" where
  "read_at p n data = take n (drop p data)"

definition write_at :: "nat \<Rightarrow> 'a list \<Rightarrow> 'a list \<Rightarrow> 'a list" where
  "write_at p bs data = take p data @ bs @ drop (p + length bs) data"

lemma length_read_at [simp]: "p + n \<le> length data \<Longrightarrow> length (read_at p n data) = n"
  by (simp add: read_at_def)

lemma length_write_at [simp]:
  "p + length bs \<le> length data \<Longrightarrow> length (write_at p bs data) = length data"
  by (simp add: write_at_def)

lemma nth_write_at:
  "p + length bs \<le> length data \<Longrightarrow>
   write_at p bs data ! i = (if p \<le> i \<and> i < p + length bs then bs ! (i - p) else data ! i)"
  by (auto simp: write_at_def nth_append)

lemma read_write_at:
  "p + length bs \<le> length data \<Longrightarrow> read_at p (length bs) (write_at p bs data) = bs"
  by (simp add: read_at_def write_at_def)

lemma read_at_other:
  assumes fits: "p + length bs \<le> length data"
    and apart: "q + n \<le> p \<or> p + length bs \<le> q"
  shows "read_at q n (write_at p bs data) = read_at q n data"
proof (rule nth_equalityI)
  show len: "length (read_at q n (write_at p bs data)) = length (read_at q n data)"
    by (simp only: read_at_def length_take length_drop length_write_at [OF fits])
  fix i assume "i < length (read_at q n (write_at p bs data))"
  with len have "i < n" "q + i < length data"
    by (simp_all only: read_at_def length_take length_drop)
  with apart show "read_at q n (write_at p bs data) ! i = read_at q n data ! i"
    using length_write_at [OF fits] by (auto simp: read_at_def nth_write_at [OF fits])
qed

lemma list_update_write_at: "i < length data \<Longrightarrow> data[i := b] = write_at i [b] data"
  by (simp add: write_at_def upd_conv_take_nth_drop)

section \<open>Signed fixed-width integers\<close>

definition to_signed :: "nat \<Rightarrow> int \<Rightarrow> int" where
  "to_signed n u = (if u < 2 ^ (8 * n - 1) then u else u - 2 ^ (8 * n))"

definition in_signed_range :: "nat \<Rightarrow> int \<Rightarrow> bool" where
  "in_signed_range n v \<longleftrightarrow> - (2 ^ (8 * n - 1)) \<le> v \<and> v < 2 ^ (8 * n - 1)"

definition pack_signed :: "nat \<Rightarrow> int \<Rightarrow> byte list result" where
  "pack_signed n v = (if in_signed_range n v then Val (le_bytes n v) else Exn StructError)"

definition unpack_signed :: "nat \<Rightarrow> byte list \<Rightarrow> int result" where
  "unpack_signed n bs =
     (if length bs = n then Val (to_signed n (le_uint bs)) else Exn StructError)"

definition pack_i :: "int \<Rightarrow> byte list result" where "pack_i = pack_signed 4"
definition pack_h :: "int \<Rightarrow> byte list result" where "pack_h = pack_signed 2"
definition pack_b :: "int \<Rightarrow> byte list result" where "pack_b = pack_signed 1"
definition unpack_i :: "byte list \<Rightarrow> int result" where "unpack_i = unpack_signed 4"
definition unpack_h :: "byte list \<Rightarrow> int result" where "unpack_h = unpack_signed 2"
definition unpack_b :: "byte list \<Rightarrow> int result" where "unpack_b = unpack_signed 1"

definition pack_bool :: "bool \<Rightarrow> byte list result" where
  "pack_bool b = Val [if b then 1 else 0]"

definition unpack_bool :: "byte list \<Rightarrow> bool result" where
  "unpack_bool bs = (case bs of [b] \<Rightarrow> Val (b \<noteq> 0) | _ \<Rightarrow> Exn StructError)"

lemma two_power_8n: "0 < n \<Longrightarrow> (2::int) ^ (8 * n) = 2 * 2 ^ (8 * n - 1)"
  by (metis Suc_diff_1 mult_pos_pos power_Suc zero_less_numeral)

lemma power_256: "(256::int) ^ n = 2 ^ (8 * n)"
  by (simp add: power_mult)

lemma to_signed_mod:
  assumes "0 < n" and "in_signed_range n v"
  shows "to_signed n (v mod 256 ^ n) = v"
proof (cases "0 \<le> v")
  case True
  with assms have "v mod 2 ^ (8 * n) = v"
    by (intro mod_pos_pos_trivial) (auto simp: in_signed_range_def two_power_8n)
  with assms show ?thesis
    by (simp add: to_signed_def power_256 in_signed_range_def)
next
  case False
  let ?h = "(2::int) ^ (8 * n - 1)"
  from assms have lo: "- ?h \<le> v" by (simp add: in_signed_range_def)
  have "v mod (2 * ?h) = (v + 2 * ?h) mod (2 * ?h)" by simp
  also have "\<dots> = v + 2 * ?h"
    using False lo by (intro mod_pos_pos_trivial) simp_all
  finally show ?thesis
    using lo assms by (simp add: to_signed_def power_256 two_power_8n)
qed

lemma to_signed_range:
  assumes "0 < n" and "0 \<le> u" and "u < 256 ^ n"
  shows "in_signed_range n (to_signed n u)"
  using assms by (auto simp: in_signed_range_def to_signed_def power_256 two_power_8n)

lemma unpack_pack_signed:
  "0 < n \<Longrightarrow> pack_signed n v = Val bs \<Longrightarrow> unpack_signed n bs = Val v"
  by (auto simp: pack_signed_def unpack_signed_def le_uint_le_bytes to_signed_mod split: if_splits)

lemma pack_unpack_signed:
  assumes "0 < n" and "unpack_signed n bs = Val v"
  shows "pack_signed n v = Val bs"
proof -
  from assms have len: "length bs = n" and v: "v = to_signed n (le_uint bs)"
    by (auto simp: unpack_signed_def split: if_splits)
  have rng: "0 \<le> le_uint bs" "le_uint bs < 256 ^ n"
    using le_uint_range [of bs] len by simp_all
  then have "in_signed_range n v"
    using assms(1) v by (simp add: to_signed_range)
  moreover have "le_bytes n v = bs"
  proof -
    have "le_bytes n (u mod 256 ^ n) = le_bytes n u" for u
      using le_bytes_le_uint [of "le_bytes n u"] by (simp add: le_uint_le_bytes)
    moreover have "v mod 256 ^ n = le_uint bs"
      using rng v by (auto simp: to_signed_def power_256 mod_pos_pos_trivial)
    ultimately show ?thesis
      using le_bytes_le_uint [of bs] len by metis
  qed
  ultimately show ?thesis by (simp add: pack_signed_def)
qed

lemma unpack_signed_total: "length bs = n \<Longrightarrow> \<exists>v. unpack_signed n bs = Val v"
  by (simp add: unpack_signed_def)

section \<open>The interface the users of a format rely on\<close>

text \<open>
  A fixed-width format: encoding gives exactly \<open>width\<close> bytes, decoding inverts it, and
  every run of \<open>width\<close> bytes decodes.
\<close>

locale codec =
  fixes enc :: "'v \<Rightarrow> byte list result"
    and dec :: "byte list \<Rightarrow> 'v result"
    and width :: nat
  assumes dec_enc: "enc v = Val bs \<Longrightarrow> dec bs = Val v"
    and enc_width: "enc v = Val bs \<Longrightarrow> length bs = width"
    and dec_total: "length bs = width \<Longrightarrow> \<exists>v. dec bs = Val v"
begin

text \<open>Writing an encoded value over part of a buffer and decoding that part gives it back.\<close>

lemma field_roundtrip:
  assumes "enc v = Val bs" and "p + width \<le> length data"
  shows "dec (read_at p width (write_at p bs data)) = Val v"
  using assms(2) dec_enc [OF assms(1)] enc_width [OF assms(1), symmetric]
  by (simp add: read_write_at)

text \<open>A field that lies before or after the written part decodes as before.\<close>

lemma field_frame:
  assumes "enc v = Val bs" and "p + width \<le> length data"
    and "q + n \<le> p \<or> p + width \<le> q"
  shows "read_at q n (write_at p bs data) = read_at q n data"
  using assms enc_width [OF assms(1)] by (intro read_at_other) auto

end

interpretation fmt_i: codec pack_i unpack_i 4
  by unfold_locales
    (auto simp: pack_i_def unpack_i_def unpack_pack_signed unpack_signed_total
      pack_signed_def split: if_splits)

interpretation fmt_h: codec pack_h unpack_h 2
  by unfold_locales
    (auto simp: pack_h_def unpack_h_def unpack_pack_signed unpack_signed_total
      pack_signed_def split: if_splits)

interpretation fmt_b: codec pack_b unpack_b 1
  by unfold_locales
    (auto simp: pack_b_def unpack_b_def unpack_pack_signed unpack_signed_total
      pack_signed_def split: if_splits)

interpretation fmt_bool: codec pack_bool unpack_bool 1
  by unfold_locales
    (auto simp: pack_bool_def unpack_bool_def length_Suc_conv split: list.splits)

end
