(* ===== verification/Py_IO.thy ===== *)
theory Py_IO
  imports Py_Struct
begin

text \<open>
  The two kinds of object the shared-memory module is handed: a memory map
  (\<open>mmap.mmap\<close>) and a binary file opened \<open>r+b\<close>. Both have a position and are seeked,
  read and written; only the map can be indexed and sliced, and only the file grows. The
  bytes behind a map are shared with other processes: \<open>io_sched\<close> lists what those write
  while this process sleeps in a busy-wait loop, one entry for each time round the loop.
\<close>

datatype io_kind = MmapObj | FileObj

record io =
  io_kind :: io_kind
  io_data :: "byte list"
  io_pos :: nat
  io_sched :: "(nat \<times> byte) list list"

section \<open>File operations\<close>

definition py_seek :: "int \<Rightarrow> (io, unit) prog" where
  "py_seek p s =
     (if io_kind s = FileObj then
        (if p < 0 then (Exn OSError, s) else (Val (), s\<lparr>io_pos := nat p\<rparr>))
      else if p < 0 \<or> int (length (io_data s)) < p then (Exn ValueError, s)
      else (Val (), s\<lparr>io_pos := nat p\<rparr>))"

definition py_tell :: "(io, int) prog" where
  "py_tell s = (Val (int (io_pos s)), s)"

definition py_read :: "nat \<Rightarrow> (io, byte list) prog" where
  "py_read n s =
     (let bs = read_at (io_pos s) n (io_data s)
      in (Val bs, s\<lparr>io_pos := io_pos s + length bs\<rparr>))"

text \<open>
  A write through the map must fit into it. A file is padded with zero bytes up to the
  position and grows as needed; writing no bytes changes nothing.
\<close>

definition py_write :: "byte list \<Rightarrow> (io, unit) prog" where
  "py_write bs s =
     (if io_kind s = MmapObj then
        (if length (io_data s) < io_pos s + length bs then (Exn ValueError, s)
         else (Val (), s\<lparr>io_data := write_at (io_pos s) bs (io_data s),
                         io_pos := io_pos s + length bs\<rparr>))
      else if bs = [] then (Val (), s)
      else (Val (), s\<lparr>io_data := write_at (io_pos s) bs
                        (io_data s @ replicate (io_pos s - length (io_data s)) 0),
                      io_pos := io_pos s + length bs\<rparr>))"

section \<open>Indexing and slicing\<close>

definition py_index :: "nat \<Rightarrow> int \<Rightarrow> nat result" where
  "py_index n i =
     (let j = (if i < 0 then i + int n else i)
      in if 0 \<le> j \<and> j < int n then Val (nat j) else Exn IndexError)"

definition py_getitem :: "int \<Rightarrow> (io, int) prog" where
  "py_getitem i s =
     (if io_kind s = FileObj then (Exn TypeError, s)
      else (rbind (py_index (length (io_data s)) i) (\<lambda>j. Val (uint (io_data s ! j))), s))"

definition py_setitem :: "int \<Rightarrow> byte \<Rightarrow> (io, unit) prog" where
  "py_setitem i b s =
     (if io_kind s = FileObj then (Exn TypeError, s)
      else (case py_index (length (io_data s)) i of
              Val j \<Rightarrow> (Val (), s\<lparr>io_data := (io_data s)[j := b]\<rparr>)
            | Exn e \<Rightarrow> (Exn e, s)
            | NoReturn \<Rightarrow> (NoReturn, s)))"

definition py_getslice :: "nat \<Rightarrow> nat \<Rightarrow> (io, byte list) prog" where
  "py_getslice a b s =
     (if io_kind s = FileObj then (Exn TypeError, s)
      else (Val (read_at a (b - a) (io_data s)), s))"

section \<open>Busy waiting\<close>

definition apply_env :: "(nat \<times> byte) list \<Rightarrow> byte list \<Rightarrow> byte list" where
  "apply_env ws d = foldl (\<lambda>d (i, b). d[i := b]) d ws"

definition env_step :: "(io, unit) prog" where
  "env_step s =
     (case io_sched s of
        [] \<Rightarrow> (NoReturn, s)
      | ws # rest \<Rightarrow> (Val (), s\<lparr>io_data := apply_env ws (io_data s), io_sched := rest\<rparr>))"

text \<open>
  \<open>while cond: body\<close> where each round lets the other processes run once; when they have
  nothing left to do and the condition still holds, the loop has not returned.
\<close>

primrec spin_rounds :: "nat \<Rightarrow> (io, bool) prog \<Rightarrow> (io, unit) prog \<Rightarrow> (io, unit) prog" where
  "spin_rounds 0 cond body =
     bnd cond (\<lambda>b. if b then andthen body env_step else ret ())"
| "spin_rounds (Suc n) cond body =
     bnd cond (\<lambda>b. if b then andthen body (andthen env_step (spin_rounds n cond body)) else ret ())"

definition spin_while :: "(io, bool) prog \<Rightarrow> (io, unit) prog \<Rightarrow> (io, unit) prog" where
  "spin_while cond body s = spin_rounds (length (io_sched s)) cond body s"

lemma length_apply_env [simp]: "length (apply_env ws d) = length d"
  by (induction ws arbitrary: d rule: rev_induct) (auto simp: apply_env_def split: prod.split)

section \<open>Runs on a map\<close>

text \<open>The objects the module is written for: a map of at least the header's length.\<close>

definition mapped :: "io \<Rightarrow> bool" where
  "mapped s \<longleftrightarrow> io_kind s = MmapObj \<and> 16 \<le> length (io_data s)"

lemma mapped_data [simp]:
  "mapped (s\<lparr>io_data := d\<rparr>) \<longleftrightarrow> io_kind s = MmapObj \<and> 16 \<le> length d"
  "mapped (s\<lparr>io_pos := p\<rparr>) \<longleftrightarrow> mapped s"
  "mapped (s\<lparr>io_sched := es\<rparr>) \<longleftrightarrow> mapped s"
  by (simp_all add: mapped_def)

lemma mappedD: "mapped s \<Longrightarrow> io_kind s = MmapObj" "mapped s \<Longrightarrow> 16 \<le> length (io_data s)"
  by (simp_all add: mapped_def)

lemma py_seek_map [prog_simps]:
  "io_kind s = MmapObj \<Longrightarrow> 0 \<le> p \<Longrightarrow> p \<le> int (length (io_data s)) \<Longrightarrow>
   py_seek p s = (Val (), s\<lparr>io_pos := nat p\<rparr>)"
  by (simp add: py_seek_def)

lemma py_read_run [prog_simps]:
  "io_pos s + n \<le> length (io_data s) \<Longrightarrow>
   py_read n s = (Val (read_at (io_pos s) n (io_data s)), s\<lparr>io_pos := io_pos s + n\<rparr>)"
  by (simp add: py_read_def)

lemma py_write_map [prog_simps]:
  "io_kind s = MmapObj \<Longrightarrow> io_pos s + length bs \<le> length (io_data s) \<Longrightarrow>
   py_write bs s = (Val (), s\<lparr>io_data := write_at (io_pos s) bs (io_data s),
                              io_pos := io_pos s + length bs\<rparr>)"
  by (simp add: py_write_def)

lemma py_index_in [simp]: "0 \<le> i \<Longrightarrow> i < int n \<Longrightarrow> py_index n i = Val (nat i)"
  by (simp add: py_index_def)

lemma py_getitem_map [prog_simps]:
  "io_kind s = MmapObj \<Longrightarrow> 0 \<le> i \<Longrightarrow> i < int (length (io_data s)) \<Longrightarrow>
   py_getitem i s = (Val (uint (io_data s ! nat i)), s)"
  by (simp add: py_getitem_def)

lemma py_setitem_map [prog_simps]:
  "io_kind s = MmapObj \<Longrightarrow> 0 \<le> i \<Longrightarrow> i < int (length (io_data s)) \<Longrightarrow>
   py_setitem i b s = (Val (), s\<lparr>io_data := (io_data s)[nat i := b]\<rparr>)"
  by (simp add: py_setitem_def)

lemma py_getslice_map [prog_simps]:
  "io_kind s = MmapObj \<Longrightarrow> py_getslice a b s = (Val (read_at a (b - a) (io_data s)), s)"
  by (simp add: py_getslice_def)

lemma py_getitem_file [prog_simps]: "io_kind s = FileObj \<Longrightarrow> py_getitem i s = (Exn TypeError, s)"
  by (simp add: py_getitem_def)

lemma py_getslice_file [prog_simps]:
  "io_kind s = FileObj \<Longrightarrow> py_getslice a b s = (Exn TypeError, s)"
  by (simp add: py_getslice_def)

text \<open>No operation changes the length of a map: only a file grows.\<close>

definition map_of_length :: "nat \<Rightarrow> io \<Rightarrow> bool" where
  "map_of_length n s \<longleftrightarrow> io_kind s = MmapObj \<and> length (io_data s) = n"

lemma keeps_map_length [keeps_intros]:
  "keeps (map_of_length n) (py_seek p)"
  "keeps (map_of_length n) py_tell"
  "keeps (map_of_length n) (py_read k)"
  "keeps (map_of_length n) (py_write bs)"
  "keeps (map_of_length n) (py_getitem i)"
  "keeps (map_of_length n) (py_setitem i b)"
  "keeps (map_of_length n) (py_getslice a c)"
  "keeps (map_of_length n) env_step"
  by (auto simp: keeps_def map_of_length_def py_seek_def py_tell_def py_read_def py_write_def
      py_getitem_def py_setitem_def py_getslice_def env_step_def Let_def
      split: result.split list.split)

lemma keeps_spin [keeps_intros]:
  assumes "keeps I cond" and "keeps I body" and "keeps I env_step"
  shows "keeps I (spin_while cond body)"
proof -
  have "keeps I (spin_rounds n cond body)" for n
    by (induction n) (auto intro!: keeps_intros assms)
  then show ?thesis by (simp add: keeps_def spin_while_def)
qed

lemma spin_exit: "cond s = (Val False, s') \<Longrightarrow> spin_while cond body s = (Val (), s')"
  by (cases "length (io_sched s)") (simp_all add: spin_while_def bnd_def)

lemma spin_stuck:
  "cond s = (Val True, s) \<Longrightarrow> body s = (Val (), s) \<Longrightarrow> io_sched s = [] \<Longrightarrow>
   spin_while cond body s = (NoReturn, s)"
  by (simp add: spin_while_def env_step_def)

lemma spin_round:
  "cond s = (Val True, s) \<Longrightarrow> body s = (Val (), s) \<Longrightarrow> io_sched s = ws # es \<Longrightarrow>
   spin_while cond body s =
   spin_while cond body (s\<lparr>io_data := apply_env ws (io_data s), io_sched := es\<rparr>)"
  by (simp add: spin_while_def env_step_def)

end
