(* ===== verification/Py_Str.thy ===== *)
theory Py_Str
  imports Py_Prelude "HOL-Library.Char_ord"
begin

text \<open>
  The string operations of Python that the program uses, on HOL's \<open>string\<close>. A Python
  \<open>str\<close> is represented by its UTF-8 encoding, so that \<open>bytes.decode("utf-8")\<close> is a
  validity check; splitting, concatenation and comparison agree on the two
  representations, slicing does where the characters cut off are ASCII, as they are in
  object references.
\<close>

section \<open>Splitting and joining\<close>

fun split_on :: "char \<Rightarrow> string \<Rightarrow> string list" where
  "split_on c [] = [[]]"
| "split_on c (x # xs) =
     (if x = c then [] # split_on c xs
      else (case split_on c xs of [] \<Rightarrow> [[x]] | p # ps \<Rightarrow> (x # p) # ps))"

fun join_with :: "string \<Rightarrow> string list \<Rightarrow> string" where
  "join_with sep [] = []"
| "join_with sep [s] = s"
| "join_with sep (s # t # ss) = s @ sep @ join_with sep (t # ss)"

text \<open>\<open>s.partition(c)\<close>: before, whether \<open>c\<close> occurs, after; \<open>rpartition\<close> from the right.\<close>

fun partition_at :: "char \<Rightarrow> string \<Rightarrow> string \<times> bool \<times> string" where
  "partition_at c [] = ([], False, [])"
| "partition_at c (x # xs) =
     (if x = c then ([], True, xs)
      else (case partition_at c xs of (a, f, b) \<Rightarrow> (x # a, f, b)))"

definition rpartition_at :: "char \<Rightarrow> string \<Rightarrow> string \<times> bool \<times> string" where
  "rpartition_at c s =
     (case partition_at c (rev s) of
        (a, True, b) \<Rightarrow> (rev b, True, rev a)
      | (a, False, _) \<Rightarrow> ([], False, s))"

fun starts_with :: "string \<Rightarrow> string \<Rightarrow> bool" where
  "starts_with s [] = True"
| "starts_with [] (p # ps) = False"
| "starts_with (x # xs) (p # ps) = (x = p \<and> starts_with xs ps)"

text \<open>\<open>sub in s\<close> for strings.\<close>

fun has_substring :: "string \<Rightarrow> string \<Rightarrow> bool" where
  "has_substring [] sub = (sub = [])"
| "has_substring (x # xs) sub = (starts_with (x # xs) sub \<or> has_substring xs sub)"

lemma split_on_nonempty [simp]: "split_on c s \<noteq> []"
  by (cases s) (auto split: list.split)

lemma split_on_none: "c \<notin> set s \<Longrightarrow> split_on c s = [s]"
  by (induction s) auto

lemma split_on_app: "c \<notin> set a \<Longrightarrow> split_on c (a @ c # b) = a # split_on c b"
  by (induction a) auto

lemma split_on_pieces: "p \<in> set (split_on c s) \<Longrightarrow> c \<notin> set p"
  by (induction s arbitrary: p) (auto split: list.splits if_splits)

lemma join_split [simp]: "join_with [c] (split_on c s) = s"
proof (induction s)
  case Nil
  show ?case by simp
next
  case (Cons x xs)
  obtain p ps where "split_on c xs = p # ps"
    by (cases "split_on c xs") auto
  with Cons show ?case by (cases ps) auto
qed

lemma split_join:
  "ss \<noteq> [] \<Longrightarrow> \<forall>s \<in> set ss. c \<notin> set s \<Longrightarrow> split_on c (join_with [c] ss) = ss"
proof (induction "[c]" ss rule: join_with.induct)
  case (3 s t ss)
  then show ?case by (simp add: split_on_app)
qed (auto simp: split_on_none)

lemma partition_at_none: "c \<notin> set s \<Longrightarrow> partition_at c s = (s, False, [])"
  by (induction s) auto

lemma partition_at_app: "c \<notin> set a \<Longrightarrow> partition_at c (a @ c # b) = (a, True, b)"
  by (induction a) auto

lemma rpartition_at_app: "c \<notin> set b \<Longrightarrow> rpartition_at c (a @ c # b) = (a, True, b)"
  using partition_at_app [of c "rev b" "rev a"] by (simp add: rpartition_at_def)

lemma rpartition_at_none: "c \<notin> set s \<Longrightarrow> rpartition_at c s = ([], False, s)"
  by (simp add: rpartition_at_def partition_at_none)

lemma starts_with_iff: "starts_with s p \<longleftrightarrow> (\<exists>r. s = p @ r)"
  by (induction s p rule: starts_with.induct) auto

lemma has_substring_iff: "has_substring s sub \<longleftrightarrow> (\<exists>a b. s = a @ sub @ b)"
proof (induction s)
  case Nil
  show ?case by auto
next
  case (Cons x xs)
  have "(\<exists>a b. x # xs = a @ sub @ b) \<longleftrightarrow>
      (\<exists>b. x # xs = sub @ b) \<or> (\<exists>a b. xs = a @ sub @ b)"
    by (metis append_Cons append_self_conv2 list.inject neq_Nil_conv)
  with Cons show ?case by (simp add: starts_with_iff)
qed

section \<open>Decimal numbers\<close>

definition digit_char :: "nat \<Rightarrow> char" where
  "digit_char d = char_of (48 + d)"

definition is_digit :: "char \<Rightarrow> bool" where
  "is_digit c \<longleftrightarrow> 48 \<le> (of_char c :: nat) \<and> (of_char c :: nat) \<le> 57"

definition digit_val :: "char \<Rightarrow> nat" where
  "digit_val c = of_char c - 48"

fun nat_str :: "nat \<Rightarrow> string" where
  "nat_str n = (if n < 10 then [digit_char n] else nat_str (n div 10) @ [digit_char (n mod 10)])"

declare nat_str.simps [simp del]

definition str_nat :: "string \<Rightarrow> nat" where
  "str_nat s = foldl (\<lambda>a c. 10 * a + digit_val c) 0 s"

definition int_str :: "int \<Rightarrow> string" where
  "int_str i = (if i < 0 then CHR ''-'' # nat_str (nat (- i)) else nat_str (nat i))"

lemma of_char_digit: "d < 10 \<Longrightarrow> (of_char (digit_char d) :: nat) = 48 + d"
  by (simp add: digit_char_def)

lemma digit_val_char [simp]: "d < 10 \<Longrightarrow> digit_val (digit_char d) = d"
  by (simp add: digit_val_def of_char_digit)

lemma is_digit_char [simp]: "d < 10 \<Longrightarrow> is_digit (digit_char d)"
  by (simp add: is_digit_def of_char_digit)

lemma digit_char_lits [simp]:
    "digit_char 0 = CHR ''0''"
    "digit_char 1 = CHR ''1''"
    "digit_char 2 = CHR ''2''"
    "digit_char 3 = CHR ''3''"
    "digit_char 4 = CHR ''4''"
    "digit_char 5 = CHR ''5''"
    "digit_char 6 = CHR ''6''"
    "digit_char 7 = CHR ''7''"
    "digit_char 8 = CHR ''8''"
    "digit_char 9 = CHR ''9''" "digit_char (Suc 0) = CHR ''1''"
  by (simp_all add: digit_char_def char_of_def bit_iff_odd)

lemma nat_str_digits: "\<forall>c \<in> set (nat_str n). is_digit c"
proof (induction n rule: nat_str.induct)
  case (1 n)
  then show ?case by (subst nat_str.simps) auto
qed

lemma nat_str_nonempty [simp]: "nat_str n \<noteq> []"
  by (subst nat_str.simps) simp

lemma str_nat_snoc: "str_nat (s @ [c]) = 10 * str_nat s + digit_val c"
  by (simp add: str_nat_def)

lemma str_nat_nat_str [simp]: "str_nat (nat_str n) = n"
proof (induction n rule: nat_str.induct)
  case (1 n)
  show ?case
  proof (cases "n < 10")
    case True
    then show ?thesis by (simp add: nat_str.simps [of n] str_nat_def)
  next
    case False
    with "1.IH" show ?thesis by (simp add: nat_str.simps [of n] str_nat_snoc)
  qed
qed

lemma nat_str_inject [simp]: "nat_str m = nat_str n \<longleftrightarrow> m = n"
  by (metis str_nat_nat_str)

lemma digit_not_in_nat_str: "\<not> is_digit c \<Longrightarrow> c \<notin> set (nat_str n)"
  using nat_str_digits [of n] by blast

lemma minus_not_digit: "\<not> is_digit (CHR ''-'')"
  by (simp add: is_digit_def)

lemma int_str_inject [simp]: "int_str i = int_str j \<longleftrightarrow> i = j"
proof
  assume eq: "int_str i = int_str j"
  have minus: "CHR ''-'' # s \<noteq> nat_str n" for s n
    using digit_not_in_nat_str [OF minus_not_digit, of n] by (metis list.set_intros(1))
  show "i = j"
    using eq minus minus [symmetric]
    by (auto simp: int_str_def split: if_splits)
qed simp

lemma int_str_no_char: "\<not> is_digit c \<Longrightarrow> c \<noteq> CHR ''-'' \<Longrightarrow> c \<notin> set (int_str i)"
  by (simp add: int_str_def digit_not_in_nat_str)

text \<open>
  \<open>int(s)\<close>: surrounding white space, an optional sign, decimal digits with single
  underscores between them.
\<close>

definition is_space :: "char \<Rightarrow> bool" where
  "is_space c \<longleftrightarrow> (let n = (of_char c :: nat) in (9 \<le> n \<and> n \<le> 13) \<or> (28 \<le> n \<and> n \<le> 32))"

definition strip_space :: "string \<Rightarrow> string" where
  "strip_space s = rev (dropWhile is_space (rev (dropWhile is_space s)))"

fun digits_value :: "nat \<Rightarrow> string \<Rightarrow> nat option" where
  "digits_value a [] = Some a"
| "digits_value a (c # cs) =
     (if is_digit c then digits_value (10 * a + digit_val c) cs
      else if c = CHR ''_'' then
        (case cs of d # ds \<Rightarrow> if is_digit d then digits_value a cs else None | [] \<Rightarrow> None)
      else None)"

definition parse_digits :: "string \<Rightarrow> int result" where
  "parse_digits s =
     (case s of
        [] \<Rightarrow> Exn ValueError
      | c # cs \<Rightarrow>
          if is_digit c then
            (case digits_value 0 s of None \<Rightarrow> Exn ValueError | Some n \<Rightarrow> Val (int n))
          else Exn ValueError)"

definition py_int_of_str :: "string \<Rightarrow> int result" where
  "py_int_of_str s =
     (case strip_space s of
        [] \<Rightarrow> Exn ValueError
      | c # cs \<Rightarrow>
          if c = CHR ''-'' then rbind (parse_digits cs) (\<lambda>n. Val (- n))
          else if c = CHR ''+'' then parse_digits cs
          else parse_digits (c # cs))"

lemma digits_value_digits:
  "\<forall>c \<in> set s. is_digit c \<Longrightarrow> digits_value a s = Some (foldl (\<lambda>a c. 10 * a + digit_val c) a s)"
  by (induction s arbitrary: a) auto

lemma parse_digits_nat_str: "parse_digits (nat_str n) = Val (int n)"
proof -
  have "\<exists>c cs. nat_str n = c # cs" by (cases "nat_str n") auto
  then show ?thesis
    using nat_str_digits [of n] digits_value_digits [of "nat_str n" 0] str_nat_nat_str [of n]
    by (auto simp: parse_digits_def str_nat_def)
qed

lemma digit_not_space: "is_digit c \<Longrightarrow> \<not> is_space c"
  by (auto simp: is_digit_def is_space_def Let_def)

lemma strip_space_id: "\<forall>c \<in> set s. \<not> is_space c \<Longrightarrow> strip_space s = s"
proof -
  assume *: "\<forall>c \<in> set s. \<not> is_space c"
  then have a: "dropWhile is_space s = s" by (cases s) simp_all
  from * have "\<forall>c \<in> set (rev s). \<not> is_space c" by simp
  then have b: "dropWhile is_space (rev s) = rev s" by (cases "rev s") simp_all
  show ?thesis by (simp add: strip_space_def a b)
qed

lemma int_of_int_str: "py_int_of_str (int_str i) = Val i"
proof -
  have "\<not> is_space CHR ''-''" by (simp add: is_space_def)
  moreover have "\<forall>c \<in> set (nat_str n). \<not> is_space c" for n
    using nat_str_digits [of n] digit_not_space by blast
  ultimately have "\<forall>c \<in> set (int_str i). \<not> is_space c"
    by (simp add: int_str_def)
  then have strip: "strip_space (int_str i) = int_str i" by (rule strip_space_id)
  show ?thesis
  proof (cases "i < 0")
    case True
    then show ?thesis
      using strip by (simp add: py_int_of_str_def int_str_def parse_digits_nat_str)
  next
    case False
    obtain c cs where s: "nat_str (nat i) = c # cs" by (cases "nat_str (nat i)") auto
    then have "is_digit c" using nat_str_digits [of "nat i"] by simp
    then have "c \<noteq> CHR ''-''" "c \<noteq> CHR ''+''" by (auto simp: is_digit_def)
    with False strip s show ?thesis
      using parse_digits_nat_str [of "nat i"] by (simp add: py_int_of_str_def int_str_def)
  qed
qed

section \<open>Other conversions\<close>

definition is_upper :: "char \<Rightarrow> bool" where
  "is_upper c \<longleftrightarrow> 65 \<le> (of_char c :: nat) \<and> (of_char c :: nat) \<le> 90"

definition is_lower :: "char \<Rightarrow> bool" where
  "is_lower c \<longleftrightarrow> 97 \<le> (of_char c :: nat) \<and> (of_char c :: nat) \<le> 122"

definition is_alpha :: "char \<Rightarrow> bool" where
  "is_alpha c \<longleftrightarrow> is_upper c \<or> is_lower c"

definition lower_char :: "char \<Rightarrow> char" where
  "lower_char c = (if is_upper c then char_of ((of_char c :: nat) + 32) else c)"

definition str_lower :: "string \<Rightarrow> string" where
  "str_lower s = map lower_char s"

definition hex_digit :: "nat \<Rightarrow> char" where
  "hex_digit d = (if d < 10 then digit_char d else char_of (87 + d))"

definition hex2 :: "nat \<Rightarrow> string" where
  "hex2 n = [hex_digit (n div 16 mod 16), hex_digit (n mod 16)]"

text \<open>\<open>s[:-n]\<close> and \<open>s[-m:-n]\<close>, with Python's clipping at the ends.\<close>

definition drop_last :: "nat \<Rightarrow> 'a list \<Rightarrow> 'a list" where
  "drop_last n s = take (length s - n) s"

definition slice_neg :: "nat \<Rightarrow> nat \<Rightarrow> 'a list \<Rightarrow> 'a list" where
  "slice_neg m n s = drop (length s - m) (take (length s - n) s)"

text \<open>Well-formed UTF-8, over-long forms and surrogates excluded.\<close>

definition cont :: "nat \<Rightarrow> bool" where
  "cont b \<longleftrightarrow> 128 \<le> b \<and> b \<le> 191"

fun utf8_valid :: "nat list \<Rightarrow> bool" where
  "utf8_valid [] = True"
| "utf8_valid (a # bs) =
     (if a < 128 then utf8_valid bs
      else case bs of
        [] \<Rightarrow> False
      | b # cs \<Rightarrow>
          if 194 \<le> a \<and> a \<le> 223 then cont b \<and> utf8_valid cs
          else (case cs of
            [] \<Rightarrow> False
          | c # ds \<Rightarrow>
              if 224 \<le> a \<and> a \<le> 239 then
                cont b \<and> cont c \<and> (a = 224 \<longrightarrow> 160 \<le> b) \<and> (a = 237 \<longrightarrow> b \<le> 159) \<and> utf8_valid ds
              else (case ds of
                [] \<Rightarrow> False
              | d # es \<Rightarrow>
                  240 \<le> a \<and> a \<le> 244 \<and> cont b \<and> cont c \<and> cont d \<and>
                  (a = 240 \<longrightarrow> 144 \<le> b) \<and> (a = 244 \<longrightarrow> b \<le> 143) \<and> utf8_valid es)))"

definition decode_utf8 :: "string \<Rightarrow> string result" where
  "decode_utf8 s = (if utf8_valid (map of_char s) then Val s else Exn UnicodeDecodeError)"

lemma utf8_ascii: "\<forall>b \<in> set bs. b < 128 \<Longrightarrow> utf8_valid bs"
  by (induction bs) auto

lemma decode_ascii: "\<forall>c \<in> set s. (of_char c :: nat) < 128 \<Longrightarrow> decode_utf8 s = Val s"
  by (simp add: decode_utf8_def utf8_ascii)

text \<open>
  Slices of a string count characters, not bytes: a character is a leading byte with the
  continuation bytes after it.
\<close>

fun add_char :: "char \<Rightarrow> string list \<Rightarrow> string list" where
  "add_char c [] = [[c]]"
| "add_char c ([] # cs) = [c] # cs"
| "add_char c ((d # ds) # cs) =
     (if cont (of_char d) then (c # d # ds) # cs else [c] # (d # ds) # cs)"

definition utf8_chars :: "string \<Rightarrow> string list" where
  "utf8_chars s = foldr add_char s []"

definition str_drop_last :: "nat \<Rightarrow> string \<Rightarrow> string" where
  "str_drop_last n s = concat (drop_last n (utf8_chars s))"

definition str_slice_neg :: "nat \<Rightarrow> nat \<Rightarrow> string \<Rightarrow> string" where
  "str_slice_neg m n s = concat (slice_neg m n (utf8_chars s))"

lemma utf8_chars_ascii:
  "\<forall>c \<in> set s. (of_char c :: nat) < 128 \<Longrightarrow> utf8_chars s = map (\<lambda>c. [c]) s"
proof (induction s)
  case Nil
  then show ?case by (simp add: utf8_chars_def)
next
  case (Cons c s)
  then show ?case
    by (cases s) (auto simp: utf8_chars_def cont_def)
qed

lemma concat_singletons: "concat (map (\<lambda>c. [c]) s) = s"
  by (induction s) auto

lemma str_drop_last_ascii:
  "\<forall>c \<in> set s. (of_char c :: nat) < 128 \<Longrightarrow> str_drop_last n s = drop_last n s"
  by (simp add: str_drop_last_def utf8_chars_ascii drop_last_def take_map concat_singletons)

lemma str_slice_neg_ascii:
  "\<forall>c \<in> set s. (of_char c :: nat) < 128 \<Longrightarrow> str_slice_neg m n s = slice_neg m n s"
  by (simp add: str_slice_neg_def utf8_chars_ascii slice_neg_def take_map drop_map concat_singletons)

lemma drop_last_append [simp]: "length b = n \<Longrightarrow> drop_last n (a @ b) = a"
  by (simp add: drop_last_def)

section \<open>Floats\<close>

text \<open>
  A double is a NaN, an infinity or \<open>(-1)\<^sup>s * m * 2\<^sup>e\<close>; \<open>%f\<close> prints it with six decimals,
  correctly rounded (ties to even).
\<close>

datatype cfloat = FNan | FInf bool | FFin bool nat int

definition round_half_even :: "nat \<Rightarrow> nat \<Rightarrow> nat" where
  "round_half_even n d =
     (let q = n div d; r = n mod d
      in if 2 * r < d then q else if d < 2 * r then q + 1 else if even q then q else q + 1)"

definition fmt_f :: "cfloat \<Rightarrow> string" where
  "fmt_f x =
     (case x of
        FNan \<Rightarrow> ''nan''
      | FInf s \<Rightarrow> (if s then ''-inf'' else ''inf'')
      | FFin s m e \<Rightarrow>
          let u = (if 0 \<le> e then m * 2 ^ nat e * 1000000
                   else round_half_even (m * 1000000) (2 ^ nat (- e)));
              frac = nat_str (u mod 1000000)
          in (if s then ''-'' else []) @ nat_str (u div 1000000) @ ''.'' @
             replicate (6 - length frac) (CHR ''0'') @ frac)"

end
