(* ===== verification/Py_Url.thy ===== *)
theory Py_Url
  imports Py_Str
begin

text \<open>
  \<open>urllib.parse.urlparse\<close> as far as the client reads its result: scheme, host name, port
  and path. The host of a reference is not checked further here (Python's normalisation
  check of non-ASCII hosts and its validation of bracketed hosts only reject more).
\<close>

record url =
  u_scheme :: string
  u_netloc :: string
  u_path :: string

definition c0_or_space :: "char \<Rightarrow> bool" where
  "c0_or_space c \<longleftrightarrow> (of_char c :: nat) \<le> 32"

definition removed_char :: "char \<Rightarrow> bool" where
  "removed_char c \<longleftrightarrow> (of_char c :: nat) \<in> {9, 10, 13}"

definition scheme_char :: "char \<Rightarrow> bool" where
  "scheme_char c \<longleftrightarrow> is_alpha c \<or> is_digit c \<or> c \<in> set ''+-.''"

definition uses_params :: "string list" where
  "uses_params = ['''', ''ftp'', ''hdl'', ''prospero'', ''http'', ''imap'', ''https'', ''shttp'',
     ''rtsp'', ''rtspu'', ''sip'', ''sips'', ''mms'', ''sftp'', ''tel'']"

definition split_scheme :: "string \<Rightarrow> string \<times> string" where
  "split_scheme s =
     (case partition_at (CHR '':'') s of
        (a, f, b) \<Rightarrow>
          if f \<and> a \<noteq> [] \<and> is_alpha (hd a) \<and> list_all scheme_char a then (str_lower a, b)
          else ([], s))"

definition netloc_end :: "char \<Rightarrow> bool" where
  "netloc_end c \<longleftrightarrow> c \<in> set ''/?#''"

definition split_netloc :: "string \<Rightarrow> string \<times> string" where
  "split_netloc s =
     (if take 2 s = ''//'' then
        (takeWhile (Not \<circ> netloc_end) (drop 2 s), dropWhile (Not \<circ> netloc_end) (drop 2 s))
      else ([], s))"

definition split_params :: "string \<Rightarrow> string" where
  "split_params p =
     (case rpartition_at (CHR ''/'') p of
        (a, True, b) \<Rightarrow> a @ ''/'' @ fst (partition_at (CHR '';'') b)
      | (_, False, b) \<Rightarrow> fst (partition_at (CHR '';'') b))"

definition urlparse :: "string \<Rightarrow> url result" where
  "urlparse ref =
     (let s = filter (Not \<circ> removed_char) (dropWhile c0_or_space ref);
          (scheme, r1) = split_scheme s;
          (netloc, r2) = split_netloc r1;
          p = fst (partition_at (CHR ''?'') (fst (partition_at (CHR ''#'') r2)));
          path = (if scheme \<in> set uses_params then split_params p else p)
      in if (CHR ''['' \<in> set netloc) \<noteq> (CHR '']'' \<in> set netloc) then Exn ValueError
         else Val \<lparr>u_scheme = scheme, u_netloc = netloc, u_path = path\<rparr>)"

definition hostinfo :: "url \<Rightarrow> string \<times> string" where
  "hostinfo u =
     (let (_, _, h) = rpartition_at (CHR ''@'') (u_netloc u);
          (_, br, inner) = partition_at (CHR ''['') h
      in if br then
           (let (name, _, rest) = partition_at (CHR '']'') inner;
                (_, _, port) = partition_at (CHR '':'') rest
            in (name, port))
         else (let (name, _, port) = partition_at (CHR '':'') h in (name, port)))"

definition hostname :: "url \<Rightarrow> string option" where
  "hostname u =
     (let name = fst (hostinfo u)
      in if name = [] then None
         else (let (a, f, b) = partition_at (CHR ''%'') name
               in Some (str_lower a @ (if f then ''%'' else []) @ b)))"

definition url_port :: "url \<Rightarrow> int option result" where
  "url_port u =
     (let port = snd (hostinfo u)
      in if port = [] then Val None
         else if list_all is_digit port \<and> str_nat port \<le> 65535 then Val (Some (int (str_nat port)))
         else Exn ValueError)"

section \<open>References in canonical form\<close>

definition host_char :: "char \<Rightarrow> bool" where
  "host_char c \<longleftrightarrow> is_lower c \<or> is_digit c \<or> c \<in> set ''.-''"

definition path_char :: "char \<Rightarrow> bool" where
  "path_char c \<longleftrightarrow> 32 < (of_char c :: nat) \<and> c \<notin> set ''?#''"

lemma host_char_not [simp]:
  "\<not> host_char (CHR '':'')" "\<not> host_char (CHR ''@'')" "\<not> host_char (CHR ''['')"
  "\<not> host_char (CHR '']'')" "\<not> host_char (CHR ''%'')" "\<not> host_char (CHR ''/'')"
  "\<not> host_char (CHR ''?'')" "\<not> host_char (CHR ''#'')"
  by (simp_all add: host_char_def is_lower_def is_digit_def)

lemma not_in_host: "list_all host_char h \<Longrightarrow> \<not> host_char c \<Longrightarrow> c \<notin> set h"
  by (auto simp: list_all_iff)

lemma digit_not [simp]:
  "\<not> is_digit (CHR '':'')" "\<not> is_digit (CHR ''@'')" "\<not> is_digit (CHR ''['')"
  "\<not> is_digit (CHR '']'')" "\<not> is_digit (CHR ''%'')" "\<not> is_digit (CHR ''/'')"
  "\<not> is_digit (CHR ''?'')" "\<not> is_digit (CHR ''#'')"
  by (simp_all add: is_digit_def)

lemma host_char_visible: "host_char c \<Longrightarrow> \<not> removed_char c"
  by (auto simp: host_char_def removed_char_def is_lower_def is_digit_def)

lemma digit_visible: "is_digit c \<Longrightarrow> \<not> removed_char c"
  by (auto simp: removed_char_def is_digit_def)

lemma path_char_visible: "path_char c \<Longrightarrow> \<not> removed_char c"
  by (auto simp: removed_char_def path_char_def)

lemma str_lower_id: "\<forall>c \<in> set s. \<not> is_upper c \<Longrightarrow> str_lower s = s"
  by (induction s) (auto simp: str_lower_def lower_char_def)

lemma host_char_not_upper: "host_char c \<Longrightarrow> \<not> is_upper c"
  by (auto simp: host_char_def is_upper_def is_lower_def is_digit_def)

lemma str_lower_host: "list_all host_char h \<Longrightarrow> str_lower h = h"
  by (rule str_lower_id) (auto simp: list_all_iff host_char_not_upper)

definition make_ref :: "string \<Rightarrow> nat \<Rightarrow> string \<Rightarrow> string" where
  "make_ref host port path = ''iec61850://'' @ host @ '':'' @ nat_str port @ ''/'' @ path"

lemma filter_visible: "\<forall>c \<in> set s. \<not> removed_char c \<Longrightarrow> filter (Not \<circ> removed_char) s = s"
  by (induction s) auto

lemma takeWhile_upto: "\<forall>c \<in> set a. \<not> P c \<Longrightarrow> P x \<Longrightarrow> takeWhile (Not \<circ> P) (a @ x # b) = a"
  by (induction a) auto

lemma dropWhile_upto: "\<forall>c \<in> set a. \<not> P c \<Longrightarrow> P x \<Longrightarrow> dropWhile (Not \<circ> P) (a @ x # b) = x # b"
  by (induction a) auto

lemma urlparse_make_ref:
  assumes "list_all host_char h" and "list_all path_char p"
  shows "urlparse (make_ref h n p) =
         Val \<lparr>u_scheme = ''iec61850'', u_netloc = h @ '':'' @ nat_str n, u_path = ''/'' @ p\<rparr>"
proof -
  let ?net = "h @ '':'' @ nat_str n"
  let ?tail = "''//'' @ ?net @ ''/'' @ p"
  have ref: "make_ref h n p = ''iec61850'' @ CHR '':'' # ?tail"
    by (simp add: make_ref_def)
  have digits: "\<forall>c \<in> set (nat_str n). is_digit c" by (rule nat_str_digits)
  have "\<forall>c \<in> set (make_ref h n p). \<not> removed_char c"
    using assms digits host_char_visible path_char_visible digit_visible
    by (auto simp: make_ref_def list_all_iff removed_char_def)
  then have vis: "filter (Not \<circ> removed_char) (make_ref h n p) = make_ref h n p"
    by (rule filter_visible)
  have start: "dropWhile c0_or_space (make_ref h n p) = make_ref h n p"
    by (simp add: make_ref_def c0_or_space_def)
  have scheme: "split_scheme (make_ref h n p) = (''iec61850'', ?tail)"
    unfolding split_scheme_def ref
    by (subst partition_at_app)
      (simp_all add: scheme_char_def is_alpha_def is_lower_def is_upper_def is_digit_def
        str_lower_def lower_char_def)
  have net_ok: "\<forall>c \<in> set ?net. \<not> netloc_end c"
    using assms(1) digits by (auto simp: list_all_iff netloc_end_def)
  then have take_all: "takeWhile (Not \<circ> netloc_end) (?net @ CHR ''/'' # p) = ?net"
    and drop_all: "dropWhile (Not \<circ> netloc_end) (?net @ CHR ''/'' # p) = CHR ''/'' # p"
    by (rule takeWhile_upto, simp add: netloc_end_def)
      (rule dropWhile_upto, use net_ok in simp, simp add: netloc_end_def)
  have net: "split_netloc ?tail = (?net, ''/'' @ p)"
    using take_all drop_all by (simp add: split_netloc_def)
  have path: "partition_at (CHR ''#'') (''/'' @ p) = (''/'' @ p, False, [])"
    "partition_at (CHR ''?'') (''/'' @ p) = (''/'' @ p, False, [])"
    using assms(2) by (intro partition_at_none; auto simp: list_all_iff path_char_def)+
  have br: "CHR ''['' \<notin> set ?net" "CHR '']'' \<notin> set ?net"
    using assms(1) digits by (auto simp: list_all_iff)
  have scheme_plain: "''iec61850'' \<notin> set uses_params"
    by (simp add: uses_params_def)
  show ?thesis
    unfolding urlparse_def start vis scheme Let_def prod.case net path fst_conv
    using br scheme_plain by simp
qed

lemma hostinfo_plain:
  assumes "list_all host_char h"
  shows "hostinfo \<lparr>u_scheme = sc, u_netloc = h @ '':'' @ nat_str n, u_path = p\<rparr> = (h, nat_str n)"
proof -
  let ?net = "h @ CHR '':'' # nat_str n"
  have "CHR ''@'' \<notin> set ?net" and "CHR ''['' \<notin> set ?net" and "CHR '':'' \<notin> set h"
    using assms nat_str_digits [of n] by (auto simp: list_all_iff)
  then show ?thesis
    by (simp add: hostinfo_def rpartition_at_none partition_at_none partition_at_app)
qed

lemma hostname_plain:
  assumes "list_all host_char h" and "h \<noteq> []"
  shows "hostname \<lparr>u_scheme = sc, u_netloc = h @ '':'' @ nat_str n, u_path = p\<rparr> = Some h"
  using assms not_in_host [OF assms(1), of "CHR ''%''"]
  by (simp add: hostname_def hostinfo_plain [OF assms(1), simplified] partition_at_none str_lower_host)

lemma url_port_plain:
  assumes "list_all host_char h" and "n \<le> 65535"
  shows "url_port \<lparr>u_scheme = sc, u_netloc = h @ '':'' @ nat_str n, u_path = p\<rparr> = Val (Some (int n))"
  using assms nat_str_digits [of n]
  by (simp add: url_port_def hostinfo_plain [OF assms(1), simplified] list_all_iff)

end
