(* ===== verification/Mem_File.thy ===== *)
theory Mem_File
  imports Py_IO
begin

text \<open>
  The shared-memory ring buffer of \<^verbatim>\<open>other/python_example/mem_file.py\<close>: a 16-byte header
  (slot size, number of slots, index of the newest slot, element type, semaphore) and the
  slots behind it. Every function of the module is a program over one object, which may be
  a memory map or a plain file; the theorems say what each does on a map, and where a
  function fails or does not return.
\<close>

section \<open>Constants\<close>

definition SIZE_POS :: int where "SIZE_POS = 0"
definition ITEMS_POS :: int where "ITEMS_POS = 4"
definition INDEX_POS :: int where "INDEX_POS = 8"
definition TYPE_POS :: int where "TYPE_POS = 12"
definition SEMAPHORE_POS :: int where "SEMAPHORE_POS = 14"
definition DATA_POS :: int where "DATA_POS = 16"

definition BOOL :: int where "BOOL = 1"
definition INT8 :: int where "INT8 = 2"
definition INT32 :: int where "INT32 = 3"
definition INT64 :: int where "INT64 = 4"
definition FLOAT32 :: int where "FLOAT32 = 5"
definition FLOAT64 :: int where "FLOAT64 = 6"
definition QUALITY :: int where "QUALITY = 7"
definition MMSSTRING :: int where "MMSSTRING = 8"
definition BITSTRING :: int where "BITSTRING = 9"
definition VISSTRING :: int where "VISSTRING = 10"
definition OCTSTRING :: int where "OCTSTRING = 11"
definition GENTIME :: int where "GENTIME = 12"
definition BINTIME :: int where "BINTIME = 13"
definition UTCTIME :: int where "UTCTIME = 14"
definition GOOSE :: int where "GOOSE = 20"
definition SMV92 :: int where "SMV92 = 68"

lemmas pos_defs = SIZE_POS_def ITEMS_POS_def INDEX_POS_def TYPE_POS_def SEMAPHORE_POS_def
  DATA_POS_def

lemmas type_defs = BOOL_def INT8_def INT32_def INT64_def FLOAT32_def FLOAT64_def QUALITY_def
  MMSSTRING_def BITSTRING_def VISSTRING_def OCTSTRING_def GENTIME_def BINTIME_def UTCTIME_def
  GOOSE_def SMV92_def

text \<open>A lookup by type name; any other key gives the string \<open>unknown\<close>.\<close>

definition type_to_item_size :: "string \<Rightarrow> int + string" where
  "type_to_item_size t =
     (case map_of
        [(''BOOL'', 1), (''INT8'', 1), (''INT32'', 4), (''INT64'', 8), (''FLOAT32'', 4),
         (''FLOAT64'', 8), (''QUALITY'', 4), (''SMV92'', 68), (''GOOSE'', 1024)] t of
        Some n \<Rightarrow> Inl n
      | None \<Rightarrow> Inr ''unknown'')"

section \<open>Reading the header\<close>

definition read_size_file :: "(io, int) prog" where
  "read_size_file = andthen (py_seek SIZE_POS) (bnd (py_read 4) (\<lambda>bs. lift (unpack_i bs)))"

definition read_size :: "(io, int) prog" where
  "read_size = bnd (py_getslice 0 (nat ITEMS_POS)) (\<lambda>bs. lift (unpack_i bs))"

definition read_items_file :: "(io, int) prog" where
  "read_items_file = andthen (py_seek ITEMS_POS) (bnd (py_read 4) (\<lambda>bs. lift (unpack_i bs)))"

definition read_items :: "(io, int) prog" where
  "read_items = bnd (py_getslice (nat ITEMS_POS) (nat INDEX_POS)) (\<lambda>bs. lift (unpack_i bs))"

definition read_index_file :: "(io, int) prog" where
  "read_index_file = andthen (py_seek INDEX_POS) (bnd (py_read 4) (\<lambda>bs. lift (unpack_i bs)))"

definition read_index :: "(io, int) prog" where
  "read_index = bnd (py_getslice (nat INDEX_POS) (nat TYPE_POS)) (\<lambda>bs. lift (unpack_i bs))"

definition read_type_file :: "(io, int) prog" where
  "read_type_file = andthen (py_seek TYPE_POS) (bnd (py_read 2) (\<lambda>bs. lift (unpack_h bs)))"

definition read_type :: "(io, int) prog" where
  "read_type = bnd (py_getslice (nat TYPE_POS) (nat SEMAPHORE_POS)) (\<lambda>bs. lift (unpack_h bs))"

section \<open>The semaphore\<close>

text \<open>
  In Python a \<open>bytes\<close> object never equals an integer, so \<open>file.read(1) == 1\<close> is False
  whatever was read; \<open>bytes(n)\<close> is \<open>n\<close> zero bytes.
\<close>

definition bytes_eq_int :: "byte list \<Rightarrow> int \<Rightarrow> bool" where
  "bytes_eq_int bs n = False"

definition bytes_n :: "nat \<Rightarrow> byte list" where
  "bytes_n n = replicate n 0"

definition take_semaphore_file :: "int \<Rightarrow> (io, int) prog" where
  "take_semaphore_file old =
     andthen (py_seek SEMAPHORE_POS)
     (andthen (py_write (bytes_n 1))
     (andthen (py_seek old) (ret 0)))"

definition lock_buffer_file :: "bool \<Rightarrow> (io, int) prog" where
  "lock_buffer_file spin =
     bnd py_tell (\<lambda>old.
     andthen (py_seek SEMAPHORE_POS)
     (if \<not> spin then
        bnd (py_read 1) (\<lambda>bs.
          if bytes_eq_int bs 1 then andthen (py_seek old) (ret (-1))
          else take_semaphore_file old)
      else
        andthen
          (spin_while (bnd (py_read 1) (\<lambda>bs. ret (bytes_eq_int bs 1))) (py_seek SEMAPHORE_POS))
          (take_semaphore_file old)))"

definition lock_buffer :: "bool \<Rightarrow> (io, int) prog" where
  "lock_buffer spin =
     (if \<not> spin then
        bnd (py_getitem SEMAPHORE_POS) (\<lambda>b.
          if b = 1 then ret (-1)
          else andthen (py_setitem SEMAPHORE_POS 1) (ret 0))
      else
        andthen
          (spin_while (bnd (py_getitem SEMAPHORE_POS) (\<lambda>b. ret (b = 1))) (ret ()))
          (andthen (py_setitem SEMAPHORE_POS 1) (ret 0)))"

definition free_buffer_lock_file :: "(io, int) prog" where
  "free_buffer_lock_file =
     bnd py_tell (\<lambda>old.
     andthen (py_seek SEMAPHORE_POS)
     (bnd (py_read 1) (\<lambda>bs.
        if bytes_eq_int bs 0 then andthen (py_seek old) (ret (-1))
        else
          andthen (py_seek SEMAPHORE_POS)
          (andthen (py_write (bytes_n 0))
          (andthen (py_seek old) (ret 0))))))"

definition free_buffer_lock :: "(io, int) prog" where
  "free_buffer_lock =
     bnd (py_getitem SEMAPHORE_POS) (\<lambda>b.
       if b = 0 then ret (-1)
       else andthen (py_setitem SEMAPHORE_POS 0) (ret 0))"

section \<open>Reading a slot\<close>

text \<open>
  \<open>bool(bs)\<close> of a bytes object says whether it is non-empty. \<open>int(bs)\<close> parses the bytes
  as a decimal literal; for at most one byte that is an ASCII digit or a ValueError.
  \<open>int(t)\<close> of the tuple \<open>struct.unpack\<close> returns is a TypeError.
\<close>

definition bool_of_bytes :: "byte list \<Rightarrow> bool" where
  "bool_of_bytes bs \<longleftrightarrow> bs \<noteq> []"

definition int_of_bytes1 :: "byte list \<Rightarrow> int result" where
  "int_of_bytes1 bs =
     (case bs of
        [b] \<Rightarrow> if 48 \<le> uint b \<and> uint b \<le> 57 then Val (uint b - 48) else Exn ValueError
      | _ \<Rightarrow> Exn ValueError)"

definition int_of_tuple :: "int result \<Rightarrow> int result" where
  "int_of_tuple r = rbind r (\<lambda>_. Exn TypeError)"

definition read_input_bool :: "int \<Rightarrow> (io, bool) prog" where
  "read_input_bool index =
     andthen (py_seek (DATA_POS + index))
     (andthen (lock_buffer True)
     (bnd (bnd (py_read 1) (\<lambda>bs. ret (bool_of_bytes bs))) (\<lambda>result.
      andthen free_buffer_lock (ret result))))"

definition read_input_int8 :: "int \<Rightarrow> (io, int) prog" where
  "read_input_int8 index =
     andthen (py_seek (DATA_POS + index))
     (andthen (lock_buffer True)
     (bnd (bnd (py_read 1) (\<lambda>bs. lift (int_of_bytes1 bs))) (\<lambda>result.
      andthen free_buffer_lock (ret result))))"

definition read_input_int32 :: "int \<Rightarrow> (io, int) prog" where
  "read_input_int32 index =
     andthen (py_seek (DATA_POS + index * 4))
     (andthen (lock_buffer True)
     (bnd (bnd (py_read 4) (\<lambda>bs. lift (int_of_tuple (unpack_i bs)))) (\<lambda>result.
      andthen free_buffer_lock (ret result))))"

definition read_input_smv :: "int \<Rightarrow> int \<Rightarrow> (io, int) prog" where
  "read_input_smv var_index index =
     andthen (py_seek (DATA_POS + index * 68 + var_index))
     (andthen (lock_buffer True)
     (bnd (bnd (py_read 4) (\<lambda>bs. lift (int_of_tuple (unpack_i bs)))) (\<lambda>result.
      andthen free_buffer_lock (ret result))))"

section \<open>Writing the header\<close>

definition write_type :: "int \<Rightarrow> (io, unit) prog" where
  "write_type type =
     andthen (py_seek TYPE_POS)
     (andthen (lock_buffer True)
     (andthen (bnd (lift (pack_i type)) py_write)
     (andthen free_buffer_lock (ret ()))))"

definition write_size :: "int \<Rightarrow> (io, unit) prog" where
  "write_size sz =
     andthen (py_seek SIZE_POS)
     (andthen (lock_buffer True)
     (andthen (bnd (lift (pack_i sz)) py_write)
     (andthen free_buffer_lock (ret ()))))"

definition write_items :: "int \<Rightarrow> (io, unit) prog" where
  "write_items items =
     andthen (py_seek ITEMS_POS)
     (andthen (lock_buffer True)
     (andthen (bnd (lift (pack_i items)) py_write)
     (andthen free_buffer_lock (ret ()))))"

definition write_index :: "int \<Rightarrow> (io, unit) prog" where
  "write_index index =
     andthen (py_seek INDEX_POS)
     (andthen (lock_buffer True)
     (andthen (bnd (lift (pack_i index)) py_write)
     (andthen free_buffer_lock (ret ()))))"

section \<open>Writing a slot\<close>

definition py_mod :: "int \<Rightarrow> int \<Rightarrow> int result" where
  "py_mod a b = (if b = 0 then Exn ZeroDivisionError else Val (a mod b))"

text \<open>
  The guard \<open>read_type(file) != ty or read_size(file) != size\<close>, with Python's
  short-circuit \<open>or\<close>, and the body the six \<open>write_output\<close> functions share: they differ in
  the type, the slot size, the scale of the index and the packing of the value. The result
  is \<open>Some (-1)\<close> when the guard rejects the buffer and \<open>None\<close> otherwise.
\<close>

definition wrong_layout :: "int \<Rightarrow> int \<Rightarrow> (io, bool) prog" where
  "wrong_layout ty sz =
     bnd read_type (\<lambda>t. if t \<noteq> ty then ret True else bnd read_size (\<lambda>z. ret (z \<noteq> sz)))"

definition write_slot :: "int \<Rightarrow> byte list result \<Rightarrow> (io, int option) prog" where
  "write_slot scale packed =
     bnd read_items (\<lambda>items.
     andthen (lock_buffer True)
     (bnd (bnd read_index (\<lambda>i. lift (py_mod (i + 1) items))) (\<lambda>index.
      andthen (py_seek (DATA_POS + index * scale))
      (andthen (bnd (lift packed) py_write)
      (andthen (write_index index)
      (andthen free_buffer_lock (ret None)))))))"

definition write_output_int :: "int \<Rightarrow> (io, int option) prog" where
  "write_output_int value =
     bnd (wrong_layout INT32 4) (\<lambda>bad.
       if bad then ret (Some (-1)) else write_slot 4 (pack_i value))"

definition write_output_bool :: "bool \<Rightarrow> (io, int option) prog" where
  "write_output_bool value =
     bnd (wrong_layout BOOL 1) (\<lambda>bad.
       if bad then ret (Some (-1)) else write_slot 1 (pack_bool value))"

definition write_output_int8 :: "int \<Rightarrow> (io, int option) prog" where
  "write_output_int8 value =
     bnd (wrong_layout INT8 1) (\<lambda>bad.
       if bad then ret (Some (-1)) else write_slot 1 (pack_b value))"

definition write_output_quality :: "int \<Rightarrow> (io, int option) prog" where
  "write_output_quality value =
     bnd (wrong_layout QUALITY 4) (\<lambda>bad.
       if bad then ret (Some (-1)) else write_slot 4 (pack_i value))"

definition write_output_time :: "int \<Rightarrow> (io, int option) prog" where
  "write_output_time value =
     bnd (wrong_layout GENTIME 4) (\<lambda>bad.
       if bad then ret (Some (-1)) else write_slot 4 (pack_i value))"

text \<open>
  The encoding of a float as four bytes is IEEE 754 rounding done by \<open>struct.pack\<close>; it
  is a parameter, as is the type of floats.
\<close>

definition write_output_float :: "('f \<Rightarrow> byte list result) \<Rightarrow> 'f \<Rightarrow> (io, int option) prog" where
  "write_output_float pack_f value =
     bnd (wrong_layout FLOAT32 4) (\<lambda>bad.
       if bad then ret (Some (-1)) else write_slot 4 (pack_f value))"

section \<open>Reading the newest slot\<close>

definition read_current_input_bool :: "(io, bool) prog" where
  "read_current_input_bool = bnd read_index read_input_bool"

definition read_current_input_int8 :: "(io, int) prog" where
  "read_current_input_int8 = bnd read_index read_input_int8"

definition read_current_input_int32 :: "(io, int) prog" where
  "read_current_input_int32 = bnd read_index read_input_int32"

end
