(* ===== verification/Mem_File_Facts.thy ===== *)
theory Mem_File_Facts
  imports Mem_File
begin

text \<open>
  The shared-memory module on a map: its abstract view \<open>ring\<close>, what the header operations
  and the semaphore do to it, the reads and writes of slots, and the cases in which a
  function fails or never returns.
\<close>

section \<open>The abstract buffer\<close>

record ring =
  ring_size :: int
  ring_items :: int
  ring_index :: int
  ring_type :: int
  ring_sem :: byte
  ring_pad :: byte
  ring_slots :: "byte list"

definition ring_of :: "byte list \<Rightarrow> ring" where
  "ring_of d =
     \<lparr>ring_size = to_signed 4 (le_uint (read_at 0 4 d)),
      ring_items = to_signed 4 (le_uint (read_at 4 4 d)),
      ring_index = to_signed 4 (le_uint (read_at 8 4 d)),
      ring_type = to_signed 2 (le_uint (read_at 12 2 d)),
      ring_sem = d ! 14,
      ring_pad = d ! 15,
      ring_slots = drop 16 d\<rparr>"

abbreviation ring :: "io \<Rightarrow> ring" where
  "ring s \<equiv> ring_of (io_data s)"

lemma uint_eq_1 [simp]: "uint (b :: byte) = 1 \<longleftrightarrow> b = 1"
  by (metis uint_1 word_uint_eqI)

lemma uint_eq_0 [simp]: "uint (b :: byte) = 0 \<longleftrightarrow> b = 0"
  by (simp add: unsigned_eq_0_iff)

section \<open>Reading the header\<close>

lemma read_header_map [prog_simps]:
  assumes "mapped s"
  shows "read_size s = (Val (ring_size (ring s)), s)"
    and "read_items s = (Val (ring_items (ring s)), s)"
    and "read_index s = (Val (ring_index (ring s)), s)"
    and "read_type s = (Val (ring_type (ring s)), s)"
  using mappedD [OF assms]
  by (simp_all add: read_size_def read_items_def read_index_def read_type_def pos_defs bnd_def
      prog_simps unpack_i_def unpack_h_def unpack_signed_def ring_of_def)

lemma read_header_file:
  assumes "16 \<le> length (io_data s)"
  shows "fst (read_size_file s) = Val (ring_size (ring s))"
    and "fst (read_items_file s) = Val (ring_items (ring s))"
    and "fst (read_index_file s) = Val (ring_index (ring s))"
    and "fst (read_type_file s) = Val (ring_type (ring s))"
  using assms
  by (simp_all add: read_size_file_def read_items_file_def read_index_file_def read_type_file_def
      pos_defs bnd_def andthen_def py_seek_def prog_simps unpack_i_def unpack_h_def
      unpack_signed_def ring_of_def)

lemma read_header_on_file:
  assumes "io_kind s = FileObj"
  shows "read_size s = (Exn TypeError, s)" and "read_items s = (Exn TypeError, s)"
    and "read_index s = (Exn TypeError, s)" and "read_type s = (Exn TypeError, s)"
  using assms
  by (simp_all add: read_size_def read_items_def read_index_def read_type_def bnd_def prog_simps)

section \<open>The semaphore\<close>

abbreviation sem :: "io \<Rightarrow> byte" where
  "sem s \<equiv> io_data s ! 14"

abbreviation set_sem :: "byte \<Rightarrow> io \<Rightarrow> io" where
  "set_sem b s \<equiv> s\<lparr>io_data := (io_data s)[14 := b]\<rparr>"

lemma sem_test [prog_simps]:
  "mapped s \<Longrightarrow> bnd (py_getitem SEMAPHORE_POS) (\<lambda>b. ret (b = 1)) s = (Val (sem s = 1), s)"
  by (simp add: bnd_def prog_simps mapped_def SEMAPHORE_POS_def)

lemma lock_run [prog_simps]:
  "mapped s \<Longrightarrow> sem s \<noteq> 1 \<Longrightarrow> lock_buffer True s = (Val 0, set_sem 1 s)"
  by (simp add: lock_buffer_def andthen_def bnd_def spin_exit sem_test prog_simps
      SEMAPHORE_POS_def mapped_def)

lemma try_lock_run [prog_simps]:
  "mapped s \<Longrightarrow> lock_buffer False s = (if sem s = 1 then (Val (-1), s) else (Val 0, set_sem 1 s))"
  by (simp add: lock_buffer_def andthen_def bnd_def prog_simps SEMAPHORE_POS_def mapped_def)

lemma free_run [prog_simps]:
  "mapped s \<Longrightarrow> free_buffer_lock s = (if sem s = 0 then (Val (-1), s) else (Val 0, set_sem 0 s))"
  by (simp add: free_buffer_lock_def andthen_def bnd_def prog_simps SEMAPHORE_POS_def mapped_def)

text \<open>Waiting: one round of the loop, and when it is stuck.\<close>

lemma lock_round:
  assumes "mapped s" and "sem s = 1" and "io_sched s = ws # es"
  shows "lock_buffer True s =
         lock_buffer True (s\<lparr>io_data := apply_env ws (io_data s), io_sched := es\<rparr>)"
proof -
  have "bnd (py_getitem SEMAPHORE_POS) (\<lambda>b. ret (b = 1)) s = (Val True, s)"
    using assms by (simp add: sem_test)
  then show ?thesis
    by (simp add: lock_buffer_def andthen_def bnd_def [of "spin_while _ _"]
        spin_round [OF _ _ assms(3)])
qed

lemma lock_stuck:
  assumes "mapped s" and "sem s = 1" and "io_sched s = []"
  shows "lock_buffer True s = (NoReturn, s)"
proof -
  have "bnd (py_getitem SEMAPHORE_POS) (\<lambda>b. ret (b = 1)) s = (Val True, s)"
    using assms by (simp add: sem_test)
  then show ?thesis
    by (simp add: lock_buffer_def spin_stuck [OF _ _ assms(3)])
qed

text \<open>Does the schedule of the other processes ever make the semaphore differ from 1?\<close>

fun released :: "(nat \<times> byte) list list \<Rightarrow> byte list \<Rightarrow> bool" where
  "released [] d \<longleftrightarrow> d ! 14 \<noteq> 1"
| "released (ws # es) d \<longleftrightarrow> d ! 14 \<noteq> 1 \<or> released es (apply_env ws d)"

lemma lock_outcome:
  assumes "mapped s"
  shows "if released (io_sched s) (io_data s)
         then \<exists>s'. lock_buffer True s = (Val 0, s') \<and> mapped s' \<and> sem s' = 1
         else \<exists>s'. lock_buffer True s = (NoReturn, s') \<and> mapped s' \<and> sem s' = 1"
  using assms
proof (induction "io_sched s" arbitrary: s)
  case Nil
  then show ?case
    using lock_run [of s] lock_stuck [of s]
    by (cases "sem s = 1") (auto simp: mapped_def)
next
  case (Cons ws es)
  let ?s = "s\<lparr>io_data := apply_env ws (io_data s), io_sched := es\<rparr>"
  show ?case
  proof (cases "sem s = 1")
    case True
    have "lock_buffer True s = lock_buffer True ?s"
      using Cons.prems True Cons.hyps(2) by (intro lock_round) auto
    moreover have "mapped ?s" using Cons.prems by (simp add: mapped_def)
    ultimately show ?thesis
      using Cons.hyps(1) [of ?s] True Cons.hyps(2) [symmetric] by simp
  next
    case False
    then show ?thesis
      using lock_run [of s] Cons.prems Cons.hyps(2) [symmetric] by (auto simp: mapped_def)
  qed
qed

section \<open>Writing the header\<close>

text \<open>The four header writers are one program at four positions.\<close>

lemma header_write_run:
  assumes "mapped s" and "sem s \<noteq> 1" and "0 \<le> p" and "p \<le> 12" and "in_signed_range 4 v"
  shows "andthen (py_seek p) (andthen (lock_buffer True)
           (andthen (bnd (lift (pack_i v)) py_write) (andthen free_buffer_lock (ret ())))) s =
         (Val (), s\<lparr>io_data := (write_at (nat p) (le_bytes 4 v) ((io_data s)[14 := 1]))[14 := 0],
                     io_pos := nat p + 4\<rparr>)"
proof -
  let ?d = "write_at (nat p) (le_bytes 4 v) ((io_data s)[14 := 1])"
  have len: "length ?d = length (io_data s)"
    using assms by (subst length_write_at) (auto simp: mapped_def)
  have fits: "nat p + 4 \<le> length (io_data s)"
    using assms by (auto simp: mapped_def)
  have same: "?d ! 14 = 0 \<Longrightarrow> ?d[14 := 0] = ?d"
    by (metis list_update_id)
  show ?thesis
    using assms len same fits
    by (simp add: andthen_def bnd_def prog_simps pack_i_def pack_signed_def mapped_def)
qed

lemma header_write_out_of_range:
  assumes "mapped s" and "sem s \<noteq> 1" and "0 \<le> p" and "p \<le> 12" and "\<not> in_signed_range 4 v"
  shows "andthen (py_seek p) (andthen (lock_buffer True)
           (andthen (bnd (lift (pack_i v)) py_write) (andthen free_buffer_lock (ret ())))) s =
         (Exn StructError, s\<lparr>io_data := (io_data s)[14 := 1], io_pos := nat p\<rparr>)"
  using assms
  by (simp add: andthen_def bnd_def prog_simps pack_i_def pack_signed_def mapped_def)

lemma header_write_stuck:
  assumes "mapped s" and "sem s = 1" and "io_sched s = []" and "0 \<le> p" and "p \<le> 12"
  shows "andthen (py_seek p) (andthen (lock_buffer True) k) s = (NoReturn, s\<lparr>io_pos := nat p\<rparr>)"
  using assms lock_stuck [of "s\<lparr>io_pos := nat p\<rparr>"]
  by (simp add: andthen_def bnd_def prog_simps mapped_def)

lemmas header_writers = write_size_def write_items_def write_index_def write_type_def

text \<open>The fields of a buffer after one of its fields is overwritten.\<close>

lemma drop_write_at: "p + length bs \<le> n \<Longrightarrow> p + length bs \<le> length d \<Longrightarrow>
   drop n (write_at p bs d) = drop n d"
  by (simp add: write_at_def)

lemma read_at_set: "i < length d \<Longrightarrow> q + n \<le> i \<or> i < q \<Longrightarrow> read_at q n (d[i := b]) = read_at q n d"
  by (subst list_update_write_at) (auto intro!: read_at_other)

lemma ring_of_set_sem:
  "16 \<le> length d \<Longrightarrow> ring_of (d[14 := b]) = (ring_of d)\<lparr>ring_sem := b\<rparr>"
  by (simp add: ring_of_def read_at_set drop_update_cancel)

lemma signed_le_bytes:
  "0 < n \<Longrightarrow> in_signed_range n v \<Longrightarrow> to_signed n (le_uint (le_bytes n v)) = v"
  by (simp add: le_uint_le_bytes to_signed_mod)

lemma read_back: "length bs = n \<Longrightarrow> p + n \<le> length d \<Longrightarrow> read_at p n (write_at p bs d) = bs"
  using read_write_at [of p bs d] by simp

lemma ring_of_write_field:
  assumes "16 \<le> length d" and "in_signed_range 4 v"
  shows "ring_of (write_at 0 (le_bytes 4 v) d) = (ring_of d)\<lparr>ring_size := v\<rparr>"
    and "ring_of (write_at 4 (le_bytes 4 v) d) = (ring_of d)\<lparr>ring_items := v\<rparr>"
    and "ring_of (write_at 8 (le_bytes 4 v) d) = (ring_of d)\<lparr>ring_index := v\<rparr>"
  using assms
  by (simp_all add: ring_of_def read_at_other read_back signed_le_bytes nth_write_at drop_write_at)

lemma ring_of_write_type:
  assumes "16 \<le> length d"
  shows "ring_of (write_at 12 (le_bytes 4 v) d) =
         (ring_of d)\<lparr>ring_type := to_signed 2 (v mod 65536),
                      ring_sem := word_of_int (v div 65536),
                      ring_pad := word_of_int (v div 16777216)\<rparr>"
proof -
  have bytes: "le_bytes 4 v = le_bytes 2 v @ [word_of_int (v div 65536), word_of_int (v div 16777216)]"
    by (simp add: numeral_eq_Suc zdiv_zmult2_eq [symmetric])
  have ty: "read_at 12 2 (write_at 12 (le_bytes 4 v) d) = le_bytes 2 v"
    using assms by (simp add: bytes read_at_def write_at_def)
  show ?thesis
    using assms ty
    by (simp add: ring_of_def read_at_other nth_write_at drop_write_at le_uint_le_bytes)
      (simp add: bytes nth_append)
qed

section \<open>Locked buffers nobody releases\<close>

definition quiet :: "io \<Rightarrow> bool" where
  "quiet s \<longleftrightarrow> (\<forall>ws \<in> set (io_sched s). \<forall>(i, b) \<in> set ws. i \<noteq> 14)"

lemma apply_env_quiet: "\<forall>(i, b) \<in> set ws. i \<noteq> 14 \<Longrightarrow> apply_env ws d ! 14 = d ! 14"
  by (induction ws arbitrary: d) (auto simp: apply_env_def)

lemma quiet_not_released:
  "\<forall>ws \<in> set es. \<forall>(i, b) \<in> set ws. i \<noteq> 14 \<Longrightarrow> d ! 14 = 1 \<Longrightarrow> \<not> released es d"
  by (induction es arbitrary: d) (auto simp: apply_env_quiet)

definition locked :: "io \<Rightarrow> bool" where
  "locked s \<longleftrightarrow> mapped s \<and> sem s = 1 \<and> quiet s"

lemma locked_hangs: "locked s \<Longrightarrow> fst (lock_buffer True s) = NoReturn"
  using lock_outcome [of s] quiet_not_released [of "io_sched s" "io_data s"]
  by (auto simp: locked_def quiet_def)

section \<open>Writing a slot\<close>

text \<open>
  With a positive number of slots that are inside the map, the body of a \<open>write_output\<close>
  function never gets past \<open>write_index\<close>: that function takes the lock its caller already
  holds. It ends only when the value cannot be packed, which happens before.
\<close>

lemma write_index_hangs: "locked s \<Longrightarrow> fst (write_index v s) = NoReturn"
  using locked_hangs [of "s\<lparr>io_pos := nat INDEX_POS\<rparr>"]
  by (cases "lock_buffer True (s\<lparr>io_pos := nat INDEX_POS\<rparr>)")
    (simp add: write_index_def andthen_def bnd_def prog_simps locked_def mapped_def quiet_def INDEX_POS_def)

lemma write_slot_outcome:
  assumes "mapped s" and "quiet s" and "0 < ring_items (ring s)" and "0 \<le> scale"
    and "16 + scale * ring_items (ring s) \<le> int (length (io_data s))"
    and "\<And>bs. packed = Val bs \<Longrightarrow> int (length bs) = scale"
  shows "fst (write_slot scale packed s) =
         (if sem s = 1 then NoReturn else case packed of Val bs \<Rightarrow> NoReturn | Exn e \<Rightarrow> Exn e | NoReturn \<Rightarrow> NoReturn)"
proof (cases "sem s = 1")
  case True
  with assms(1,2) have "fst (lock_buffer True s) = NoReturn"
    by (intro locked_hangs) (simp add: locked_def)
  with True assms(1) show ?thesis
    by (cases "lock_buffer True s") (simp add: write_slot_def andthen_def bnd_def prog_simps)
next
  case False
  define idx where "idx = (ring_index (ring s) + 1) mod ring_items (ring s)"
  let ?s1 = "set_sem 1 s"
  let ?p = "nat (16 + idx * scale)"
  have len: "16 \<le> length (io_data s)" and kind: "io_kind s = MmapObj"
    using assms(1) by (simp_all add: mapped_def)
  have idx: "0 \<le> idx" "idx < ring_items (ring s)"
    using assms(3) by (simp_all add: idx_def)
  have "(idx + 1) * scale \<le> ring_items (ring s) * scale"
    using idx assms(4) by (intro mult_right_mono) simp_all
  then have upto: "16 + idx * scale + scale \<le> int (length (io_data s))"
    using assms(5) by (simp add: algebra_simps)
  have pos: "0 \<le> idx * scale" using idx assms(4) by simp
  have index: "bnd read_index (\<lambda>i. lift (py_mod (i + 1) (ring_items (ring s)))) ?s1 = (Val idx, ?s1)"
    using assms(3) len kind
    by (simp add: bnd_def prog_simps mapped_def py_mod_def ring_of_set_sem idx_def)
  have seek: "py_seek (DATA_POS + idx * scale) ?s1 = (Val (), ?s1\<lparr>io_pos := ?p\<rparr>)"
    using upto pos assms(4) kind by (simp add: prog_simps DATA_POS_def)
  have body: "fst (andthen (bnd (lift packed) py_write) (andthen (write_index idx) k) (?s1\<lparr>io_pos := ?p\<rparr>)) =
      (case packed of Val bs \<Rightarrow> NoReturn | Exn e \<Rightarrow> Exn e | NoReturn \<Rightarrow> NoReturn)" for k :: "(io, int option) prog"
  proof (cases packed)
    case (Val bs)
    let ?s2 = "s\<lparr>io_data := write_at ?p bs ((io_data s)[14 := 1]), io_pos := ?p + length bs\<rparr>"
    have fits: "?p + length bs \<le> length (io_data s)" "16 \<le> ?p"
      using assms(6) [OF Val] upto pos by linarith+
    then have "locked ?s2"
      using len kind assms(2) by (simp add: locked_def mapped_def quiet_def nth_write_at)
    then have "fst (write_index idx ?s2) = NoReturn" by (rule write_index_hangs)
    then show ?thesis
      using Val fits kind
      by (cases "write_index idx ?s2") (simp add: andthen_def bnd_def prog_simps)
  qed (simp_all add: andthen_def bnd_def)
  have "write_slot scale packed s = andthen (bnd (lift packed) py_write) (andthen (write_index idx)
      (andthen free_buffer_lock (ret None))) (?s1\<lparr>io_pos := ?p\<rparr>)"
    using assms(1) False seek
    by (simp add: write_slot_def andthen_def [of "lock_buffer _"] andthen_def [of "py_seek _"]
        bnd_def [of read_items] bnd_def [of "lock_buffer _"] bnd_def [of "bnd read_index _"]
        bnd_def [of "py_seek _"] prog_simps index)
  with body False show ?thesis by simp
qed

text \<open>Another process clears the semaphore while this one waits for it.\<close>

lemma lock_waits_once:
  assumes "mapped s" and "sem s = 1" and "io_sched s = [(14, 0)] # es"
  shows "lock_buffer True s = (Val 0, s\<lparr>io_sched := es\<rparr>)"
proof -
  let ?s = "s\<lparr>io_data := (io_data s)[14 := 0], io_sched := es\<rparr>"
  have "lock_buffer True s = lock_buffer True ?s"
    using lock_round [OF assms] by (simp add: apply_env_def)
  also have "\<dots> = (Val 0, set_sem 1 ?s)"
    using assms by (intro lock_run) (simp_all add: mapped_def)
  also have "set_sem 1 ?s = s\<lparr>io_sched := es\<rparr>"
  proof -
    have "(io_data s)[14 := 1] = io_data s"
      by (metis assms(2) list_update_id)
    then show ?thesis by simp
  qed
  finally show ?thesis .
qed

lemma write_index_waits:
  assumes "mapped s" and "sem s = 1" and "io_sched s = [[(14, 0)]]" and "in_signed_range 4 v"
  shows "write_index v s =
         (Val (), s\<lparr>io_data := (write_at 8 (le_bytes 4 v) (io_data s))[14 := 0], io_pos := 12,
                     io_sched := []\<rparr>)"
proof -
  have "lock_buffer True (s\<lparr>io_pos := 8\<rparr>) = (Val 0, s\<lparr>io_pos := 8, io_sched := []\<rparr>)"
    using assms lock_waits_once [of "s\<lparr>io_pos := 8\<rparr>" "[]"] by simp
  then show ?thesis
    using assms
    by (simp add: write_index_def andthen_def bnd_def prog_simps mapped_def pos_defs pack_i_def
        pack_signed_def nth_write_at)
qed

lemma ring_of_write_slot:
  assumes "16 \<le> p" and "p + length bs \<le> length d"
  shows "ring_of (write_at p bs d) =
         (ring_of d)\<lparr>ring_slots := drop 16 (write_at p bs d)\<rparr>"
  using assms by (simp add: ring_of_def read_at_other nth_write_at)

end
