(* ===== verification/Mem_File_Main.thy ===== *)
theory Mem_File_Main
  imports Mem_File_Facts Py_Str
begin

text \<open>
  The two main programs of the example: the self-test of \<open>mem_file.py\<close> and the subscriber
  \<^verbatim>\<open>other/python_example/program.py\<close>, which prints the header of the buffer and, for every
  sample message, its index read in two ways. The state is the buffer and the lines printed.
\<close>

record console =
  cs_io :: io
  cs_out :: "string list"

definition on_io :: "(io, 'a) prog \<Rightarrow> (console, 'a) prog" where
  "on_io m s = (case m (cs_io s) of (r, b) \<Rightarrow> (r, s\<lparr>cs_io := b\<rparr>))"

definition say :: "string \<Rightarrow> (console, unit) prog" where
  "say line = modify (\<lambda>s. s\<lparr>cs_out := cs_out s @ [line]\<rparr>)"

definition header_line :: "int \<Rightarrow> int \<Rightarrow> int \<Rightarrow> int \<Rightarrow> string" where
  "header_line sz items index ty =
     ''size='' @ int_str sz @ '', items='' @ int_str items @
     '', index='' @ int_str index @ '', type='' @ int_str ty"

text \<open>The self-test opens the file \<open>r+b\<close> and hands the file object to the map functions.\<close>

definition mem_file_main :: "(console, unit) prog" where
  "mem_file_main =
     bnd (on_io read_size) (\<lambda>sz.
     bnd (on_io read_items) (\<lambda>items.
     bnd (on_io read_index) (\<lambda>index.
     bnd (on_io read_type) (\<lambda>ty.
     andthen (say (header_line sz items index ty))
     (bnd (on_io (lock_buffer True)) (\<lambda>result.
      andthen (say (''lock result= '' @ int_str result))
      (bnd (on_io free_buffer_lock) (\<lambda>result.
       andthen (say (''unlock result= '' @ int_str result))
         (say ''done'')))))))))"

text \<open>
  The subscriber has a file and a map of the same memory: \<open>as_file\<close> and \<open>as_map\<close> run an
  operation on one of the two. The position of the map is never used. The memory is written by
  other processes the whole time: before each of its accesses, and while it waits in \<open>recv\<close>,
  those write what a list \<open>ws\<close> says. (Each access of the subscriber is taken as atomic.)
\<close>

definition as_kind :: "io_kind \<Rightarrow> (io, 'a) prog \<Rightarrow> (console, 'a) prog" where
  "as_kind k m = on_io (\<lambda>b. m (b\<lparr>io_kind := k\<rparr>))"

type_synonym writes = "(nat \<times> byte) list"

definition others :: "writes \<Rightarrow> (console, unit) prog" where
  "others ws = modify (\<lambda>s. s\<lparr>cs_io := (cs_io s)\<lparr>io_data := apply_env ws (io_data (cs_io s))\<rparr>\<rparr>)"

definition program_header :: "writes \<times> writes \<times> writes \<times> writes \<Rightarrow> (console, unit) prog" where
  "program_header ws = (case ws of (w1, w2, w3, w4) \<Rightarrow>
     andthen (others w1) (bnd (as_kind FileObj read_size_file) (\<lambda>sz.
     andthen (others w2) (bnd (as_kind FileObj read_items_file) (\<lambda>items.
     andthen (others w3) (bnd (as_kind FileObj read_index_file) (\<lambda>index.
     andthen (others w4) (bnd (as_kind FileObj read_type_file) (\<lambda>ty.
       say (header_line sz items index ty))))))))))"

text \<open>
  A message, what is written up to the moment it is looked at, and what is written after that:
  for a sample, between the read through the map and the read through the file.
\<close>

type_synonym delivery = "string \<times> writes \<times> writes"

definition on_message :: "delivery \<Rightarrow> (console, unit) prog" where
  "on_message dlv = (case dlv of (message, w1, w2) \<Rightarrow>
     andthen (others w1)
     (if message = ''smv_module1_SAMPLE_RECEIVED'' then
        bnd (as_kind MmapObj (bnd (py_getslice 8 12) (\<lambda>bs. lift (unpack_i bs)))) (\<lambda>i.
        andthen (say (''mmap: '' @ int_str i))
        (andthen (others w2)
        (bnd (as_kind FileObj read_index_file) (\<lambda>i. say (''index: '' @ int_str i)))))
      else others w2))"

text \<open>The program over the messages its socket delivers; it never ends by itself.\<close>

definition program_main :: "writes \<times> writes \<times> writes \<times> writes \<Rightarrow> delivery list \<Rightarrow> (console, unit) prog" where
  "program_main ws messages = andthen (program_header ws) (for_each messages on_message)"

section \<open>Runs\<close>

lemma say_run [simp]: "say line s = (Val (), s\<lparr>cs_out := cs_out s @ [line]\<rparr>)"
  by (simp add: say_def)

lemma apply_env_append: "apply_env (a @ b) d = apply_env b (apply_env a d)"
  by (simp add: apply_env_def)

text \<open>What matters of a state: the bytes of the memory and the lines printed.\<close>

definition console_is :: "byte list \<Rightarrow> string list \<Rightarrow> console \<Rightarrow> bool" where
  "console_is d out s \<longleftrightarrow> io_data (cs_io s) = d \<and> cs_out s = out"

definition does :: "(console, 'a) prog \<Rightarrow> byte list \<Rightarrow> string list \<Rightarrow> 'a \<Rightarrow> byte list \<Rightarrow> string list \<Rightarrow> bool" where
  "does m d out x d' out' \<longleftrightarrow> (\<forall>s. console_is d out s \<longrightarrow> (\<exists>s'. m s = (Val x, s') \<and> console_is d' out' s'))"

lemma does_bnd: "does m d out x d1 out1 \<Longrightarrow> does (f x) d1 out1 y d2 out2 \<Longrightarrow> does (bnd m f) d out y d2 out2"
  unfolding does_def by (metis bnd_Val)

lemma does_andthen: "does m d out x d1 out1 \<Longrightarrow> does k d1 out1 y d2 out2 \<Longrightarrow> does (andthen m k) d out y d2 out2"
  unfolding andthen_def by (rule does_bnd)

lemma does_others: "does (others ws) d out () (apply_env ws d) out"
  by (simp add: does_def others_def console_is_def)

lemma does_say: "does (say line) d out () d (out @ [line])"
  by (simp add: does_def console_is_def)

lemma does_map_index:
  assumes "16 \<le> length d"
  shows "does (as_kind MmapObj (bnd (py_getslice 8 12) (\<lambda>bs. lift (unpack_i bs)))) d out (ring_index (ring_of d)) d out"
  using assms
  by (simp add: does_def console_is_def as_kind_def on_io_def bnd_def prog_simps unpack_i_def unpack_signed_def
      ring_of_def)

lemma does_file_reads:
  assumes "16 \<le> length d"
  shows "does (as_kind FileObj read_size_file) d out (ring_size (ring_of d)) d out"
    and "does (as_kind FileObj read_items_file) d out (ring_items (ring_of d)) d out"
    and "does (as_kind FileObj read_index_file) d out (ring_index (ring_of d)) d out"
    and "does (as_kind FileObj read_type_file) d out (ring_type (ring_of d)) d out"
  using assms
  by (auto simp: does_def console_is_def as_kind_def on_io_def read_size_file_def read_items_file_def
      read_index_file_def read_type_file_def pos_defs bnd_def andthen_def py_seek_def prog_simps
      unpack_i_def unpack_h_def unpack_signed_def ring_of_def)

lemma program_header_does:
  assumes "16 \<le> length d"
  shows "does (program_header (w1, w2, w3, w4)) d out () (apply_env (w1 @ w2 @ w3 @ w4) d)
           (out @ [header_line (ring_size (ring_of (apply_env w1 d))) (ring_items (ring_of (apply_env (w1 @ w2) d)))
              (ring_index (ring_of (apply_env (w1 @ w2 @ w3) d)))
              (ring_type (ring_of (apply_env (w1 @ w2 @ w3 @ w4) d)))])"
  unfolding program_header_def prod.case apply_env_append
  by (intro does_andthen [OF does_others] does_bnd [OF does_file_reads(1)] does_bnd [OF does_file_reads(2)]
      does_bnd [OF does_file_reads(3)] does_bnd [OF does_file_reads(4)] does_say)
    (simp_all add: assms)

text \<open>
  The lines printed for the messages: \<open>d\<close> is the memory at some time and \<open>h\<close> what the other
  processes have written since.
\<close>

fun sample_lines :: "byte list \<Rightarrow> writes \<Rightarrow> delivery list \<Rightarrow> string list" where
  "sample_lines d h [] = []"
| "sample_lines d h ((message, w1, w2) # ms) =
     (if message = ''smv_module1_SAMPLE_RECEIVED'' then
        [''mmap: '' @ int_str (ring_index (ring_of (apply_env (h @ w1) d))),
         ''index: '' @ int_str (ring_index (ring_of (apply_env (h @ w1 @ w2) d)))]
      else []) @ sample_lines d (h @ w1 @ w2) ms"

fun all_writes :: "delivery list \<Rightarrow> writes" where
  "all_writes [] = []"
| "all_writes ((message, w1, w2) # ms) = w1 @ w2 @ all_writes ms"

lemma on_message_does:
  assumes "16 \<le> length d"
  shows "does (on_message (m, w1, w2)) (apply_env h d) out () (apply_env (h @ w1 @ w2) d)
           (out @ sample_lines d h [(m, w1, w2)])"
proof (cases "m = ''smv_module1_SAMPLE_RECEIVED''")
  case True
  have "does (on_message (m, w1, w2)) (apply_env h d) out () (apply_env (h @ w1 @ w2) d)
      ((out @ [''mmap: '' @ int_str (ring_index (ring_of (apply_env (h @ w1) d)))]) @
         [''index: '' @ int_str (ring_index (ring_of (apply_env (h @ w1 @ w2) d)))])"
    unfolding on_message_def prod.case if_P [OF True] apply_env_append
    by (intro does_andthen [OF does_others] does_bnd [OF does_map_index] does_andthen [OF does_say]
        does_bnd [OF does_file_reads(3)] does_say) (simp_all add: assms)
  with True show ?thesis by simp
next
  case False
  have "does (on_message (m, w1, w2)) (apply_env h d) out () (apply_env (h @ w1 @ w2) d) out"
    unfolding on_message_def prod.case if_not_P [OF False] apply_env_append
    by (rule does_andthen [OF does_others does_others])
  with False show ?thesis by simp
qed

lemma messages_does:
  assumes "16 \<le> length d"
  shows "does (for_each msgs on_message) (apply_env h d) out () (apply_env (h @ all_writes msgs) d)
           (out @ sample_lines d h msgs)"
proof (induction msgs arbitrary: h out)
  case Nil
  show ?case by (simp add: does_def)
next
  case (Cons x msgs)
  obtain m w1 w2 where x: "x = (m, w1, w2)" by (cases x)
  have "does (andthen (on_message (m, w1, w2)) (for_each msgs on_message)) (apply_env h d) out ()
      (apply_env ((h @ w1 @ w2) @ all_writes msgs) d)
      ((out @ sample_lines d h [(m, w1, w2)]) @ sample_lines d (h @ w1 @ w2) msgs)"
    by (rule does_andthen [OF on_message_does [OF assms] Cons.IH])
  then show ?case by (simp add: x)
qed

end
