(* ===== verification/Mem_File_Spec.thy ===== *)
theory Mem_File_Spec
  imports Mem_File_Facts
begin

text \<open>The properties of the shared-memory module, each with a run on a small buffer.\<close>

text \<open>A 24-byte map: slot size 4, two slots, index 0, type \<open>INT32\<close>, semaphore free.\<close>

definition sample :: io where
  "sample = \<lparr>io_kind = MmapObj,
     io_data = [4,0,0,0, 2,0,0,0, 0,0,0,0, 3,0, 0, 0, 7,0,0,0, 9,0,0,0],
     io_pos = 0, io_sched = []\<rparr>"

lemma sample_simps [simp]:
  "mapped sample" "io_kind sample = MmapObj" "io_pos sample = 0" "io_sched sample = []"
  "sem sample = 0" "length (io_data sample) = 24" "quiet sample"
  "ring_type (ring sample) = 3" "ring_size (ring sample) = 4" "ring_items (ring sample) = 2"
  "ring_index (ring sample) = 0"
  by (simp_all add: sample_def mapped_def quiet_def ring_of_def read_at_def to_signed_def)

lemma sample_bytes [simp]:
  "io_data sample ! 17 = 0" "ring_slots (ring sample) = [7,0,0,0, 9,0,0,0]"
  "write_at 4 (le_bytes 4 5) [7,0,0,0, 9,0,0,(0::byte)] = [7,0,0,0, 5,0,0,0]"
  by (simp_all add: sample_def ring_of_def write_at_def numeral_eq_Suc)

lemma in_range_small [simp]: "in_signed_range 4 5" "\<not> in_signed_range 4 4294967296"
  by (simp_all add: in_signed_range_def)

text \<open>
  C16 Writing the slot size, the number of slots or the index of an unlocked map changes exactly
  that field of the header, gives the semaphore back free, and leaves the other fields and every
  slot as they were.
\<close>
theorem header_writes_refine:
  assumes "mapped s" and "sem s \<noteq> 1" and "in_signed_range 4 v"
  shows "(\<exists>s'. write_size v s = (Val (), s') \<and> mapped s' \<and>
            ring s' = (ring s)\<lparr>ring_size := v, ring_sem := 0\<rparr>) \<and>
         (\<exists>s'. write_items v s = (Val (), s') \<and> mapped s' \<and>
            ring s' = (ring s)\<lparr>ring_items := v, ring_sem := 0\<rparr>) \<and>
         (\<exists>s'. write_index v s = (Val (), s') \<and> mapped s' \<and>
            ring s' = (ring s)\<lparr>ring_index := v, ring_sem := 0\<rparr>)"
  using assms mappedD [OF assms(1)]
  by (simp add: header_writers header_write_run pos_defs ring_of_set_sem ring_of_write_field)

lemma header_writes_refine_witness:
  "mapped sample \<and> sem sample \<noteq> 1 \<and>
   (\<exists>s'. write_index 5 sample = (Val (), s') \<and> ring_index (ring s') = 5)"
  using header_writes_refine [of sample 5] by auto

text \<open>
  C36 Writing the element type packs four bytes over a field of two: the low half becomes the
  type, the third byte is written over the semaphore that the call itself holds (it ends up
  free) and the fourth over the header's last byte.
\<close>
theorem write_type_overruns:
  assumes "mapped s" and "sem s \<noteq> 1" and "in_signed_range 4 v"
  shows "\<exists>s'. write_type v s = (Val (), s') \<and>
           ring s' = (ring s)\<lparr>ring_type := to_signed 2 (v mod 65536), ring_sem := 0,
                              ring_pad := word_of_int (v div 16777216)\<rparr>"
  using assms mappedD [OF assms(1)]
  by (simp add: header_writers header_write_run pos_defs ring_of_set_sem ring_of_write_type)

lemma write_type_overruns_witness:
  "\<exists>s'. write_type (-1) sample = (Val (), s') \<and> ring_type (ring s') = -1 \<and> ring_pad (ring s') = 255"
  using write_type_overruns [of sample "-1"]
  by (auto simp: in_signed_range_def to_signed_def)

text \<open>
  A header value that does not fit in 32 bits raises \<open>struct.error\<close> and leaves the
  semaphore taken, so that the next call that takes the lock does not return while nobody else
  frees it.
\<close>
theorem header_write_error_keeps_lock:
  assumes "mapped s" and "sem s \<noteq> 1" and "\<not> in_signed_range 4 v" and "quiet s"
  shows "\<exists>s'. write_index v s = (Exn StructError, s') \<and> sem s' = 1 \<and>
           fst (lock_buffer True s') = NoReturn"
proof -
  let ?s = "s\<lparr>io_data := (io_data s)[14 := 1], io_pos := nat INDEX_POS\<rparr>"
  have "write_index v s = (Exn StructError, ?s)"
    using assms by (simp add: write_index_def header_write_out_of_range pos_defs)
  moreover have "locked ?s"
    using assms by (simp add: locked_def quiet_def mapped_def)
  ultimately show ?thesis
    using locked_hangs [of ?s] by (simp add: locked_def)
qed

lemma header_write_error_keeps_lock_witness:
  "\<exists>s'. write_index 4294967296 sample = (Exn StructError, s') \<and> fst (lock_buffer True s') = NoReturn"
  using header_write_error_keeps_lock [of sample 4294967296] by auto

text \<open>
  C17 The busy-wait lock returns exactly when the semaphore is free at some point of the other
  processes' schedule; it then holds the semaphore. Otherwise the loop is still running.
\<close>
theorem lock_buffer_returns_iff_released:
  assumes "mapped s"
  shows "(fst (lock_buffer True s) = Val 0 \<longleftrightarrow> released (io_sched s) (io_data s)) \<and>
         (fst (lock_buffer True s) = NoReturn \<longleftrightarrow> \<not> released (io_sched s) (io_data s)) \<and>
         sem (snd (lock_buffer True s)) = 1"
  using lock_outcome [OF assms] by (auto split: if_splits)

lemma lock_buffer_returns_iff_released_witness:
  "fst (lock_buffer True (sample\<lparr>io_data := (io_data sample)[14 := 1], io_sched := [[], [(14, 0)]]\<rparr>)) = Val 0"
  using lock_buffer_returns_iff_released
    [of "sample\<lparr>io_data := (io_data sample)[14 := 1], io_sched := [[], [(14, 0)]]\<rparr>"]
  by (simp add: apply_env_def)

text \<open>
  The lock for plain files does not exclude anybody: whatever the semaphore byte holds, both
  modes return 0 at once and store a zero, not a one; freeing it stores nothing at all.
\<close>
theorem file_lock_never_locks:
  assumes "16 \<le> length (io_data s)" and "io_pos s \<le> length (io_data s)"
  shows "lock_buffer_file spin s = (Val 0, set_sem 0 s) \<and> free_buffer_lock_file s = (Val 0, s)"
proof -
  have seek: "py_seek p u = (Val (), u\<lparr>io_pos := nat p\<rparr>)"
    if "0 \<le> p" and "p \<le> int (length (io_data u))" for p u
    using that by (simp add: py_seek_def)
  have write1: "py_write [0] u = (Val (), u\<lparr>io_data := (io_data u)[14 := 0], io_pos := 15\<rparr>)"
    if "io_pos u = 14" and "16 \<le> length (io_data u)" for u
    using that by (auto simp: py_write_def list_update_write_at)
  have write0: "py_write [] u = (Val (), u)" if "io_pos u \<le> length (io_data u)" for u
    using that by (simp add: py_write_def write_at_def)
  have take: "take_semaphore_file (int p) u = (Val 0, u\<lparr>io_data := (io_data u)[14 := 0], io_pos := p\<rparr>)"
    if "16 \<le> length (io_data u)" and "p \<le> length (io_data u)" for p u
    using that
    by (simp add: take_semaphore_file_def andthen_def bnd_def seek write1 bytes_n_def pos_defs)
  have wait: "spin_while (bnd (py_read (Suc 0)) (\<lambda>bs. ret False)) k u =
      (Val (), u\<lparr>io_pos := 15\<rparr>)" if "io_pos u = 14" and "16 \<le> length (io_data u)" for u k
    using that by (intro spin_exit) (simp add: bnd_def prog_simps)
  show ?thesis
    using assms
    by (cases spin)
      (simp_all add: lock_buffer_file_def free_buffer_lock_file_def andthen_def bnd_def py_tell_def
        seek prog_simps bytes_eq_int_def take wait write0 bytes_n_def pos_defs)
qed

lemma file_lock_never_locks_witness:
  "lock_buffer_file True (sample\<lparr>io_data := (io_data sample)[14 := 1]\<rparr>) =
   (Val 0, sample\<lparr>io_data := (io_data sample)[14 := 0]\<rparr>)"
  using file_lock_never_locks [of "sample\<lparr>io_data := (io_data sample)[14 := 1]\<rparr>" True] by simp

text \<open>
  C15 On a buffer of the matching layout, with at least one slot and all slots inside the map,
  none of the six slot writers ever returns while no other process releases the semaphore: each
  takes the lock and then calls \<open>write_index\<close>, which waits for the same lock. Only a value that
  does not fit into the slot's type ends the call, with \<open>struct.error\<close>, when the lock was free.
  (The numbers 3, 1, 2, 7, 12 and 5 are the codes of the element types.)
\<close>
theorem write_output_never_completes:
  assumes "mapped s" and "quiet s" and "0 < ring_items (ring s)"
    and "16 + ring_size (ring s) * ring_items (ring s) \<le> int (length (io_data s))"
  shows "(ring_type (ring s) = 3 \<and> ring_size (ring s) = 4 \<longrightarrow> fst (write_output_int v s) =
            (if sem s = 1 \<or> in_signed_range 4 v then NoReturn else Exn StructError)) \<and>
         (ring_type (ring s) = 1 \<and> ring_size (ring s) = 1 \<longrightarrow> fst (write_output_bool b s) = NoReturn) \<and>
         (ring_type (ring s) = 2 \<and> ring_size (ring s) = 1 \<longrightarrow> fst (write_output_int8 v s) =
            (if sem s = 1 \<or> in_signed_range 1 v then NoReturn else Exn StructError)) \<and>
         (ring_type (ring s) = 7 \<and> ring_size (ring s) = 4 \<longrightarrow> fst (write_output_quality v s) =
            (if sem s = 1 \<or> in_signed_range 4 v then NoReturn else Exn StructError)) \<and>
         (ring_type (ring s) = 12 \<and> ring_size (ring s) = 4 \<longrightarrow> fst (write_output_time v s) =
            (if sem s = 1 \<or> in_signed_range 4 v then NoReturn else Exn StructError)) \<and>
         (ring_type (ring s) = 5 \<and> ring_size (ring s) = 4 \<and> pack_f x = Val bs \<and> length bs = 4 \<longrightarrow>
            fst (write_output_float pack_f x s) = NoReturn)"
proof -
  have guarded: "fst (bnd (wrong_layout ty sz) (\<lambda>bad.
      if bad then ret (Some (-1)) else write_slot sz packed) s) =
        (if sem s = 1 then NoReturn else case packed of Val bs \<Rightarrow> NoReturn | Exn e \<Rightarrow> Exn e | NoReturn \<Rightarrow> NoReturn)"
    if "ring_type (ring s) = ty" and "ring_size (ring s) = sz" and "0 \<le> sz"
      and "\<And>bs. packed = Val bs \<Longrightarrow> int (length bs) = sz" for ty sz packed
    using write_slot_outcome [OF assms(1-3) that(3) _ that(4)] assms(1,4) that(1,2)
    by (simp add: wrong_layout_def bnd_def prog_simps)
  note packs = pack_i_def pack_b_def pack_bool_def pack_signed_def
  show ?thesis
    unfolding write_output_int_def write_output_bool_def write_output_int8_def
      write_output_quality_def write_output_time_def write_output_float_def
    by (intro conjI impI; subst guarded; (elim conjE)?; auto simp: type_defs packs split: if_splits)
qed

lemma write_output_never_completes_witness:
  "fst (write_output_int 5 sample) = NoReturn \<and> fst (write_output_int 4294967296 sample) = Exn StructError"
  using write_output_never_completes [of sample 5] write_output_never_completes [of sample 4294967296]
  by simp

text \<open>
  The layout guard: a buffer of another element type or slot size is left untouched and
  answered with -1, before the lock is taken.
\<close>
theorem write_output_rejects_layout:
  assumes "mapped s"
  shows "(ring_type (ring s) \<noteq> INT32 \<or> ring_size (ring s) \<noteq> 4 \<longrightarrow>
            write_output_int v s = (Val (Some (-1)), s)) \<and>
         (ring_type (ring s) \<noteq> BOOL \<or> ring_size (ring s) \<noteq> 1 \<longrightarrow>
            write_output_bool b s = (Val (Some (-1)), s)) \<and>
         (ring_type (ring s) \<noteq> INT8 \<or> ring_size (ring s) \<noteq> 1 \<longrightarrow>
            write_output_int8 v s = (Val (Some (-1)), s)) \<and>
         (ring_type (ring s) \<noteq> QUALITY \<or> ring_size (ring s) \<noteq> 4 \<longrightarrow>
            write_output_quality v s = (Val (Some (-1)), s)) \<and>
         (ring_type (ring s) \<noteq> GENTIME \<or> ring_size (ring s) \<noteq> 4 \<longrightarrow>
            write_output_time v s = (Val (Some (-1)), s))"
  using assms
  by (auto simp: write_output_int_def write_output_bool_def write_output_int8_def
      write_output_quality_def write_output_time_def wrong_layout_def bnd_def prog_simps)

lemma write_output_rejects_layout_witness:
  "write_output_bool True sample = (Val (Some (-1)), sample)"
  using write_output_rejects_layout [of sample] by (simp add: BOOL_def)

text \<open>
  C35 With another process releasing the semaphore once, in the middle of \<open>write_index\<close>, the
  integer writer does what it is meant to: it stores the value in the slot after the newest
  one, cyclically, and then moves the index there; every other byte of the header and every
  other slot is unchanged.
\<close>
theorem write_output_int_when_released:
  assumes "mapped s" and "sem s \<noteq> 1" and "io_sched s = [[(14, 0)]]"
    and "ring_type (ring s) = INT32" and "ring_size (ring s) = 4"
    and "0 < ring_items (ring s)" and "16 + 4 * nat (ring_items (ring s)) \<le> length (io_data s)"
    and "in_signed_range 4 v"
  defines "idx \<equiv> (ring_index (ring s) + 1) mod ring_items (ring s)"
  shows "\<exists>s'. write_output_int v s = (Val None, s') \<and>
           ring s' = (ring s)\<lparr>ring_index := idx, ring_sem := 0,
             ring_slots := write_at (nat (idx * 4)) (le_bytes 4 v) (ring_slots (ring s))\<rparr>"
proof -
  let ?p = "nat (16 + idx * 4)"
  let ?d = "write_at ?p (le_bytes 4 v) ((io_data s)[14 := 1])"
  let ?s1 = "set_sem 1 s"
  let ?s2 = "s\<lparr>io_data := ?d, io_pos := ?p + 4\<rparr>"
  let ?s3 = "s\<lparr>io_data := (write_at 8 (le_bytes 4 idx) ?d)[14 := 0], io_pos := 12, io_sched := []\<rparr>"
  have len: "16 \<le> length (io_data s)" and kind: "io_kind s = MmapObj"
    using assms(1) by (simp_all add: mapped_def)
  have idx: "0 \<le> idx" "idx < ring_items (ring s)"
    using assms(6) by (simp_all add: idx_def)
  then have fits: "?p + 4 \<le> length (io_data s)"
    using assms(7) by linarith
  have "in_signed_range 4 (ring_items (ring s))"
    using le_uint_range [of "read_at 4 4 (io_data s)"] len
    by (auto simp: ring_of_def intro!: to_signed_range)
  with idx have rng: "in_signed_range 4 idx"
    by (simp add: in_signed_range_def)
  have p16: "16 \<le> ?p" and p: "?p = 16 + nat (idx * 4)"
    using idx by linarith+
  have dlen: "length ?d = length (io_data s)" and dsem: "?d ! 14 = 1"
    using fits len p16 by (simp_all add: nth_write_at)
  have index: "bnd read_index (\<lambda>i. lift (py_mod (i + 1) (ring_items (ring s)))) ?s1 = (Val idx, ?s1)"
    using assms(6) len kind
    by (simp add: bnd_def prog_simps mapped_def py_mod_def ring_of_set_sem idx_def)
  have slot: "andthen (py_seek (DATA_POS + idx * 4)) (andthen (bnd (lift (pack_i v)) py_write) k) ?s1 = k ?s2" for k
    using fits len kind idx assms(8)
    by (simp add: andthen_def bnd_def prog_simps pack_i_def pack_signed_def DATA_POS_def)
  have advance: "write_index idx ?s2 = (Val (), ?s3)"
    using write_index_waits [of ?s2 idx] len kind dlen dsem assms(3) rng by (simp add: mapped_def)
  have "write_slot 4 (pack_i v) s = (Val None, ?s3)"
  proof -
    have "free_buffer_lock ?s3 = (Val (-1), ?s3)"
      using len kind dlen by (simp add: prog_simps mapped_def)
    then show ?thesis
      using assms(1,2)
      by (simp add: write_slot_def andthen_def [of "lock_buffer _"] bnd_def [of read_items]
          bnd_def [of "lock_buffer _"] bnd_def [of "bnd read_index _"] prog_simps index slot advance)
  qed
  then have run: "write_output_int v s = (Val None, ?s3)"
    using assms(1,4,5)
    by (simp add: write_output_int_def wrong_layout_def bnd_def prog_simps)
  have "drop 16 ?d = write_at (nat (idx * 4)) (le_bytes 4 v) (drop 16 (io_data s))"
    using fits idx by (simp add: write_at_def nat_add_distrib drop_take drop_update_cancel add.commute)
  moreover have "ring_slots (ring s) = drop 16 (io_data s)"
    by (simp add: ring_of_def)
  ultimately have "ring ?s3 = (ring s)\<lparr>ring_index := idx, ring_sem := 0,
      ring_slots := write_at (nat (idx * 4)) (le_bytes 4 v) (ring_slots (ring s))\<rparr>"
    using len dlen rng fits idx
    by (simp add: ring_of_set_sem ring_of_write_field ring_of_write_slot)
  with run show ?thesis by blast
qed

lemma write_output_int_when_released_witness:
  "\<exists>s'. write_output_int 5 (sample\<lparr>io_sched := [[(14, 0)]]\<rparr>) = (Val None, s') \<and>
        ring_index (ring s') = 1 \<and> ring_slots (ring s') = [7,0,0,0, 5,0,0,0]"
  using write_output_int_when_released [of "sample\<lparr>io_sched := [[(14, 0)]]\<rparr>" 5]
  by (auto simp: INT32_def)

text \<open>
  Reading a 32-bit slot or a sampled-value field never succeeds: \<open>int\<close> is applied to the
  tuple \<open>struct.unpack\<close> returns, and the TypeError leaves the semaphore taken.
\<close>
theorem read_int32_always_fails:
  assumes "mapped s" and "sem s \<noteq> 1" and "0 \<le> index" and "0 \<le> var_index"
    and "DATA_POS + index * 68 + var_index + 4 \<le> int (length (io_data s))"
  shows "(\<exists>s'. read_input_int32 index s = (Exn TypeError, s') \<and> sem s' = 1) \<and>
         (\<exists>s'. read_input_smv var_index index s = (Exn TypeError, s') \<and> sem s' = 1)"
proof -
  have run: "\<exists>s'. andthen (py_seek p) (andthen (lock_buffer True)
      (bnd (bnd (py_read 4) (\<lambda>bs. lift (int_of_tuple (unpack_i bs)))) k)) s =
      (Exn TypeError, s') \<and> sem s' = 1"
    if "16 \<le> p" and "p + 4 \<le> int (length (io_data s))" for p k
  proof -
    have "nat p + 4 \<le> length (io_data s)" using that by linarith
    with that assms(1,2) show ?thesis
      by (simp add: andthen_def bnd_def prog_simps mapped_def int_of_tuple_def unpack_i_def
          unpack_signed_def)
  qed
  have "index * 4 \<le> index * 68" using assms(3) by simp
  then show ?thesis
    unfolding read_input_int32_def read_input_smv_def
    using assms(3,4,5) by (intro conjI run) (simp_all add: DATA_POS_def)
qed

lemma read_int32_always_fails_witness:
  "\<exists>s'. read_input_int32 0 sample = (Exn TypeError, s') \<and> sem s' = 1"
  using read_int32_always_fails [of sample 0 0] by (simp add: DATA_POS_def)

text \<open>
  Reading a Boolean slot that lies inside the map gives True whatever the slot holds, a zero
  byte included; reading an 8-bit slot succeeds only on the bytes of the ASCII digits and raises
  ValueError on all others, with the semaphore left taken.
\<close>
theorem read_bool_int8_misread:
  assumes "mapped s" and "sem s \<noteq> 1" and "0 \<le> index"
    and "DATA_POS + index < int (length (io_data s))"
  defines "b \<equiv> uint (io_data s ! nat (DATA_POS + index))"
  shows "(\<exists>s'. read_input_bool index s = (Val True, s') \<and> sem s' = 0) \<and>
         (\<exists>s'. read_input_int8 index s =
            (if 48 \<le> b \<and> b \<le> 57 then Val (b - 48) else Exn ValueError, s') \<and>
            sem s' = (if 48 \<le> b \<and> b \<le> 57 then 0 else 1))"
proof -
  let ?p = "nat (16 + index)"
  have p: "16 \<le> ?p" "?p < length (io_data s)"
    using assms(3,4) by (auto simp: DATA_POS_def)
  have one: "read_at ?p (Suc 0) ((io_data s)[14 := 1]) = [io_data s ! ?p]"
    using p by (simp add: read_at_def take_Suc_conv_app_nth hd_drop_conv_nth take_Suc)
  show ?thesis
    using assms(1-4) p
    by (auto simp: read_input_bool_def read_input_int8_def andthen_def bnd_def prog_simps mapped_def
        DATA_POS_def bool_of_bytes_def int_of_bytes1_def one b_def)
qed

lemma read_bool_int8_misread_witness:
  "\<exists>s'. read_input_bool 1 sample = (Val True, s') \<and> io_data sample ! 17 = 0"
  using read_bool_int8_misread [of sample 1] by (auto simp: DATA_POS_def)

end
