(* ===== verification/Lock_Race.thy ===== *)
theory Lock_Race
  imports Mem_File_Facts
begin

text \<open>
  \<open>lock_buffer\<close> when several processes share the map: each of its accesses to the semaphore
  is one step of a transition system, because the test and the set are two separate
  accesses. The steps are the model's own memory operations.
\<close>

text \<open>Where a process is: outside the lock, past the test but not yet the set, inside.\<close>

datatype lock_pc = Outside | Passed | Inside

record lock_sys =
  lk_pcs :: "lock_pc list"
  lk_buf :: io

definition move :: "nat \<Rightarrow> lock_pc \<Rightarrow> io \<Rightarrow> lock_sys \<Rightarrow> lock_sys" where
  "move i pc b L = L\<lparr>lk_pcs := (lk_pcs L)[i := pc], lk_buf := b\<rparr>"

inductive lock_step :: "lock_sys \<Rightarrow> lock_sys \<Rightarrow> bool" where
  Wait: "i < length (lk_pcs L) \<Longrightarrow> lk_pcs L ! i = Outside \<Longrightarrow>
    py_getitem SEMAPHORE_POS (lk_buf L) = (Val 1, b) \<Longrightarrow> lock_step L (move i Outside b L)"
| Pass: "i < length (lk_pcs L) \<Longrightarrow> lk_pcs L ! i = Outside \<Longrightarrow>
    py_getitem SEMAPHORE_POS (lk_buf L) = (Val v, b) \<Longrightarrow> v \<noteq> 1 \<Longrightarrow> lock_step L (move i Passed b L)"
| Take: "i < length (lk_pcs L) \<Longrightarrow> lk_pcs L ! i = Passed \<Longrightarrow>
    py_setitem SEMAPHORE_POS 1 (lk_buf L) = (Val (), b) \<Longrightarrow> lock_step L (move i Inside b L)"
| Release: "i < length (lk_pcs L) \<Longrightarrow> lk_pcs L ! i = Inside \<Longrightarrow>
    free_buffer_lock (lk_buf L) = (Val r, b) \<Longrightarrow> lock_step L (move i Outside b L)"

inductive_cases lock_stepE: "lock_step L L'"

definition start :: "nat \<Rightarrow> io \<Rightarrow> lock_sys" where
  "start n b = \<lparr>lk_pcs = replicate n Outside, lk_buf = b\<rparr>"

definition reached :: "nat \<Rightarrow> io \<Rightarrow> lock_sys \<Rightarrow> bool" where
  "reached n b L \<longleftrightarrow> lock_step\<^sup>*\<^sup>* (start n b) L"

definition inside :: "lock_sys \<Rightarrow> nat set" where
  "inside L = {i. i < length (lk_pcs L) \<and> lk_pcs L ! i = Inside}"

lemma move_simps [simp]:
  "lk_pcs (move i pc b L) = (lk_pcs L)[i := pc]" "lk_buf (move i pc b L) = b"
  by (simp_all add: move_def)

lemma sem_access:
  assumes "mapped b"
  shows "py_getitem SEMAPHORE_POS b = (Val (uint (sem b)), b)"
    and "py_setitem SEMAPHORE_POS v b = (Val (), set_sem v b)"
  using assms by (simp_all add: prog_simps mapped_def SEMAPHORE_POS_def)

section \<open>One process\<close>

text \<open>
  What holds of one process: nobody is between the test and the set with the semaphore
  taken, and it is inside exactly when the semaphore is.
\<close>

definition sole :: "lock_sys \<Rightarrow> bool" where
  "sole L \<longleftrightarrow> length (lk_pcs L) = 1 \<and> mapped (lk_buf L) \<and>
     (lk_pcs L ! 0 = Inside \<longrightarrow> sem (lk_buf L) = 1) \<and>
     (lk_pcs L ! 0 \<noteq> Inside \<longrightarrow> sem (lk_buf L) \<noteq> 1)"

lemma sole_start: "mapped b \<Longrightarrow> sem b \<noteq> 1 \<Longrightarrow> sole (start 1 b)"
  by (simp add: sole_def start_def)

lemma sole_step: "lock_step L L' \<Longrightarrow> sole L \<Longrightarrow> sole L'"
  by (induction rule: lock_step.induct)
    (auto simp: sole_def sem_access prog_simps mapped_def split: if_splits)

lemma sole_reached:
  assumes "reached 1 b L" and "mapped b" and "sem b \<noteq> 1"
  shows "sole L"
  using assms(1) unfolding reached_def
  by (induction rule: rtranclp_induct) (blast intro: sole_step sole_start [OF assms(2,3)])+

section \<open>Two processes\<close>

lemma both_pass:
  assumes "mapped b" and "sem b \<noteq> 1"
  shows "reached 2 b \<lparr>lk_pcs = [Passed, Passed], lk_buf = b\<rparr>"
proof -
  have "lock_step (start 2 b) (move 0 Passed b (start 2 b))"
    using assms by (intro Pass [of 0 _ "uint (sem b)"]) (simp_all add: start_def sem_access)
  moreover have "lock_step (move 0 Passed b (start 2 b)) (move 1 Passed b (move 0 Passed b (start 2 b)))"
    using assms by (intro Pass [of 1 _ "uint (sem b)"]) (simp_all add: start_def sem_access)
  moreover have "move 1 Passed b (move 0 Passed b (start 2 b)) = \<lparr>lk_pcs = [Passed, Passed], lk_buf = b\<rparr>"
    by (simp add: move_def start_def numeral_2_eq_2)
  ultimately show ?thesis
    unfolding reached_def by (metis converse_rtranclp_into_rtranclp rtranclp.rtrancl_refl)
qed

lemma both_take:
  assumes "mapped b" and "sem b \<noteq> 1"
  shows "reached 2 b \<lparr>lk_pcs = [Inside, Inside], lk_buf = set_sem 1 b\<rparr>"
proof -
  let ?L = "\<lparr>lk_pcs = [Passed, Passed], lk_buf = b\<rparr>"
  have "lock_step ?L (move 0 Inside (set_sem 1 b) ?L)"
    using assms by (intro Take) (simp_all add: sem_access)
  moreover have "lock_step (move 0 Inside (set_sem 1 b) ?L)
      (move 1 Inside (set_sem 1 b) (move 0 Inside (set_sem 1 b) ?L))"
    using assms by (intro Take) (simp_all add: sem_access mapped_def)
  moreover have "move 1 Inside (set_sem 1 b) (move 0 Inside (set_sem 1 b) ?L) =
      \<lparr>lk_pcs = [Inside, Inside], lk_buf = set_sem 1 b\<rparr>"
    by (simp add: move_def)
  ultimately show ?thesis
    using both_pass [OF assms] unfolding reached_def
    by (metis rtranclp.rtrancl_into_rtrancl)
qed

lemma one_leaves:
  assumes "mapped b" and "sem b \<noteq> 1"
  shows "reached 2 b \<lparr>lk_pcs = [Outside, Inside], lk_buf = set_sem 0 b\<rparr>"
proof -
  let ?L = "\<lparr>lk_pcs = [Inside, Inside], lk_buf = set_sem 1 b\<rparr>"
  have "free_buffer_lock (set_sem 1 b) = (Val 0, set_sem 0 b)"
    using assms by (simp add: free_run mapped_def)
  then have "lock_step ?L (move 0 Outside (set_sem 0 b) ?L)"
    by (intro Release) simp_all
  moreover have "move 0 Outside (set_sem 0 b) ?L = \<lparr>lk_pcs = [Outside, Inside], lk_buf = set_sem 0 b\<rparr>"
    by (simp add: move_def)
  ultimately show ?thesis
    using both_take [OF assms] unfolding reached_def
    by (metis rtranclp.rtrancl_into_rtrancl)
qed

text \<open>
  The runs of \<open>lock_buffer\<close> are the steps of one process: returning is passing the test
  and then setting the semaphore.
\<close>

lemma lock_buffer_steps:
  assumes "mapped b" and "sem b \<noteq> 1" and "lock_buffer True b = (Val r, b')"
  shows "reached 1 b \<lparr>lk_pcs = [Inside], lk_buf = b'\<rparr>"
proof -
  have b': "b' = set_sem 1 b" using assms by (simp add: prog_simps)
  let ?L = "move 0 Passed b (start 1 b)"
  have "lock_step (start 1 b) ?L"
    using assms by (intro Pass [of 0 _ "uint (sem b)"]) (simp_all add: start_def sem_access)
  moreover have "lock_step ?L (move 0 Inside b' ?L)"
    using assms b' by (intro Take) (simp_all add: start_def sem_access)
  moreover have "move 0 Inside b' ?L = \<lparr>lk_pcs = [Inside], lk_buf = b'\<rparr>"
    by (simp add: move_def start_def)
  ultimately show ?thesis
    unfolding reached_def by (metis converse_rtranclp_into_rtranclp rtranclp.rtrancl_refl)
qed

end
