(* ===== verification/Example_Spec.thy ===== *)
theory Example_Spec
  imports Mem_File_Spec Mem_File_Main Lock_Race
begin

text \<open>The properties of the two example programs and of the semaphore under contention.\<close>

text \<open>
  C18 The semaphore does not exclude: with two processes and a free semaphore, both can be
  inside at once, because the test and the set are separate; and when one of them leaves, the
  semaphore reads free while the other is still inside.
\<close>
theorem lock_admits_two:
  assumes "mapped b" and "sem b \<noteq> 1"
  shows "(\<exists>L. reached 2 b L \<and> inside L = {0, 1}) \<and>
         (\<exists>L. reached 2 b L \<and> inside L = {1} \<and> sem (lk_buf L) = 0)"
proof
  have "inside \<lparr>lk_pcs = [Inside, Inside], lk_buf = set_sem 1 b\<rparr> = {0, 1}"
    by (auto simp: inside_def less_Suc_eq)
  then show "\<exists>L. reached 2 b L \<and> inside L = {0, 1}"
    using both_take [OF assms] by blast
next
  have "inside \<lparr>lk_pcs = [Outside, Inside], lk_buf = set_sem 0 b\<rparr> = {1}"
    by (auto simp: inside_def less_Suc_eq)
  then show "\<exists>L. reached 2 b L \<and> inside L = {1} \<and> sem (lk_buf L) = 0"
    using one_leaves [OF assms] mappedD(2) [OF assms(1)] by fastforce
qed

lemma lock_admits_two_witness:
  "\<exists>L. reached 2 sample L \<and> inside L = {0, 1}"
  using lock_admits_two [of sample] by simp

text \<open>
  One process alone is protected: in every state it can reach, it is inside the lock
  exactly when the semaphore is 1.
\<close>
theorem lock_sound_alone:
  assumes "reached 1 b L" and "mapped b" and "sem b \<noteq> 1"
  shows "inside L = (if sem (lk_buf L) = 1 then {0} else {})"
  using sole_reached [OF assms] by (auto simp: sole_def inside_def)

lemma lock_sound_alone_witness:
  "inside \<lparr>lk_pcs = [Inside], lk_buf = set_sem 1 sample\<rparr> = {0}"
proof -
  have "lock_buffer True sample = (Val 0, set_sem 1 sample)"
    by (simp add: lock_run)
  then have "reached 1 sample \<lparr>lk_pcs = [Inside], lk_buf = set_sem 1 sample\<rparr>"
    by (intro lock_buffer_steps [of sample 0]) simp_all
  from lock_sound_alone [OF this] show ?thesis by simp
qed

text \<open>
  C34 The subscriber prints the four header fields once, each as it is in the shared memory when
  it is read, and then for each sample message the index twice: read through the map, as the
  memory is when the message is looked at, and read through the file, as it is then. Whatever
  the other processes write in the meantime is in the next line printed. Other messages print
  nothing, and the subscriber itself writes nothing.
\<close>
theorem program_prints_index:
  assumes "16 \<le> length d" and "io_data (cs_io s) = d" and "cs_out s = []"
  shows "\<exists>s'. program_main (w1, w2, w3, w4) msgs s = (Val (), s') \<and>
           cs_out s' =
             header_line (ring_size (ring_of (apply_env w1 d))) (ring_items (ring_of (apply_env (w1 @ w2) d)))
               (ring_index (ring_of (apply_env (w1 @ w2 @ w3) d)))
               (ring_type (ring_of (apply_env (w1 @ w2 @ w3 @ w4) d))) #
             sample_lines d (w1 @ w2 @ w3 @ w4) msgs \<and>
           io_data (cs_io s') = apply_env (w1 @ w2 @ w3 @ w4 @ all_writes msgs) d"
proof -
  have "does (program_main (w1, w2, w3, w4) msgs) d [] () (apply_env ((w1 @ w2 @ w3 @ w4) @ all_writes msgs) d)
      (([] @ [header_line (ring_size (ring_of (apply_env w1 d))) (ring_items (ring_of (apply_env (w1 @ w2) d)))
               (ring_index (ring_of (apply_env (w1 @ w2 @ w3) d)))
               (ring_type (ring_of (apply_env (w1 @ w2 @ w3 @ w4) d)))]) @ sample_lines d (w1 @ w2 @ w3 @ w4) msgs)"
    unfolding program_main_def
    by (rule does_andthen [OF program_header_does [OF assms(1)] messages_does [OF assms(1)]])
  with assms(2,3) show ?thesis
    unfolding does_def console_is_def by (metis append.assoc append_Cons append_Nil)
qed

lemma program_prints_index_witness:
  "cs_out (snd (program_main ([], [], [], [])
       [(''x'', [(8, 1)], []), (''smv_module1_SAMPLE_RECEIVED'', [], [(8, 0)])] \<lparr>cs_io = sample, cs_out = []\<rparr>)) =
   [''size=4, items=2, index=0, type=3'', ''mmap: 1'', ''index: 0'']"
proof -
  have "ring_of (apply_env [] (io_data sample)) = ring sample"
    "ring_index (ring_of (apply_env [(8, 1)] (io_data sample))) = 1"
    "ring_index (ring_of (apply_env [(8, 1), (8, 0)] (io_data sample))) = 0"
    by (simp_all add: apply_env_def sample_def ring_of_def read_at_def to_signed_def)
  with program_prints_index [of "io_data sample" "\<lparr>cs_io = sample, cs_out = []\<rparr>" "[]" "[]" "[]" "[]"
      "[(''x'', [(8, 1)], []), (''smv_module1_SAMPLE_RECEIVED'', [], [(8, 0)])]"]
  show ?thesis
    by (auto simp: header_line_def int_str_def nat_str.simps [of 0] nat_str.simps [of "Suc 0"] nat_str.simps [of 2]
        nat_str.simps [of 3] nat_str.simps [of 4])
qed

text \<open>
  The self-test of the module stops at its first read with TypeError, having printed
  nothing and changed nothing, because it hands the map functions a file object.
\<close>
theorem self_test_fails:
  assumes "io_kind (cs_io s) = FileObj"
  shows "mem_file_main s = (Exn TypeError, s)"
  using assms by (simp add: mem_file_main_def on_io_def read_header_on_file)

lemma self_test_fails_witness:
  "fst (mem_file_main \<lparr>cs_io = sample\<lparr>io_kind := FileObj\<rparr>, cs_out = []\<rparr>) = Exn TypeError"
  using self_test_fails [of "\<lparr>cs_io = sample\<lparr>io_kind := FileObj\<rparr>, cs_out = []\<rparr>"] by simp

end
