(* ===== verification/Data_Model.thy ===== *)
theory Data_Model
  imports Py_Str
begin

text \<open>
  The data model the client keeps of a device (\<^verbatim>\<open>tools/python_client/libiec61850client.py\<close>):
  nested dictionaries with string leaves, and the functions that walk it by an object
  reference such as \<open>LD/LN.DO.DA\<close>: \<open>parseRef\<close>, \<open>getRef\<close> and \<open>printrefs\<close>.
\<close>

section \<open>Nested dictionaries\<close>

datatype pv = PStr string | PDict "(string \<times> pv) list"

fun truthy :: "pv \<Rightarrow> bool" where
  "truthy (PStr s) \<longleftrightarrow> s \<noteq> []"
| "truthy (PDict d) \<longleftrightarrow> d \<noteq> []"

text \<open>
  \<open>k in v\<close> looks a key up in a dictionary but a substring up in a string; indexing a
  string by a string and storing into a string raise TypeError.
\<close>

fun py_in :: "string \<Rightarrow> pv \<Rightarrow> bool" where
  "py_in k (PStr s) = has_substring s k"
| "py_in k (PDict d) = dhas k d"

fun py_get :: "pv \<Rightarrow> string \<Rightarrow> pv result" where
  "py_get (PStr s) k = Exn TypeError"
| "py_get (PDict d) k = dget k d"

fun py_set :: "pv \<Rightarrow> string \<Rightarrow> pv \<Rightarrow> pv result" where
  "py_set (PStr s) k v = Exn TypeError"
| "py_set (PDict d) k v = Val (PDict (dset k v d))"

fun items :: "pv \<Rightarrow> (string \<times> pv) list" where
  "items (PStr s) = []"
| "items (PDict d) = d"

text \<open>Dictionary keys are unique at every level.\<close>

fun keys_ok :: "pv \<Rightarrow> bool" where
  "keys_ok (PStr s) = True"
| "keys_ok (PDict d) = (distinct (map fst d) \<and> (\<forall>v \<in> snd ` set d. keys_ok v))"

section \<open>References\<close>

text \<open>The loop of \<open>parseRef\<close> over the names between the dots.\<close>

fun walk :: "string list \<Rightarrow> pv \<Rightarrow> string list \<Rightarrow> (pv \<times> string list) result" where
  "walk [] mm path = Val (mm, path)"
| "walk (r # rs) mm path =
     (if \<not> py_in r mm then Val (PDict [], [])
      else rbind (py_get mm r) (\<lambda>m. walk rs m (path @ [r])))"

definition parseRef :: "pv \<Rightarrow> string \<Rightarrow> (pv \<times> string list) result" where
  "parseRef model ref =
     (if ref = '''' then Val (model, [])
      else case split_on (CHR ''/'') ref of
        [_] \<Rightarrow>
          if py_in ref model then rbind (py_get model ref) (\<lambda>m. Val (m, [ref]))
          else Val (PDict [], [])
      | [LD, rest] \<Rightarrow>
          if \<not> py_in LD model then Val (PDict [], [])
          else rbind (py_get model LD) (\<lambda>mm. walk (split_on (CHR ''.'') rest) mm [LD])
      | _ \<Rightarrow> Val (PDict [], []))"

text \<open>The loop of \<open>getRef\<close>, at index \<open>i\<close> of the path.\<close>

fun getRef_loop :: "nat \<Rightarrow> string \<Rightarrow> pv \<Rightarrow> string list \<Rightarrow> (string \<times> pv) result" where
  "getRef_loop i ref mm [] = Val (ref, mm)"
| "getRef_loop i ref mm (p # ps) =
     (if \<not> py_in p mm then Val (ref, mm)
      else rbind (py_get mm p) (\<lambda>m.
        getRef_loop (Suc i)
          (ref @ (if i = 1 then ''/'' else if 1 < i then ''.'' else []) @ p) m ps))"

definition getRef :: "pv \<Rightarrow> string list \<Rightarrow> (string \<times> pv) result" where
  "getRef model path = getRef_loop 0 [] model path"

section \<open>Printing\<close>

text \<open>\<open>repr\<close> of a string and \<open>str\<close> of a value.\<close>

definition repr_char :: "char \<Rightarrow> char \<Rightarrow> string" where
  "repr_char q c =
     (let n = (of_char c :: nat)
      in if c = q \<or> n = 92 then [char_of (92 :: nat), c]
         else if n = 9 then [char_of (92 :: nat), CHR ''t'']
         else if n = 10 then [char_of (92 :: nat), CHR ''n'']
         else if n = 13 then [char_of (92 :: nat), CHR ''r'']
         else if n < 32 \<or> n = 127 then [char_of (92 :: nat), CHR ''x''] @ hex2 n
         else [c])"

definition repr_str :: "string \<Rightarrow> string" where
  "repr_str s =
     (let sq = char_of (39 :: nat); dq = char_of (34 :: nat);
          q = (if sq \<in> set s \<and> dq \<notin> set s then dq else sq)
      in [q] @ concat (map (repr_char q) s) @ [q])"

fun repr_pv :: "pv \<Rightarrow> string" where
  "repr_pv (PStr s) = repr_str s"
| "repr_pv (PDict d) =
     ''{'' @ join_with '', '' (map (\<lambda>(k, v). repr_str k @ '': '' @ repr_pv v) d) @ ''}''"

fun py_str :: "pv \<Rightarrow> string" where
  "py_str (PStr s) = s"
| "py_str (PDict d) = repr_pv (PDict d)"

text \<open>
  \<open>printrefs\<close> adds its lines to the standard output, the state. Iterating over a string
  gives its characters; indexing the string by one raises TypeError.
\<close>

definition child_ref :: "string \<Rightarrow> nat \<Rightarrow> string \<Rightarrow> string" where
  "child_ref ref depth element =
     (if depth = 0 then element
      else if depth = 1 then ref @ ''/'' @ element
      else ref @ ''.'' @ element)"

fun printrefs :: "pv \<Rightarrow> string \<Rightarrow> nat \<Rightarrow> (string list, unit) prog"
  and printrefs_items :: "(string \<times> pv) list \<Rightarrow> string \<Rightarrow> nat \<Rightarrow> (string list, unit) prog" where
  "printrefs (PStr s) ref depth = (if s = [] then ret () else raise TypeError)"
| "printrefs (PDict d) ref depth = printrefs_items d ref depth"
| "printrefs_items [] ref depth = ret ()"
| "printrefs_items ((element, v) # d) ref depth =
     andthen
       (if py_in ''value'' v then
          bnd (lift (py_get v ''value'')) (\<lambda>x.
            modify (\<lambda>out. out @ [child_ref ref depth element @ '':'' @ [char_of (9 :: nat)] @ py_str x]))
        else printrefs v (child_ref ref depth element) (depth + 1))
       (printrefs_items d ref depth)"

section \<open>Following a path\<close>

text \<open>
  The abstract operations: the value at a path through dictionaries only, and its
  replacement.
\<close>

fun lookup_path :: "pv \<Rightarrow> string list \<Rightarrow> pv option" where
  "lookup_path v [] = Some v"
| "lookup_path (PStr s) (k # ks) = None"
| "lookup_path (PDict d) (k # ks) =
     (case map_of d k of None \<Rightarrow> None | Some v \<Rightarrow> lookup_path v ks)"

fun update_path :: "string list \<Rightarrow> pv \<Rightarrow> pv \<Rightarrow> pv" where
  "update_path [] x v = x"
| "update_path (k # ks) x (PStr s) = PStr s"
| "update_path (k # ks) x (PDict d) =
     (case map_of d k of None \<Rightarrow> PDict d | Some v \<Rightarrow> PDict (dset k (update_path ks x v) d))"

lemma lookup_path_append:
  "lookup_path v (p @ q) = (case lookup_path v p of None \<Rightarrow> None | Some u \<Rightarrow> lookup_path u q)"
  by (induction v p rule: lookup_path.induct) (auto split: option.split)

lemma lookup_update_same:
  "lookup_path v p \<noteq> None \<Longrightarrow> lookup_path (update_path p x v) p = Some x"
  by (induction p x v rule: update_path.induct) (auto simp: update_conv' split: option.splits)

lemma update_path_self: "lookup_path v p = Some x \<Longrightarrow> update_path p x v = v"
proof (induction p x v rule: update_path.induct)
  case (3 k ks x d)
  then obtain v where v: "map_of d k = Some v" "lookup_path v ks = Some x"
    by (auto split: option.splits)
  moreover have "dset k v d = d" by (rule dset_same [OF v(1)])
  ultimately show ?case using "3.IH" by simp
qed auto

text \<open>Two paths that part ways do not disturb each other.\<close>

fun diverge :: "string list \<Rightarrow> string list \<Rightarrow> bool" where
  "diverge (a # as) (b # bs) = (a \<noteq> b \<or> diverge as bs)"
| "diverge _ _ = False"

lemma lookup_update_other:
  "diverge p q \<Longrightarrow> lookup_path (update_path p x v) q = lookup_path v q"
proof (induction p q arbitrary: v rule: diverge.induct)
  case (1 a as b bs)
  then show ?case
    by (cases v) (auto simp: update_conv' split: option.split)
qed auto

lemma walk_lookup:
  "walk rs mm path = Val (m, p) \<Longrightarrow> p \<noteq> [] \<Longrightarrow> p = path @ rs \<and> lookup_path mm rs = Some m"
proof (induction rs arbitrary: mm path)
  case Nil
  then show ?case by simp
next
  case (Cons r rs)
  then show ?case
    by (cases mm) (fastforce simp: dget_def split: if_splits option.splits)+
qed

lemma lookup_walk:
  "lookup_path mm rs = Some m \<Longrightarrow> walk rs mm path = Val (m, path @ rs)"
proof (induction rs arbitrary: mm path)
  case Nil
  then show ?case by simp
next
  case (Cons r rs)
  then show ?case
    by (cases mm) (auto simp: dget_def dhas_iff split: option.splits)
qed

lemma getRef_loop_walk:
  assumes "lookup_path mm ps = Some m" and "2 \<le> i"
  shows "getRef_loop i ref mm ps = Val (ref @ concat (map (\<lambda>p. ''.'' @ p) ps), m)"
  using assms
proof (induction ps arbitrary: i ref mm)
  case Nil
  then show ?case by simp
next
  case (Cons p ps)
  then show ?case
    by (cases mm) (auto simp: dget_def dhas_iff split: option.splits)
qed

text \<open>A path as a reference: the device, a slash, the rest with dots.\<close>

definition ref_of_path :: "string list \<Rightarrow> string" where
  "ref_of_path path =
     (case path of
        [] \<Rightarrow> []
      | [ld] \<Rightarrow> ld
      | ld # rest \<Rightarrow> ld @ ''/'' @ join_with ''.'' rest)"

lemma join_dots: "join_with ''.'' (r # rs) = r @ concat (map (\<lambda>p. ''.'' @ p) rs)"
  by (induction rs arbitrary: r) auto

lemma getRef_path:
  assumes "lookup_path model path = Some m"
  shows "getRef model path = Val (ref_of_path path, m)"
proof (cases path)
  case Nil
  with assms show ?thesis by (simp add: getRef_def ref_of_path_def)
next
  case (Cons ld rest)
  with assms obtain d mm where d: "model = PDict d" "map_of d ld = Some mm"
      and mm: "lookup_path mm rest = Some m"
    by (cases model) (auto split: option.splits)
  show ?thesis
  proof (cases rest)
    case Nil
    with Cons d mm show ?thesis
      by (simp add: getRef_def ref_of_path_def dget_def dhas_iff)
  next
    case (Cons r rs)
    with mm obtain e u where e: "mm = PDict e" "map_of e r = Some u" "lookup_path u rs = Some m"
      by (cases mm) (auto split: option.splits)
    show ?thesis
      unfolding \<open>path = ld # rest\<close> Cons
      using d e getRef_loop_walk [OF e(3), of "Suc (Suc 0)" "ld @ ''/'' @ r"]
      by (simp add: getRef_def ref_of_path_def dget_def dhas_iff join_dots del: join_with.simps)
  qed
qed

text \<open>What \<open>parseRef\<close> returns when it finds something.\<close>

lemma parseRef_path:
  assumes "parseRef model ref = Val (m, path)" and "path \<noteq> []"
  shows "lookup_path model path = Some m \<and> ref_of_path path = ref"
proof -
  obtain p ps where split: "split_on (CHR ''/'') ref = p # ps"
    by (cases "split_on (CHR ''/'') ref") auto
  have whole: "join_with ''/'' (p # ps) = ref"
    using join_split [of "CHR ''/''" ref] split by simp
  from assms have "ref \<noteq> []" by (auto simp: parseRef_def)
  consider "ps = []" | rest where "ps = [rest]" | a b c where "ps = a # b # c"
    by (cases ps rule: list_cases3) auto
  then show ?thesis
  proof cases
    case 1
    with split whole have "p = ref" by simp
    with assms split 1 \<open>ref \<noteq> []\<close> obtain d where "model = PDict d" "map_of d ref = Some m" "path = [ref]"
      by (cases model) (auto simp: parseRef_def dget_def simp del: join_split split: if_splits option.splits)
    then show ?thesis by (simp add: ref_of_path_def)
  next
    case 2
    with assms split \<open>ref \<noteq> []\<close> obtain d mm where d: "model = PDict d" "map_of d p = Some mm"
        and w: "walk (split_on (CHR ''.'') rest) mm [p] = Val (m, path)"
      by (cases model) (auto simp: parseRef_def dget_def split: if_splits option.splits)
    from walk_lookup [OF w assms(2)] have "path = p # split_on (CHR ''.'') rest"
      "lookup_path mm (split_on (CHR ''.'') rest) = Some m" by simp_all
    then show ?thesis
      using d whole 2 by (auto simp: ref_of_path_def split: list.split)
        (metis join_split split_on_nonempty)+
  next
    case 3
    with assms split \<open>ref \<noteq> []\<close> show ?thesis by (simp add: parseRef_def)
  qed
qed

text \<open>Names without separators, as IEC 61850 prescribes them.\<close>

definition clean_path :: "string list \<Rightarrow> bool" where
  "clean_path path \<longleftrightarrow>
     (case path of
        [] \<Rightarrow> True
      | ld # rest \<Rightarrow> ld \<noteq> [] \<and> CHR ''/'' \<notin> set ld \<and>
          (\<forall>r \<in> set rest. CHR ''/'' \<notin> set r \<and> CHR ''.'' \<notin> set r))"

lemma slash_free_join:
  "\<forall>r \<in> set rs. CHR ''/'' \<notin> set r \<Longrightarrow> CHR ''/'' \<notin> set (join_with ''.'' rs)"
  by (induction "''.''" rs rule: join_with.induct) auto

lemma parseRef_ref_of_path:
  assumes "lookup_path model path = Some m" and "clean_path path"
  shows "parseRef model (ref_of_path path) = Val (m, path)"
proof (cases path rule: list_cases3)
  case Nil
  with assms show ?thesis by (simp add: parseRef_def ref_of_path_def)
next
  case (One ld)
  with assms show ?thesis
    by (cases model) (auto simp: parseRef_def ref_of_path_def clean_path_def split_on_none dget_def
        dhas_iff split: option.splits)
next
  case (More ld r rs)
  let ?rest = "join_with ''.'' (r # rs)"
  have split: "split_on (CHR ''/'') (ref_of_path path) = [ld, ?rest]"
    using assms(2) More slash_free_join [of "r # rs"]
    by (simp add: ref_of_path_def clean_path_def split_on_app split_on_none del: join_with.simps)
  have dots: "split_on (CHR ''.'') ?rest = r # rs"
    using assms(2) More by (intro split_join) (auto simp: clean_path_def)
  from assms(1) More obtain d mm where "model = PDict d" "map_of d ld = Some mm"
      "lookup_path mm (r # rs) = Some m"
    by (cases model) (auto split: option.splits)
  then show ?thesis
    using split dots lookup_walk [of mm "r # rs" m "[ld]"] More
    by (simp add: parseRef_def dget_def dhas_iff ref_of_path_def del: join_with.simps walk.simps)
qed

end
