(* ===== verification/Data_Model_Spec.thy ===== *)
theory Data_Model_Spec
  imports Data_Model
begin

text \<open>The properties of the data model's references, with a small model of one device.\<close>

definition demo_leaf :: pv where
  "demo_leaf = PDict [(''reftype'', PStr ''DA''), (''FC'', PStr ''ST''), (''value'', PStr ''7''),
                      (''type'', PStr ''integer'')]"

definition demo_model :: pv where
  "demo_model = PDict [(''LD'', PDict [(''LN'', PDict [(''Pos'', PDict [(''stVal'', demo_leaf)])])])]"

lemma demo_lookup [simp]:
  "lookup_path demo_model [''LD'', ''LN'', ''Pos'', ''stVal''] = Some demo_leaf"
  by (simp add: demo_model_def)

text \<open>
  C14 A path of clean names that exists in the model and its reference are two forms of the
  same thing: \<open>getRef\<close> gives the reference of the path with the value there, and \<open>parseRef\<close>
  gives back the value and the path.
\<close>
theorem reference_roundtrip:
  assumes "lookup_path model path = Some m" and "clean_path path"
  shows "getRef model path = Val (ref_of_path path, m) \<and>
         parseRef model (ref_of_path path) = Val (m, path)"
  using getRef_path [OF assms(1)] parseRef_ref_of_path [OF assms] by simp

lemma reference_roundtrip_witness:
  "parseRef demo_model ''LD/LN.Pos.stVal'' = Val (demo_leaf, [''LD'', ''LN'', ''Pos'', ''stVal''])"
  using reference_roundtrip [of demo_model "[''LD'', ''LN'', ''Pos'', ''stVal'']" demo_leaf]
  by (simp add: clean_path_def ref_of_path_def)

text \<open>
  C32 Whatever \<open>parseRef\<close> finds is what the reference says: the path spells the reference, the
  value is the one at that path, and \<open>getRef\<close> of the path gives the reference back.
\<close>
theorem parseRef_sound:
  assumes "parseRef model ref = Val (m, path)" and "path \<noteq> []"
  shows "ref_of_path path = ref \<and> lookup_path model path = Some m \<and> getRef model path = Val (ref, m)"
  using parseRef_path [OF assms] getRef_path [of model path m] by simp

lemma parseRef_sound_witness:
  "getRef demo_model [''LD'', ''LN'', ''Pos''] = Val (''LD/LN.Pos'', PDict [(''stVal'', demo_leaf)])"
proof -
  have "parseRef demo_model ''LD/LN.Pos'' =
        Val (PDict [(''stVal'', demo_leaf)], [''LD'', ''LN'', ''Pos''])"
    by (simp add: parseRef_def demo_model_def dhas_def dget_def)
  from parseRef_sound [OF this] show ?thesis by simp
qed

section \<open>Failures\<close>

text \<open>
  A walk fails where it meets a string that holds the next name, and nowhere else.
\<close>

definition stopped_at :: "pv \<Rightarrow> string list \<Rightarrow> nat \<Rightarrow> bool" where
  "stopped_at mm names i \<longleftrightarrow>
     (case lookup_path mm (take i names) of
        Some (PStr s) \<Rightarrow> i < length names \<and> has_substring s (names ! i)
      | _ \<Rightarrow> False)"

lemma stopped_at_iff:
  "stopped_at mm names i \<longleftrightarrow>
     (\<exists>s. i < length names \<and> lookup_path mm (take i names) = Some (PStr s) \<and> has_substring s (names ! i))"
  by (auto simp: stopped_at_def split: option.splits pv.splits)

lemma stopped_at_step:
  assumes "map_of d r = Some m"
  shows "(\<exists>i. stopped_at (PDict d) (r # rs) i) \<longleftrightarrow> (\<exists>i. stopped_at m rs i)"
proof
  assume "\<exists>i. stopped_at (PDict d) (r # rs) i"
  then obtain i where "stopped_at (PDict d) (r # rs) i" by blast
  with assms show "\<exists>i. stopped_at m rs i"
    by (cases i) (auto simp: stopped_at_iff)
next
  assume "\<exists>i. stopped_at m rs i"
  then obtain i where "stopped_at m rs i" by blast
  with assms have "stopped_at (PDict d) (r # rs) (Suc i)" by (simp add: stopped_at_iff)
  then show "\<exists>i. stopped_at (PDict d) (r # rs) i" by blast
qed

lemma stopped_at_missing:
  assumes "map_of d r = None"
  shows "\<not> stopped_at (PDict d) (r # rs) i"
  using assms by (cases i) (simp_all add: stopped_at_def)

lemma stopped_at_string: "(\<exists>i. stopped_at (PStr s) (r # rs) i) \<longleftrightarrow> has_substring s r"
proof
  assume "\<exists>i. stopped_at (PStr s) (r # rs) i"
  then obtain i where "stopped_at (PStr s) (r # rs) i" by blast
  then show "has_substring s r" by (cases i) (simp_all add: stopped_at_def)
next
  assume "has_substring s r"
  then have "stopped_at (PStr s) (r # rs) 0" by (simp add: stopped_at_def)
  then show "\<exists>i. stopped_at (PStr s) (r # rs) i" by blast
qed

lemma walk_fails: "walk rs mm path = Exn e \<longleftrightarrow> e = TypeError \<and> (\<exists>i. stopped_at mm rs i)"
proof (induction rs arbitrary: mm path)
  case Nil
  then show ?case by (simp add: stopped_at_def split: option.splits pv.splits)
next
  case (Cons r rs)
  show ?case
  proof (cases mm)
    case (PStr s)
    then show ?thesis using stopped_at_string [of s r rs] by auto
  next
    case (PDict d)
    with Cons.IH stopped_at_step [of d r _ rs] stopped_at_missing [of d r rs] show ?thesis
      by (auto simp: dget_def dhas_iff split: option.splits)
  qed
qed

lemma walk_returns: "walk rs mm path \<noteq> NoReturn"
proof (induction rs arbitrary: mm path)
  case (Cons r rs)
  then show ?case
    by (cases mm) (auto simp: dget_def split: option.splits)
qed simp

text \<open>
  C33 \<open>parseRef\<close> on a dictionary always ends, and it fails exactly when the reference has the
  form \<open>LD/n0.n1. ...\<close> and the model holds a string at \<open>LD\<close>, \<open>n0\<close>, ... up to the name before
  some \<open>ni\<close>, that contains \<open>ni\<close> as a substring: the code then takes the string for a
  dictionary, and the error is TypeError.
\<close>
theorem parseRef_fails_only_on_strings:
  assumes "model = PDict d"
  shows "parseRef model ref \<noteq> NoReturn \<and>
         (parseRef model ref = Exn e \<longleftrightarrow>
            e = TypeError \<and>
            (\<exists>LD rest i s. split_on (CHR ''/'') ref = [LD, rest] \<and>
               i < length (split_on (CHR ''.'') rest) \<and>
               lookup_path model (LD # take i (split_on (CHR ''.'') rest)) = Some (PStr s) \<and>
               has_substring s (split_on (CHR ''.'') rest ! i)))"
proof (cases "split_on (CHR ''/'') ref" rule: list_cases3)
  case (More a b cs)
  then have "ref \<noteq> []" by auto
  show ?thesis
  proof (cases cs)
    case Nil
    show ?thesis
    proof (cases "map_of d a")
      case None
      with More Nil assms \<open>ref \<noteq> []\<close> show ?thesis by (auto simp: parseRef_def dhas_iff)
    next
      case (Some mm)
      let ?names = "split_on (CHR ''.'') b"
      have eq: "parseRef model ref = walk ?names mm [a]"
        using More Nil assms Some \<open>ref \<noteq> []\<close> by (auto simp: parseRef_def dget_def dhas_iff)
      have lk: "lookup_path model (a # p) = lookup_path mm p" for p
        using Some assms by simp
      show ?thesis
        unfolding eq walk_fails stopped_at_iff using More Nil walk_returns lk by auto
    qed
  next
    case (Cons c cs')
    with More \<open>ref \<noteq> []\<close> show ?thesis by (auto simp: parseRef_def)
  qed
next
  case Nil
  then show ?thesis by simp
next
  case (One x)
  with assms show ?thesis by (auto simp: parseRef_def dget_def dhas_iff split: option.splits)
qed

lemma parseRef_fails_only_on_strings_witness:
  "parseRef demo_model ''LD/LN.Pos.stVal.type.int'' = Exn TypeError \<and>
   parseRef demo_model ''LD/LN.Pos.stVal.kind.int'' \<noteq> Exn TypeError"
proof -
  have dict: "\<exists>d. demo_model = PDict d" by (simp add: demo_model_def)
  have "lookup_path demo_model [''LD'', ''LN'', ''Pos'', ''stVal'', ''type''] = Some (PStr ''integer'')"
    by (simp add: demo_model_def demo_leaf_def)
  moreover have "has_substring ''integer'' ''int''" by code_simp
  ultimately have "parseRef demo_model ''LD/LN.Pos.stVal.type.int'' = Exn TypeError"
    using dict parseRef_fails_only_on_strings [of demo_model _ "''LD/LN.Pos.stVal.type.int''" TypeError]
    by (auto intro!: exI [of _ 4])
  moreover have "parseRef demo_model ''LD/LN.Pos.stVal.kind.int'' \<noteq> Exn TypeError"
    by (simp add: parseRef_def demo_model_def demo_leaf_def dhas_def dget_def)
  ultimately show ?thesis by blast
qed

section \<open>Printing all references\<close>

text \<open>The entries \<open>printrefs\<close> shows, each with its path, and the models it can show.\<close>

fun shown :: "pv \<Rightarrow> (string list \<times> pv) list"
  and shown_items :: "(string \<times> pv) list \<Rightarrow> (string list \<times> pv) list" where
  "shown (PStr s) = []"
| "shown (PDict d) = shown_items d"
| "shown_items [] = []"
| "shown_items ((k, v) # d) =
     (case lookup_path v [''value''] of
        Some x \<Rightarrow> [([k], x)]
      | None \<Rightarrow> map (\<lambda>(p, x). (k # p, x)) (shown v)) @ shown_items d"

fun printable :: "pv \<Rightarrow> bool"
  and printable_items :: "(string \<times> pv) list \<Rightarrow> bool" where
  "printable (PStr s) = False"
| "printable (PDict d) = printable_items d"
| "printable_items [] = True"
| "printable_items ((k, v) # d) =
     ((lookup_path v [''value''] \<noteq> None \<or> printable v) \<and> printable_items d)"

lemma child_ref_path: "child_ref (ref_of_path p) (length p) k = ref_of_path (p @ [k])"
proof (cases p rule: list_cases3)
  case (More a b cs)
  have "join_with ''.'' ((b # cs) @ [k]) = join_with ''.'' (b # cs) @ ''.'' @ k"
    by (simp add: join_dots del: join_with.simps)
  with More show ?thesis
    by (simp add: child_ref_def ref_of_path_def del: join_with.simps)
qed (simp_all add: child_ref_def ref_of_path_def)

definition ref_line :: "string list \<times> pv \<Rightarrow> string" where
  "ref_line e = ref_of_path (fst e) @ '':'' @ [char_of (9 :: nat)] @ py_str (snd e)"

abbreviation at_path :: "string list \<Rightarrow> string list \<times> pv \<Rightarrow> string list \<times> pv" where
  "at_path p e \<equiv> (p @ fst e, snd e)"

lemma printrefs_shown:
  "printable v \<Longrightarrow> printrefs v (ref_of_path p) (length p) out =
     (Val (), out @ map (ref_line \<circ> at_path p) (shown v))"
  "printable_items d \<Longrightarrow> printrefs_items d (ref_of_path p) (length p) out =
     (Val (), out @ map (ref_line \<circ> at_path p) (shown_items d))"
proof (induction v and d arbitrary: p out and p out rule: shown_shown_items.induct)
  case (4 k v d)
  show ?case
  proof (cases "lookup_path v [''value'']")
    case None
    then have no: "\<not> py_in ''value'' v"
      using 4 by (cases v) (auto simp: dhas_iff split: option.splits)
    have "printrefs v (child_ref (ref_of_path p) (length p) k) (Suc (length p)) out =
        (Val (), out @ map (ref_line \<circ> at_path (p @ [k])) (shown v))"
      using "4.IH"(1) [OF None, of "p @ [k]" out] "4.prems" None by (simp add: child_ref_path)
    with no "4.IH"(2) "4.prems" None show ?thesis
      by (simp add: andthen_def bnd_def comp_def case_prod_beta)
  next
    case (Some x)
    then obtain e where e: "v = PDict e" "map_of e ''value'' = Some x"
      by (cases v) (auto split: option.splits)
    with "4.IH"(2) "4.prems" Some show ?thesis
      by (simp add: andthen_def bnd_def dhas_iff dget_def child_ref_path ref_line_def)
  qed
qed simp_all

lemma demo_shown [simp]:
  "shown demo_model = [([''LD'', ''LN'', ''Pos'', ''stVal''], PStr ''7'')]" "printable demo_model"
  by (simp_all add: demo_model_def demo_leaf_def)

text \<open>
  \<open>printrefs\<close> of a model prints one line for every entry with a value, in order, and the
  reference on the line is that of the entry's path.
\<close>
theorem printrefs_prints_paths:
  assumes "printable model"
  shows "printrefs model [] 0 out =
         (Val (), out @ map (\<lambda>(p, x). ref_of_path p @ '':'' @ [char_of (9 :: nat)] @ py_str x) (shown model))"
  using printrefs_shown(1) [OF assms, of "[]" out]
  by (simp add: ref_of_path_def [of "[]"] comp_def ref_line_def case_prod_beta)

lemma printrefs_prints_paths_witness:
  "printrefs demo_model [] 0 [] = (Val (), [''LD/LN.Pos.stVal:'' @ [char_of (9 :: nat)] @ ''7''])"
  using printrefs_prints_paths [of demo_model "[]"]
  by (simp add: ref_of_path_def)

end
