(* ===== verification/C_Api.thy ===== *)
theory C_Api
  imports Py_Str Py_Struct Data_Model
begin

text \<open>
  The C library behind \<^verbatim>\<open>lib61850\<close>, which is not part of the repository. Its functions are
  a parameter, the record \<open>capi\<close>. Every call that can have an effect is recorded in a
  trace, and every answer may depend on the whole trace before it: the parameter stands for
  any library and any server behind it. Addresses are natural numbers, 0 is NULL. A linked
  list is its address and the strings it holds, in order (the library's lists end).
\<close>

section \<open>Calls\<close>

type_synonym addr = nat

text \<open>The value constructors the client calls, with the argument converted to the C type.\<close>

datatype mms_new =
    NewVisibleString string | NewBoolean bool | NewInteger "32 word" | NewUnsigned "32 word"
  | NewMmsString string | NewFloat cfloat | NewBinaryTime bool | NewBitString "32 word"
  | NewUtcTime "64 word" | NewOctetString "32 word" "32 word"

text \<open>
  Calls with an effect, in the order made: the arguments, then the address and the error
  code the library answered. The last three are the client's own callbacks.
\<close>

datatype cev =
    EDataDirectory addr string addr int
  | EDeviceList addr addr int
  | EDeviceDirectory addr string addr int
  | ENodeDirectory addr string int addr int
  | EDataSetDirectory addr string addr int
  | EListDestroy addr
  | EReadObject addr string int addr int
  | EWriteObject addr string int addr int
  | EValueNew mms_new addr
  | ESetBits addr "32 word"
  | EValueDelete addr
  | ECreate addr
  | EConnect addr string int int
  | EDestroy addr
  | EGetRCB addr string addr addr int
  | ESetRptEna addr bool
  | ESetGI addr bool
  | ESetRCB addr addr int bool int
  | EInstallReport addr string "string option"
  | ECtlCreate string addr addr
  | ESetTermHandler addr string
  | ESetOrigin addr string int
  | EOperate addr addr bool
  | ESelect addr bool
  | ESelectValue addr addr bool
  | ECancel addr bool
  | EReadCb string pv
  | ERptCb string pv
  | ETermCb string

type_synonym trace = "cev list"

section \<open>The library as a parameter\<close>

record capi =
  c_typeString :: "trace \<Rightarrow> addr \<Rightarrow> string"
  c_boolean :: "trace \<Rightarrow> addr \<Rightarrow> bool"
  c_binaryTime :: "trace \<Rightarrow> addr \<Rightarrow> 64 word"
  c_bitString :: "trace \<Rightarrow> addr \<Rightarrow> 32 word"
  c_float :: "trace \<Rightarrow> addr \<Rightarrow> cfloat"
  c_unixTime :: "trace \<Rightarrow> addr \<Rightarrow> 32 word"
  c_int64 :: "trace \<Rightarrow> addr \<Rightarrow> 64 word"
  c_string :: "trace \<Rightarrow> addr \<Rightarrow> string option"
  c_octets :: "trace \<Rightarrow> addr \<Rightarrow> byte list"
  c_uint32 :: "trace \<Rightarrow> addr \<Rightarrow> 32 word"
  c_utcTime :: "trace \<Rightarrow> addr \<Rightarrow> 64 word"
  c_element :: "trace \<Rightarrow> addr \<Rightarrow> int \<Rightarrow> addr"
  c_new :: "trace \<Rightarrow> mms_new \<Rightarrow> addr"
  c_dataDirectory :: "trace \<Rightarrow> addr \<Rightarrow> string \<Rightarrow> addr \<times> string list \<times> int"
  c_deviceList :: "trace \<Rightarrow> addr \<Rightarrow> addr \<times> string list \<times> int"
  c_deviceDirectory :: "trace \<Rightarrow> addr \<Rightarrow> string \<Rightarrow> addr \<times> string list \<times> int"
  c_nodeDirectory :: "trace \<Rightarrow> addr \<Rightarrow> string \<Rightarrow> int \<Rightarrow> addr \<times> string list \<times> int"
  c_dataSetDirectory :: "trace \<Rightarrow> addr \<Rightarrow> string \<Rightarrow> addr \<times> string list \<times> int"
  c_readObject :: "trace \<Rightarrow> addr \<Rightarrow> string \<Rightarrow> int \<Rightarrow> addr \<times> int"
  c_writeObject :: "trace \<Rightarrow> addr \<Rightarrow> string \<Rightarrow> int \<Rightarrow> addr \<Rightarrow> int"
  c_fcFromString :: "string \<Rightarrow> int"
  c_create :: "trace \<Rightarrow> addr"
  c_connect :: "trace \<Rightarrow> addr \<Rightarrow> string \<Rightarrow> int \<Rightarrow> int"
  c_getRCB :: "trace \<Rightarrow> addr \<Rightarrow> string \<Rightarrow> addr \<Rightarrow> addr \<times> int"
  c_setRCB :: "trace \<Rightarrow> addr \<Rightarrow> addr \<Rightarrow> int \<Rightarrow> bool \<Rightarrow> int"
  c_rptId :: "trace \<Rightarrow> addr \<Rightarrow> string option"
  c_reason :: "trace \<Rightarrow> addr \<Rightarrow> int \<Rightarrow> int"
  c_dataSetValues :: "trace \<Rightarrow> addr \<Rightarrow> addr"
  c_ctlCreate :: "trace \<Rightarrow> string \<Rightarrow> addr \<Rightarrow> addr"
  c_ctlModel :: "trace \<Rightarrow> addr \<Rightarrow> int"
  c_ctlValType :: "trace \<Rightarrow> addr \<Rightarrow> int"
  c_operate :: "trace \<Rightarrow> addr \<Rightarrow> addr \<Rightarrow> bool"
  c_select :: "trace \<Rightarrow> addr \<Rightarrow> bool"
  c_selectValue :: "trace \<Rightarrow> addr \<Rightarrow> addr \<Rightarrow> bool"
  c_cancel :: "trace \<Rightarrow> addr \<Rightarrow> bool"
  c_lastError :: "trace \<Rightarrow> addr \<Rightarrow> int \<times> int"

text \<open>Two conversions of Python's own that round: \<open>float(s)\<close> and \<open>str(x)\<close> of a float.\<close>

record pyfloat =
  float_of_str :: "string \<Rightarrow> cfloat option"
  str_of_float :: "cfloat \<Rightarrow> string"

section \<open>Calls with an effect\<close>

definition emit :: "cev \<Rightarrow> (trace, unit) prog" where
  "emit e h = (Val (), h @ [e])"

definition call_dataDirectory ::
  "capi \<Rightarrow> addr \<Rightarrow> string \<Rightarrow> (trace, addr \<times> string list \<times> int) prog" where
  "call_dataDirectory C con ref h =
     (let (l, xs, err) = c_dataDirectory C h con ref
      in (Val (l, xs, err), h @ [EDataDirectory con ref l err]))"

definition call_deviceList :: "capi \<Rightarrow> addr \<Rightarrow> (trace, addr \<times> string list \<times> int) prog" where
  "call_deviceList C con h =
     (let (l, xs, err) = c_deviceList C h con
      in (Val (l, xs, err), h @ [EDeviceList con l err]))"

definition call_deviceDirectory ::
  "capi \<Rightarrow> addr \<Rightarrow> string \<Rightarrow> (trace, addr \<times> string list \<times> int) prog" where
  "call_deviceDirectory C con ld h =
     (let (l, xs, err) = c_deviceDirectory C h con ld
      in (Val (l, xs, err), h @ [EDeviceDirectory con ld l err]))"

definition call_nodeDirectory ::
  "capi \<Rightarrow> addr \<Rightarrow> string \<Rightarrow> int \<Rightarrow> (trace, addr \<times> string list \<times> int) prog" where
  "call_nodeDirectory C con ref cls h =
     (let (l, xs, err) = c_nodeDirectory C h con ref cls
      in (Val (l, xs, err), h @ [ENodeDirectory con ref cls l err]))"

definition call_dataSetDirectory ::
  "capi \<Rightarrow> addr \<Rightarrow> string \<Rightarrow> (trace, addr \<times> string list \<times> int) prog" where
  "call_dataSetDirectory C con ref h =
     (let (l, xs, err) = c_dataSetDirectory C h con ref
      in (Val (l, xs, err), h @ [EDataSetDirectory con ref l err]))"

definition call_readObject ::
  "capi \<Rightarrow> addr \<Rightarrow> string \<Rightarrow> int \<Rightarrow> (trace, addr \<times> int) prog" where
  "call_readObject C con ref fc h =
     (let (v, err) = c_readObject C h con ref fc
      in (Val (v, err), h @ [EReadObject con ref fc v err]))"

definition call_writeObject ::
  "capi \<Rightarrow> addr \<Rightarrow> string \<Rightarrow> int \<Rightarrow> addr \<Rightarrow> (trace, int) prog" where
  "call_writeObject C con ref fc v h =
     (let err = c_writeObject C h con ref fc v
      in (Val err, h @ [EWriteObject con ref fc v err]))"

definition call_new :: "capi \<Rightarrow> mms_new \<Rightarrow> (trace, addr) prog" where
  "call_new C k h = (let v = c_new C h k in (Val v, h @ [EValueNew k v]))"

section \<open>Ownership of linked lists\<close>

text \<open>
  How often a list address has been handed out and not yet been destroyed. NULL is not a
  list.
\<close>

fun ev_lists :: "cev \<Rightarrow> addr \<Rightarrow> int" where
  "ev_lists (EDataDirectory _ _ l _) a = (if l = a \<and> a \<noteq> 0 then 1 else 0)"
| "ev_lists (EDeviceList _ l _) a = (if l = a \<and> a \<noteq> 0 then 1 else 0)"
| "ev_lists (EDeviceDirectory _ _ l _) a = (if l = a \<and> a \<noteq> 0 then 1 else 0)"
| "ev_lists (ENodeDirectory _ _ _ l _) a = (if l = a \<and> a \<noteq> 0 then 1 else 0)"
| "ev_lists (EDataSetDirectory _ _ l _) a = (if l = a \<and> a \<noteq> 0 then 1 else 0)"
| "ev_lists (EListDestroy l) a = (if l = a \<and> a \<noteq> 0 then -1 else 0)"
| "ev_lists _ a = 0"

text \<open>The same for MMS values: results of reads and of constructors, and deletions.\<close>

fun ev_values :: "cev \<Rightarrow> addr \<Rightarrow> int" where
  "ev_values (EReadObject _ _ _ v _) a = (if v = a \<and> a \<noteq> 0 then 1 else 0)"
| "ev_values (EValueNew _ v) a = (if v = a \<and> a \<noteq> 0 then 1 else 0)"
| "ev_values (EValueDelete v) a = (if v = a \<and> a \<noteq> 0 then -1 else 0)"
| "ev_values _ a = 0"

lemma emit_run [simp, prog_simps]: "emit e h = (Val (), h @ [e])"
  by (simp add: emit_def)

lemmas call_defs = call_dataDirectory_def call_deviceList_def call_deviceDirectory_def
  call_nodeDirectory_def call_dataSetDirectory_def call_readObject_def call_writeObject_def
  call_new_def

end
