(* ===== verification/Lib_Consts.thy ===== *)
theory Lib_Consts
  imports Main
begin

text \<open>
  The constants of \<^verbatim>\<open>tools/python_client/lib61850.py\<close> that the client names: MMS types,
  directory classes, control models, flags of a report control block.
\<close>

definition MMS_ARRAY :: int where "MMS_ARRAY = 0"
definition MMS_STRUCTURE :: int where "MMS_STRUCTURE = 1"
definition MMS_BOOLEAN :: int where "MMS_BOOLEAN = 2"
definition MMS_BIT_STRING :: int where "MMS_BIT_STRING = 3"
definition MMS_INTEGER :: int where "MMS_INTEGER = 4"
definition MMS_UNSIGNED :: int where "MMS_UNSIGNED = 5"
definition MMS_FLOAT :: int where "MMS_FLOAT = 6"
definition MMS_OCTET_STRING :: int where "MMS_OCTET_STRING = 7"
definition MMS_VISIBLE_STRING :: int where "MMS_VISIBLE_STRING = 8"
definition MMS_GENERALIZED_TIME :: int where "MMS_GENERALIZED_TIME = 9"
definition MMS_BINARY_TIME :: int where "MMS_BINARY_TIME = 10"
definition MMS_BCD :: int where "MMS_BCD = 11"
definition MMS_OBJ_ID :: int where "MMS_OBJ_ID = 12"
definition MMS_STRING :: int where "MMS_STRING = 13"
definition MMS_UTC_TIME :: int where "MMS_UTC_TIME = 14"
definition MMS_DATA_ACCESS_ERROR :: int where "MMS_DATA_ACCESS_ERROR = 15"

definition ACSI_CLASS_DATA_OBJECT :: int where "ACSI_CLASS_DATA_OBJECT = 0"
definition ACSI_CLASS_DATA_SET :: int where "ACSI_CLASS_DATA_SET = ACSI_CLASS_DATA_OBJECT + 1"
definition ACSI_CLASS_BRCB :: int where "ACSI_CLASS_BRCB = ACSI_CLASS_DATA_SET + 1"
definition ACSI_CLASS_URCB :: int where "ACSI_CLASS_URCB = ACSI_CLASS_BRCB + 1"

definition CONTROL_MODEL_SBO_NORMAL :: int where "CONTROL_MODEL_SBO_NORMAL = 2"
definition CONTROL_MODEL_DIRECT_ENHANCED :: int where "CONTROL_MODEL_DIRECT_ENHANCED = 3"
definition CONTROL_MODEL_SBO_ENHANCED :: int where "CONTROL_MODEL_SBO_ENHANCED = 4"

definition IED_ERROR_OK :: int where "IED_ERROR_OK = 0"
definition IEC61850_REASON_NOT_INCLUDED :: int where "IEC61850_REASON_NOT_INCLUDED = 0"
definition RCB_ELEMENT_RPT_ENA :: int where "RCB_ELEMENT_RPT_ENA = 2"
definition RCB_ELEMENT_GI :: int where "RCB_ELEMENT_GI = 1024"

lemmas mms_type_defs = MMS_ARRAY_def MMS_STRUCTURE_def MMS_BOOLEAN_def MMS_BIT_STRING_def
  MMS_INTEGER_def MMS_UNSIGNED_def MMS_FLOAT_def MMS_OCTET_STRING_def MMS_VISIBLE_STRING_def
  MMS_GENERALIZED_TIME_def MMS_BINARY_TIME_def MMS_BCD_def MMS_OBJ_ID_def MMS_STRING_def
  MMS_UTC_TIME_def MMS_DATA_ACCESS_ERROR_def

lemmas acsi_class_defs = ACSI_CLASS_URCB_def ACSI_CLASS_BRCB_def ACSI_CLASS_DATA_SET_def
  ACSI_CLASS_DATA_OBJECT_def

lemmas control_model_defs = CONTROL_MODEL_SBO_NORMAL_def CONTROL_MODEL_DIRECT_ENHANCED_def
  CONTROL_MODEL_SBO_ENHANCED_def

end
