(* ===== verification/Client_Values.thy ===== *)
theory Client_Values
  imports C_Api Lib_Consts
begin

text \<open>
  \<open>printValue\<close> and \<open>getMMsValue\<close> of the client: an MMS value as the pair of its printed
  form and its type name, and a Python value as a new MMS value of a given type.
\<close>

section \<open>Printing\<close>

definition py_bool_str :: "bool \<Rightarrow> string" where
  "py_bool_str b = (if b then ''True'' else ''False'')"

text \<open>\<open>p.decode("utf-8")\<close> of a \<open>char *\<close> result: None has no such attribute.\<close>

definition decode_opt :: "string option \<Rightarrow> string result" where
  "decode_opt s = (case s of None \<Rightarrow> Exn AttributeError | Some s \<Rightarrow> decode_utf8 s)"

definition printValue :: "capi \<Rightarrow> trace \<Rightarrow> addr \<Rightarrow> (string \<times> string) result" where
  "printValue C h value =
     rbind (decode_utf8 (c_typeString C h value)) (\<lambda>ty.
       if ty = ''boolean'' then Val (py_bool_str (c_boolean C h value), ty)
       else if ty = ''array'' then Val (''arr'', ty)
       else if ty = ''bcd'' then Val (''bcd'', ty)
       else if ty = ''binary-time'' then Val (int_str (uint (c_binaryTime C h value)), ty)
       else if ty = ''bit-string'' then Val (int_str (uint (c_bitString C h value)), ty)
       else if ty = ''access-error'' then Val (''ACCESS ERROR'', ty)
       else if ty = ''float'' then Val (fmt_f (c_float C h value), ty)
       else if ty = ''generalized-time'' then Val (int_str (uint (c_unixTime C h value)), ty)
       else if ty = ''integer'' then Val (int_str (sint (c_int64 C h value)), ty)
       else if ty = ''oid'' then Val (''OID ERROR'', ty)
       else if ty = ''mms-string'' then
         rbind (decode_opt (c_string C h value)) (\<lambda>s. Val (s, ty))
       else if ty = ''structure'' then Val (''STRUCTURE'', ty)
       else if ty = ''octet-string'' then
         Val (concat (map (\<lambda>b. hex2 (unat b)) (c_octets C h value)), ty)
       else if ty = ''unsigned'' then Val (int_str (uint (c_uint32 C h value)), ty)
       else if ty = ''utc-time'' then Val (int_str (uint (c_utcTime C h value)), ty)
       else if ty = ''visible-string'' then
         rbind (decode_opt (c_string C h value)) (\<lambda>s. Val (s, ty))
       else if ty = ''unknown(error)'' then Val (''UNKNOWN ERROR'', ty)
       else Val (''CANNOT FIND TYPE'', ty))"

section \<open>Python arguments\<close>

datatype pyarg = AStr string | ABool bool | AInt int | AFloat cfloat | ABytearray "byte list"

text \<open>\<open>float(i)\<close> of an integer is exact below \<open>2\<^sup>53\<close>; beyond it Python rounds.\<close>

definition trunc_float :: "cfloat \<Rightarrow> int result" where
  "trunc_float x =
     (case x of
        FNan \<Rightarrow> Exn ValueError
      | FInf s \<Rightarrow> Exn OverflowError
      | FFin s m e \<Rightarrow>
          let n = int (if 0 \<le> e then m * 2 ^ nat e else m div 2 ^ nat (- e))
          in Val (if s then - n else n))"

fun py_int :: "pyarg \<Rightarrow> int result" where
  "py_int (AStr s) = py_int_of_str s"
| "py_int (ABool b) = Val (if b then 1 else 0)"
| "py_int (AInt i) = Val i"
| "py_int (AFloat x) = trunc_float x"
| "py_int (ABytearray bs) = py_int_of_str (map (\<lambda>b. char_of (unat b)) bs)"

fun py_float :: "pyfloat \<Rightarrow> pyarg \<Rightarrow> cfloat result" where
  "py_float F (AStr s) = (case float_of_str F s of None \<Rightarrow> Exn ValueError | Some x \<Rightarrow> Val x)"
| "py_float F (ABool b) = Val (FFin False (if b then 1 else 0) 0)"
| "py_float F (AInt i) =
     (case float_of_str F (int_str i) of
        Some (FInf s) \<Rightarrow> Exn OverflowError
      | Some x \<Rightarrow> Val x
      | None \<Rightarrow> Exn ValueError)"
| "py_float F (AFloat x) = Val x"
| "py_float F (ABytearray bs) =
     (case float_of_str F (map (\<lambda>b. char_of (unat b)) bs) of None \<Rightarrow> Exn ValueError | Some x \<Rightarrow> Val x)"

definition repr_byte :: "byte \<Rightarrow> string" where
  "repr_byte b = (if 127 \<le> unat b then [char_of (92 :: nat), CHR ''x''] @ hex2 (unat b)
                  else repr_char (char_of (39 :: nat)) (char_of (unat b)))"

fun py_str_arg :: "pyfloat \<Rightarrow> pyarg \<Rightarrow> string" where
  "py_str_arg F (AStr s) = s"
| "py_str_arg F (ABool b) = py_bool_str b"
| "py_str_arg F (AInt i) = int_str i"
| "py_str_arg F (AFloat x) = str_of_float F x"
| "py_str_arg F (ABytearray bs) =
     ''bytearray(b'' @ [char_of (39 :: nat)] @ concat (map repr_byte bs) @ [char_of (39 :: nat)] @ '')''"

text \<open>
  \<open>(type(value) is str and value.lower() == "true") or (type(value) is bool and value == True)\<close>
\<close>

fun is_true_arg :: "pyarg \<Rightarrow> bool" where
  "is_true_arg (AStr s) = (str_lower s = ''true'')"
| "is_true_arg (ABool b) = b"
| "is_true_arg _ = False"

section \<open>Constructing a value\<close>

text \<open>
  A constructor called with an integer argument: \<open>int(value)\<close> first, then ctypes' silent
  truncation to the C type.
\<close>

definition new_of_int :: "capi \<Rightarrow> (int \<Rightarrow> mms_new) \<Rightarrow> pyarg \<Rightarrow> (trace, addr option) prog" where
  "new_of_int C mk value =
     bnd (lift (py_int value)) (\<lambda>i. bnd (call_new C (mk i)) (\<lambda>v. ret (Some v)))"

text \<open>
  \<open>typeVal\<close> is the type's name and \<open>typeval\<close> its number; each branch accepts either. The
  bit-string branch returns the result of \<open>MmsValue_setBitStringFromInteger\<close>, which
  \<^verbatim>\<open>lib61850\<close> declares with \<open>restype = None\<close>. The octet-string branch fails at its first
  step for anything but a \<open>bytearray\<close> and at \<open>int(buf)\<close> for a \<open>bytearray\<close>.
\<close>

definition getMMsValue ::
  "capi \<Rightarrow> pyfloat \<Rightarrow> string \<Rightarrow> pyarg \<Rightarrow> int \<Rightarrow> int \<Rightarrow> (trace, addr option) prog" where
  "getMMsValue C F typeVal value sz typeval =
     (if typeVal = ''visible-string'' \<or> typeval = MMS_VISIBLE_STRING then
        bnd (call_new C (NewVisibleString (py_str_arg F value))) (\<lambda>v. ret (Some v))
      else if typeVal = ''boolean'' \<or> typeval = MMS_BOOLEAN then
        bnd (call_new C (NewBoolean (is_true_arg value))) (\<lambda>v. ret (Some v))
      else if typeVal = ''integer'' \<or> typeval = MMS_INTEGER then
        new_of_int C (\<lambda>i. NewInteger (word_of_int i)) value
      else if typeVal = ''unsigned'' \<or> typeval = MMS_UNSIGNED then
        new_of_int C (\<lambda>i. NewUnsigned (word_of_int i)) value
      else if typeVal = ''mms-string'' \<or> typeval = MMS_STRING then
        bnd (call_new C (NewMmsString (py_str_arg F value))) (\<lambda>v. ret (Some v))
      else if typeVal = ''float'' \<or> typeval = MMS_FLOAT then
        bnd (lift (py_float F value)) (\<lambda>x.
        bnd (call_new C (NewFloat x)) (\<lambda>v. ret (Some v)))
      else if typeVal = ''binary-time'' \<or> typeval = MMS_BINARY_TIME then
        new_of_int C (\<lambda>i. NewBinaryTime (i \<noteq> 0)) value
      else if typeVal = ''bit-string'' \<or> typeval = MMS_BIT_STRING then
        bnd (call_new C (NewBitString (word_of_int sz))) (\<lambda>bs.
        bnd (lift (py_int value)) (\<lambda>i.
        andthen (emit (ESetBits bs (word_of_int i))) (ret None)))
      else if typeVal = ''generalized-time'' \<or> typeval = MMS_GENERALIZED_TIME then
        new_of_int C (\<lambda>i. NewUtcTime (word_of_int i)) value
      else if typeVal = ''utc-time'' \<or> typeval = MMS_UTC_TIME then
        new_of_int C (\<lambda>i. NewUtcTime (word_of_int i)) value
      else if typeVal = ''octet-string'' \<or> typeval = MMS_OCTET_STRING then
        (case value of
           ABytearray bs \<Rightarrow>
             andthen (call_new C (NewOctetString (word_of_int (int (length bs))) 127)) (raise TypeError)
         | _ \<Rightarrow> raise TypeError)
      else ret None)"

text \<open>
  The remaining branches of the source (array, bcd, access-error, oid, structure, the
  unknown type and the final error message) all return None.
\<close>

end
