(* ===== verification/Client_Discovery.thy ===== *)
theory Client_Discovery
  imports Client_Values
begin

text \<open>
  Reading a device's model: \<open>printDataDirectory\<close> (the attributes under one data object,
  recursively) and \<open>discovery\<close> (devices, nodes, data objects, data sets and report control
  blocks). The state is the trace of library calls; log messages are not modelled.
\<close>

section \<open>The attributes of a data object\<close>

definition leaf_fields :: "string \<Rightarrow> string \<times> string \<Rightarrow> (string \<times> pv) list" where
  "leaf_fields fcName vt =
     [(''reftype'', PStr ''DA''), (''FC'', PStr fcName), (''value'', PStr (fst vt)), (''type'', PStr (snd vt))]"

definition unknown_leaf :: "string \<Rightarrow> (string \<times> pv) list" where
  "unknown_leaf fcName =
     [(''reftype'', PStr ''DA''), (''FC'', PStr fcName), (''value'', PStr ''UNKNOWN'')]"

definition show_value :: "capi \<Rightarrow> addr \<Rightarrow> (trace, string \<times> string) prog" where
  "show_value C value h = (printValue C h value, h)"

text \<open>
  One round of the loop: \<open>sub\<close> is the recursive call. A name is \<open>name[FC]\<close>; an attribute
  without children is a leaf, read from the device.
\<close>

definition data_attribute ::
  "capi \<Rightarrow> (string \<Rightarrow> (trace, (string \<times> pv) list) prog) \<Rightarrow> addr \<Rightarrow> string \<Rightarrow> string \<Rightarrow>
   (string \<times> pv) list \<Rightarrow> (trace, (string \<times> pv) list) prog" where
  "data_attribute C sub con doRef raw tmodel =
     bnd (lift (decode_utf8 raw)) (\<lambda>daName.
       let name = str_drop_last 4 daName;
           daRef = doRef @ ''.'' @ name;
           fcName = str_slice_neg 3 1 daName
       in bnd (sub daRef) (\<lambda>submodel.
            if submodel \<noteq> [] then ret (dset name (PDict submodel) tmodel)
            else bnd (call_readObject C con daRef (c_fcFromString C fcName)) (\<lambda>(value, err).
              if err \<noteq> 0 then ret (dset name (PDict (unknown_leaf fcName)) tmodel)
              else bnd (show_value C value) (\<lambda>vt.
                andthen (emit (EValueDelete value))
                  (ret (dset name (PDict (leaf_fields fcName vt)) tmodel))))))"

text \<open>
  The first argument is the number of nested calls Python's recursion limit still allows;
  the call beyond it raises RecursionError.
\<close>

primrec printDataDirectory ::
  "nat \<Rightarrow> capi \<Rightarrow> addr \<Rightarrow> string \<Rightarrow> (trace, (string \<times> pv) list) prog" where
  "printDataDirectory 0 C con doRef = raise RecursionError"
| "printDataDirectory (Suc n) C con doRef =
     (if CHR ''/'' \<notin> set doRef then ret []
      else bnd (call_dataDirectory C con doRef) (\<lambda>(dataAttributes, names, err).
        if dataAttributes = 0 then ret []
        else bnd (loop_acc names (data_attribute C (printDataDirectory n C con) con doRef) [])
          (\<lambda>tmodel. andthen (emit (EListDestroy dataAttributes)) (ret tmodel))))"

section \<open>Discovery\<close>

text \<open>Destroying the lists still held before an early return, innermost first.\<close>

definition destroy_all :: "addr list \<Rightarrow> (trace, unit) prog" where
  "destroy_all ls = for_each ls (\<lambda>l. emit (EListDestroy l))"

text \<open>\<open>LinkedList_getNext(l)\<close> follows the pointer; on NULL it does not come back.\<close>

definition deref :: "addr \<Rightarrow> (trace, unit) prog" where
  "deref l = (if l = 0 then lift NoReturn else ret ())"

text \<open>
  The body shared by the loops over data objects and over the two kinds of report control
  blocks: the object's attributes are stored under its name.
\<close>

definition node_object ::
  "nat \<Rightarrow> capi \<Rightarrow> addr \<Rightarrow> string \<Rightarrow> string \<Rightarrow> (string \<times> pv) list \<Rightarrow> (trace, (string \<times> pv) list) prog" where
  "node_object n C con lnRef raw ln =
     bnd (lift (decode_utf8 raw)) (\<lambda>name.
     bnd (printDataDirectory n C con (lnRef @ ''.'' @ name)) (\<lambda>d.
       ret (dset name (PDict d) ln)))"

definition node_objects ::
  "nat \<Rightarrow> capi \<Rightarrow> addr \<Rightarrow> string \<Rightarrow> int \<Rightarrow> addr list \<Rightarrow> (string \<times> pv) list \<Rightarrow>
   (trace, (string \<times> pv) list flow) prog" where
  "node_objects n C con lnRef cls held ln =
     bnd (call_nodeDirectory C con lnRef cls) (\<lambda>(l, names, err).
       if err \<noteq> 0 then andthen (destroy_all held) (ret (Done ln))
       else andthen (deref l)
         (bnd (loop_acc names (node_object n C con lnRef) ln) (\<lambda>ln.
            andthen (emit (EListDestroy l)) (ret (Cont ln)))))"

text \<open>The members of a data set are stored under \<open>str(i)\<close>.\<close>

definition member_entry :: "string \<Rightarrow> (string \<times> pv) list" where
  "member_entry dsRef =
     [(''reftype'', PStr ''DX''), (''type'', PStr ''reference''),
      (''value'', PStr (str_drop_last 4 dsRef)), (''FC'', PStr (str_slice_neg 3 1 dsRef))]"

primrec dataset_members ::
  "string list \<Rightarrow> nat \<Rightarrow> (string \<times> pv) list \<Rightarrow> (trace, (string \<times> pv) list) prog" where
  "dataset_members [] i ds = ret ds"
| "dataset_members (raw # rs) i ds =
     bnd (lift (decode_utf8 raw)) (\<lambda>dsRef.
       dataset_members rs (Suc i) (dset (nat_str i) (PDict (member_entry dsRef)) ds))"

definition node_dataset ::
  "capi \<Rightarrow> addr \<Rightarrow> string \<Rightarrow> addr list \<Rightarrow> string \<Rightarrow> (string \<times> pv) list \<Rightarrow>
   (trace, (string \<times> pv) list flow) prog" where
  "node_dataset C con lnRef held raw ln =
     bnd (lift (decode_utf8 raw)) (\<lambda>DSname.
     bnd (call_dataSetDirectory C con (lnRef @ ''.'' @ DSname)) (\<lambda>(l, members, err).
       if err \<noteq> 0 then
         andthen (destroy_all held) (ret (Done (dset DSname (PDict []) ln)))
       else andthen (deref l)
         (bnd (dataset_members members 0 []) (\<lambda>ds.
            andthen (emit (EListDestroy l)) (ret (Cont (dset DSname (PDict ds) ln)))))))"

definition node_datasets ::
  "capi \<Rightarrow> addr \<Rightarrow> string \<Rightarrow> addr list \<Rightarrow> (string \<times> pv) list \<Rightarrow>
   (trace, (string \<times> pv) list flow) prog" where
  "node_datasets C con lnRef held ln =
     bnd (call_nodeDirectory C con lnRef ACSI_CLASS_DATA_SET) (\<lambda>(l, names, err).
       if err \<noteq> 0 then andthen (destroy_all held) (ret (Done ln))
       else andthen (deref l)
         (bnd (loop_until names (node_dataset C con lnRef (l # held)) ln) (\<lambda>r.
            case r of
              Done ln \<Rightarrow> ret (Done ln)
            | Cont ln \<Rightarrow> andthen (emit (EListDestroy l)) (ret (Cont ln)))))"

definition and_next :: "('s, 'b flow) prog \<Rightarrow> ('b \<Rightarrow> ('s, 'b flow) prog) \<Rightarrow> ('s, 'b flow) prog" where
  "and_next m f = bnd m (\<lambda>r. case r of Done x \<Rightarrow> ret (Done x) | Cont x \<Rightarrow> f x)"

text \<open>
  A logical node. When its data objects cannot be listed the code destroys the lists and
  returns a variable that does not exist, which raises NameError.
\<close>

definition logical_node ::
  "nat \<Rightarrow> capi \<Rightarrow> addr \<Rightarrow> string \<Rightarrow> addr list \<Rightarrow> string \<Rightarrow> (string \<times> pv) list \<Rightarrow>
   (trace, (string \<times> pv) list flow) prog" where
  "logical_node n C con LD_name held raw ld =
     bnd (lift (decode_utf8 raw)) (\<lambda>LN_name.
       let lnRef = LD_name @ ''/'' @ LN_name;
           store = (\<lambda>r. case r of Cont ln \<Rightarrow> ret (Cont (dset LN_name (PDict ln) ld))
                                | Done ln \<Rightarrow> ret (Done (dset LN_name (PDict ln) ld)))
       in bnd (node_objects n C con lnRef ACSI_CLASS_DATA_OBJECT held []) (\<lambda>r.
            case r of
              Done ln \<Rightarrow> raise NameError
            | Cont ln \<Rightarrow>
                bnd (and_next (node_datasets C con lnRef held ln) (\<lambda>ln.
                     and_next (node_objects n C con lnRef ACSI_CLASS_URCB held ln) (\<lambda>ln.
                     node_objects n C con lnRef ACSI_CLASS_BRCB held ln))) store))"

text \<open>A logical device; the same NameError when its directory cannot be read.\<close>

definition logical_device ::
  "nat \<Rightarrow> capi \<Rightarrow> addr \<Rightarrow> addr \<Rightarrow> string \<Rightarrow> (string \<times> pv) list \<Rightarrow>
   (trace, (string \<times> pv) list flow) prog" where
  "logical_device n C con deviceList raw tmodel =
     bnd (lift (decode_utf8 raw)) (\<lambda>LD_name.
     bnd (call_deviceDirectory C con LD_name) (\<lambda>(l, names, err).
       if err \<noteq> 0 then andthen (emit (EListDestroy deviceList)) (raise NameError)
       else andthen (deref l)
         (bnd (loop_until names (logical_node n C con LD_name [l, deviceList]) []) (\<lambda>r.
            case r of
              Done ld \<Rightarrow> ret (Done (dset LD_name (PDict ld) tmodel))
            | Cont ld \<Rightarrow>
                andthen (emit (EListDestroy l)) (ret (Cont (dset LD_name (PDict ld) tmodel)))))))"

definition discovery :: "nat \<Rightarrow> capi \<Rightarrow> addr \<Rightarrow> (trace, (string \<times> pv) list) prog" where
  "discovery n C con =
     bnd (call_deviceList C con) (\<lambda>(deviceList, names, err).
       if deviceList = 0 then ret []
       else bnd (loop_until names (logical_device n C con deviceList) []) (\<lambda>r.
         case r of
           Done tmodel \<Rightarrow> ret tmodel
         | Cont tmodel \<Rightarrow> andthen (emit (EListDestroy deviceList)) (ret tmodel)))"

end
