(* ===== verification/Client_Update.thy ===== *)
theory Client_Update
  imports Client_Discovery
begin

text \<open>
  Refreshing part of a model from the device (\<open>updateValueInModel\<close>) and writing a value
  (\<open>writeValue\<close>). The code changes the model object in place and returns the same object;
  here the changed model is returned. Every exception of these functions is raised before
  the first assignment, so it leaves the caller's model as it was.
\<close>

text \<open>Handing a dictionary to a C function that takes a string is \<open>ctypes.ArgumentError\<close>.\<close>

fun as_str :: "pv \<Rightarrow> string result" where
  "as_str (PStr s) = Val s"
| "as_str (PDict d) = Exn ArgumentError"

text \<open>\<open>sub and 'reftype' in sub and sub['reftype'] == 'DA'\<close>\<close>

definition is_leaf :: "pv \<Rightarrow> bool result" where
  "is_leaf sub =
     (if truthy sub \<and> py_in ''reftype'' sub
      then rbind (py_get sub ''reftype'') (\<lambda>t. Val (t = PStr ''DA''))
      else Val False)"

definition refresh_leaf ::
  "capi \<Rightarrow> addr \<Rightarrow> string \<Rightarrow> pv \<Rightarrow> (trace, pv \<times> int) prog" where
  "refresh_leaf C con ref sub =
     bnd (lift (rbind (py_get sub ''FC'') as_str)) (\<lambda>fcName.
     bnd (call_readObject C con ref (c_fcFromString C fcName)) (\<lambda>(value, err).
       if err \<noteq> 0 then ret (sub, err)
       else bnd (show_value C value) (\<lambda>vt.
            bnd (lift (rbind (py_set sub ''value'' (PStr (fst vt)))
                             (\<lambda>sub. py_set sub ''type'' (PStr (snd vt))))) (\<lambda>sub.
            andthen (emit (EValueDelete value)) (ret (sub, 0))))))"

text \<open>
  The nested function of \<open>updateValueInModel\<close>. At the last name of the path a leaf is
  read again, and anything else is replaced by the attributes the device reports, which
  are none when the device does not answer.
\<close>

fun update_recurse ::
  "nat \<Rightarrow> capi \<Rightarrow> addr \<Rightarrow> string \<Rightarrow> pv \<Rightarrow> string list \<Rightarrow> (trace, pv \<times> int) prog" where
  "update_recurse n C con ref submodel [] = ret (submodel, -1)"
| "update_recurse n C con ref submodel [k] =
     bnd (lift (py_get submodel k)) (\<lambda>sub.
     bnd (lift (is_leaf sub)) (\<lambda>leaf.
       if leaf then
         bnd (refresh_leaf C con ref sub) (\<lambda>(sub, err).
         bnd (lift (py_set submodel k sub)) (\<lambda>m. ret (m, err)))
       else
         bnd (printDataDirectory n C con ref) (\<lambda>d.
         bnd (lift (py_set submodel k (PDict d))) (\<lambda>m.
           ret (m, if d \<noteq> [] then 0 else -1)))))"
| "update_recurse n C con ref submodel (k # k' # ks) =
     bnd (lift (py_get submodel k)) (\<lambda>sub.
     bnd (update_recurse n C con ref sub (k' # ks)) (\<lambda>(sub, err).
     bnd (lift (py_set submodel k sub)) (\<lambda>m. ret (m, err))))"

definition updateValueInModel ::
  "nat \<Rightarrow> capi \<Rightarrow> addr \<Rightarrow> pv \<Rightarrow> string \<Rightarrow> (trace, pv \<times> int) prog" where
  "updateValueInModel n C con model ref =
     bnd (lift (parseRef model ref)) (\<lambda>(val, path). update_recurse n C con ref model path)"

text \<open>
  \<open>writeValue\<close>: the first component is the model it returns, an empty one when the
  reference is not a leaf.
\<close>

fun type_name :: "pv \<Rightarrow> string" where
  "type_name (PStr s) = s"
| "type_name (PDict d) = []"

definition writeValue ::
  "nat \<Rightarrow> capi \<Rightarrow> pyfloat \<Rightarrow> addr \<Rightarrow> pv \<Rightarrow> string \<Rightarrow> pyarg \<Rightarrow> (trace, pv \<times> int) prog" where
  "writeValue n C F con model ref value =
     bnd (lift (parseRef model ref)) (\<lambda>(submodel, path).
       if \<not> truthy submodel then ret (PDict [], -1)
       else if \<not> py_in ''FC'' submodel then ret (PDict [], -1)
       else
         bnd (lift (rbind (py_get submodel ''FC'') as_str)) (\<lambda>fcName.
         bnd (lift (py_get submodel ''type'')) (\<lambda>ty.
         bnd (getMMsValue C F (type_name ty) value 8 (-1)) (\<lambda>mmsvalue.
           case mmsvalue of
             None \<Rightarrow> ret (model, -1)
           | Some v \<Rightarrow>
               if v = 0 then ret (model, -1)
               else bnd (call_writeObject C con ref (c_fcFromString C fcName) v) (\<lambda>err.
                    andthen (emit (EValueDelete v))
                      (if err = 0 then updateValueInModel n C con model ref
                       else ret (model, err)))))))"

end
