(* ===== verification/Client_Enums.thy ===== *)
theory Client_Enums
  imports Py_Prelude
begin

text \<open>
  The two \<open>Enum\<close> classes of the client, \<open>AddCause\<close> and \<open>IedClientError\<close>, as tables of
  names and values in the order of the source. Calling an enumeration class looks a member
  up by value and raises ValueError when there is none.
\<close>

definition AddCause :: "(string \<times> int) list" where
  "AddCause =
    [(''ADD_CAUSE_UNKNOWN'', 0),
     (''ADD_CAUSE_NOT_SUPPORTED'', 1),
     (''ADD_CAUSE_BLOCKED_BY_SWITCHING_HIERARCHY'', 2),
     (''ADD_CAUSE_SELECT_FAILED'', 3),
     (''ADD_CAUSE_INVALID_POSITION'', 4),
     (''ADD_CAUSE_POSITION_REACHED'', 5),
     (''ADD_CAUSE_PARAMETER_CHANGE_IN_EXECUTION'', 6),
     (''ADD_CAUSE_STEP_LIMIT'', 7),
     (''ADD_CAUSE_BLOCKED_BY_MODE'', 8),
     (''ADD_CAUSE_BLOCKED_BY_PROCESS'', 9),
     (''ADD_CAUSE_BLOCKED_BY_INTERLOCKING'', 10),
     (''ADD_CAUSE_BLOCKED_BY_SYNCHROCHECK'', 11),
     (''ADD_CAUSE_COMMAND_ALREADY_IN_EXECUTION'', 12),
     (''ADD_CAUSE_BLOCKED_BY_HEALTH'', 13),
     (''ADD_CAUSE_1_OF_N_CONTROL'', 14),
     (''ADD_CAUSE_ABORTION_BY_CANCEL'', 15),
     (''ADD_CAUSE_TIME_LIMIT_OVER'', 16),
     (''ADD_CAUSE_ABORTION_BY_TRIP'', 17),
     (''ADD_CAUSE_OBJECT_NOT_SELECTED'', 18),
     (''ADD_CAUSE_OBJECT_ALREADY_SELECTED'', 19),
     (''ADD_CAUSE_NO_ACCESS_AUTHORITY'', 20),
     (''ADD_CAUSE_ENDED_WITH_OVERSHOOT'', 21),
     (''ADD_CAUSE_ABORTION_DUE_TO_DEVIATION'', 22),
     (''ADD_CAUSE_ABORTION_BY_COMMUNICATION_LOSS'', 23),
     (''ADD_CAUSE_ABORTION_BY_COMMAND'', 24),
     (''ADD_CAUSE_NONE'', 25),
     (''ADD_CAUSE_INCONSISTENT_PARAMETERS'', 26),
     (''ADD_CAUSE_LOCKED_BY_OTHER_CLIENT'', 27)]"

definition IedClientError :: "(string \<times> int) list" where
  "IedClientError =
    [(''IED_ERROR_OK'', 0),
     (''IED_ERROR_NOT_CONNECTED'', 1),
     (''IED_ERROR_ALREADY_CONNECTED'', 2),
     (''IED_ERROR_CONNECTION_LOST'', 3),
     (''IED_ERROR_SERVICE_NOT_SUPPORTED'', 4),
     (''IED_ERROR_CONNECTION_REJECTED'', 5),
     (''IED_ERROR_OUTSTANDING_CALL_LIMIT_REACHED'', 6),
     (''IED_ERROR_USER_PROVIDED_INVALID_ARGUMENT'', 10),
     (''IED_ERROR_ENABLE_REPORT_FAILED_DATASET_MISMATCH'', 11),
     (''IED_ERROR_OBJECT_REFERENCE_INVALID'', 12),
     (''IED_ERROR_UNEXPECTED_VALUE_RECEIVED'', 13),
     (''IED_ERROR_TIMEOUT'', 20),
     (''IED_ERROR_ACCESS_DENIED'', 21),
     (''IED_ERROR_OBJECT_DOES_NOT_EXIST'', 22),
     (''IED_ERROR_OBJECT_EXISTS'', 23),
     (''IED_ERROR_OBJECT_ACCESS_UNSUPPORTED'', 24),
     (''IED_ERROR_TYPE_INCONSISTENT'', 25),
     (''IED_ERROR_TEMPORARILY_UNAVAILABLE'', 26),
     (''IED_ERROR_OBJECT_UNDEFINED'', 27),
     (''IED_ERROR_INVALID_ADDRESS'', 28),
     (''IED_ERROR_HARDWARE_FAULT'', 29),
     (''IED_ERROR_TYPE_UNSUPPORTED'', 30),
     (''IED_ERROR_OBJECT_ATTRIBUTE_INCONSISTENT'', 31),
     (''IED_ERROR_OBJECT_VALUE_INVALID'', 32),
     (''IED_ERROR_OBJECT_INVALIDATED'', 33),
     (''IED_ERROR_MALFORMED_MESSAGE'', 34),
     (''IED_ERROR_SERVICE_NOT_IMPLEMENTED'', 98),
     (''IED_ERROR_UNKNOWN'', 99)]"

definition enum_name :: "(string \<times> int) list \<Rightarrow> int \<Rightarrow> string result" where
  "enum_name tbl n =
     (case find (\<lambda>p. snd p = n) tbl of None \<Rightarrow> Exn ValueError | Some p \<Rightarrow> Val (fst p))"

lemma enum_name_Val:
  "enum_name tbl n = Val s \<Longrightarrow> (s, n) \<in> set tbl"
  by (auto simp: enum_name_def find_Some_iff split: option.splits)

lemma enum_name_total: "n \<in> snd ` set tbl \<Longrightarrow> \<exists>s. enum_name tbl n = Val s"
  by (induction tbl) (auto simp: enum_name_def find_None_iff split: option.splits)

end
