(* ===== verification/Client_State.thy ===== *)
theory Client_State
  imports Client_Update Client_Enums Py_Url
begin

text \<open>
  The state of an \<open>iec61850client\<close> object and the operation every other one goes through,
  \<open>getIED\<close>: find or make a connection to a device and a model of it.
\<close>

section \<open>State\<close>

text \<open>
  An entry of \<open>self.connections\<close>: the connection (None, or a pointer), the model, and the
  control objects by path, a key that exists only after the first control operation.
\<close>

record conn =
  cn_con :: "addr option"
  cn_model :: pv
  cn_control :: "(string, addr) dict option"

text \<open>
  An entry of \<open>self.reporting\<close>. \<open>refdata\<close> is the list \<open>[key, tupl, LD, LN, DS]\<close>; the
  Python callback object \<open>cbh\<close> is always the bound method \<open>ReportHandler_cb\<close>.
\<close>

record refdata =
  rd_key :: string
  rd_tupl :: string
  rd_LD :: string
  rd_LN :: string
  rd_DS :: string

record rcbdata =
  rb_rcb :: addr
  rb_RPT :: string
  rb_refdata :: refdata

text \<open>
  \<open>cb_refs\<close> holds report references as strings, and callbacks and byte strings that are
  only kept alive.
\<close>

datatype cbref = CbReport string | CbHandler | CbBytes string

record client =
  cl_polling :: "(string, int) dict"
  cl_connections :: "(string, conn) dict"
  cl_reporting :: "(string, rcbdata list) dict"
  cl_cb_refs :: "cbref list"
  cl_readcb :: bool
  cl_termcb :: bool
  cl_rptcb :: bool
  cl_trace :: trace

definition init_client :: "bool \<Rightarrow> bool \<Rightarrow> bool \<Rightarrow> client" where
  "init_client readcb termcb rptcb =
     \<lparr>cl_polling = [], cl_connections = [], cl_reporting = [], cl_cb_refs = [],
      cl_readcb = readcb, cl_termcb = termcb, cl_rptcb = rptcb, cl_trace = []\<rparr>"

text \<open>A program over the trace, run inside the client.\<close>

definition on_trace :: "(trace, 'a) prog \<Rightarrow> (client, 'a) prog" where
  "on_trace m s = (case m (cl_trace s) of (r, h) \<Rightarrow> (r, s\<lparr>cl_trace := h\<rparr>))"

definition get_conn :: "string \<Rightarrow> (client, conn) prog" where
  "get_conn tupl s = (dget tupl (cl_connections s), s)"

text \<open>\<open>self.connections[tupl][...] = ...\<close>: KeyError when there is no such connection.\<close>

definition upd_conn :: "string \<Rightarrow> (conn \<Rightarrow> conn) \<Rightarrow> (client, unit) prog" where
  "upd_conn tupl f =
     bnd (get_conn tupl) (\<lambda>c. modify (\<lambda>s. s\<lparr>cl_connections := dset tupl (f c) (cl_connections s)\<rparr>))"

definition new_conn :: conn where
  "new_conn = \<lparr>cn_con = None, cn_model = PDict [], cn_control = None\<rparr>"

definition add_conn :: "string \<Rightarrow> (client, unit) prog" where
  "add_conn tupl =
     modify (\<lambda>s. if dhas tupl (cl_connections s) then s
                 else s\<lparr>cl_connections := dset tupl new_conn (cl_connections s)\<rparr>)"

section \<open>Ports and keys\<close>

text \<open>A port argument: None, a string or a number; None and the empty string mean 102.\<close>

datatype portarg = PNone | PText string | PNum int

definition default_port :: "portarg \<Rightarrow> portarg" where
  "default_port p = (if p = PNone \<or> p = PText [] then PNum 102 else p)"

fun port_str :: "portarg \<Rightarrow> string" where
  "port_str PNone = ''None''"
| "port_str (PText s) = s"
| "port_str (PNum i) = int_str i"

definition conn_key :: "string \<Rightarrow> portarg \<Rightarrow> string" where
  "conn_key host port = host @ '':'' @ port_str port"

fun port_of :: "int option \<Rightarrow> portarg" where
  "port_of None = PNone"
| "port_of (Some i) = PNum i"

section \<open>Connecting\<close>

text \<open>The port is converted to \<open>c_int\<close>; a string is rejected by ctypes.\<close>

fun call_connect :: "capi \<Rightarrow> addr \<Rightarrow> string \<Rightarrow> portarg \<Rightarrow> (trace, int) prog" where
  "call_connect C con host (PNum p) h =
     (let port = sint (word_of_int p :: 32 word);
          err = c_connect C h con host port
      in (Val err, h @ [EConnect con host port err]))"
| "call_connect C con host _ h = (Exn ArgumentError, h)"

definition call_create :: "capi \<Rightarrow> (trace, addr) prog" where
  "call_create C h = (let con = c_create C h in (Val con, h @ [ECreate con]))"

definition call_getRCB :: "capi \<Rightarrow> addr \<Rightarrow> string \<Rightarrow> addr \<Rightarrow> (trace, addr) prog" where
  "call_getRCB C con RPT rcb h =
     (let (r, err) = c_getRCB C h con RPT rcb in (Val r, h @ [EGetRCB con RPT rcb r err]))"

definition call_setRCB :: "capi \<Rightarrow> addr \<Rightarrow> addr \<Rightarrow> int \<Rightarrow> bool \<Rightarrow> (trace, unit) prog" where
  "call_setRCB C con rcb flags single h =
     (let err = c_setRCB C h con rcb flags single in (Val (), h @ [ESetRCB con rcb flags single err]))"

text \<open>
  Enabling a report: fetch the control block, install the handler under its report id, set
  \<open>RptEna\<close> and \<open>GI\<close> and write both back. The block is followed, so it must not be NULL.
\<close>

definition enable_report :: "capi \<Rightarrow> addr \<Rightarrow> string \<Rightarrow> addr \<Rightarrow> bool \<Rightarrow> (trace, addr) prog" where
  "enable_report C con RPT old single =
     bnd (call_getRCB C con RPT old) (\<lambda>rcb.
     andthen (deref rcb)
     (bnd (gets (\<lambda>h. c_rptId C h rcb)) (\<lambda>RptId.
     andthen (emit (EInstallReport con RPT RptId))
     (andthen (emit (ESetRptEna rcb True))
     (andthen (emit (ESetGI rcb True))
     (andthen (call_setRCB C con rcb (or RCB_ELEMENT_RPT_ENA RCB_ELEMENT_GI) single)
     (ret rcb)))))))"

text \<open>The loop of \<open>getIED\<close> over the reports registered on a connection, by index.\<close>

definition set_rcb :: "string \<Rightarrow> nat \<Rightarrow> addr \<Rightarrow> client \<Rightarrow> client" where
  "set_rcb tupl i rcb s =
     (case map_of (cl_reporting s) tupl of
        None \<Rightarrow> s
      | Some rs \<Rightarrow>
          s\<lparr>cl_reporting := dset tupl (rs[i := (rs ! i)\<lparr>rb_rcb := rcb\<rparr>]) (cl_reporting s)\<rparr>)"

primrec reenable_reports ::
  "capi \<Rightarrow> string \<Rightarrow> addr \<Rightarrow> nat \<Rightarrow> rcbdata list \<Rightarrow> (client, unit) prog" where
  "reenable_reports C tupl con i [] = ret ()"
| "reenable_reports C tupl con i (r # rs) =
     bnd (on_trace (enable_report C con (rb_RPT r) (rb_rcb r) False)) (\<lambda>rcb.
     andthen (modify (set_rcb tupl i rcb))
       (reenable_reports C tupl con (Suc i) rs))"

definition registered_reports :: "string \<Rightarrow> client \<Rightarrow> rcbdata list" where
  "registered_reports tupl s =
     (case map_of (cl_reporting s) tupl of None \<Rightarrow> [] | Some rs \<Rightarrow> rs)"

definition drop_connection :: "string \<Rightarrow> addr \<Rightarrow> (client, unit) prog" where
  "drop_connection tupl con =
     andthen (on_trace (emit (EDestroy con))) (upd_conn tupl (\<lambda>c. c\<lparr>cn_con := None\<rparr>))"

text \<open>A connection that is there but has no model yet.\<close>

definition refresh_model :: "nat \<Rightarrow> capi \<Rightarrow> string \<Rightarrow> addr \<Rightarrow> (client, int) prog" where
  "refresh_model n C tupl con =
     bnd (on_trace (discovery n C con)) (\<lambda>model.
       if model \<noteq> [] then andthen (upd_conn tupl (\<lambda>c. c\<lparr>cn_model := PDict model\<rparr>)) (ret 0)
       else andthen (drop_connection tupl con) (ret (-1)))"

text \<open>A new connection.\<close>

definition open_connection :: "nat \<Rightarrow> capi \<Rightarrow> string \<Rightarrow> string \<Rightarrow> portarg \<Rightarrow> (client, int) prog" where
  "open_connection n C tupl host port =
     andthen (add_conn tupl)
     (bnd (on_trace (call_create C)) (\<lambda>con.
      bnd (on_trace (call_connect C con host port)) (\<lambda>err.
        if err = IED_ERROR_OK then
          andthen (upd_conn tupl (\<lambda>c. c\<lparr>cn_con := Some con\<rparr>))
          (bnd (on_trace (discovery n C con)) (\<lambda>model.
             if model \<noteq> [] then
               andthen (upd_conn tupl (\<lambda>c. c\<lparr>cn_model := PDict model\<rparr>))
               (bnd (gets (registered_reports tupl)) (\<lambda>rs.
                  andthen (reenable_reports C tupl con 0 rs) (ret 0)))
             else ret (-1)))
        else andthen (on_trace (emit (EDestroy con))) (ret (-1)))))"

definition getIED :: "nat \<Rightarrow> capi \<Rightarrow> string option \<Rightarrow> portarg \<Rightarrow> (client, int) prog" where
  "getIED n C host port =
     (let port = default_port port in
      case host of
        None \<Rightarrow> ret (-1)
      | Some host \<Rightarrow>
          let tupl = conn_key host port in
          bnd (gets (\<lambda>s. map_of (cl_connections s) tupl)) (\<lambda>entry.
            case entry of
              None \<Rightarrow> open_connection n C tupl host port
            | Some c \<Rightarrow>
                (case cn_con c of
                   None \<Rightarrow> open_connection n C tupl host port
                 | Some con \<Rightarrow>
                     if truthy (cn_model c) then ret 0 else refresh_model n C tupl con)))"

section \<open>References to a device\<close>

text \<open>
  What every operation on a reference does first: parse it, default the port, check the
  scheme and the host. \<open>None\<close> is the early return with an error; a port that is not a
  number raises ValueError in \<open>urlparse\<close>.
\<close>

record target =
  tg_host :: string
  tg_port :: portarg
  tg_path :: string

definition tg_key :: "target \<Rightarrow> string" where
  "tg_key t = conn_key (tg_host t) (tg_port t)"

definition parse_target :: "string \<Rightarrow> target option result" where
  "parse_target ref =
     rbind (urlparse ref) (\<lambda>u.
     rbind (url_port u) (\<lambda>p.
       if u_scheme u \<noteq> ''iec61850'' then Val None
       else case hostname u of
         None \<Rightarrow> Val None
       | Some host \<Rightarrow>
           Val (Some \<lparr>tg_host = host, tg_port = default_port (port_of p), tg_path = drop 1 (u_path u)\<rparr>)))"

end
