(* ===== verification/Client_Ops.thy ===== *)
theory Client_Ops
  imports Client_State
begin

text \<open>
  Reading, writing and polling: \<open>registerWriteValue\<close>, \<open>ReadValue\<close>, \<open>registerReadValue\<close>,
  \<open>poll\<close>, \<open>getDatamodel\<close>. The model object is shared with the connection table, so
  a refresh is visible there whatever error code it ends with.
\<close>

section \<open>Shared steps\<close>

text \<open>\<open>updateValueInModel\<close> and \<open>writeValue\<close> on the model of a connection, in place.\<close>

definition update_conn_model ::
  "nat \<Rightarrow> capi \<Rightarrow> string \<Rightarrow> addr \<Rightarrow> string \<Rightarrow> (client, int) prog" where
  "update_conn_model n C tupl con path =
     bnd (get_conn tupl) (\<lambda>c.
     bnd (on_trace (updateValueInModel n C con (cn_model c) path)) (\<lambda>(model, err).
     andthen (upd_conn tupl (\<lambda>c. c\<lparr>cn_model := model\<rparr>)) (ret err)))"

text \<open>
  When \<open>writeValue\<close> gives up because of the reference it returns a new empty dictionary,
  and the table keeps its model; in every other case it returns the model object.
\<close>

definition write_conn_model ::
  "nat \<Rightarrow> capi \<Rightarrow> pyfloat \<Rightarrow> string \<Rightarrow> addr \<Rightarrow> string \<Rightarrow> pyarg \<Rightarrow> (client, int) prog" where
  "write_conn_model n C F tupl con path value =
     bnd (get_conn tupl) (\<lambda>c.
     bnd (on_trace (writeValue n C F con (cn_model c) path value)) (\<lambda>(model, err).
       if model = PDict [] then ret err
       else andthen (upd_conn tupl (\<lambda>c. c\<lparr>cn_model := model\<rparr>)) (ret err)))"

definition conn_value :: "string \<Rightarrow> string \<Rightarrow> (client, pv \<times> string list) prog" where
  "conn_value tupl path = bnd (get_conn tupl) (\<lambda>c. lift (parseRef (cn_model c) path))"

text \<open>The callback \<open>readvaluecallback\<close>, when there is one.\<close>

definition tell_read :: "string \<Rightarrow> pv \<Rightarrow> (client, unit) prog" where
  "tell_read ref v =
     bnd (gets cl_readcb) (\<lambda>b. if b then on_trace (emit (EReadCb ref v)) else ret ())"

text \<open>Error 3 means that the connection is lost: destroy it and forget it.\<close>

definition on_error :: "string \<Rightarrow> addr \<Rightarrow> int \<Rightarrow> (client, unit) prog" where
  "on_error tupl con err = (if err = 3 then drop_connection tupl con else ret ())"

text \<open>A connection that can be used: a pointer that is not NULL.\<close>

definition usable :: "conn \<Rightarrow> addr option" where
  "usable c = (case cn_con c of None \<Rightarrow> None | Some con \<Rightarrow> if con = 0 then None else Some con)"

section \<open>Write and read\<close>

definition registerWriteValue ::
  "nat \<Rightarrow> capi \<Rightarrow> pyfloat \<Rightarrow> string \<Rightarrow> pyarg \<Rightarrow> (client, int) prog" where
  "registerWriteValue n C F ref value =
     bnd (lift (parse_target ref)) (\<lambda>t.
       case t of
         None \<Rightarrow> ret (-1)
       | Some t \<Rightarrow>
           bnd (getIED n C (Some (tg_host t)) (tg_port t)) (\<lambda>err.
             if err \<noteq> 0 then ret (-1)
             else bnd (get_conn (tg_key t)) (\<lambda>c.
               case usable c of
                 None \<Rightarrow> ret (-1)
               | Some con \<Rightarrow>
                   if \<not> truthy (cn_model c) then ret (-1)
                   else bnd (write_conn_model n C F (tg_key t) con (tg_path t) value) (\<lambda>error.
                     if error = 0 then
                       bnd (conn_value (tg_key t) (tg_path t)) (\<lambda>(submodel, path).
                       andthen (tell_read ref submodel) (ret 0))
                     else andthen (on_error (tg_key t) con error) (ret error)))))"

definition ReadValue :: "nat \<Rightarrow> capi \<Rightarrow> string \<Rightarrow> (client, pv \<times> int) prog" where
  "ReadValue n C ref =
     bnd (lift (parse_target ref)) (\<lambda>t.
       case t of
         None \<Rightarrow> ret (PDict [], -1)
       | Some t \<Rightarrow>
           bnd (getIED n C (Some (tg_host t)) (tg_port t)) (\<lambda>err.
             if err \<noteq> 0 then ret (PDict [], -1)
             else bnd (get_conn (tg_key t)) (\<lambda>c.
               case usable c of
                 None \<Rightarrow> ret (PDict [], -1)
               | Some con \<Rightarrow>
                   if \<not> truthy (cn_model c) then ret (PDict [], -1)
                   else bnd (conn_value (tg_key t) (tg_path t)) (\<lambda>(submodel, path).
                     if \<not> truthy submodel then ret (PDict [], -1)
                     else bnd (update_conn_model n C (tg_key t) con (tg_path t)) (\<lambda>error.
                       if error = 0 then
                         bnd (conn_value (tg_key t) (tg_path t)) (\<lambda>(submodel, path).
                         andthen (tell_read ref submodel) (ret (submodel, 0)))
                       else andthen (on_error (tg_key t) con error) (ret (PDict [], -1)))))))"

section \<open>Polling\<close>

definition poll_key :: "nat \<Rightarrow> capi \<Rightarrow> string \<Rightarrow> (client, unit) prog" where
  "poll_key n C key =
     bnd (lift (parse_target key)) (\<lambda>t.
       case t of
         None \<Rightarrow> ret ()
       | Some t \<Rightarrow>
           bnd (getIED n C (Some (tg_host t)) (tg_port t)) (\<lambda>err.
             if err \<noteq> 0 then ret ()
             else bnd (get_conn (tg_key t)) (\<lambda>c.
               case usable c of
                 None \<Rightarrow> ret ()
               | Some con \<Rightarrow>
                   if \<not> truthy (cn_model c) then ret ()
                   else bnd (update_conn_model n C (tg_key t) con (tg_path t)) (\<lambda>err.
                     if err = 0 then
                       bnd (conn_value (tg_key t) (tg_path t)) (\<lambda>(submodel, path).
                         tell_read key submodel)
                     else on_error (tg_key t) con err))))"

definition poll :: "nat \<Rightarrow> capi \<Rightarrow> (client, unit) prog" where
  "poll n C = bnd (gets (\<lambda>s. map fst (cl_polling s))) (\<lambda>keys. for_each keys (poll_key n C))"

section \<open>The model of a device\<close>

text \<open>
  \<open>getDatamodel(ref, hostname, port)\<close>: a reference replaces the host and the port, without
  a check of its scheme.
\<close>

definition host_port :: "string \<Rightarrow> (url \<times> string option \<times> portarg) result" where
  "host_port ref =
     rbind (urlparse ref) (\<lambda>u. rbind (url_port u) (\<lambda>p. Val (u, hostname u, port_of p)))"

definition getDatamodel ::
  "nat \<Rightarrow> capi \<Rightarrow> string option \<Rightarrow> string option \<Rightarrow> portarg \<Rightarrow> (client, pv) prog" where
  "getDatamodel n C ref host port =
     bnd (lift (case ref of
                  None \<Rightarrow> Val (host, port)
                | Some ref \<Rightarrow> rbind (host_port ref) (\<lambda>(u, h, p). Val (h, p)))) (\<lambda>(host, port).
       let port = default_port port in
       bnd (getIED n C host port) (\<lambda>err.
         case (err = 0, host) of
           (True, Some h) \<Rightarrow> bnd (get_conn (conn_key h port)) (\<lambda>c. ret (cn_model c))
         | _ \<Rightarrow> ret (PDict [])))"

definition getRegisteredIEDs :: "(client, (string, conn) dict) prog" where
  "getRegisteredIEDs = gets cl_connections"

end
