(* ===== verification/Client_Reports.thy ===== *)
theory Client_Reports
  imports Client_Ops
begin

text \<open>
  Reports: finding the data set and the report control block that cover a reference
  (\<open>registerForReporting\<close>), the registration of a value for reading, and the handler the
  library calls with a report.
\<close>

section \<open>Finding the data set\<close>

text \<open>Iterating over a dictionary or the characters of a string.\<close>

fun py_iter :: "pv \<Rightarrow> string list" where
  "py_iter (PStr s) = map (\<lambda>c. [c]) s"
| "py_iter (PDict d) = map fst d"

text \<open>The first element for which \<open>f\<close> finds something; an exception stops the search.\<close>

primrec first_some :: "'a list \<Rightarrow> ('a \<Rightarrow> 'b option result) \<Rightarrow> 'b option result" where
  "first_some [] f = Val None"
| "first_some (x # xs) f =
     rbind (f x) (\<lambda>r. case r of Some y \<Rightarrow> Val (Some y) | None \<Rightarrow> first_some xs f)"

definition is_dataset :: "pv \<Rightarrow> bool result" where
  "is_dataset ds =
     (if \<not> py_in ''0'' ds then Val False
      else rbind (py_get ds ''0'') (\<lambda>m.
        if \<not> py_in ''reftype'' m then Val False
        else rbind (py_get m ''reftype'') (\<lambda>t. Val (t = PStr ''DX''))))"

text \<open>\<open>ref.startswith(x)\<close> takes a string.\<close>

fun py_startswith :: "string \<Rightarrow> pv \<Rightarrow> bool result" where
  "py_startswith ref (PStr s) = Val (starts_with ref s)"
| "py_startswith ref (PDict d) = Exn TypeError"

definition find_member :: "pv \<Rightarrow> string \<Rightarrow> string option result" where
  "find_member ds ref =
     first_some (py_iter ds) (\<lambda>index.
       rbind (py_get ds index) (\<lambda>m.
       rbind (py_get m ''value'') (\<lambda>v.
       rbind (py_startswith ref v) (\<lambda>b. Val (if b then Some index else None)))))"

text \<open>The three nested loops: the logical device, the node, the data set and the index.\<close>

definition find_dataset :: "pv \<Rightarrow> string \<Rightarrow> (string \<times> string \<times> string \<times> string) option result" where
  "find_dataset model ref =
     first_some (py_iter model) (\<lambda>LD.
       rbind (py_get model LD) (\<lambda>lns.
       first_some (py_iter lns) (\<lambda>LN.
         rbind (py_get lns LN) (\<lambda>dos.
         first_some (py_iter dos) (\<lambda>DS.
           rbind (py_get dos DS) (\<lambda>ds.
           rbind (is_dataset ds) (\<lambda>b.
             if \<not> b then Val None
             else rbind (find_member ds ref) (\<lambda>r.
               Val (map_option (\<lambda>index. (LD, LN, DS, index)) r)))))))))"

text \<open>
  The report control block whose \<open>DatSet\<close> names that data set, and its reference with the
  functional constraint in it.
\<close>

definition find_report ::
  "pv \<Rightarrow> string \<Rightarrow> string \<Rightarrow> string \<Rightarrow> string option result" where
  "find_report model LD LN DS =
     rbind (py_get model LD) (\<lambda>lns.
     rbind (py_get lns LN) (\<lambda>dos.
     first_some (py_iter dos) (\<lambda>RP.
       rbind (py_get dos RP) (\<lambda>rp.
         if \<not> py_in ''DatSet'' rp then Val None
         else rbind (py_get rp ''DatSet'') (\<lambda>datset.
              rbind (py_get datset ''value'') (\<lambda>v.
                if v \<noteq> PStr (LD @ ''/'' @ LN @ ''$'' @ DS) then Val None
                else rbind (py_get datset ''FC'') (\<lambda>fc.
                     case fc of
                       PDict d \<Rightarrow> Exn TypeError
                     | PStr fc \<Rightarrow> Val (Some (LD @ ''/'' @ LN @ ''.'' @ fc @ ''.'' @ RP)))))))))"

section \<open>Registering\<close>

definition add_report :: "string \<Rightarrow> rcbdata \<Rightarrow> client \<Rightarrow> client" where
  "add_report tupl r s =
     s\<lparr>cl_reporting := dset tupl (registered_reports tupl s @ [r]) (cl_reporting s)\<rparr>"

definition subscribe ::
  "capi \<Rightarrow> addr \<Rightarrow> string \<Rightarrow> string \<Rightarrow> string \<Rightarrow> string \<Rightarrow> string \<Rightarrow> string \<Rightarrow> (client, unit) prog" where
  "subscribe C con key tupl LD LN DS RPT =
     bnd (on_trace (enable_report C con RPT 0 True)) (\<lambda>rcb.
     andthen (modify (\<lambda>s. s\<lparr>cl_cb_refs := cl_cb_refs s @ [CbReport RPT]\<rparr>))
       (modify (add_report tupl
         \<lparr>rb_rcb = rcb, rb_RPT = RPT,
          rb_refdata = \<lparr>rd_key = key, rd_tupl = tupl, rd_LD = LD, rd_LN = LN, rd_DS = DS\<rparr>\<rparr>)))"

text \<open>A pointer of None is passed as NULL.\<close>

definition con_arg :: "addr option \<Rightarrow> addr" where
  "con_arg c = (case c of None \<Rightarrow> 0 | Some a \<Rightarrow> a)"

definition registerForReporting ::
  "capi \<Rightarrow> string \<Rightarrow> string \<Rightarrow> string \<Rightarrow> (client, bool) prog" where
  "registerForReporting C key tupl ref =
     bnd (get_conn tupl) (\<lambda>c.
     bnd (lift (find_dataset (cn_model c) ref)) (\<lambda>found.
       case found of
         None \<Rightarrow> ret False
       | Some (LD, LN, DS, index) \<Rightarrow>
           if index = [] then ret False
           else bnd (lift (find_report (cn_model c) LD LN DS)) (\<lambda>rp.
             case rp of
               None \<Rightarrow> ret False
             | Some RPT \<Rightarrow>
                 bnd (gets cl_cb_refs) (\<lambda>refs.
                   if CbReport RPT \<in> set refs then
                     bnd (on_trace (call_getRCB C (con_arg (cn_con c)) RPT 0)) (\<lambda>rcb.
                     andthen (on_trace (deref rcb)) (ret True))
                   else
                     andthen (subscribe C (con_arg (cn_con c)) key tupl LD LN DS RPT) (ret True)))))"

text \<open>
  A value is polled only when no report covers it. A reference already in the polling table
  is accepted at once.
\<close>

definition registerReadValue :: "nat \<Rightarrow> capi \<Rightarrow> string \<Rightarrow> (client, int) prog" where
  "registerReadValue n C ref =
     bnd (gets (\<lambda>s. dhas ref (cl_polling s))) (\<lambda>known.
       if known then ret 0
       else bnd (lift (parse_target ref)) (\<lambda>t.
         case t of
           None \<Rightarrow> ret (-1)
         | Some t \<Rightarrow>
             bnd (getIED n C (Some (tg_host t)) (tg_port t)) (\<lambda>err.
               if err \<noteq> 0 then ret (-1)
               else bnd (conn_value (tg_key t) (tg_path t)) (\<lambda>(submodel, path).
                 if \<not> truthy submodel then ret (-1)
                 else bnd (registerForReporting C ref (tg_key t) (tg_path t)) (\<lambda>rpt.
                   if rpt then ret 0
                   else andthen (modify (\<lambda>s. s\<lparr>cl_polling := dset ref 1 (cl_polling s)\<rparr>)) (ret 0))))))"

section \<open>The report handler\<close>

text \<open>
  \<open>submodel["value"] = val\<close> where \<open>submodel, path = parseRef(model, DaRef)\<close>: the value found
  is part of the model, which changes with it; when nothing is found it is a new dictionary.
\<close>

definition store_report :: "pv \<Rightarrow> string \<Rightarrow> string \<Rightarrow> (pv \<times> pv) result" where
  "store_report model DaRef val =
     rbind (parseRef model DaRef) (\<lambda>(sub, path).
     rbind (py_set sub ''value'' (PStr val)) (\<lambda>sub'.
       Val (sub', if path = [] \<and> DaRef \<noteq> [] then model else update_path path sub' model)))"

definition report_member ::
  "capi \<Rightarrow> addr \<Rightarrow> refdata \<Rightarrow> addr \<Rightarrow> string \<Rightarrow> (client, unit) prog" where
  "report_member C report rd values index =
     bnd (lift (py_int_of_str index)) (\<lambda>i.
     bnd (gets (\<lambda>s. c_reason C (cl_trace s) report i)) (\<lambda>reason.
       if reason = IEC61850_REASON_NOT_INCLUDED then ret ()
       else bnd (gets (\<lambda>s. c_element C (cl_trace s) values i)) (\<lambda>mmsval.
         bnd (get_conn (rd_tupl rd)) (\<lambda>c.
         bnd (lift (rbind (py_get (cn_model c) (rd_LD rd)) (\<lambda>lns.
                    rbind (py_get lns (rd_LN rd)) (\<lambda>dos.
                    rbind (py_get dos (rd_DS rd)) (\<lambda>ds.
                    rbind (py_get ds index) (\<lambda>m. py_get m ''value'')))))) (\<lambda>DaRef.
         bnd (on_trace (show_value C mmsval)) (\<lambda>vt.
           case DaRef of
             PDict d \<Rightarrow> raise TypeError
           | PStr DaRef \<Rightarrow>
               bnd (lift (store_report (cn_model c) DaRef (fst vt))) (\<lambda>(sub, model).
               andthen (upd_conn (rd_tupl rd) (\<lambda>c. c\<lparr>cn_model := model\<rparr>))
               (bnd (gets cl_rptcb) (\<lambda>b.
                  if b then on_trace (emit (ERptCb (rd_key rd) sub)) else ret ())))))))))"

definition ReportHandler_cb :: "capi \<Rightarrow> refdata \<Rightarrow> addr \<Rightarrow> (client, unit) prog" where
  "ReportHandler_cb C rd report =
     bnd (gets (\<lambda>s. c_dataSetValues C (cl_trace s) report)) (\<lambda>values.
     bnd (get_conn (rd_tupl rd)) (\<lambda>c.
     bnd (lift (rbind (py_get (cn_model c) (rd_LD rd)) (\<lambda>lns.
                rbind (py_get lns (rd_LN rd)) (\<lambda>dos. py_get dos (rd_DS rd))))) (\<lambda>dataset.
       for_each (py_iter dataset) (report_member C report rd values))))"

end
