(* ===== verification/Client_Control.thy ===== *)
theory Client_Control
  imports Client_Reports
begin

text \<open>
  Control: the cached control objects of a connection (\<open>get_controlObject\<close>) and the
  operations \<open>operate\<close>, \<open>select\<close>, \<open>cancel\<close> with the handler for command terminations. A
  Boolean answer of the library is the number 1 or 0, to which Python's True and False
  compare equal.
\<close>

definition of_c_bool :: "bool \<Rightarrow> int" where
  "of_c_bool b = (if b then 1 else 0)"

definition call_ctlCreate :: "capi \<Rightarrow> string \<Rightarrow> addr \<Rightarrow> (trace, addr) prog" where
  "call_ctlCreate C path con h =
     (let ctl = c_ctlCreate C h path con in (Val ctl, h @ [ECtlCreate path con ctl]))"

definition call_operate :: "capi \<Rightarrow> addr \<Rightarrow> addr \<Rightarrow> (trace, int) prog" where
  "call_operate C ctl v h =
     (let b = c_operate C h ctl v in (Val (of_c_bool b), h @ [EOperate ctl v b]))"

definition call_select :: "capi \<Rightarrow> addr \<Rightarrow> (trace, int) prog" where
  "call_select C ctl h = (let b = c_select C h ctl in (Val (of_c_bool b), h @ [ESelect ctl b]))"

definition call_selectValue :: "capi \<Rightarrow> addr \<Rightarrow> addr \<Rightarrow> (trace, int) prog" where
  "call_selectValue C ctl v h =
     (let b = c_selectValue C h ctl v in (Val (of_c_bool b), h @ [ESelectValue ctl v b]))"

definition call_cancel :: "capi \<Rightarrow> addr \<Rightarrow> (trace, int) prog" where
  "call_cancel C ctl h = (let b = c_cancel C h ctl in (Val (of_c_bool b), h @ [ECancel ctl b]))"

section \<open>Control objects\<close>

definition set_control :: "string \<Rightarrow> addr \<Rightarrow> conn \<Rightarrow> conn" where
  "set_control path ctl c =
     c\<lparr>cn_control := Some (dset path ctl (case cn_control c of None \<Rightarrow> [] | Some d \<Rightarrow> d))\<rparr>"

definition lookup_control :: "string \<Rightarrow> conn \<Rightarrow> addr option" where
  "lookup_control path c =
     (case cn_control c of None \<Rightarrow> None | Some d \<Rightarrow> map_of d path)"

definition ensure_control :: "conn \<Rightarrow> conn" where
  "ensure_control c = (case cn_control c of None \<Rightarrow> c\<lparr>cn_control := Some []\<rparr> | Some d \<Rightarrow> c)"

text \<open>
  A control object is created once per path and kept for the life of the table entry, also
  across a reconnect. With enhanced security a termination handler is installed.
\<close>

definition get_controlObject :: "capi \<Rightarrow> string \<Rightarrow> string \<Rightarrow> (client, addr) prog" where
  "get_controlObject C tupl path =
     bnd (get_conn tupl) (\<lambda>c.
     andthen (upd_conn tupl ensure_control)
     (case lookup_control path c of
        Some ctl \<Rightarrow> ret ctl
      | None \<Rightarrow>
          bnd (on_trace (call_ctlCreate C path (con_arg (cn_con c)))) (\<lambda>control.
          andthen (upd_conn tupl (set_control path control))
          (andthen (on_trace (deref control))
          (bnd (gets (\<lambda>s. c_ctlModel C (cl_trace s) control)) (\<lambda>ctlModel.
             if ctlModel = CONTROL_MODEL_DIRECT_ENHANCED \<or> ctlModel = CONTROL_MODEL_SBO_ENHANCED then
               andthen (on_trace (emit (ESetTermHandler control path)))
               (andthen (modify (\<lambda>s. s\<lparr>cl_cb_refs := cl_cb_refs s @ [CbHandler, CbBytes path]\<rparr>))
               (ret control))
             else ret control))))))"

section \<open>Operations\<close>

text \<open>
  \<open>hostname\<close> and \<open>port\<close> are set only when there is a reference; without one the test of
  \<open>port\<close> raises UnboundLocalError.
\<close>

definition control_target :: "string option \<Rightarrow> (url \<times> string option \<times> portarg) result" where
  "control_target ref =
     (case ref of
        None \<Rightarrow> Exn UnboundLocalError
      | Some ref \<Rightarrow> rbind (host_port ref) (\<lambda>(u, h, p). Val (u, h, default_port p)))"

text \<open>
  Connect, find the control object and go on with it; \<open>none\<close> is what the operation returns
  when the device cannot be reached.
\<close>

definition with_control ::
  "nat \<Rightarrow> capi \<Rightarrow> string option \<Rightarrow> 'a \<Rightarrow> (addr \<Rightarrow> (client, 'a) prog) \<Rightarrow> (client, 'a) prog" where
  "with_control n C ref none f =
     bnd (lift (control_target ref)) (\<lambda>(u, host, port).
     bnd (getIED n C host port) (\<lambda>err.
       case (err = 0, host) of
         (True, Some h) \<Rightarrow>
           bnd (get_controlObject C (conn_key h port) (drop 1 (u_path u))) f
       | _ \<Rightarrow> ret none))"

text \<open>\<open>AddCause(lastApplError.addCause).name\<close>\<close>

definition last_cause :: "capi \<Rightarrow> addr \<Rightarrow> (client, string) prog" where
  "last_cause C control =
     bnd (gets (\<lambda>s. c_lastError C (cl_trace s) control)) (\<lambda>(error, addCause).
       lift (enum_name AddCause addCause))"

definition null_arg :: "addr option \<Rightarrow> addr" where
  "null_arg v = (case v of None \<Rightarrow> 0 | Some a \<Rightarrow> a)"

definition control_value ::
  "capi \<Rightarrow> pyfloat \<Rightarrow> addr \<Rightarrow> pyarg \<Rightarrow> (client, addr) prog" where
  "control_value C F control value =
     bnd (gets (\<lambda>s. c_ctlValType C (cl_trace s) control)) (\<lambda>mmsType.
     bnd (on_trace (getMMsValue C F [] value 0 mmsType)) (\<lambda>v. ret (null_arg v)))"

definition operate ::
  "nat \<Rightarrow> capi \<Rightarrow> pyfloat \<Rightarrow> string option \<Rightarrow> pyarg \<Rightarrow> (client, int \<times> string) prog" where
  "operate n C F ref value =
     with_control n C ref (-1, []) (\<lambda>control.
       andthen (on_trace (emit (ESetOrigin control ''mmi'' 3)))
       (bnd (control_value C F control value) (\<lambda>ctlVal.
       bnd (on_trace (call_operate C control ctlVal)) (\<lambda>error.
       bnd (if error = 1 then ret [] else last_cause C control) (\<lambda>addCause.
       andthen (on_trace (emit (EValueDelete ctlVal))) (ret (error, addCause)))))))"

definition select ::
  "nat \<Rightarrow> capi \<Rightarrow> pyfloat \<Rightarrow> string option \<Rightarrow> pyarg \<Rightarrow> (client, int \<times> string) prog" where
  "select n C F ref value =
     with_control n C ref (-1, []) (\<lambda>control.
       bnd (gets (\<lambda>s. c_ctlModel C (cl_trace s) control)) (\<lambda>ctlModel.
         if ctlModel = CONTROL_MODEL_SBO_NORMAL then
           bnd (on_trace (call_select C control)) (\<lambda>error.
           bnd (if error = 1 then ret [] else last_cause C control) (\<lambda>addCause.
             ret (error, addCause)))
         else if ctlModel = CONTROL_MODEL_SBO_ENHANCED then
           bnd (control_value C F control value) (\<lambda>ctlVal.
           andthen (on_trace (emit (ESetOrigin control ''mmi'' 3)))
           (bnd (on_trace (call_selectValue C control ctlVal)) (\<lambda>error.
           bnd (if error = 1 then ret [] else last_cause C control) (\<lambda>addCause.
           andthen (on_trace (emit (EValueDelete ctlVal))) (ret (error, addCause))))))
         else ret (-1, ''cannot select object with ctlmodel: '' @ int_str ctlModel)))"

definition cancel :: "nat \<Rightarrow> capi \<Rightarrow> string option \<Rightarrow> (client, int) prog" where
  "cancel n C ref =
     with_control n C ref (-1) (\<lambda>control. on_trace (call_cancel C control))"

section \<open>Command termination\<close>

definition commandTerminationHandler_cb :: "capi \<Rightarrow> string \<Rightarrow> addr \<Rightarrow> (client, unit) prog" where
  "commandTerminationHandler_cb C param control =
     bnd (lift (decode_utf8 param)) (\<lambda>buff.
     bnd (gets (\<lambda>s. c_lastError C (cl_trace s) control)) (\<lambda>(error, addCause).
     bnd (gets cl_termcb) (\<lambda>b.
       if \<not> b then ret ()
       else if error \<noteq> 0 then
         bnd (lift (enum_name AddCause addCause)) (\<lambda>cause.
           on_trace (emit (ETermCb (''object:'' @ buff @
             '' Received CommandTermination-, LastApplError: '' @ int_str error @
             '', addCause: '' @ cause))))
       else on_trace (emit (ETermCb (''object:'' @ buff @ '' Received CommandTermination+''))))))"

end
