(* ===== verification/Client_Demo.thy ===== *)
theory Client_Demo
  imports Client_Control
begin

text \<open>
  A small concrete library for the runs that witness the properties: a server with one
  device, node and object, a data set over it and an unbuffered report control block.
\<close>

definition demo_names :: "string \<Rightarrow> string list option" where
  "demo_names ref =
     (if ref = ''LD/LN.Pos'' then Some [''stVal[ST]'']
      else if ref = ''LD/LN.RP'' then Some [''DatSet[RP]''] else None)"

definition demo_lib :: capi where
  "demo_lib =
     \<lparr>c_typeString = (\<lambda>h v. if v = 8 then ''visible-string'' else ''integer''),
      c_boolean = (\<lambda>h v. True), c_binaryTime = (\<lambda>h v. 0), c_bitString = (\<lambda>h v. 0),
      c_float = (\<lambda>h v. FNan), c_unixTime = (\<lambda>h v. 0), c_int64 = (\<lambda>h v. 7),
      c_string = (\<lambda>h v. if v = 8 then Some ''LD/LN$DS'' else None), c_octets = (\<lambda>h v. []),
      c_uint32 = (\<lambda>h v. 0), c_utcTime = (\<lambda>h v. 0), c_element = (\<lambda>h v i. 9),
      c_new = (\<lambda>h k. 30),
      c_dataDirectory = (\<lambda>h con ref. case demo_names ref of
                           None \<Rightarrow> (0, [], 22) | Some ns \<Rightarrow> (100, ns, 0)),
      c_deviceList = (\<lambda>h con. (101, [''LD''], 0)),
      c_deviceDirectory = (\<lambda>h con ld. (102, [''LN''], 0)),
      c_nodeDirectory = (\<lambda>h con ref cls.
         (103, if cls = 0 then [''Pos''] else if cls = 1 then [''DS'']
               else if cls = 3 then [''RP''] else [], 0)),
      c_dataSetDirectory = (\<lambda>h con ref. (104, [''LD/LN.Pos.stVal[ST]''], 0)),
      c_readObject = (\<lambda>h con ref fc. if ref = ''LD/LN.Pos.stVal'' then (9, 0)
                        else if ref = ''LD/LN.RP.DatSet'' then (8, 0) else (0, 22)),
      c_writeObject = (\<lambda>h con ref fc v. 0),
      c_fcFromString = (\<lambda>s. 0),
      c_create = (\<lambda>h. 1), c_connect = (\<lambda>h con host port. 0),
      c_getRCB = (\<lambda>h con rpt rcb. (50, 0)), c_setRCB = (\<lambda>h con rcb flags single. 0),
      c_rptId = (\<lambda>h rcb. Some ''id''), c_reason = (\<lambda>h r i. 1), c_dataSetValues = (\<lambda>h r. 60),
      c_ctlCreate = (\<lambda>h path con. 70), c_ctlModel = (\<lambda>h ctl. 4), c_ctlValType = (\<lambda>h ctl. 2),
      c_operate = (\<lambda>h ctl v. True), c_select = (\<lambda>h ctl. True), c_selectValue = (\<lambda>h ctl v. False),
      c_cancel = (\<lambda>h ctl. True), c_lastError = (\<lambda>h ctl. (1, 18))\<rparr>"

definition demo_float :: pyfloat where
  "demo_float = \<lparr>float_of_str = (\<lambda>s. None), str_of_float = (\<lambda>x. [])\<rparr>"

definition demo_tree :: "(string \<times> pv) list" where
  "demo_tree =
     [(''LD'', PDict [(''LN'', PDict
        [(''Pos'', PDict [(''stVal'', PDict [(''reftype'', PStr ''DA''), (''FC'', PStr ''ST''),
                                          (''value'', PStr ''7''), (''type'', PStr ''integer'')])]),
         (''DS'', PDict [(''0'', PDict [(''reftype'', PStr ''DX''), (''type'', PStr ''reference''),
                                      (''value'', PStr ''LD/LN.Pos.stVal''), (''FC'', PStr ''ST'')])]),
         (''RP'', PDict [(''DatSet'', PDict [(''reftype'', PStr ''DA''), (''FC'', PStr ''RP''),
                                          (''value'', PStr ''LD/LN$DS''), (''type'', PStr ''visible-string'')])])])])]"

lemma demo_lib_simps [simp]:
  "c_new demo_lib h k = 30" "c_create demo_lib h = 1" "c_connect demo_lib h con host port = 0"
  "c_int64 demo_lib h v = 7" "c_fcFromString demo_lib s = 0" "c_writeObject demo_lib h con ref fc v = 0"
  "c_getRCB demo_lib h con rpt rcb = (50, 0)" "c_setRCB demo_lib h con rcb flags single = 0"
  "c_rptId demo_lib h rcb = Some ''id''" "c_ctlCreate demo_lib h path con = 70"
  "c_ctlModel demo_lib h ctl = 4" "c_ctlValType demo_lib h ctl = 2" "c_operate demo_lib h ctl v"
  "\<not> c_selectValue demo_lib h ctl v" "c_cancel demo_lib h ctl" "c_lastError demo_lib h ctl = (1, 18)"
  "c_reason demo_lib h r i = 1" "c_dataSetValues demo_lib h r = 60" "c_element demo_lib h v i = 9"
  by (simp_all add: demo_lib_def)

lemma demo_discovery: "fst (discovery 5 demo_lib 1 []) = Val demo_tree"
  by code_simp

end
