(* ===== verification/Client_Values_Spec.thy ===== *)
theory Client_Values_Spec
  imports Client_Demo
begin

text \<open>Properties of the conversions between Python values and MMS values.\<close>

text \<open>A bit string is made and filled, and then not returned.\<close>

lemma getMMsValue_bit_string:
  assumes "py_int value = Val i"
  shows "getMMsValue C F ''bit-string'' value sz (-1) h =
           (Val None, h @ [EValueNew (NewBitString (word_of_int sz)) (c_new C h (NewBitString (word_of_int sz))),
                           ESetBits (c_new C h (NewBitString (word_of_int sz))) (word_of_int i)])"
  using assms
  by (simp add: getMMsValue_def mms_type_defs andthen_def bnd_def call_new_def Let_def)

text \<open>
  C28 A bit string can never be written: for a leaf of type \<open>bit-string\<close> and any number,
  \<open>writeValue\<close> returns the error -1 with the model unchanged, makes no write request, and leaves
  the value it made undeleted.
\<close>
theorem bit_string_never_written:
  assumes "parseRef model ref = Val (PDict d, path)" and "dget ''FC'' d = Val (PStr fc)"
    and "dget ''type'' d = Val (PStr ''bit-string'')" and "py_int value = Val i"
  shows "\<exists>v. writeValue n C F con model ref value h =
           (Val (model, -1), h @ [EValueNew (NewBitString 8) v, ESetBits v (word_of_int i)])"
proof -
  have "d \<noteq> []" "dhas ''FC'' d"
    using assms(2) by (auto simp: dget_def dhas_iff split: option.splits)
  with assms getMMsValue_bit_string [OF assms(4), of C F 8 h] show ?thesis
    by (simp add: writeValue_def bnd_def del: fun_upd_apply)
qed

lemma bit_string_never_written_witness:
  "\<exists>v. writeValue 5 demo_lib demo_float 1
     (PDict [(''LD'', PDict [(''FC'', PStr ''CF''), (''type'', PStr ''bit-string'')])]) ''LD'' (AInt 3) [] =
     (Val (PDict [(''LD'', PDict [(''FC'', PStr ''CF''), (''type'', PStr ''bit-string'')])], -1),
      [EValueNew (NewBitString 8) v, ESetBits v (word_of_int 3)])"
  using bit_string_never_written [of "PDict [(''LD'', PDict [(''FC'', PStr ''CF''), (''type'', PStr ''bit-string'')])]"
      "''LD''" "[(''FC'', PStr ''CF''), (''type'', PStr ''bit-string'')]" "[''LD'']" "''CF''" "AInt 3" 3
      5 demo_lib demo_float 1 "[]"]
  by (simp add: parseRef_def dget_def dhas_def)

text \<open>
  An octet string can never be made: whatever the value, \<open>getMMsValue\<close> raises TypeError, for
  a \<open>bytearray\<close> only after a value has been made that is not deleted.
\<close>
theorem octet_string_never_made:
  "fst (getMMsValue C F ''octet-string'' value sz (-1) h) = Exn TypeError \<and>
   (case value of
      ABytearray bs \<Rightarrow> \<exists>v. snd (getMMsValue C F ''octet-string'' value sz (-1) h) =
        h @ [EValueNew (NewOctetString (word_of_int (int (length bs))) 127) v]
    | _ \<Rightarrow> snd (getMMsValue C F ''octet-string'' value sz (-1) h) = h)"
  by (cases "value") (simp_all add: getMMsValue_def mms_type_defs call_new_def Let_def)

text \<open>
  C27 An integer reaches the device as the 32-bit number of its lowest 32 bits, given as a number
  or as its decimal digits, and no error is raised: it is the number asked for exactly when that
  fits into a signed 32-bit integer.
\<close>
theorem integer_truncated:
  "\<exists>w v. getMMsValue C F ''integer'' (AInt i) sz (-1) h = (Val (Some v), h @ [EValueNew (NewInteger w) v]) \<and>
         getMMsValue C F ''integer'' (AStr (int_str i)) sz (-1) h =
           (Val (Some v), h @ [EValueNew (NewInteger w) v]) \<and>
         uint w = i mod 2 ^ 32 \<and>
         (sint w = i \<longleftrightarrow> - (2 ^ 31) \<le> i \<and> i < 2 ^ 31)"
proof -
  let ?w = "word_of_int i :: 32 word"
  have low: "uint ?w = i mod 2 ^ 32" by (simp add: uint_word_of_int)
  have "sint ?w = signed_take_bit 31 i" by (simp add: sint_sbintrunc')
  also have "\<dots> = i \<longleftrightarrow> - (2 ^ 31) \<le> i \<and> i < 2 ^ 31"
    by (simp add: signed_take_bit_int_eq_self_iff)
  finally have "sint ?w = i \<longleftrightarrow> - (2 ^ 31) \<le> i \<and> i < 2 ^ 31" .
  with low show ?thesis
    by (intro exI [of _ ?w] exI [of _ "c_new C h (NewInteger ?w)"])
      (simp add: getMMsValue_def mms_type_defs new_of_int_def int_of_int_str bnd_def call_new_def Let_def)
qed

text \<open>
  C26 Reading a value and writing its printed form back makes the same value for Booleans,
  unsigned numbers, UTC times and strings; a 64-bit integer is cut to 32 bits, a binary time is
  reduced to whether it is not zero, and a generalized time printed in seconds is written as
  that many milliseconds.
\<close>
theorem value_written_back:
  assumes "printValue C h v = Val (s, ty)"
    and "ty \<in> {''boolean'', ''unsigned'', ''utc-time'', ''visible-string'', ''mms-string'', ''integer'',
               ''binary-time'', ''generalized-time''}"
  shows "\<exists>u k. getMMsValue C F ty (AStr s) sz (-1) h' = (Val (Some u), h' @ [EValueNew k u]) \<and>
           k = (if ty = ''boolean'' then NewBoolean (c_boolean C h v)
                else if ty = ''unsigned'' then NewUnsigned (c_uint32 C h v)
                else if ty = ''utc-time'' then NewUtcTime (c_utcTime C h v)
                else if ty = ''visible-string'' then NewVisibleString s
                else if ty = ''mms-string'' then NewMmsString s
                else if ty = ''integer'' then NewInteger (ucast (c_int64 C h v))
                else if ty = ''binary-time'' then NewBinaryTime (c_binaryTime C h v \<noteq> 0)
                else NewUtcTime (ucast (c_unixTime C h v)))"
proof -
  obtain t where t: "decode_utf8 (c_typeString C h v) = Val t"
    using assms(1) by (cases "decode_utf8 (c_typeString C h v)") (auto simp: printValue_def)
  have [simp]: "rbind r (\<lambda>s. Val (s, a)) = Val (s, ty) \<longleftrightarrow> r = Val s \<and> a = ty" for r and a :: string
    by (cases r) auto
  from assms(1) t have ty: "ty = t"
    by (auto simp: printValue_def split: if_splits)
  have bools: "str_lower (py_bool_str b) = ''true'' \<longleftrightarrow> b" for b
    by (simp add: py_bool_str_def str_lower_def lower_char_def is_upper_def char_of_def bit_iff_odd)
  have casts: "word_of_int (uint x) = (ucast x :: 'b :: len word)" for x :: "'a :: len word"
    by (rule ucast_eq [symmetric])
  have scast: "(scast x :: 32 word) = ucast x" for x :: "64 word"
    by (rule bit_word_eqI) (auto simp: bit_simps)
  note defs = printValue_def getMMsValue_def mms_type_defs new_of_int_def int_of_int_str bnd_def
    call_new_def Let_def casts scast bools unsigned_eq_0_iff
  have "printValue C h v = Val (s, ty)" "decode_utf8 (c_typeString C h v) = Val ty"
    using assms(1) t ty by simp_all
  note facts = this
  from assms(2) show ?thesis
  proof (elim insertE emptyE)
    assume "ty = ''boolean''"
    with facts show ?thesis by (auto simp: defs)
  next
    assume "ty = ''unsigned''"
    with facts show ?thesis by (auto simp: defs)
  next
    assume "ty = ''utc-time''"
    with facts show ?thesis by (auto simp: defs)
  next
    assume "ty = ''visible-string''"
    with facts show ?thesis by (auto simp: defs)
  next
    assume "ty = ''mms-string''"
    with facts show ?thesis by (auto simp: defs)
  next
    assume "ty = ''integer''"
    with facts show ?thesis by (auto simp: defs)
  next
    assume "ty = ''binary-time''"
    with facts show ?thesis by (auto simp: defs)
  next
    assume "ty = ''generalized-time''"
    with facts show ?thesis by (auto simp: defs)
  qed
qed

lemma value_written_back_witness:
  "\<exists>u. getMMsValue demo_lib demo_float ''integer'' (AStr ''7'') 8 (-1) [] =
         (Val (Some u), [EValueNew (NewInteger 7) u])"
proof -
  have "printValue demo_lib [] 9 = Val (''7'', ''integer'')" by code_simp
  from value_written_back [OF this, of demo_float 8 "[]"] show ?thesis by simp
qed

end
