(* ===== verification/Client_Ownership.thy ===== *)
theory Client_Ownership
  imports Client_Update
begin

text \<open>
  Ownership of what the library hands out. A program starts with a bag of addresses it is
  responsible for and ends with another; the difference is what it acquired and released.
  The calculus is a locale over the weight of a call, used for linked lists and for MMS
  values.
\<close>

section \<open>The calculus\<close>

text \<open>
  Results after which the caller goes on: a value, or the NameError of an early return in
  \<open>discovery\<close>. Any other exception leaves what was held unreleased.
\<close>

definition observed :: "'a result \<Rightarrow> bool" where
  "observed r \<longleftrightarrow> (\<exists>x. r = Val x) \<or> r = Exn NameError"

lemma observed_simps [simp]:
  "observed (Val x)" "observed (Exn e) \<longleftrightarrow> e = NameError" "\<not> observed NoReturn"
  by (simp_all add: observed_def)

definition held :: "(cev \<Rightarrow> addr \<Rightarrow> int) \<Rightarrow> trace \<Rightarrow> addr \<Rightarrow> int" where
  "held w h a = sum_list (map (\<lambda>e. w e a) h)"

lemma held_snoc [simp]: "held w (h @ [e]) a = held w h a + w e a"
  by (simp add: held_def)

text \<open>How often an address is in a bag. Only addresses other than NULL are counted.\<close>

definition owed :: "addr list \<Rightarrow> addr \<Rightarrow> int" where
  "owed ls a = int (count_list ls a)"

lemma owed_simps [simp]:
  "owed [] a = 0"
  "owed (l # ls) a = (if l = a then 1 else 0) + owed ls a"
  "owed (ls @ ls') a = owed ls a + owed ls' a"
  by (simp_all add: owed_def)

definition pays ::
  "(cev \<Rightarrow> addr \<Rightarrow> int) \<Rightarrow> addr list \<Rightarrow> ('a result \<Rightarrow> addr list) \<Rightarrow> (trace, 'a) prog \<Rightarrow> bool" where
  "pays w before after m \<longleftrightarrow>
     (\<forall>h. observed (fst (m h)) \<longrightarrow>
        (\<forall>a. a \<noteq> 0 \<longrightarrow>
           held w (snd (m h)) a - owed (after (fst (m h))) a = held w h a - owed before a))"

lemma paysI:
  assumes "\<And>h r h' a. m h = (r, h') \<Longrightarrow> observed r \<Longrightarrow> a \<noteq> 0 \<Longrightarrow>
             held w h' a - owed (after r) a = held w h a - owed before a"
  shows "pays w before after m"
  using assms by (simp add: pays_def)

lemma paysD:
  assumes "pays w before after m" and "m h = (r, h')" and "observed r" and "a \<noteq> 0"
  shows "held w h' a - owed (after r) a = held w h a - owed before a"
  using assms unfolding pays_def by (metis fst_conv snd_conv)

text \<open>What a loop with early returns leaves: a round that returns or raises has released the bag.\<close>

definition kept :: "addr list \<Rightarrow> 'b flow result \<Rightarrow> addr list" where
  "kept ls r = (case r of Val (Cont x) \<Rightarrow> ls | _ \<Rightarrow> [])"

lemma kept_simps [simp]:
  "kept ls (Val (Cont x)) = ls" "kept ls (Val (Done x)) = []" "kept ls (Exn e) = []"
  by (simp_all add: kept_def)

locale resource =
  fixes weight :: "cev \<Rightarrow> addr \<Rightarrow> int"
  assumes null_weight: "weight e 0 = 0"
begin

lemma held_null: "held weight h 0 = 0"
  by (induction h rule: rev_induct) (simp_all add: held_def null_weight)

lemma balanced:
  assumes "pays weight [] (\<lambda>_. []) m" and "m h = (r, h')" and "observed r"
  shows "held weight h' a = held weight h a"
  using paysD [OF assms] held_null by (cases "a = 0") simp_all

lemma pays_ret:
  "(\<And>a. a \<noteq> 0 \<Longrightarrow> owed (after (Val x)) a = owed before a) \<Longrightarrow> pays weight before after (ret x)"
  by (simp add: pays_def)

lemma pays_raise:
  "(\<And>a. e = NameError \<Longrightarrow> a \<noteq> 0 \<Longrightarrow> owed (after (Exn e)) a = owed before a) \<Longrightarrow>
   pays weight before after (raise e)"
  by (simp add: pays_def)

lemma pays_lift:
  assumes "\<And>x a. r = Val x \<Longrightarrow> a \<noteq> 0 \<Longrightarrow> owed (after r) a = owed before a" and "r \<noteq> Exn NameError"
  shows "pays weight before after (lift r)"
  using assms by (cases r) (auto simp: pays_def)

lemma pays_emit:
  assumes "\<And>a. a \<noteq> 0 \<Longrightarrow> weight e a = owed (after (Val ())) a - owed before a"
  shows "pays weight before after (emit e)"
  using assms by (simp add: pays_def)

lemma pays_bnd:
  assumes m: "pays weight before mid m" and f: "\<And>x. pays weight (mid (Val x)) after (f x)"
    and ex: "\<And>a. owed (mid (Exn NameError)) a = owed (after (Exn NameError)) a"
  shows "pays weight before after (bnd m f)"
proof (rule paysI)
  fix h r h' a
  assume run: "bnd m f h = (r, h')" and obs: "observed r" and a: "a \<noteq> (0 :: addr)"
  show "held weight h' a - owed (after r) a = held weight h a - owed before a"
  proof (cases "m h")
    case (Pair r1 h1)
    show ?thesis
    proof (cases r1)
      case (Val x)
      with Pair run have "f x h1 = (r, h')" by (simp add: bnd_def)
      from paysD [OF f this obs a] paysD [OF m Pair _ a] Val show ?thesis by simp
    next
      case (Exn e)
      with Pair run have "r = Exn e" "h' = h1" by (simp_all add: bnd_def)
      with obs paysD [OF m Pair _ a] Exn ex [of a] show ?thesis by simp
    next
      case NoReturn
      with Pair run obs show ?thesis by (simp add: bnd_def)
    qed
  qed
qed

lemma pays_andthen:
  assumes "pays weight before mid m" and "pays weight (mid (Val ())) after k"
    and "\<And>a. owed (mid (Exn NameError)) a = owed (after (Exn NameError)) a"
  shows "pays weight before after (andthen m k)"
  unfolding andthen_def by (rule pays_bnd [OF assms(1)]) (simp_all add: assms(2,3))

text \<open>Releasing one address, then going on.\<close>

lemma pays_release:
  assumes "\<And>a. a \<noteq> 0 \<Longrightarrow> weight e a = (if l = a then -1 else 0)" and "pays weight ls after k"
  shows "pays weight (l # ls) after (andthen (emit e) k)"
proof (rule pays_andthen)
  show "pays weight (l # ls) (\<lambda>r. case r of Val _ \<Rightarrow> ls | _ \<Rightarrow> after (Exn NameError)) (emit e)"
    using assms(1) by (intro pays_emit) simp
qed (use assms(2) in simp_all)

text \<open>A neutral program keeps any bag.\<close>

lemma pays_frame: "pays weight [] (\<lambda>_. []) m \<Longrightarrow> pays weight ls (\<lambda>_. ls) m"
  by (simp add: pays_def)

lemma neutral_bnd:
  assumes "pays weight [] (\<lambda>_. []) m" and "\<And>x. pays weight [] (\<lambda>_. []) (f x)"
  shows "pays weight [] (\<lambda>_. []) (bnd m f)"
  by (rule pays_bnd [OF assms(1)]) (simp_all add: assms(2))

lemma neutral_loop_acc:
  assumes "\<And>x acc. pays weight [] (\<lambda>_. []) (f x acc)"
  shows "pays weight [] (\<lambda>_. []) (loop_acc xs f acc)"
proof (induction xs arbitrary: acc)
  case Nil
  show ?case unfolding loop_acc.simps by (rule pays_ret) simp
next
  case (Cons x xs)
  show ?case unfolding loop_acc.simps by (rule neutral_bnd [OF assms Cons.IH])
qed

text \<open>Going on after a neutral step while holding a bag; the step does not raise NameError.\<close>

lemma pays_step:
  assumes "pays weight [] (\<lambda>_. []) m" and "\<And>h. fst (m h) \<noteq> Exn NameError"
    and "\<And>x. pays weight ls after (f x)"
  shows "pays weight ls after (bnd m f)"
proof (rule pays_bnd)
  show "pays weight ls (\<lambda>r. case r of Val _ \<Rightarrow> ls | _ \<Rightarrow> after (Exn NameError)) m"
  proof (rule paysI)
    fix h r h' a
    assume "m h = (r, h')" "observed r" "a \<noteq> (0 :: addr)"
    moreover from this assms(2) [of h] obtain x where "r = Val x" by (auto simp: observed_def)
    ultimately show "held weight h' a -
        owed (case r of Val _ \<Rightarrow> ls | _ \<Rightarrow> after (Exn NameError)) a = held weight h a - owed ls a"
      using paysD [OF assms(1)] by fastforce
  qed
qed (simp_all add: assms(3))

text \<open>A call that hands out one address, with what else it answers.\<close>

lemma pays_acquire:
  assumes "\<And>h. \<exists>x l e. m h = (Val x, h @ [e]) \<and>
             (\<forall>a. a \<noteq> 0 \<longrightarrow> weight e a = (if l = a then 1 else 0)) \<and> pays weight (l # ls) after (f x)"
  shows "pays weight ls after (bnd m f)"
proof (rule paysI)
  fix h r h' a
  assume run: "bnd m f h = (r, h')" and obs: "observed r" and a: "a \<noteq> (0 :: addr)"
  from assms [of h] obtain x l e where m: "m h = (Val x, h @ [e])"
    "\<forall>a. a \<noteq> 0 \<longrightarrow> weight e a = (if l = a then 1 else 0)" "pays weight (l # ls) after (f x)" by auto
  with run have "f x (h @ [e]) = (r, h')" by (simp add: bnd_def)
  from paysD [OF m(3) this obs a] m(2) a
  show "held weight h' a - owed (after r) a = held weight h a - owed ls a" by simp
qed

lemma pays_null: "pays weight ls after m \<Longrightarrow> pays weight (0 # ls) after m"
  by (simp add: pays_def)

lemma pays_loop_until:
  assumes "\<And>x acc. pays weight ls (kept ls) (f x acc)"
  shows "pays weight ls (kept ls) (loop_until xs f acc)"
proof (induction xs arbitrary: acc)
  case Nil
  show ?case unfolding loop_until.simps by (rule pays_ret) simp
next
  case (Cons x xs)
  have "pays weight (kept ls (Val r)) (kept ls)
          (case r of Cont acc' \<Rightarrow> loop_until xs f acc' | Done acc' \<Rightarrow> ret (Done acc'))" for r
    using Cons.IH by (cases r) (simp_all add: pays_ret del: ret_run)
  then show ?case
    unfolding loop_until.simps by (rule pays_bnd [OF assms]) simp
qed

lemma pays_and_next:
  assumes "pays weight ls (kept ls) m" and "\<And>x. pays weight ls (kept ls) (f x)"
  shows "pays weight ls (kept ls) (and_next m f)"
proof -
  have "pays weight (kept ls (Val r)) (kept ls)
          (case r of Done x \<Rightarrow> ret (Done x) | Cont x \<Rightarrow> f x)" for r
    using assms(2) by (cases r) (simp_all add: pays_ret del: ret_run)
  then show ?thesis
    unfolding and_next_def by (rule pays_bnd [OF assms(1)]) simp
qed

end

interpretation lists: resource ev_lists
proof unfold_locales
  show "ev_lists e 0 = 0" for e by (cases e) simp_all
qed

interpretation vals: resource ev_values
proof unfold_locales
  show "ev_values e 0 = 0" for e by (cases e) simp_all
qed

section \<open>Programs without NameError\<close>

definition no_name_error :: "('s, 'a) prog \<Rightarrow> bool" where
  "no_name_error m \<longleftrightarrow> (\<forall>s. fst (m s) \<noteq> Exn NameError)"

lemma no_name_error_bnd:
  assumes "no_name_error m" and "\<And>x. no_name_error (f x)"
  shows "no_name_error (bnd m f)"
  using assms unfolding no_name_error_def bnd_def
  by (auto split: prod.split result.split) (metis fst_conv)+

lemma no_name_error_simple [simp]:
  "no_name_error (ret y)" "no_name_error (emit e)"
  "no_name_error (raise x) \<longleftrightarrow> x \<noteq> NameError" "no_name_error (lift r) \<longleftrightarrow> r \<noteq> Exn NameError"
  by (simp_all add: no_name_error_def)

lemma no_name_error_andthen:
  "no_name_error m \<Longrightarrow> no_name_error k \<Longrightarrow> no_name_error (andthen m k)"
  by (simp add: andthen_def no_name_error_bnd)

lemma no_name_error_loop_acc:
  assumes "\<And>x acc. no_name_error (f x acc)"
  shows "no_name_error (loop_acc xs f acc)"
proof (induction xs arbitrary: acc)
  case Nil
  show ?case by (simp del: ret_run)
next
  case (Cons x xs)
  show ?case unfolding loop_acc.simps by (rule no_name_error_bnd [OF assms Cons.IH])
qed

lemma no_name_error_calls [simp]:
  "no_name_error (call_dataDirectory C con ref)" "no_name_error (call_nodeDirectory C con ref c)"
  "no_name_error (call_deviceDirectory C con ref)" "no_name_error (call_dataSetDirectory C con ref)"
  "no_name_error (call_readObject C con ref c)" "no_name_error (call_deviceList C con)"
  by (simp_all add: no_name_error_def call_defs split: prod.split)

lemma decode_no_name_error [simp]: "decode_utf8 s \<noteq> Exn NameError"
  by (simp add: decode_utf8_def)

lemma printValue_no_name_error: "printValue C h v \<noteq> Exn NameError"
proof -
  have "rbind (decode_opt s) (\<lambda>s. Val (s, ty)) \<noteq> Exn NameError" for s and ty :: string
    by (cases "s") (auto simp: decode_opt_def decode_utf8_def)
  then show ?thesis
    unfolding printValue_def by (cases "decode_utf8 (c_typeString C h v)") auto
qed

lemma show_value_no_name_error [simp]: "no_name_error (show_value C v)"
  by (simp add: no_name_error_def show_value_def printValue_no_name_error)

lemmas no_name_error_intros = no_name_error_bnd no_name_error_andthen no_name_error_loop_acc

section \<open>Data directories\<close>

text \<open>The library's contract: a directory or a value asked for in vain is NULL.\<close>

definition null_on_error :: "capi \<Rightarrow> bool" where
  "null_on_error C \<longleftrightarrow>
     (\<forall>h con ref. snd (snd (c_deviceDirectory C h con ref)) \<noteq> 0 \<longrightarrow>
        fst (c_deviceDirectory C h con ref) = 0) \<and>
     (\<forall>h con ref cls. snd (snd (c_nodeDirectory C h con ref cls)) \<noteq> 0 \<longrightarrow>
        fst (c_nodeDirectory C h con ref cls) = 0) \<and>
     (\<forall>h con ref. snd (snd (c_dataSetDirectory C h con ref)) \<noteq> 0 \<longrightarrow>
        fst (c_dataSetDirectory C h con ref) = 0) \<and>
     (\<forall>h con ref fc. snd (c_readObject C h con ref fc) \<noteq> 0 \<longrightarrow>
        fst (c_readObject C h con ref fc) = 0)"

lemma data_attribute_no_name_error:
  "(\<And>r. no_name_error (sub r)) \<Longrightarrow> no_name_error (data_attribute C sub con doRef raw tmodel)"
  unfolding data_attribute_def Let_def
  by (auto intro!: no_name_error_intros simp del: ret_run split: prod.split)

lemma printDataDirectory_no_name_error [simp]: "no_name_error (printDataDirectory n C con doRef)"
proof (induction n arbitrary: doRef)
  case (Suc n)
  show ?case
    unfolding printDataDirectory.simps
    by (auto intro!: no_name_error_intros data_attribute_no_name_error Suc simp del: ret_run
        split: prod.split)
qed (simp del: raise_run)

lemma show_value_neutral: "pays w ls (\<lambda>_. ls) (show_value C v)"
  by (simp add: pays_def show_value_def)

end
