(* ===== verification/Client_Discovery_Facts.thy ===== *)
theory Client_Discovery_Facts
  imports Client_Ownership
begin

text \<open>
  Every list the discovery asks for is destroyed, and every value it reads is deleted, on
  each of its ways out, the NameError of its early returns included.
\<close>

section \<open>Lists\<close>

lemma lists_lift: "r \<noteq> Exn NameError \<Longrightarrow> pays ev_lists [] (\<lambda>_. []) (lift r)"
  by (rule lists.pays_lift) simp_all

lemma lists_neutral_calls:
  "pays ev_lists [] (\<lambda>_. []) (call_readObject C con ref fc)"
  "pays ev_lists [] (\<lambda>_. []) (emit (EValueDelete v))"
  by (simp_all add: pays_def call_defs split: prod.split)

lemma lists_ret: "pays ev_lists ls (\<lambda>_. ls) (ret x)"
  by (rule lists.pays_ret) simp

lemma lists_data_attribute:
  assumes "\<And>r. pays ev_lists [] (\<lambda>_. []) (sub r)"
  shows "pays ev_lists [] (\<lambda>_. []) (data_attribute C sub con doRef raw tmodel)"
  unfolding data_attribute_def Let_def andthen_def
  by (auto intro!: lists.neutral_bnd lists_lift lists_neutral_calls lists_ret assms
      show_value_neutral simp del: ret_run lift_run emit_run split: prod.split)

lemma lists_acquire:
  assumes "\<And>l xs err. pays ev_lists (l # ls) after (f (l, xs, err))"
  shows "pays ev_lists ls after (bnd (call_dataDirectory C con ref) f)"
    and "pays ev_lists ls after (bnd (call_deviceList C con) f)"
  by (rule lists.pays_acquire, fastforce simp: call_defs assms split: prod.split)+

lemma null_on_errorD:
  assumes "null_on_error C"
  shows "snd (snd (c_deviceDirectory C h con ref)) \<noteq> 0 \<Longrightarrow> fst (c_deviceDirectory C h con ref) = 0"
    and "snd (snd (c_nodeDirectory C h con ref cls)) \<noteq> 0 \<Longrightarrow> fst (c_nodeDirectory C h con ref cls) = 0"
    and "snd (snd (c_dataSetDirectory C h con ref)) \<noteq> 0 \<Longrightarrow> fst (c_dataSetDirectory C h con ref) = 0"
    and "snd (c_readObject C h con ref fc) \<noteq> 0 \<Longrightarrow> fst (c_readObject C h con ref fc) = 0"
  using assms by (auto simp: null_on_error_def)

lemma lists_acquire_ok:
  assumes "null_on_error C"
    and "\<And>l xs err. err = 0 \<Longrightarrow> pays ev_lists (l # ls) after (f (l, xs, err))"
    and "\<And>xs err. err \<noteq> 0 \<Longrightarrow> pays ev_lists ls after (f (0, xs, err))"
  shows "pays ev_lists ls after (bnd (call_deviceDirectory C con ref) f)"
    and "pays ev_lists ls after (bnd (call_nodeDirectory C con ref cls) f)"
    and "pays ev_lists ls after (bnd (call_dataSetDirectory C con ref) f)"
proof -
  have *: "pays ev_lists (l # ls) after (f (l, xs, err))" if "err \<noteq> 0 \<longrightarrow> l = 0" for l xs err
    using assms(2,3) that by (cases "err = 0") (auto intro: lists.pays_null)
  have acquire: "pays ev_lists ls after (bnd m f)"
    if "\<And>h. \<exists>l xs err e. m h = (Val (l, xs, err), h @ [e]) \<and> (err \<noteq> 0 \<longrightarrow> l = 0) \<and>
          (\<forall>a. a \<noteq> 0 \<longrightarrow> ev_lists e a = (if l = a then 1 else 0))" for m
    by (rule lists.pays_acquire) (use that * in blast)
  show "pays ev_lists ls after (bnd (call_deviceDirectory C con ref) f)"
  proof (rule acquire)
    fix h
    show "\<exists>l xs err e. call_deviceDirectory C con ref h = (Val (l, xs, err), h @ [e]) \<and>
        (err \<noteq> 0 \<longrightarrow> l = 0) \<and> (\<forall>a. a \<noteq> 0 \<longrightarrow> ev_lists e a = (if l = a then 1 else 0))"
      using null_on_errorD(1) [OF assms(1), of h con ref]
      by (cases "c_deviceDirectory C h con ref") (auto simp: call_deviceDirectory_def)
  qed
  show "pays ev_lists ls after (bnd (call_nodeDirectory C con ref cls) f)"
  proof (rule acquire)
    fix h
    show "\<exists>l xs err e. call_nodeDirectory C con ref cls h = (Val (l, xs, err), h @ [e]) \<and>
        (err \<noteq> 0 \<longrightarrow> l = 0) \<and> (\<forall>a. a \<noteq> 0 \<longrightarrow> ev_lists e a = (if l = a then 1 else 0))"
      using null_on_errorD(2) [OF assms(1), of h con ref cls]
      by (cases "c_nodeDirectory C h con ref cls") (auto simp: call_nodeDirectory_def)
  qed
  show "pays ev_lists ls after (bnd (call_dataSetDirectory C con ref) f)"
  proof (rule acquire)
    fix h
    show "\<exists>l xs err e. call_dataSetDirectory C con ref h = (Val (l, xs, err), h @ [e]) \<and>
        (err \<noteq> 0 \<longrightarrow> l = 0) \<and> (\<forall>a. a \<noteq> 0 \<longrightarrow> ev_lists e a = (if l = a then 1 else 0))"
      using null_on_errorD(3) [OF assms(1), of h con ref]
      by (cases "c_dataSetDirectory C h con ref") (auto simp: call_dataSetDirectory_def)
  qed
qed

lemma lists_release:
  "pays ev_lists ls after k \<Longrightarrow> pays ev_lists (l # ls) after (andthen (emit (EListDestroy l)) k)"
  by (rule lists.pays_release) simp_all

lemma lists_step:
  assumes "pays ev_lists [] (\<lambda>_. []) m" and "no_name_error m"
    and "\<And>x. pays ev_lists ls after (f x)"
  shows "pays ev_lists ls after (bnd m f)"
  using assms by (intro lists.pays_step) (simp_all add: no_name_error_def)

lemma lists_printDataDirectory: "pays ev_lists [] (\<lambda>_. []) (printDataDirectory n C con doRef)"
proof (induction n arbitrary: doRef)
  case 0
  show ?case unfolding printDataDirectory.simps by (rule lists.pays_raise) simp
next
  case (Suc n)
  have "pays ev_lists [l] (\<lambda>_. [])
      (bnd (loop_acc names (data_attribute C (printDataDirectory n C con) con doRef) [])
           (\<lambda>tmodel. andthen (emit (EListDestroy l)) (ret tmodel)))" for l names
    by (intro lists_step lists_release lists.neutral_loop_acc lists_data_attribute Suc lists_ret
        no_name_error_loop_acc data_attribute_no_name_error printDataDirectory_no_name_error)
  then show ?case
    unfolding printDataDirectory.simps
    by (auto intro!: lists_acquire lists.pays_null lists_ret simp del: ret_run)
qed

lemma lists_destroy_all: "pays ev_lists (ls @ ls') (\<lambda>_. ls') (destroy_all ls)"
  unfolding destroy_all_def
proof (induction ls)
  case Nil
  show ?case by (simp add: pays_def)
next
  case (Cons l ls)
  then show ?case
    unfolding for_each.simps append_Cons by (rule lists_release)
qed

lemma lists_give_up: "pays ev_lists ls (kept ls') (andthen (destroy_all ls) (ret (Done x)))"
proof (rule lists.pays_andthen)
  show "pays ev_lists ls (\<lambda>_. []) (destroy_all ls)"
    using lists_destroy_all [of ls "[]"] by simp
qed (simp_all add: lists.pays_ret del: ret_run)

lemma no_name_error_deref [simp]: "no_name_error (deref l)"
  by (simp add: deref_def del: ret_run lift_run)

lemma lists_deref: "pays ev_lists ls after k \<Longrightarrow> pays ev_lists ls after (andthen (deref l) k)"
  unfolding andthen_def deref_def
  by (cases "l = 0") (simp_all add: pays_def bnd_def)

lemma lists_node_object: "pays ev_lists [] (\<lambda>_. []) (node_object n C con lnRef raw ln)"
  unfolding node_object_def
  by (intro lists.neutral_bnd lists_lift lists_printDataDirectory lists_ret decode_no_name_error)

lemma node_object_no_name_error: "no_name_error (node_object n C con lnRef raw ln)"
  unfolding node_object_def
  by (auto intro!: no_name_error_intros simp del: ret_run lift_run)

lemma lists_node_objects:
  assumes "null_on_error C"
  shows "pays ev_lists hs (kept hs) (node_objects n C con lnRef cls hs ln)"
proof -
  have "pays ev_lists (l # hs) (kept hs)
     (andthen (deref l) (bnd (loop_acc names (node_object n C con lnRef) ln) (\<lambda>ln.
        andthen (emit (EListDestroy l)) (ret (Cont ln)))))" for l names
    by (intro lists_deref lists_step lists.neutral_loop_acc lists_node_object no_name_error_loop_acc
        node_object_no_name_error lists_release lists.pays_ret) simp
  then show ?thesis
    unfolding node_objects_def
    by (intro lists_acquire_ok(2) [OF assms]) (simp_all add: lists_give_up)
qed

lemma dataset_members_neutral:
  "pays ev_lists [] (\<lambda>_. []) (dataset_members raws i ds)" "no_name_error (dataset_members raws i ds)"
  by (induction raws arbitrary: i ds)
    (auto intro!: lists.neutral_bnd lists_lift lists_ret no_name_error_intros simp del: ret_run lift_run)

lemma lists_node_dataset:
  assumes "null_on_error C"
  shows "pays ev_lists hs (kept hs) (node_dataset C con lnRef hs raw ln)"
proof -
  have "pays ev_lists (l # hs) (kept hs)
     (andthen (deref l) (bnd (dataset_members members 0 []) (\<lambda>ds.
        andthen (emit (EListDestroy l)) (ret (Cont (dset DSname (PDict ds) ln))))))" for l members DSname
    by (intro lists_deref lists_step dataset_members_neutral lists_release lists.pays_ret) simp
  then show ?thesis
    unfolding node_dataset_def
    by (intro lists_step lists_lift lists_acquire_ok(3) [OF assms])
      (simp_all add: lists_give_up del: lift_run)
qed

lemma lists_node_datasets:
  assumes "null_on_error C"
  shows "pays ev_lists hs (kept hs) (node_datasets C con lnRef hs ln)"
proof -
  have "pays ev_lists (l # hs) (kept hs)
     (andthen (deref l) (bnd (loop_until names (node_dataset C con lnRef (l # hs)) ln) (\<lambda>r.
        case r of Done ln \<Rightarrow> ret (Done ln)
                | Cont ln \<Rightarrow> andthen (emit (EListDestroy l)) (ret (Cont ln)))))" for l names
  proof (rule lists_deref, rule lists.pays_bnd [OF lists.pays_loop_until [OF lists_node_dataset [OF assms]]])
    show "pays ev_lists (kept (l # hs) (Val r)) (kept hs)
        (case r of Done ln \<Rightarrow> ret (Done ln)
                 | Cont ln \<Rightarrow> andthen (emit (EListDestroy l)) (ret (Cont ln)))" for r
      by (cases r) (simp_all add: lists_release lists.pays_ret del: ret_run)
  qed simp
  then show ?thesis
    unfolding node_datasets_def
    by (intro lists_acquire_ok(2) [OF assms]) (simp_all add: lists_give_up)
qed

lemma lists_logical_node:
  assumes "null_on_error C"
  shows "pays ev_lists hs (kept hs) (logical_node n C con LD_name hs raw ld)"
proof -
  let ?ref = "\<lambda>LN. LD_name @ ''/'' @ LN"
  have rest: "pays ev_lists hs (kept hs)
      (bnd (and_next (node_datasets C con (?ref LN) hs ln) (\<lambda>ln.
            and_next (node_objects n C con (?ref LN) ACSI_CLASS_URCB hs ln) (\<lambda>ln.
            node_objects n C con (?ref LN) ACSI_CLASS_BRCB hs ln)))
        (\<lambda>r. case r of Cont ln \<Rightarrow> ret (Cont (dset LN (PDict ln) ld))
                     | Done ln \<Rightarrow> ret (Done (dset LN (PDict ln) ld))))" for LN ln
  proof (rule lists.pays_bnd [OF lists.pays_and_next [OF lists_node_datasets [OF assms]
            lists.pays_and_next [OF lists_node_objects [OF assms] lists_node_objects [OF assms]]]])
    show "pays ev_lists (kept hs (Val r)) (kept hs)
        (case r of Cont ln \<Rightarrow> ret (Cont (dset LN (PDict ln) ld))
                 | Done ln \<Rightarrow> ret (Done (dset LN (PDict ln) ld)))" for r :: "(string \<times> pv) list flow"
      by (cases r) (simp_all add: lists.pays_ret del: ret_run)
  qed simp
  have all: "pays ev_lists hs (kept hs)
      (bnd (node_objects n C con (?ref LN) ACSI_CLASS_DATA_OBJECT hs []) (\<lambda>r.
        case r of
          Done ln \<Rightarrow> raise NameError
        | Cont ln \<Rightarrow> bnd (and_next (node_datasets C con (?ref LN) hs ln) (\<lambda>ln.
            and_next (node_objects n C con (?ref LN) ACSI_CLASS_URCB hs ln) (\<lambda>ln.
            node_objects n C con (?ref LN) ACSI_CLASS_BRCB hs ln)))
        (\<lambda>r. case r of Cont ln \<Rightarrow> ret (Cont (dset LN (PDict ln) ld))
                     | Done ln \<Rightarrow> ret (Done (dset LN (PDict ln) ld)))))" for LN
  proof (rule lists.pays_bnd [OF lists_node_objects [OF assms]])
    show "pays ev_lists (kept hs (Val r)) (kept hs)
       (case r of
          Done ln \<Rightarrow> raise NameError
        | Cont ln \<Rightarrow> bnd (and_next (node_datasets C con (?ref LN) hs ln) (\<lambda>ln.
            and_next (node_objects n C con (?ref LN) ACSI_CLASS_URCB hs ln) (\<lambda>ln.
            node_objects n C con (?ref LN) ACSI_CLASS_BRCB hs ln)))
        (\<lambda>r. case r of Cont ln \<Rightarrow> ret (Cont (dset LN (PDict ln) ld))
                     | Done ln \<Rightarrow> ret (Done (dset LN (PDict ln) ld))))" for r
      using rest by (cases r) (simp_all add: lists.pays_raise del: raise_run)
  qed simp
  show ?thesis
    unfolding logical_node_def Let_def
    by (rule lists_step [OF lists_lift]; (rule all | simp del: lift_run))
qed

lemma lists_logical_device:
  assumes "null_on_error C"
  shows "pays ev_lists [devs] (kept [devs]) (logical_device n C con devs raw tmodel)"
proof -
  have loop: "pays ev_lists [l, devs] (kept [devs])
      (andthen (deref l) (bnd (loop_until names (logical_node n C con LD [l, devs]) []) (\<lambda>r.
         case r of Done ld \<Rightarrow> ret (Done (dset LD (PDict ld) tmodel))
                 | Cont ld \<Rightarrow> andthen (emit (EListDestroy l)) (ret (Cont (dset LD (PDict ld) tmodel))))))"
    for l names LD
  proof (rule lists_deref, rule lists.pays_bnd [OF lists.pays_loop_until [OF lists_logical_node [OF assms]]])
    show "pays ev_lists (kept [l, devs] (Val r)) (kept [devs])
        (case r of Done ld \<Rightarrow> ret (Done (dset LD (PDict ld) tmodel))
                 | Cont ld \<Rightarrow> andthen (emit (EListDestroy l)) (ret (Cont (dset LD (PDict ld) tmodel))))" for r
      by (cases r) (simp_all add: lists_release lists.pays_ret del: ret_run)
  qed simp
  have "pays ev_lists [devs] (kept [devs])
      (andthen (emit (EListDestroy devs)) (raise NameError))"
    by (intro lists_release lists.pays_raise) simp
  with loop show ?thesis
    unfolding logical_device_def
    by (intro lists_step lists_lift lists_acquire_ok(1) [OF assms]) (simp_all del: lift_run)
qed

lemma lists_discovery:
  assumes "null_on_error C"
  shows "pays ev_lists [] (\<lambda>_. []) (discovery n C con)"
proof -
  have "pays ev_lists [l] (\<lambda>_. [])
      (bnd (loop_until names (logical_device n C con l) []) (\<lambda>r.
         case r of Done tmodel \<Rightarrow> ret tmodel
                 | Cont tmodel \<Rightarrow> andthen (emit (EListDestroy l)) (ret tmodel)))" for l names
  proof (rule lists.pays_bnd [OF lists.pays_loop_until [OF lists_logical_device [OF assms]]])
    show "pays ev_lists (kept [l] (Val r)) (\<lambda>_. [])
        (case r of Done tmodel \<Rightarrow> ret tmodel
                 | Cont tmodel \<Rightarrow> andthen (emit (EListDestroy l)) (ret tmodel))" for r
      by (cases r) (simp_all add: lists_release lists.pays_ret del: ret_run)
  qed simp
  then show ?thesis
    unfolding discovery_def
    by (intro lists_acquire) (auto simp: lists.pays_null lists_ret simp del: ret_run)
qed

section \<open>Values\<close>

text \<open>Here every part is neutral, so the proofs are structural.\<close>

abbreviation neutral_vals :: "(trace, 'a) prog \<Rightarrow> bool" where
  "neutral_vals \<equiv> pays ev_values [] (\<lambda>_. [])"

lemma vals_ret: "neutral_vals (ret x)" "neutral_vals (raise x1)" "neutral_vals (lift r)"
  "neutral_vals (deref l)" "neutral_vals (show_value C v)"
  by (simp_all add: pays_def deref_def show_value_def)

lemma vals_calls:
  "neutral_vals (call_dataDirectory C con ref)" "neutral_vals (call_nodeDirectory C con ref cls)"
  "neutral_vals (call_deviceDirectory C con ref)" "neutral_vals (call_dataSetDirectory C con ref)"
  "neutral_vals (call_deviceList C con)" "neutral_vals (emit (EListDestroy l))"
  by (simp_all add: pays_def call_defs split: prod.split)

lemma vals_andthen: "neutral_vals m \<Longrightarrow> neutral_vals k \<Longrightarrow> neutral_vals (andthen m k)"
  unfolding andthen_def by (rule vals.neutral_bnd)

lemma vals_loop_until:
  assumes "\<And>x acc. neutral_vals (f x acc)"
  shows "neutral_vals (loop_until xs f acc)"
proof (induction xs arbitrary: acc)
  case Nil
  show ?case unfolding loop_until.simps by (rule vals_ret)
next
  case (Cons x xs)
  have "neutral_vals (case r of Cont acc' \<Rightarrow> loop_until xs f acc' | Done acc' \<Rightarrow> ret (Done acc'))" for r
    using Cons.IH by (cases r) (simp_all add: vals_ret del: ret_run)
  then show ?case unfolding loop_until.simps by (rule vals.neutral_bnd [OF assms])
qed

lemma vals_destroy_all: "neutral_vals (destroy_all ls)"
  unfolding destroy_all_def
  by (induction ls) (auto intro: vals_andthen vals_calls vals_ret simp del: ret_run emit_run)

lemma vals_case_flow:
  "(\<And>x. neutral_vals (f x)) \<Longrightarrow> (\<And>x. neutral_vals (g x)) \<Longrightarrow>
   neutral_vals (case r of Cont x \<Rightarrow> f x | Done x \<Rightarrow> g x)"
  by (cases r) simp_all

lemma vals_and_next: "neutral_vals m \<Longrightarrow> (\<And>x. neutral_vals (f x)) \<Longrightarrow> neutral_vals (and_next m f)"
  unfolding and_next_def by (auto intro!: vals.neutral_bnd vals_ret vals_case_flow simp del: ret_run)

lemmas vals_intros = vals.neutral_bnd vals_andthen vals_loop_until vals_case_flow vals_and_next
  vals_destroy_all vals_calls vals_ret vals.neutral_loop_acc

text \<open>A read hands out a value only without an error.\<close>

lemma vals_read:
  assumes "null_on_error C"
    and "\<And>v. pays ev_values [v] (\<lambda>_. []) (f (v, 0))"
    and "\<And>err. err \<noteq> 0 \<Longrightarrow> neutral_vals (f (0, err))"
  shows "neutral_vals (bnd (call_readObject C con ref fc) f)"
proof (rule vals.pays_acquire)
  fix h
  obtain v err where eq: "c_readObject C h con ref fc = (v, err)" by fastforce
  with null_on_errorD(4) [OF assms(1), of h con ref fc] have "err \<noteq> 0 \<Longrightarrow> v = 0" by simp
  then have "pays ev_values [v] (\<lambda>_. []) (f (v, err))"
    using assms(2,3) by (cases "err = 0") (auto intro: vals.pays_null)
  with eq show "\<exists>x l e. call_readObject C con ref fc h = (Val x, h @ [e]) \<and>
      (\<forall>a. a \<noteq> 0 \<longrightarrow> ev_values e a = (if l = a then 1 else 0)) \<and> pays ev_values [l] (\<lambda>_. []) (f x)"
    by (auto simp: call_readObject_def)
qed

lemma vals_release:
  "pays ev_values ls after k \<Longrightarrow> pays ev_values (v # ls) after (andthen (emit (EValueDelete v)) k)"
  by (rule vals.pays_release) simp_all

lemma vals_show:
  assumes "\<And>vt. pays ev_values [v] (\<lambda>_. []) (f vt)"
  shows "pays ev_values [v] (\<lambda>_. []) (bnd (show_value C u) f)"
  using show_value_no_name_error [of C u] assms
  by (intro vals.pays_step vals_ret) (simp_all add: no_name_error_def)

lemma vals_data_attribute:
  assumes "null_on_error C" and "\<And>r. neutral_vals (sub r)"
  shows "neutral_vals (data_attribute C sub con doRef raw tmodel)"
proof -
  have "neutral_vals (bnd (call_readObject C con daRef fc) (\<lambda>(value, err).
          if err \<noteq> 0 then ret (A err)
          else bnd (show_value C value) (\<lambda>vt. andthen (emit (EValueDelete value)) (ret (B vt)))))"
    for daRef fc A and B :: "string \<times> string \<Rightarrow> (string \<times> pv) list"
    by (intro vals_read [OF assms(1)])
      (auto intro!: vals_show vals_release vals_ret simp del: ret_run)
  then show ?thesis
    unfolding data_attribute_def Let_def
    by (auto intro!: vals_intros assms(2) simp del: ret_run lift_run)
qed

lemma vals_printDataDirectory:
  assumes "null_on_error C"
  shows "neutral_vals (printDataDirectory n C con doRef)"
proof (induction n arbitrary: doRef)
  case 0
  show ?case unfolding printDataDirectory.simps by (rule vals_ret)
next
  case (Suc n)
  then show ?case
    unfolding printDataDirectory.simps
    by (auto intro!: vals_intros vals_data_attribute [OF assms] simp del: ret_run emit_run)
qed

lemma vals_node_objects:
  assumes "null_on_error C"
  shows "neutral_vals (node_objects n C con lnRef cls hs ln)"
  unfolding node_objects_def node_object_def
  by (auto intro!: vals_intros vals_printDataDirectory [OF assms] simp del: ret_run emit_run lift_run)

lemma vals_dataset_members: "neutral_vals (dataset_members raws i ds)"
  by (induction raws arbitrary: i ds) (auto intro!: vals_intros simp del: ret_run lift_run)

lemma vals_node_datasets: "neutral_vals (node_datasets C con lnRef hs ln)"
  unfolding node_datasets_def node_dataset_def
  by (auto intro!: vals_intros vals_dataset_members simp del: ret_run emit_run lift_run)

lemma vals_discovery:
  assumes "null_on_error C"
  shows "neutral_vals (discovery n C con)"
  unfolding discovery_def logical_device_def logical_node_def Let_def
  by (auto intro!: vals_intros vals_node_objects [OF assms] vals_node_datasets
      simp del: ret_run emit_run lift_run raise_run)

lemma vals_refresh_leaf:
  assumes "null_on_error C"
  shows "neutral_vals (refresh_leaf C con ref sub)"
proof -
  have set_ok: "no_name_error (lift (rbind (py_set s k v) (\<lambda>s. py_set s k' v')))" for s k v k' v'
    by (cases s) (simp_all del: lift_run)
  have "pays ev_values [u] (\<lambda>_. [])
      (bnd (lift (rbind (py_set sub ''value'' (PStr (fst vt))) (\<lambda>sub. py_set sub ''type'' (PStr (snd vt)))))
        (\<lambda>sub. andthen (emit (EValueDelete u)) (ret (sub, 0))))" for u vt
    using set_ok by (intro vals.pays_step vals_release vals_ret) (simp add: no_name_error_def)
  then show ?thesis
    unfolding refresh_leaf_def
    by (auto intro!: vals.neutral_bnd vals_read [OF assms] vals_show vals_ret simp del: ret_run lift_run)
qed

lemma vals_update:
  assumes "null_on_error C"
  shows "neutral_vals (update_recurse n C con ref m path)"
  using assms
  by (induction n C con ref m path rule: update_recurse.induct)
    (auto intro!: vals_intros vals_refresh_leaf vals_printDataDirectory simp del: ret_run lift_run)

end
