(* ===== verification/Client_Discovery_Spec.thy ===== *)
theory Client_Discovery_Spec
  imports Client_Discovery_Facts Client_Demo
begin

text \<open>Properties of the discovery.\<close>

section \<open>What a server exposes\<close>

text \<open>
  The attributes under a data object as the server knows them: name, functional constraint
  and children. The abstract result of reading them is \<open>model_of\<close>.
\<close>

datatype attr = Attr (at_name: string) (at_fc: string) (at_children: "attr list")

definition raw_name :: "attr \<Rightarrow> string" where
  "raw_name a = at_name a @ ''['' @ at_fc a @ '']''"

fun attr_depth :: "attr \<Rightarrow> nat" where
  "attr_depth (Attr nm fc ch) = Suc (Max (insert 0 (attr_depth ` set ch)))"

text \<open>The four fields a readable attribute has in the model: kind, constraint, value, type.\<close>

abbreviation expected_leaf :: "string \<Rightarrow> string \<times> string \<Rightarrow> (string \<times> pv) list" where
  "expected_leaf fc vt \<equiv> [(''reftype'', PStr ''DA''), (''FC'', PStr fc), (''value'', PStr (fst vt)),
     (''type'', PStr (snd vt))]"

fun entry_of :: "(string \<Rightarrow> string \<times> string) \<Rightarrow> string \<Rightarrow> attr \<Rightarrow> string \<times> pv" where
  "entry_of val ref (Attr nm fc ch) =
     (nm, PDict (if ch = [] then expected_leaf fc (val (ref @ ''.'' @ nm))
                 else map (entry_of val (ref @ ''.'' @ nm)) ch))"

definition model_of :: "(string \<Rightarrow> string \<times> string) \<Rightarrow> string \<Rightarrow> attr list \<Rightarrow> (string \<times> pv) list" where
  "model_of val ref attrs = map (entry_of val ref) attrs"

definition ascii :: "string \<Rightarrow> bool" where
  "ascii s \<longleftrightarrow> list_all (\<lambda>c. (of_char c :: nat) < 128) s"

text \<open>
  The library, at whatever point of the run, answers with these attributes: their names for
  a reference that has some; NULL or an empty list for one without, and a value that prints as
  \<open>val\<close> says.
\<close>

fun serves_attr :: "capi \<Rightarrow> addr \<Rightarrow> (string \<Rightarrow> string \<times> string) \<Rightarrow> string \<Rightarrow> attr \<Rightarrow> bool" where
  "serves_attr C con val ref (Attr nm fc ch) \<longleftrightarrow>
     ascii nm \<and> ascii fc \<and> length fc = 2 \<and> distinct (map at_name ch) \<and>
     (if ch = [] then
        (\<forall>h. \<exists>l xs e. c_dataDirectory C h con (ref @ ''.'' @ nm) = (l, xs, e) \<and> (l = 0 \<or> xs = [])) \<and>
        (\<forall>h. \<exists>v. c_readObject C h con (ref @ ''.'' @ nm) (c_fcFromString C fc) = (v, 0) \<and>
               (\<forall>h. printValue C h v = Val (val (ref @ ''.'' @ nm))))
      else
        (\<forall>h. \<exists>l e. l \<noteq> 0 \<and> c_dataDirectory C h con (ref @ ''.'' @ nm) = (l, map raw_name ch, e)) \<and>
        (\<forall>a \<in> set ch. serves_attr C con val (ref @ ''.'' @ nm) a))"

definition serves :: "capi \<Rightarrow> addr \<Rightarrow> (string \<Rightarrow> string \<times> string) \<Rightarrow> string \<Rightarrow> attr list \<Rightarrow> bool" where
  "serves C con val ref attrs \<longleftrightarrow>
     CHR ''/'' \<in> set ref \<and> distinct (map at_name attrs) \<and>
     (\<forall>h. \<exists>l e. l \<noteq> 0 \<and> c_dataDirectory C h con ref = (l, map raw_name attrs, e)) \<and>
     (\<forall>a \<in> set attrs. serves_attr C con val ref a)"

lemma raw_name_parts:
  assumes "ascii (at_name a)" and "ascii (at_fc a)" and "length (at_fc a) = 2"
  shows "decode_utf8 (raw_name a) = Val (raw_name a)"
    and "str_drop_last 4 (raw_name a) = at_name a" and "str_slice_neg 3 1 (raw_name a) = at_fc a"
proof -
  have ok: "\<forall>c \<in> set (raw_name a). (of_char c :: nat) < 128"
    using assms by (auto simp: raw_name_def ascii_def list_all_iff)
  show "decode_utf8 (raw_name a) = Val (raw_name a)" by (rule decode_ascii [OF ok])
  show "str_drop_last 4 (raw_name a) = at_name a"
    unfolding str_drop_last_ascii [OF ok] using assms by (simp add: raw_name_def drop_last_def)
  show "str_slice_neg 3 1 (raw_name a) = at_fc a"
    unfolding str_slice_neg_ascii [OF ok] using assms by (simp add: raw_name_def slice_neg_def)
qed

text \<open>A loop that appends one new entry per round builds the entries in order.\<close>

lemma loop_entries:
  assumes "\<And>x acc h. x \<in> set xs \<Longrightarrow>
             \<exists>h'. f (r x) acc h = (Val (dset (fst (g x)) (snd (g x)) acc), h')"
    and "distinct (map (\<lambda>a. fst (g a)) xs)" and "fst ` set acc \<inter> fst ` g ` set xs = {}"
  shows "\<exists>h'. loop_acc (map r xs) f acc h = (Val (acc @ map g xs), h')"
  using assms
proof (induction xs arbitrary: acc h)
  case Nil
  then show ?case by simp
next
  case (Cons x xs)
  from Cons.prems(1) [of x acc h] obtain h1 where
    h1: "f (r x) acc h = (Val (dset (fst (g x)) (snd (g x)) acc), h1)" by auto
  have "dset (fst (g x)) (snd (g x)) acc = acc @ [g x]"
    using Cons.prems(3) by (subst keys_dset_absent) (auto simp: dhas_def)
  moreover have "\<exists>h'. loop_acc (map r xs) f (acc @ [g x]) h1 = (Val ((acc @ [g x]) @ map g xs), h')"
  proof (rule Cons.IH)
    show "distinct (map (\<lambda>a. fst (g a)) xs)" using Cons.prems(2) by simp
    show "fst ` set (acc @ [g x]) \<inter> fst ` g ` set xs = {}"
      using Cons.prems(2,3) by (auto simp: image_comp)
  qed (simp add: Cons.prems(1))
  ultimately show ?case using h1 by simp
qed

lemma depth_child: "a \<in> set ch \<Longrightarrow> attr_depth a < attr_depth (Attr nm fc ch)"
  by (simp add: less_Suc_eq_le)

lemma fst_entry [simp]: "fst (entry_of val ref a) = at_name a"
  by (cases a) simp

lemma data_attribute_leaf:
  assumes "serves_attr C con val ref (Attr nm fc [])" and "CHR ''/'' \<in> set ref" and "0 < n"
  shows "\<exists>h'. data_attribute C (printDataDirectory n C con) con ref (raw_name (Attr nm fc [])) acc h =
           (Val (dset nm (PDict (expected_leaf fc (val (ref @ ''.'' @ nm)))) acc), h')"
proof -
  let ?r = "ref @ ''.'' @ nm"
  obtain m where n: "n = Suc m" using assms(3) by (cases n) auto
  from assms(1) obtain l xs e where dir: "c_dataDirectory C h con ?r = (l, xs, e)" "l = 0 \<or> xs = []"
    by fastforce
  then obtain g where sub: "printDataDirectory n C con ?r h = (Val [], g)"
    using assms(2) by (cases "l = 0") (auto simp: n call_dataDirectory_def bnd_def andthen_def)
  from assms(1) obtain v where rd: "c_readObject C g con ?r (c_fcFromString C fc) = (v, 0)"
    "\<And>h. printValue C h v = Val (val ?r)" by fastforce
  have parts: "decode_utf8 (raw_name (Attr nm fc [])) = Val (raw_name (Attr nm fc []))"
    "str_drop_last 4 (raw_name (Attr nm fc [])) = nm" "str_slice_neg 3 1 (raw_name (Attr nm fc [])) = fc"
    using raw_name_parts [of "Attr nm fc []"] assms(1) by simp_all
  show ?thesis
    unfolding data_attribute_def Let_def
    using sub rd parts
    by (simp add: bnd_def andthen_def call_readObject_def show_value_def leaf_fields_def)
qed

lemma data_attribute_node:
  assumes "serves_attr C con val ref (Attr nm fc ch)" and "ch \<noteq> []"
    and "\<exists>h'. printDataDirectory n C con (ref @ ''.'' @ nm) h = (Val (model_of val (ref @ ''.'' @ nm) ch), h')"
  shows "\<exists>h'. data_attribute C (printDataDirectory n C con) con ref (raw_name (Attr nm fc ch)) acc h =
           (Val (dset nm (PDict (model_of val (ref @ ''.'' @ nm) ch)) acc), h')"
proof -
  have parts: "decode_utf8 (raw_name (Attr nm fc ch)) = Val (raw_name (Attr nm fc ch))"
    "str_drop_last 4 (raw_name (Attr nm fc ch)) = nm" "str_slice_neg 3 1 (raw_name (Attr nm fc ch)) = fc"
    using raw_name_parts [of "Attr nm fc ch"] assms(1) by simp_all
  have "model_of val (ref @ ''.'' @ nm) ch \<noteq> []" using assms(2) by (simp add: model_of_def)
  then show ?thesis
    unfolding data_attribute_def Let_def using assms(3) parts by (auto simp: bnd_def)
qed

lemma printDataDirectory_model:
  assumes "serves C con val ref attrs" and "\<forall>a \<in> set attrs. attr_depth a < n" and "0 < n"
  shows "\<exists>h'. printDataDirectory n C con ref h = (Val (model_of val ref attrs), h')"
  using assms
proof (induction n arbitrary: ref attrs h)
  case 0
  then show ?case by simp
next
  case (Suc n)
  let ?f = "data_attribute C (printDataDirectory n C con) con ref"
  have step: "\<exists>h'. ?f (raw_name a) acc h = (Val (dset (at_name a) (snd (entry_of val ref a)) acc), h')"
    if "a \<in> set attrs" for a acc h
  proof (cases a)
    case (Attr nm fc ch)
    have a: "serves_attr C con val ref a" "attr_depth a \<le> n" "CHR ''/'' \<in> set ref"
      using Suc.prems that by (auto simp: serves_def)
    then have n: "0 < n" using Attr by auto
    show ?thesis
    proof (cases "ch = []")
      case True
      with Attr a n data_attribute_leaf [of C con val ref nm fc n acc h] show ?thesis by simp
    next
      case False
      with Attr a have "serves C con val (ref @ ''.'' @ nm) ch" by (simp add: serves_def)
      moreover have "\<forall>b \<in> set ch. attr_depth b < n"
        using a(2) Attr depth_child [of _ ch nm fc] by fastforce
      ultimately have "\<exists>h'. printDataDirectory n C con (ref @ ''.'' @ nm) h =
          (Val (model_of val (ref @ ''.'' @ nm) ch), h')"
        using n by (intro Suc.IH)
      from data_attribute_node [OF _ False this, of fc] a(1) Attr False show ?thesis
        by (simp add: model_of_def)
    qed
  qed
  from Suc.prems(1) obtain l e where dir: "l \<noteq> 0" "c_dataDirectory C h con ref = (l, map raw_name attrs, e)"
    unfolding serves_def by blast
  have "\<exists>h'. loop_acc (map raw_name attrs) ?f [] (h @ [EDataDirectory con ref l e]) =
      (Val ([] @ map (entry_of val ref) attrs), h')"
    using Suc.prems(1) step by (intro loop_entries) (auto simp: serves_def)
  with dir Suc.prems(1) show ?case
    by (auto simp: bnd_def call_dataDirectory_def serves_def model_of_def)
qed

section \<open>Properties\<close>

text \<open>
  The client's reading of a data object is complete and exact: if the server exposes a tree
  of attributes, every leaf of which it lets the client read, \<open>printDataDirectory\<close> returns that
  tree, each leaf with its functional constraint, value and type; a recursion limit above the
  depth of the tree is enough.
\<close>
theorem printDataDirectory_exact:
  assumes "serves C con val ref attrs" and "\<forall>a \<in> set attrs. attr_depth a < n" and "0 < n"
  shows "fst (printDataDirectory n C con ref h) = Val (model_of val ref attrs)"
  using printDataDirectory_model [OF assms, of h] by auto

lemma printDataDirectory_exact_witness:
  "fst (printDataDirectory 2 demo_lib 1 ''LD/LN.Pos'' []) =
   Val [(''stVal'', PDict [(''reftype'', PStr ''DA''), (''FC'', PStr ''ST''), (''value'', PStr ''7''),
                           (''type'', PStr ''integer'')])]"
proof -
  have "serves demo_lib 1 (\<lambda>_. (''7'', ''integer'')) ''LD/LN.Pos'' [Attr ''stVal'' ''ST'' []]"
    by (simp add: serves_def demo_lib_def demo_names_def raw_name_def ascii_def printValue_def
        decode_utf8_def int_str_def nat_str.simps [of 7])
  from printDataDirectory_exact [OF this, of 2 "[]"] show ?thesis
    by (simp add: model_of_def)
qed

text \<open>
  C4 However a discovery ends for its caller, with a model or with the NameError of an early
  return, every linked list it was given has been destroyed exactly once and every value it read
  has been deleted exactly once, provided the library answers a failed request with NULL.
\<close>
theorem discovery_releases:
  assumes "null_on_error C" and "discovery n C con h = (r, h')" and "(\<exists>m. r = Val m) \<or> r = Exn NameError"
  shows "held ev_lists h' a = held ev_lists h a \<and> held ev_values h' a = held ev_values h a"
  using lists.balanced [OF lists_discovery [OF assms(1)] assms(2)]
    vals.balanced [OF vals_discovery [OF assms(1)] assms(2)] assms(3)
  by (simp add: observed_def)

lemma demo_null_on_error: "null_on_error demo_lib"
  by (simp add: null_on_error_def demo_lib_def)

lemma discovery_releases_witness:
  "held ev_lists (snd (discovery 5 demo_lib 1 [])) 103 = 0"
  using discovery_releases [OF demo_null_on_error, of 5 1 "[]" "Val demo_tree" _ 103]
    demo_discovery
  by (metis held_def list.simps(8) prod.collapse sum_list.Nil)

text \<open>
  C24 A device list whose first device does not answer makes \<open>discovery\<close> raise NameError, with
  the device list destroyed: the early return names a variable that does not exist.
\<close>
theorem discovery_name_error:
  assumes "c_deviceList C h con = (l, d # ds, e)" and "l \<noteq> 0" and "decode_utf8 d = Val d"
    and "c_deviceDirectory C (h @ [EDeviceList con l e]) con d = (l2, ns, err)" and "err \<noteq> 0"
  shows "discovery n C con h =
           (Exn NameError, h @ [EDeviceList con l e, EDeviceDirectory con d l2 err, EListDestroy l])"
  using assms
  by (simp add: discovery_def logical_device_def bnd_def andthen_def call_deviceList_def
      call_deviceDirectory_def)

lemma discovery_name_error_witness:
  "fst (discovery 5 (demo_lib\<lparr>c_deviceDirectory := \<lambda>h con ld. (0, [], 3)\<rparr>) 1 []) = Exn NameError"
  using discovery_name_error [of "demo_lib\<lparr>c_deviceDirectory := \<lambda>h con ld. (0, [], 3)\<rparr>" "[]" 1 101 "''LD''"]
  by (simp add: demo_lib_def decode_utf8_def)

end
