(* ===== verification/Client_Discovery_Exact.thy ===== *)
theory Client_Discovery_Exact
  imports Client_Discovery_Spec
begin

text \<open>
  The discovery of a whole device: the model it returns is the one the server exposes, with
  every device, node, data object, data set and report control block in its place.
\<close>

section \<open>Programs that give a value\<close>

text \<open>A program that gives the same value after every trace, whatever calls it makes.\<close>

definition gives :: "('s, 'a) prog \<Rightarrow> 'a \<Rightarrow> bool" where
  "gives m x \<longleftrightarrow> (\<forall>h. \<exists>h'. m h = (Val x, h'))"

lemma gives_ret: "gives (ret x) x"
  by (simp add: gives_def)

lemma gives_lift: "gives (lift (Val x)) x"
  by (simp add: gives_def)

lemma gives_bnd: "gives m x \<Longrightarrow> gives (f x) y \<Longrightarrow> gives (bnd m f) y"
  unfolding gives_def by (metis bnd_Val)

lemma gives_andthen: "gives m x \<Longrightarrow> gives k y \<Longrightarrow> gives (andthen m k) y"
  unfolding andthen_def by (rule gives_bnd)

lemma gives_emit: "gives (emit e) ()"
  by (simp add: gives_def)

lemma gives_deref: "l \<noteq> 0 \<Longrightarrow> gives (deref l) ()"
  by (simp add: gives_def deref_def)

text \<open>What is done with a list: go through it, destroy it, go on.\<close>

lemma gives_held:
  assumes "l \<noteq> 0" and "gives m x"
  shows "gives (andthen (deref l) (bnd m (\<lambda>x. andthen (emit (e x)) (ret (k x))))) (k x)"
  by (rule gives_andthen [OF gives_deref [OF assms(1)] gives_bnd [OF assms(2)
        gives_andthen [OF gives_emit gives_ret]]])

text \<open>A call whose answer is a list that is not NULL: only the address may differ.\<close>

lemma gives_list:
  assumes "\<And>h. \<exists>l h'. l \<noteq> 0 \<and> call h = (Val (l, xs, e), h')"
    and "\<And>l. l \<noteq> 0 \<Longrightarrow> gives (f (l, xs, e)) y"
  shows "gives (bnd call f) y"
  unfolding gives_def
proof
  fix h
  obtain l h' where "l \<noteq> 0" "call h = (Val (l, xs, e), h')" using assms(1) by blast
  with assms(2) show "\<exists>h'. bnd call f h = (Val y, h')" by (simp add: gives_def)
qed

lemma gives_entries:
  assumes "\<And>x acc. x \<in> set xs \<Longrightarrow> gives (f (r x) acc) (dset (fst (g x)) (snd (g x)) acc)"
    and "distinct (map (\<lambda>x. fst (g x)) xs)" and "fst ` set acc \<inter> fst ` g ` set xs = {}"
  shows "gives (loop_acc (map r xs) f acc) (acc @ map g xs)"
  using loop_entries [of xs f r g acc] assms by (simp add: gives_def)

lemma gives_until:
  assumes "\<And>x acc. x \<in> set xs \<Longrightarrow> gives (f (r x) acc) (Cont (dset (fst (g x)) (snd (g x)) acc))"
    and "distinct (map (\<lambda>x. fst (g x)) xs)" and "fst ` set acc \<inter> fst ` g ` set xs = {}"
  shows "gives (loop_until (map r xs) f acc) (Cont (acc @ map g xs))"
  using assms
proof (induction xs arbitrary: acc)
  case Nil
  show ?case by (simp add: gives_def)
next
  case (Cons x xs)
  have "dset (fst (g x)) (snd (g x)) acc = acc @ [g x]"
    using Cons.prems(3) by (subst keys_dset_absent) (auto simp: dhas_def)
  then have "gives (f (r x) acc) (Cont (acc @ [g x]))"
    using Cons.prems(1) [of x acc] by simp
  moreover have "gives (loop_until (map r xs) f (acc @ [g x])) (Cont ((acc @ [g x]) @ map g xs))"
  proof (rule Cons.IH)
    show "fst ` set (acc @ [g x]) \<inter> fst ` g ` set xs = {}"
      using Cons.prems(2,3) by (auto simp: image_comp)
  qed (use Cons.prems in simp_all)
  ultimately show ?case
    by (simp, intro gives_bnd [where x = "Cont (acc @ [g x])"]) simp_all
qed

section \<open>What a server exposes\<close>

text \<open>
  A named data object or report control block with its attributes; a data set with its members,
  each a reference and a functional constraint; the nodes and devices that hold them.
\<close>

type_synonym object_spec = "string \<times> attr list"
type_synonym set_spec = "string \<times> (string \<times> string) list"

record node_spec =
  ns_name :: string
  ns_objects :: "object_spec list"
  ns_sets :: "set_spec list"
  ns_urcb :: "object_spec list"
  ns_brcb :: "object_spec list"

record device_spec =
  ds_name :: string
  ds_nodes :: "node_spec list"

text \<open>The model of them.\<close>

definition object_entry :: "(string \<Rightarrow> string \<times> string) \<Rightarrow> string \<Rightarrow> object_spec \<Rightarrow> string \<times> pv" where
  "object_entry val lnRef x = (fst x, PDict (model_of val (lnRef @ ''.'' @ fst x) (snd x)))"

definition member_fields :: "string \<times> string \<Rightarrow> (string \<times> pv) list" where
  "member_fields m = [(''reftype'', PStr ''DX''), (''type'', PStr ''reference''),
     (''value'', PStr (fst m)), (''FC'', PStr (snd m))]"

definition set_entry :: "set_spec \<Rightarrow> string \<times> pv" where
  "set_entry x = (fst x, PDict (map (\<lambda>(i, m). (nat_str i, PDict (member_fields m))) (enumerate 0 (snd x))))"

definition node_model :: "(string \<Rightarrow> string \<times> string) \<Rightarrow> string \<Rightarrow> node_spec \<Rightarrow> (string \<times> pv) list" where
  "node_model val lnRef nd =
     map (object_entry val lnRef) (ns_objects nd) @ map set_entry (ns_sets nd) @
     map (object_entry val lnRef) (ns_urcb nd) @ map (object_entry val lnRef) (ns_brcb nd)"

definition node_entry :: "(string \<Rightarrow> string \<times> string) \<Rightarrow> string \<Rightarrow> node_spec \<Rightarrow> string \<times> pv" where
  "node_entry val LD nd = (ns_name nd, PDict (node_model val (LD @ ''/'' @ ns_name nd) nd))"

definition device_entry :: "(string \<Rightarrow> string \<times> string) \<Rightarrow> device_spec \<Rightarrow> string \<times> pv" where
  "device_entry val dv = (ds_name dv, PDict (map (node_entry val (ds_name dv)) (ds_nodes dv)))"

text \<open>The library answers with them, at whatever point of the run.\<close>

definition raw_member :: "string \<times> string \<Rightarrow> string" where
  "raw_member m = fst m @ ''['' @ snd m @ '']''"

definition lists_class :: "capi \<Rightarrow> addr \<Rightarrow> string \<Rightarrow> int \<Rightarrow> string list \<Rightarrow> bool" where
  "lists_class C con lnRef cls names \<longleftrightarrow>
     (\<forall>h. \<exists>l. l \<noteq> 0 \<and> c_nodeDirectory C h con lnRef cls = (l, names, 0)) \<and>
     (\<forall>x \<in> set names. decode_utf8 x = Val x)"

definition serves_set :: "capi \<Rightarrow> addr \<Rightarrow> string \<Rightarrow> set_spec \<Rightarrow> bool" where
  "serves_set C con lnRef x \<longleftrightarrow>
     (\<forall>h. \<exists>l. l \<noteq> 0 \<and> c_dataSetDirectory C h con (lnRef @ ''.'' @ fst x) = (l, map raw_member (snd x), 0)) \<and>
     (\<forall>m \<in> set (snd x). ascii (fst m) \<and> ascii (snd m) \<and> length (snd m) = 2)"

definition node_names :: "node_spec \<Rightarrow> string list" where
  "node_names nd = map fst (ns_objects nd) @ map fst (ns_sets nd) @ map fst (ns_urcb nd) @ map fst (ns_brcb nd)"

definition node_attrs :: "node_spec \<Rightarrow> object_spec list" where
  "node_attrs nd = ns_objects nd @ ns_urcb nd @ ns_brcb nd"

definition serves_node ::
  "nat \<Rightarrow> capi \<Rightarrow> addr \<Rightarrow> (string \<Rightarrow> string \<times> string) \<Rightarrow> string \<Rightarrow> node_spec \<Rightarrow> bool" where
  "serves_node n C con val LD nd \<longleftrightarrow> (let lnRef = LD @ ''/'' @ ns_name nd in
     decode_utf8 (ns_name nd) = Val (ns_name nd) \<and> distinct (node_names nd) \<and>
     lists_class C con lnRef ACSI_CLASS_DATA_OBJECT (map fst (ns_objects nd)) \<and>
     lists_class C con lnRef ACSI_CLASS_DATA_SET (map fst (ns_sets nd)) \<and>
     lists_class C con lnRef ACSI_CLASS_URCB (map fst (ns_urcb nd)) \<and>
     lists_class C con lnRef ACSI_CLASS_BRCB (map fst (ns_brcb nd)) \<and>
     (\<forall>x \<in> set (node_attrs nd). serves C con val (lnRef @ ''.'' @ fst x) (snd x) \<and>
        (\<forall>a \<in> set (snd x). attr_depth a < n)) \<and>
     (\<forall>x \<in> set (ns_sets nd). serves_set C con lnRef x))"

definition serves_device ::
  "nat \<Rightarrow> capi \<Rightarrow> addr \<Rightarrow> (string \<Rightarrow> string \<times> string) \<Rightarrow> device_spec \<Rightarrow> bool" where
  "serves_device n C con val dv \<longleftrightarrow>
     decode_utf8 (ds_name dv) = Val (ds_name dv) \<and> distinct (map ns_name (ds_nodes dv)) \<and>
     (\<forall>h. \<exists>l. l \<noteq> 0 \<and> c_deviceDirectory C h con (ds_name dv) = (l, map ns_name (ds_nodes dv), 0)) \<and>
     (\<forall>nd \<in> set (ds_nodes dv). serves_node n C con val (ds_name dv) nd)"

definition serves_model ::
  "nat \<Rightarrow> capi \<Rightarrow> addr \<Rightarrow> (string \<Rightarrow> string \<times> string) \<Rightarrow> device_spec list \<Rightarrow> bool" where
  "serves_model n C con val dvs \<longleftrightarrow> distinct (map ds_name dvs) \<and>
     (\<forall>h. \<exists>l e. l \<noteq> 0 \<and> c_deviceList C h con = (l, map ds_name dvs, e)) \<and>
     (\<forall>dv \<in> set dvs. serves_device n C con val dv)"

section \<open>The parts of a node\<close>

lemma list_answers:
  "\<forall>h. \<exists>l. l \<noteq> 0 \<and> c_nodeDirectory C h con ref cls = (l, xs, 0) \<Longrightarrow>
     \<exists>l h'. l \<noteq> 0 \<and> call_nodeDirectory C con ref cls h = (Val (l, xs, 0), h')"
  "\<forall>h. \<exists>l. l \<noteq> 0 \<and> c_dataSetDirectory C h con ref = (l, xs, 0) \<Longrightarrow>
     \<exists>l h'. l \<noteq> 0 \<and> call_dataSetDirectory C con ref h = (Val (l, xs, 0), h')"
  "\<forall>h. \<exists>l. l \<noteq> 0 \<and> c_deviceDirectory C h con ref = (l, xs, 0) \<Longrightarrow>
     \<exists>l h'. l \<noteq> 0 \<and> call_deviceDirectory C con ref h = (Val (l, xs, 0), h')"
  by (erule allE [of _ h], erule exE, simp add: call_nodeDirectory_def call_dataSetDirectory_def
      call_deviceDirectory_def)+

lemma node_objects_gives:
  assumes "lists_class C con lnRef cls (map fst objs)" and "0 < n"
    and "\<forall>x \<in> set objs. serves C con val (lnRef @ ''.'' @ fst x) (snd x) \<and> (\<forall>a \<in> set (snd x). attr_depth a < n)"
    and "distinct (map fst objs)" and "fst ` set ln \<inter> fst ` set objs = {}"
  shows "gives (node_objects n C con lnRef cls ls ln) (Cont (ln @ map (object_entry val lnRef) objs))"
proof -
  have "gives (loop_acc (map fst objs) (node_object n C con lnRef) ln) (ln @ map (object_entry val lnRef) objs)"
  proof (rule gives_entries)
    fix x acc
    assume x: "x \<in> set objs"
    then have "decode_utf8 (fst x) = Val (fst x)" using assms(1) by (simp add: lists_class_def)
    moreover have "gives (printDataDirectory n C con (lnRef @ ''.'' @ fst x))
        (model_of val (lnRef @ ''.'' @ fst x) (snd x))"
      unfolding gives_def using x assms(2,3) printDataDirectory_model by blast
    ultimately show "gives (node_object n C con lnRef (fst x) acc)
        (dset (fst (object_entry val lnRef x)) (snd (object_entry val lnRef x)) acc)"
      by (auto simp: node_object_def object_entry_def intro!: gives_bnd gives_lift gives_ret)
  qed (use assms(4,5) in \<open>simp_all add: object_entry_def image_image\<close>)
  note loop = this
  have "\<exists>l h'. l \<noteq> 0 \<and> call_nodeDirectory C con lnRef cls h = (Val (l, map fst objs, 0), h')" for h
    using assms(1) by (intro list_answers) (simp add: lists_class_def)
  then show ?thesis
    unfolding node_objects_def
    by (rule gives_list) (simp del: ret_run emit_run, rule gives_held [OF _ loop], simp)
qed

lemma raw_member_parts:
  assumes "ascii (fst m)" and "ascii (snd m)" and "length (snd m) = 2"
  shows "decode_utf8 (raw_member m) = Val (raw_member m)"
    and "member_entry (raw_member m) = member_fields m"
  using raw_name_parts [of "Attr (fst m) (snd m) []"] assms
  by (simp_all add: raw_name_def raw_member_def member_entry_def member_fields_def)

lemma dataset_members_gives:
  assumes "\<forall>m \<in> set ms. ascii (fst m) \<and> ascii (snd m) \<and> length (snd m) = 2"
    and "\<forall>k \<in> fst ` set ds. \<exists>j < i. k = nat_str j"
  shows "gives (dataset_members (map raw_member ms) i ds)
           (ds @ map (\<lambda>(i, m). (nat_str i, PDict (member_fields m))) (enumerate i ms))"
  using assms
proof (induction ms arbitrary: i ds)
  case Nil
  show ?case by (simp add: gives_def)
next
  case (Cons m ms)
  have "dset (nat_str i) (PDict (member_fields m)) ds = ds @ [(nat_str i, PDict (member_fields m))]"
    using Cons.prems(2) by (subst keys_dset_absent) (auto simp: dhas_def)
  moreover have "gives (dataset_members (map raw_member ms) (Suc i) (ds @ [(nat_str i, PDict (member_fields m))]))
      ((ds @ [(nat_str i, PDict (member_fields m))]) @
       map (\<lambda>(i, m). (nat_str i, PDict (member_fields m))) (enumerate (Suc i) ms))"
    using Cons.prems by (intro Cons.IH) (auto simp: less_Suc_eq)
  ultimately show ?case
    using Cons.prems(1) raw_member_parts [of m] by (auto intro!: gives_bnd gives_lift)
qed

lemma node_dataset_gives:
  assumes "serves_set C con lnRef x" and "decode_utf8 (fst x) = Val (fst x)"
  shows "gives (node_dataset C con lnRef ls (fst x) ln) (Cont (dset (fst (set_entry x)) (snd (set_entry x)) ln))"
proof -
  have members: "gives (dataset_members (map raw_member (snd x)) 0 [])
      (map (\<lambda>(i, m). (nat_str i, PDict (member_fields m))) (enumerate 0 (snd x)))"
    using dataset_members_gives [of "snd x" "[]" 0] assms(1) by (auto simp: serves_set_def)
  have "\<exists>l h'. l \<noteq> 0 \<and> call_dataSetDirectory C con (lnRef @ ''.'' @ fst x) h =
      (Val (l, map raw_member (snd x), 0), h')" for h
    using assms(1) by (intro list_answers) (simp add: serves_set_def)
  note call = this
  show ?thesis
    unfolding node_dataset_def assms(2)
    by (rule gives_bnd [OF gives_lift], rule gives_list [OF call])
      (simp del: ret_run emit_run add: set_entry_def, rule gives_held [OF _ members], simp)
qed

lemma node_datasets_gives:
  assumes "lists_class C con lnRef ACSI_CLASS_DATA_SET (map fst sets)"
    and "\<forall>x \<in> set sets. serves_set C con lnRef x"
    and "distinct (map fst sets)" and "fst ` set ln \<inter> fst ` set sets = {}"
  shows "gives (node_datasets C con lnRef ls ln) (Cont (ln @ map set_entry sets))"
proof -
  have loop: "gives (loop_until (map fst sets) (node_dataset C con lnRef hs) ln) (Cont (ln @ map set_entry sets))"
    for hs
  proof (rule gives_until)
    fix x acc
    assume "x \<in> set sets"
    then show "gives (node_dataset C con lnRef hs (fst x) acc)
        (Cont (dset (fst (set_entry x)) (snd (set_entry x)) acc))"
      using assms(1,2) by (intro node_dataset_gives) (simp_all add: lists_class_def)
  qed (use assms(3,4) in \<open>simp_all add: set_entry_def image_image\<close>)
  have "\<exists>l h'. l \<noteq> 0 \<and> call_nodeDirectory C con lnRef ACSI_CLASS_DATA_SET h = (Val (l, map fst sets, 0), h')" for h
    using assms(1) by (intro list_answers) (simp add: lists_class_def)
  then show ?thesis
    unfolding node_datasets_def
    by (rule gives_list) (simp del: ret_run emit_run, rule gives_andthen [OF gives_deref], simp,
       rule gives_bnd [OF loop], simp del: ret_run emit_run, rule gives_andthen [OF gives_emit gives_ret])
qed

section \<open>Nodes, devices, the model\<close>

lemma gives_and_next: "gives m (Cont x) \<Longrightarrow> gives (f x) y \<Longrightarrow> gives (and_next m f) y"
  unfolding and_next_def by (rule gives_bnd [where x = "Cont x"]) simp_all

lemma fst_entries [simp]:
  "fst (object_entry val r x) = fst x" "fst (set_entry y) = fst y"
  "fst (node_entry val r nd) = ns_name nd" "fst (device_entry val dv) = ds_name dv"
  by (simp_all add: object_entry_def set_entry_def node_entry_def device_entry_def)

lemma logical_node_gives:
  assumes "serves_node n C con val LD nd" and "0 < n"
  shows "gives (logical_node n C con LD ls (ns_name nd) ld)
           (Cont (dset (fst (node_entry val LD nd)) (snd (node_entry val LD nd)) ld))"
proof -
  let ?r = "LD @ ''/'' @ ns_name nd"
  let ?o = "map (object_entry val ?r)"
  have s: "decode_utf8 (ns_name nd) = Val (ns_name nd)" "distinct (node_names nd)"
    "lists_class C con ?r ACSI_CLASS_DATA_OBJECT (map fst (ns_objects nd))"
    "lists_class C con ?r ACSI_CLASS_DATA_SET (map fst (ns_sets nd))"
    "lists_class C con ?r ACSI_CLASS_URCB (map fst (ns_urcb nd))"
    "lists_class C con ?r ACSI_CLASS_BRCB (map fst (ns_brcb nd))"
    and d: "\<forall>x \<in> set (ns_sets nd). serves_set C con ?r x"
    using assms(1) by (simp_all add: serves_node_def Let_def)
  have x: "\<forall>x \<in> set xs. serves C con val (?r @ ''.'' @ fst x) (snd x) \<and> (\<forall>a \<in> set (snd x). attr_depth a < n)"
    if "set xs \<subseteq> set (node_attrs nd)" for xs
    using assms(1) that unfolding serves_node_def Let_def by blast
  have a: "set (ns_objects nd) \<subseteq> set (node_attrs nd)" "set (ns_urcb nd) \<subseteq> set (node_attrs nd)"
    "set (ns_brcb nd) \<subseteq> set (node_attrs nd)"
    by (auto simp: node_attrs_def)
  have objects: "gives (node_objects n C con ?r ACSI_CLASS_DATA_OBJECT ls []) (Cont ([] @ ?o (ns_objects nd)))"
    using s(2) by (intro node_objects_gives [OF s(3) assms(2) x [OF a(1)]]) (simp_all add: node_names_def)
  have sets: "gives (node_datasets C con ?r ls ([] @ ?o (ns_objects nd)))
      (Cont (([] @ ?o (ns_objects nd)) @ map set_entry (ns_sets nd)))"
    using s(2) by (intro node_datasets_gives [OF s(4) d])
      (simp_all add: node_names_def image_image image_Un Int_Un_distrib)
  have urcb: "gives (node_objects n C con ?r ACSI_CLASS_URCB ls
      (([] @ ?o (ns_objects nd)) @ map set_entry (ns_sets nd)))
      (Cont ((([] @ ?o (ns_objects nd)) @ map set_entry (ns_sets nd)) @ ?o (ns_urcb nd)))"
    using s(2) by (intro node_objects_gives [OF s(5) assms(2) x [OF a(2)]])
      (simp_all add: node_names_def image_image image_Un Int_Un_distrib Int_Un_distrib2)
  have brcb: "gives (node_objects n C con ?r ACSI_CLASS_BRCB ls
      ((([] @ ?o (ns_objects nd)) @ map set_entry (ns_sets nd)) @ ?o (ns_urcb nd)))
      (Cont (((([] @ ?o (ns_objects nd)) @ map set_entry (ns_sets nd)) @ ?o (ns_urcb nd)) @ ?o (ns_brcb nd)))"
    using s(2) by (intro node_objects_gives [OF s(6) assms(2) x [OF a(3)]])
      (simp_all add: node_names_def image_image image_Un Int_Un_distrib Int_Un_distrib2)
  show ?thesis
    unfolding logical_node_def Let_def s(1)
    by (rule gives_bnd [OF gives_lift], rule gives_bnd [OF objects], unfold flow.case,
        rule gives_bnd, rule gives_and_next [OF sets], rule gives_and_next [OF urcb], rule brcb)
      (simp add: node_entry_def node_model_def gives_def)
qed

lemma logical_device_gives:
  assumes "serves_device n C con val dv" and "0 < n"
  shows "gives (logical_device n C con l (ds_name dv) tm)
           (Cont (dset (fst (device_entry val dv)) (snd (device_entry val dv)) tm))"
proof -
  have s: "decode_utf8 (ds_name dv) = Val (ds_name dv)"
    and nodes: "\<forall>nd \<in> set (ds_nodes dv). serves_node n C con val (ds_name dv) nd"
    and names: "distinct (map ns_name (ds_nodes dv))"
    using assms(1) by (simp_all add: serves_device_def)
  have loop: "gives (loop_until (map ns_name (ds_nodes dv)) (logical_node n C con (ds_name dv) hs) [])
      (Cont ([] @ map (node_entry val (ds_name dv)) (ds_nodes dv)))" for hs
    using nodes names logical_node_gives [OF _ assms(2)] by (intro gives_until) auto
  have "\<exists>l h'. l \<noteq> 0 \<and> call_deviceDirectory C con (ds_name dv) h = (Val (l, map ns_name (ds_nodes dv), 0), h')" for h
    using assms(1) by (intro list_answers) (simp add: serves_device_def)
  note call = this
  show ?thesis
    unfolding logical_device_def s
    by (rule gives_bnd [OF gives_lift], rule gives_list [OF call])
      (simp del: ret_run emit_run add: device_entry_def, rule gives_andthen [OF gives_deref], simp,
       rule gives_bnd [OF loop], simp del: ret_run emit_run, rule gives_andthen [OF gives_emit gives_ret])
qed

text \<open>
  C3 The discovery of a device is complete and exact: if the server answers with a tree of
  devices, nodes, data objects, data sets and report control blocks of which every value can be
  read (a leaf of the tree has NULL or an empty list for a directory, the others their names),
  \<open>discovery\<close> returns the model of all of them, in order, each attribute with its
  functional constraint, value and type and each member of a data set with its reference and
  constraint; a recursion limit above the depth of the attributes is enough.
\<close>
theorem discovery_exact:
  assumes "serves_model n C con val dvs" and "0 < n"
  shows "fst (discovery n C con h) = Val (map (device_entry val) dvs)"
proof -
  have loop: "gives (loop_until (map ds_name dvs) (logical_device n C con l) [])
      (Cont ([] @ map (device_entry val) dvs))" for l
    using assms logical_device_gives [OF _ assms(2)] by (intro gives_until) (auto simp: serves_model_def)
  obtain l e where l: "l \<noteq> 0" "c_deviceList C h con = (l, map ds_name dvs, e)"
    using assms(1) unfolding serves_model_def by blast
  obtain h' where "loop_until (map ds_name dvs) (logical_device n C con l) [] (h @ [EDeviceList con l e]) =
      (Val (Cont (map (device_entry val) dvs)), h')"
    using loop [of l] by (auto simp: gives_def)
  with l show ?thesis
    by (simp add: discovery_def call_deviceList_def bnd_def andthen_def)
qed

lemma discovery_exact_witness:
  "fst (discovery 2 demo_lib 1 []) = Val demo_tree"
proof -
  let ?nd = "\<lparr>ns_name = ''LN'', ns_objects = [(''Pos'', [Attr ''stVal'' ''ST'' []])],
    ns_sets = [(''DS'', [(''LD/LN.Pos.stVal'', ''ST'')])], ns_urcb = [(''RP'', [Attr ''DatSet'' ''RP'' []])], ns_brcb = []\<rparr>"
  let ?dv = "\<lparr>ds_name = ''LD'', ds_nodes = [?nd]\<rparr>"
  let ?val = "\<lambda>r. if r = ''LD/LN.RP.DatSet'' then (''LD/LN$DS'', ''visible-string'') else (''7'', ''integer'')"
  have "printValue demo_lib h 9 = Val (''7'', ''integer'')" "printValue demo_lib h 8 = Val (''LD/LN$DS'', ''visible-string'')" for h
    by (simp_all add: printValue_def demo_lib_def decode_utf8_def int_str_def nat_str.simps [of 7] decode_opt_def)
  then have "serves_model 2 demo_lib 1 ?val [?dv]"
    by (simp add: serves_model_def serves_device_def serves_node_def serves_set_def lists_class_def
        node_names_def node_attrs_def serves_def raw_name_def raw_member_def ascii_def demo_lib_def
        demo_names_def decode_utf8_def acsi_class_defs)
  from discovery_exact [OF this, of "[]"] show ?thesis
    by (simp add: device_entry_def node_entry_def node_model_def object_entry_def set_entry_def
        member_fields_def model_of_def demo_tree_def nat_str.simps [of 0])
qed

end
