(* ===== verification/Client_Update_Spec.thy ===== *)
theory Client_Update_Spec
  imports Client_Discovery_Facts Client_Demo Data_Model_Spec
begin

text \<open>Properties of refreshing and writing one place of a model.\<close>

section \<open>The place that changes\<close>

text \<open>A path is followed to the dictionary that holds its last name.\<close>

lemma update_path_snoc:
  "lookup_path m p = Some (PDict d) \<Longrightarrow> dhas k d \<Longrightarrow>
   update_path p (PDict (dset k x d)) m = update_path (p @ [k]) x m"
proof (induction p arbitrary: m)
  case Nil
  then show ?case by (auto simp: dhas_iff)
next
  case (Cons j p)
  then obtain e where "m = PDict e" by (cases m) auto
  with Cons show ?case by (auto split: option.splits)
qed

lemma update_recurse_last:
  assumes "lookup_path m p = Some sub" and "update_recurse n C con ref sub [k] h = (Val (sub', err), h')"
  shows "update_recurse n C con ref m (p @ [k]) h = (Val (update_path p sub' m, err), h')"
  using assms(1)
proof (induction p arbitrary: m)
  case Nil
  with assms(2) show ?case by simp
next
  case (Cons j p)
  then obtain e m' where m: "m = PDict e" "map_of e j = Some m'" "lookup_path m' p = Some sub"
    by (cases m) (auto split: option.splits)
  obtain q qs where pk: "p @ [k] = q # qs" by (cases "p @ [k]") auto
  have "update_recurse n C con ref m' (q # qs) h = (Val (update_path p sub' m', err), h')"
    using Cons.IH [OF m(3)] pk by simp
  then have "update_recurse n C con ref (PDict e) (j # q # qs) h =
      (Val (PDict (dset j (update_path p sub' m') e), err), h')"
    using m by (simp add: bnd_def dget_def)
  then show ?case
    using pk m(1,2) by simp
qed

lemma path_split:
  assumes "lookup_path m path = Some x" and "path \<noteq> []"
  obtains p k d where "path = p @ [k]" and "lookup_path m p = Some (PDict d)" and "map_of d k = Some x"
proof -
  obtain p k where pk: "path = p @ [k]" using assms(2) by (cases path rule: rev_cases) auto
  with assms(1) obtain v where v: "lookup_path m p = Some v" "lookup_path v [k] = Some x"
    by (auto simp: lookup_path_append split: option.splits)
  then obtain d where "v = PDict d" "map_of d k = Some x"
    by (cases v) (auto split: option.splits)
  with pk v that show ?thesis by blast
qed

text \<open>A leaf of the model, as the discovery makes it.\<close>

definition leaf_dict :: "string \<Rightarrow> (string \<times> pv) list \<Rightarrow> bool" where
  "leaf_dict fc d \<longleftrightarrow> map_of d ''reftype'' = Some (PStr ''DA'') \<and> map_of d ''FC'' = Some (PStr fc)"

definition refreshed :: "(string \<times> pv) list \<Rightarrow> string \<times> string \<Rightarrow> pv" where
  "refreshed d vt = PDict (dset ''type'' (PStr (snd vt)) (dset ''value'' (PStr (fst vt)) d))"

lemma leaf_dict_is_leaf: "leaf_dict fc d \<Longrightarrow> is_leaf (PDict d) = Val True"
  by (auto simp: leaf_dict_def is_leaf_def dhas_iff dget_def)

lemma leaf_dict_FC: "leaf_dict fc d \<Longrightarrow> rbind (py_get (PDict d) ''FC'') as_str = Val fc"
  by (simp add: leaf_dict_def dget_def)

lemma update_leaf_ok:
  assumes "map_of e k = Some (PDict d)" and "leaf_dict fc d"
    and "c_readObject C h con ref (c_fcFromString C fc) = (v, 0)"
    and "printValue C (h @ [EReadObject con ref (c_fcFromString C fc) v 0]) v = Val vt"
  shows "update_recurse n C con ref (PDict e) [k] h =
           (Val (PDict (dset k (refreshed d vt) e), 0),
            h @ [EReadObject con ref (c_fcFromString C fc) v 0, EValueDelete v])"
  using assms leaf_dict_is_leaf [OF assms(2)] leaf_dict_FC [OF assms(2)]
  by (simp add: refresh_leaf_def bnd_def andthen_def dget_def call_readObject_def show_value_def
      refreshed_def)

lemma update_leaf_failed:
  assumes "map_of e k = Some (PDict d)" and "leaf_dict fc d"
    and "c_readObject C h con ref (c_fcFromString C fc) = (v, err)" and "err \<noteq> 0"
  shows "update_recurse n C con ref (PDict e) [k] h =
           (Val (PDict (dset k (PDict d) e), err), h @ [EReadObject con ref (c_fcFromString C fc) v err])"
  using assms leaf_dict_is_leaf [OF assms(2)] leaf_dict_FC [OF assms(2)]
  by (simp add: refresh_leaf_def bnd_def dget_def call_readObject_def)

lemma update_subtree_lost:
  assumes "map_of e k = Some x" and "is_leaf x = Val False" and "CHR ''/'' \<in> set ref"
    and "c_dataDirectory C h con ref = (0, xs, err)"
  shows "update_recurse (Suc n) C con ref (PDict e) [k] h =
           (Val (PDict (dset k (PDict []) e), -1), h @ [EDataDirectory con ref 0 err])"
  using assms by (simp add: bnd_def dget_def call_dataDirectory_def)

lemma updateValue_at:
  assumes "parseRef model ref = Val (x, path)" and "path \<noteq> []"
    and "\<And>p k e. path = p @ [k] \<Longrightarrow> map_of e k = Some x \<Longrightarrow>
           update_recurse n C con ref (PDict e) [k] h = (Val (PDict (dset k y e), err), h')"
  shows "updateValueInModel n C con model ref h = (Val (update_path path y model, err), h')"
proof -
  have "lookup_path model path = Some x" using parseRef_path [OF assms(1,2)] by simp
  then obtain p k d where pk: "path = p @ [k]" "lookup_path model p = Some (PDict d)" "map_of d k = Some x"
    using assms(2) by (rule path_split)
  have "update_recurse n C con ref model path h = (Val (update_path p (PDict (dset k y d)) model, err), h')"
    unfolding pk(1) by (rule update_recurse_last [OF pk(2) assms(3) [OF pk(1,3)]])
  then show ?thesis
    using assms(1) update_path_snoc [OF pk(2), of k y] pk by (simp add: updateValueInModel_def dhas_iff)
qed

section \<open>Properties\<close>

text \<open>
  C5 Refreshing a leaf replaces its value and its type by what the device answers, deletes the
  value read, and changes nothing else: every path that does not run through the leaf gives what
  it gave before.
\<close>
theorem update_leaf_exact:
  assumes "parseRef model ref = Val (PDict d, path)" and "path \<noteq> []" and "leaf_dict fc d"
    and "c_readObject C h con ref (c_fcFromString C fc) = (v, 0)"
    and "printValue C (h @ [EReadObject con ref (c_fcFromString C fc) v 0]) v = Val (s, t)"
  shows "\<exists>model'. updateValueInModel n C con model ref h =
             (Val (model', 0), h @ [EReadObject con ref (c_fcFromString C fc) v 0, EValueDelete v]) \<and>
           lookup_path model' path = Some (PDict (dset ''type'' (PStr t) (dset ''value'' (PStr s) d))) \<and>
           (\<forall>q. diverge path q \<longrightarrow> lookup_path model' q = lookup_path model q)"
proof -
  let ?m = "update_path path (refreshed d (s, t)) model"
  have "updateValueInModel n C con model ref h =
      (Val (?m, 0), h @ [EReadObject con ref (c_fcFromString C fc) v 0, EValueDelete v])"
    by (rule updateValue_at [OF assms(1,2)]) (rule update_leaf_ok [OF _ assms(3,4,5)])
  moreover have "lookup_path ?m path = Some (refreshed d (s, t))"
    using parseRef_path [OF assms(1,2)] by (simp add: lookup_update_same)
  ultimately show ?thesis
    using lookup_update_other [of path _ "refreshed d (s, t)" model] by (auto simp: refreshed_def)
qed

lemma demo_parse:
  "parseRef demo_model ''LD/LN.Pos.stVal'' = Val (demo_leaf, [''LD'', ''LN'', ''Pos'', ''stVal''])"
  "parseRef demo_model ''LD/LN.Pos'' = Val (PDict [(''stVal'', demo_leaf)], [''LD'', ''LN'', ''Pos''])"
  by (simp_all add: parseRef_def demo_model_def dhas_def dget_def)

lemma update_leaf_exact_witness:
  "\<exists>m h'. updateValueInModel 5 demo_lib 1 demo_model ''LD/LN.Pos.stVal'' [] = (Val (m, 0), h')"
proof -
  let ?d = "[(''reftype'', PStr ''DA''), (''FC'', PStr ''ST''), (''value'', PStr ''7''), (''type'', PStr ''integer'')]"
  have "printValue demo_lib ([] @ [EReadObject 1 ''LD/LN.Pos.stVal'' (c_fcFromString demo_lib ''ST'') 9 0]) 9 =
        Val (''7'', ''integer'')" by code_simp
  moreover have "parseRef demo_model ''LD/LN.Pos.stVal'' = Val (PDict ?d, [''LD'', ''LN'', ''Pos'', ''stVal''])"
    using demo_parse(1) by (simp add: demo_leaf_def)
  moreover have "leaf_dict ''ST'' ?d" by (simp add: leaf_dict_def)
  moreover have "c_readObject demo_lib [] 1 ''LD/LN.Pos.stVal'' (c_fcFromString demo_lib ''ST'') = (9, 0)"
    by (simp add: demo_lib_def)
  ultimately show ?thesis
    using update_leaf_exact [of demo_model "''LD/LN.Pos.stVal''" ?d "[''LD'', ''LN'', ''Pos'', ''stVal'']"
        "''ST''" demo_lib "[]" 1 9 "''7''" "''integer''" 5] by blast
qed

text \<open>
  A leaf that cannot be read keeps what the model has of it: the model is unchanged and the
  error of the library is returned.
\<close>
theorem update_leaf_error:
  assumes "parseRef model ref = Val (PDict d, path)" and "path \<noteq> []" and "leaf_dict fc d"
    and "c_readObject C h con ref (c_fcFromString C fc) = (v, err)" and "err \<noteq> 0"
  shows "updateValueInModel n C con model ref h =
           (Val (model, err), h @ [EReadObject con ref (c_fcFromString C fc) v err])"
proof -
  have "updateValueInModel n C con model ref h =
      (Val (update_path path (PDict d) model, err), h @ [EReadObject con ref (c_fcFromString C fc) v err])"
    by (rule updateValue_at [OF assms(1,2)]) (rule update_leaf_failed [OF _ assms(3,4,5)])
  then show ?thesis
    using parseRef_path [OF assms(1,2)] by (simp add: update_path_self)
qed

lemma update_leaf_error_witness:
  "fst (updateValueInModel 5 (demo_lib\<lparr>c_readObject := \<lambda>h con ref fc. (0, 3)\<rparr>) 1 demo_model
     ''LD/LN.Pos.stVal'' []) = Val (demo_model, 3)"
  using update_leaf_error [of demo_model "''LD/LN.Pos.stVal''" _ "[''LD'', ''LN'', ''Pos'', ''stVal'']" "''ST''"
      "demo_lib\<lparr>c_readObject := \<lambda>h con ref fc. (0, 3)\<rparr>" "[]" 1 0 3 5]
  by (simp add: demo_parse [unfolded demo_leaf_def] leaf_dict_def)

text \<open>
  C23 Refreshing anything that is not a leaf while the device does not answer erases it: the
  whole subtree is replaced by an empty dictionary in the cached model and -1 is returned, so
  that the reference is afterwards reported as unknown.
\<close>
theorem update_erases_subtree:
  assumes "parseRef model ref = Val (x, path)" and "path \<noteq> []" and "is_leaf x = Val False"
    and "CHR ''/'' \<in> set ref" and "c_dataDirectory C h con ref = (0, xs, err)"
  shows "\<exists>model'. updateValueInModel (Suc n) C con model ref h =
             (Val (model', -1), h @ [EDataDirectory con ref 0 err]) \<and>
           lookup_path model' path = Some (PDict [])"
proof -
  have "updateValueInModel (Suc n) C con model ref h =
      (Val (update_path path (PDict []) model, -1), h @ [EDataDirectory con ref 0 err])"
    by (rule updateValue_at [OF assms(1,2)]) (rule update_subtree_lost [OF _ assms(3,4,5)])
  then show ?thesis
    using parseRef_path [OF assms(1,2)] by (simp add: lookup_update_same)
qed

lemma update_erases_subtree_witness:
  "\<exists>m h'. updateValueInModel (Suc 4) (demo_lib\<lparr>c_dataDirectory := \<lambda>h con ref. (0, [], 3)\<rparr>) 1 demo_model
     ''LD/LN.Pos'' [] = (Val (m, -1), h') \<and> lookup_path m [''LD'', ''LN'', ''Pos''] = Some (PDict [])"
  using update_erases_subtree [of demo_model "''LD/LN.Pos''" "PDict [(''stVal'', demo_leaf)]"
      "[''LD'', ''LN'', ''Pos'']" "demo_lib\<lparr>c_dataDirectory := \<lambda>h con ref. (0, [], 3)\<rparr>" "[]" 1 "[]" 3 4]
  by (auto simp: demo_parse is_leaf_def dhas_def)

text \<open>
  C31 A refresh or a read of a subtree deletes every value it reads, whatever code it returns.
\<close>
theorem update_releases:
  assumes "null_on_error C" and "updateValueInModel n C con model ref h = (Val (m, err), h')"
  shows "held ev_values h' a = held ev_values h a"
proof -
  have "neutral_vals (updateValueInModel n C con model ref)"
    unfolding updateValueInModel_def
    by (auto intro!: vals.neutral_bnd vals_ret vals_update [OF assms(1)] simp del: lift_run)
  from vals.balanced [OF this assms(2)] show ?thesis by simp
qed

lemma update_releases_witness:
  "held ev_values (snd (updateValueInModel 5 (demo_lib\<lparr>c_readObject := \<lambda>h con ref fc. (0, 3)\<rparr>) 1
     demo_model ''LD/LN.Pos.stVal'' [])) 9 = 0"
proof -
  let ?C = "demo_lib\<lparr>c_readObject := \<lambda>h con ref fc. (0, 3)\<rparr>"
  have "null_on_error ?C" by (simp add: null_on_error_def demo_lib_def)
  moreover have "fst (updateValueInModel 5 ?C 1 demo_model ''LD/LN.Pos.stVal'' []) = Val (demo_model, 3)"
    by code_simp
  ultimately show ?thesis
    using update_releases [of ?C 5 1 demo_model "''LD/LN.Pos.stVal''" "[]" demo_model 3 _ 9]
    by (metis held_def list.simps(8) prod.collapse sum_list.Nil)
qed

end
