(* ===== verification/Client_Invariants.thy ===== *)
theory Client_Invariants
  imports Client_Discovery_Facts Client_Demo
begin

text \<open>
  What every operation of a client keeps, however it ends: the table has one entry per
  device, every connection that was created and not destroyed is the connection of an entry or
  is lost, and no call is made on a connection that is destroyed. A connection is lost only when
  the caller gives the port as a text.
\<close>

section \<open>Connections created and destroyed\<close>

fun ev_conns :: "cev \<Rightarrow> addr \<Rightarrow> int" where
  "ev_conns (ECreate c) a = (if c = a \<and> a \<noteq> 0 then 1 else 0)"
| "ev_conns (EDestroy c) a = (if c = a \<and> a \<noteq> 0 then -1 else 0)"
| "ev_conns _ a = 0"

interpretation conns: resource ev_conns
proof unfold_locales
  show "ev_conns e 0 = 0" for e by (cases e) simp_all
qed

text \<open>The connection a call is made on, NULL for the calls that take none.\<close>

fun ev_uses :: "cev \<Rightarrow> addr" where
  "ev_uses (EDataDirectory con _ _ _) = con"
| "ev_uses (EDeviceList con _ _) = con"
| "ev_uses (EDeviceDirectory con _ _ _) = con"
| "ev_uses (ENodeDirectory con _ _ _ _) = con"
| "ev_uses (EDataSetDirectory con _ _ _) = con"
| "ev_uses (EReadObject con _ _ _ _) = con"
| "ev_uses (EWriteObject con _ _ _ _) = con"
| "ev_uses (EConnect con _ _ _) = con"
| "ev_uses (EDestroy con) = con"
| "ev_uses (EGetRCB con _ _ _ _) = con"
| "ev_uses (ESetRCB con _ _ _ _) = con"
| "ev_uses (EInstallReport con _ _) = con"
| "ev_uses (ECtlCreate _ con _) = con"
| "ev_uses _ = 0"

text \<open>At each call on a connection, the connection has been created more often than destroyed.\<close>

definition uses_live :: "trace \<Rightarrow> bool" where
  "uses_live h \<longleftrightarrow> (\<forall>g e r. h = g @ e # r \<longrightarrow> ev_uses e \<noteq> 0 \<longrightarrow> 0 < held ev_conns g (ev_uses e))"

lemma uses_live_Nil [simp]: "uses_live []"
  by (simp add: uses_live_def)

lemma uses_live_snoc [simp]:
  "uses_live (h @ [e]) \<longleftrightarrow> uses_live h \<and> (ev_uses e \<noteq> 0 \<longrightarrow> 0 < held ev_conns h (ev_uses e))"
proof -
  have split: "h @ [e] = g @ e' # r \<longleftrightarrow> r = [] \<and> g = h \<and> e' = e \<or> (\<exists>r'. r = r' @ [e] \<and> h = g @ e' # r')" for g e' r
    by (cases r rule: rev_cases) auto
  show ?thesis unfolding uses_live_def split by blast
qed

text \<open>
  The calls other than \<open>IedConnection_create\<close> and \<open>IedConnection_destroy\<close> leave the balance as it
  is, and those a program makes on its connection \<open>con\<close> are made while that is there.
\<close>

definition balance :: "addr \<Rightarrow> (addr \<Rightarrow> int) \<Rightarrow> trace \<Rightarrow> bool" where
  "balance con c h \<longleftrightarrow> held ev_conns h = c \<and> (con \<noteq> 0 \<longrightarrow> 0 < c con) \<and> uses_live h"

lemma balance_emit:
  assumes "\<And>a. ev_conns e a = 0" and "ev_uses e = 0 \<or> ev_uses e = con"
  shows "keeps (balance con c) (emit e)"
  using assms by (intro keepsI) (auto simp: balance_def fun_eq_iff)

lemma balance_calls [keeps_intros]:
  "keeps (balance con c) (call_dataDirectory C con ref)" "keeps (balance con c) (call_nodeDirectory C con ref cls)"
  "keeps (balance con c) (call_deviceDirectory C con ref)" "keeps (balance con c) (call_dataSetDirectory C con ref)"
  "keeps (balance con c) (call_deviceList C con)" "keeps (balance con c) (call_readObject C con ref fc)"
  "keeps (balance con c) (call_writeObject C con ref fc v)" "keeps (balance con c) (call_new C k)"
  "keeps (balance con c) (call_getRCB C con ref rcb)" "keeps (balance con c) (call_setRCB C con rcb fl b)"
  "keeps (balance con c) (call_ctlCreate C ref con)" "keeps (balance con c) (call_operate C ctl v)"
  "keeps (balance con c) (call_select C ctl)" "keeps (balance con c) (call_selectValue C ctl v)"
  "keeps (balance con c) (call_cancel C ctl)"
  by (auto simp: keeps_def balance_def call_defs call_getRCB_def call_setRCB_def call_ctlCreate_def
      call_operate_def call_select_def call_selectValue_def call_cancel_def fun_eq_iff Let_def
      split: prod.split)

lemma balance_emits [keeps_intros]:
  "keeps (balance con c) (emit (EListDestroy l))" "keeps (balance con c) (emit (EValueDelete l))"
  "keeps (balance con c) (emit (ESetBits l w))" "keeps (balance con c) (emit (EInstallReport con x y))"
  "keeps (balance con c) (emit (ESetRptEna l b))" "keeps (balance con c) (emit (ESetGI l b))"
  "keeps (balance con c) (emit (ESetTermHandler l x))" "keeps (balance con c) (emit (ESetOrigin l x i))"
  "keeps (balance con c) (emit (EReadCb x p))" "keeps (balance con c) (emit (ERptCb x p))"
  "keeps (balance con c) (emit (ETermCb x))"
  by (rule balance_emit; simp)+

lemma balance_connect [keeps_intros]: "keeps (balance con c) (call_connect C con host port)"
  by (cases port) (auto simp: keeps_def balance_def fun_eq_iff Let_def)

lemma keeps_deref [keeps_intros]: "keeps I (deref l)"
  by (simp add: deref_def keeps_def)

lemma keeps_show_value [keeps_intros]: "keeps I (show_value C v)"
  by (simp add: keeps_def show_value_def)

lemma balance_data_attribute [keeps_intros]:
  "(\<And>r. keeps (balance con c) (sub r)) \<Longrightarrow> keeps (balance con c) (data_attribute C sub con ref raw t)"
  unfolding data_attribute_def Let_def by (auto intro!: keeps_intros simp del: lift_run ret_run emit_run)

lemma balance_printDataDirectory [keeps_intros]: "keeps (balance con c) (printDataDirectory n C con ref)"
proof (induction n arbitrary: ref)
  case 0
  show ?case unfolding printDataDirectory.simps by (rule keeps_raise)
next
  case (Suc n)
  then show ?case
    unfolding printDataDirectory.simps by (auto intro!: keeps_intros simp del: ret_run emit_run)
qed

lemma keeps_destroy_all [keeps_intros]: "keeps (balance con c) (destroy_all ls)"
  unfolding destroy_all_def by (intro keeps_intros)

lemma keeps_and_next [keeps_intros]: "keeps I m \<Longrightarrow> (\<And>x. keeps I (f x)) \<Longrightarrow> keeps I (and_next m f)"
  unfolding and_next_def by (intro keeps_intros)

lemma balance_node_objects [keeps_intros]: "keeps (balance con c) (node_objects n C con lnRef cls hs ln)"
  unfolding node_objects_def node_object_def
  by (auto intro!: keeps_intros simp del: ret_run emit_run lift_run)

lemma balance_dataset_members [keeps_intros]: "keeps (balance con c) (dataset_members raws i ds)"
  by (induction raws arbitrary: i ds) (auto intro!: keeps_intros simp del: ret_run lift_run)

lemma balance_node_datasets [keeps_intros]: "keeps (balance con c) (node_datasets C con lnRef hs ln)"
  unfolding node_datasets_def node_dataset_def
  by (auto intro!: keeps_intros simp del: ret_run emit_run lift_run)

lemma balance_discovery [keeps_intros]: "keeps (balance con c) (discovery n C con)"
  unfolding discovery_def logical_device_def logical_node_def Let_def
  by (auto intro!: keeps_intros simp del: ret_run emit_run lift_run raise_run)

lemma balance_enable_report [keeps_intros]: "keeps (balance con c) (enable_report C con RPT old b)"
  unfolding enable_report_def by (intro keeps_intros)

lemma balance_refresh_leaf [keeps_intros]: "keeps (balance con c) (refresh_leaf C con ref sub)"
  unfolding refresh_leaf_def by (auto intro!: keeps_intros simp del: ret_run emit_run lift_run)

lemma balance_update [keeps_intros]: "keeps (balance con c) (update_recurse n C con ref m path)"
  by (induction n C con ref m path rule: update_recurse.induct)
    (auto intro!: keeps_intros simp del: ret_run lift_run)

lemma balance_getMMsValue [keeps_intros]: "keeps (balance con c) (getMMsValue C F ty v sz tv)"
proof -
  have int: "keeps (balance con c) (new_of_int C mk v)" for mk
    unfolding new_of_int_def by (intro keeps_intros)
  show ?thesis
    unfolding getMMsValue_def
    by (intro keeps_if keeps_bnd keeps_andthen keeps_lift keeps_ret keeps_raise int balance_calls
        balance_emits) (cases v; simp del: raise_run; intro keeps_intros)
qed

lemma balance_writeValue [keeps_intros]: "keeps (balance con c) (writeValue n C F con m ref v)"
  unfolding writeValue_def updateValueInModel_def
  by (auto intro!: keeps_intros simp del: ret_run emit_run lift_run split: option.split)

lemma balance_updateValue [keeps_intros]: "keeps (balance con c) (updateValueInModel n C con m ref)"
  unfolding updateValueInModel_def by (auto intro!: keeps_intros simp del: lift_run)

section \<open>The connections of the table\<close>

definition stored :: "(string, conn) dict \<Rightarrow> addr \<Rightarrow> int" where
  "stored d a = sum_list (map (\<lambda>p. if cn_con (snd p) = Some a then 1 else 0) d)"

lemma stored_replace:
  "map_of d k = Some c \<Longrightarrow>
   stored (dset k c' d) a = stored d a - (if cn_con c = Some a then 1 else 0)
                                       + (if cn_con c' = Some a then 1 else 0)"
  by (induction d) (auto simp: stored_def)

lemma stored_new:
  "map_of d k = None \<Longrightarrow>
   stored (dset k c d) a = stored d a + (if cn_con c = Some a then 1 else 0)"
  by (induction d) (auto simp: stored_def)

lemma stored_nonneg: "0 \<le> stored d a"
  by (induction d) (simp_all add: stored_def)

lemma stored_pos: "map_of d k = Some c \<Longrightarrow> cn_con c = Some a \<Longrightarrow> 0 < stored d a"
proof (induction d)
  case (Cons p d)
  then show ?case
    using stored_nonneg [of d a] by (auto simp: stored_def split: if_splits)
qed simp

lemma owed_nonneg: "0 \<le> owed xs a"
  by (simp add: owed_def)

text \<open>
  The invariant up to \<open>L\<close>, a list of connections that are created but not in the table: the one
  being opened, and those that are lost.
\<close>

definition conns_upto :: "addr list \<Rightarrow> client \<Rightarrow> bool" where
  "conns_upto L s \<longleftrightarrow>
     distinct (map fst (cl_connections s)) \<and> uses_live (cl_trace s) \<and>
     (\<forall>a. a \<noteq> 0 \<longrightarrow> held ev_conns (cl_trace s) a = stored (cl_connections s) a + owed L a)"

text \<open>The same with a known connection in one entry.\<close>

definition conn_is :: "string \<Rightarrow> addr option \<Rightarrow> client \<Rightarrow> bool" where
  "conn_is tupl con s \<longleftrightarrow> (\<exists>c. map_of (cl_connections s) tupl = Some c \<and> cn_con c = con)"

definition ok_with :: "addr list \<Rightarrow> string \<Rightarrow> addr option \<Rightarrow> client \<Rightarrow> bool" where
  "ok_with xs tupl con s \<longleftrightarrow> conns_upto xs s \<and> conn_is tupl con s"

lemma ok_withD: "ok_with xs tupl con s \<Longrightarrow> conns_upto xs s"
  by (simp add: ok_with_def)

text \<open>A connection of the table or of the list is there.\<close>

lemma table_live:
  "ok_with xs tupl cc s \<Longrightarrow> con_arg cc \<noteq> 0 \<Longrightarrow> 0 < held ev_conns (cl_trace s) (con_arg cc)"
proof -
  assume ok: "ok_with xs tupl cc s" and con: "con_arg cc \<noteq> 0"
  then obtain a where a: "cc = Some a" "a \<noteq> 0" by (auto simp: con_arg_def split: option.splits)
  with ok obtain c where "map_of (cl_connections s) tupl = Some c" "cn_con c = Some a"
    by (auto simp: ok_with_def conn_is_def)
  then have "0 < stored (cl_connections s) a" by (rule stored_pos)
  with ok a owed_nonneg [of xs a] show ?thesis
    by (simp add: ok_with_def conns_upto_def con_arg_def)
qed

lemma list_live:
  "conns_upto (con # xs) s \<Longrightarrow> con \<noteq> 0 \<Longrightarrow> 0 < held ev_conns (cl_trace s) con"
  using stored_nonneg [of "cl_connections s" con] owed_nonneg [of xs con]
  by (auto simp: conns_upto_def)

lemma io_run: "m (cl_trace s) = (r, h) \<Longrightarrow> on_trace m s = (r, s\<lparr>cl_trace := h\<rparr>)"
  by (simp add: on_trace_def)

lemma keeps_io:
  assumes "\<And>c. keeps (balance 0 c) m"
  shows "keeps (conns_upto xs) (on_trace m)"
proof (rule keepsI)
  fix s
  assume ok: "conns_upto xs s"
  then have "balance 0 (held ev_conns (cl_trace s)) (snd (m (cl_trace s)))"
    by (intro keepsD [OF assms]) (simp add: balance_def conns_upto_def)
  with ok show "conns_upto xs (snd (on_trace m s))"
    by (auto simp: on_trace_def balance_def conns_upto_def split: prod.split)
qed

text \<open>A program may use the connection of an entry whose connection is known.\<close>

lemma keeps_con_io:
  assumes "\<And>c. keeps (balance (con_arg cc) c) m"
  shows "keeps (ok_with xs tupl cc) (on_trace m)"
proof (rule keepsI)
  fix s
  assume ok: "ok_with xs tupl cc s"
  with table_live [OF ok] have "balance (con_arg cc) (held ev_conns (cl_trace s)) (snd (m (cl_trace s)))"
    by (intro keepsD [OF assms]) (simp add: balance_def ok_with_def conns_upto_def)
  with ok show "ok_with xs tupl cc (snd (on_trace m s))"
    by (auto simp: on_trace_def balance_def ok_with_def conns_upto_def conn_is_def split: prod.split)
qed

lemma get_conn_keeps [keeps_intros]: "keeps I (get_conn tupl)"
  by (simp add: keeps_def get_conn_def)

lemma upd_conn_run:
  "upd_conn tupl f s = (case map_of (cl_connections s) tupl of
     None \<Rightarrow> (Exn KeyError, s)
   | Some c \<Rightarrow> (Val (), s\<lparr>cl_connections := dset tupl (f c) (cl_connections s)\<rparr>))"
  by (simp add: upd_conn_def bnd_def get_conn_def dget_def split: option.split)

lemma upd_conn_keeps [keeps_intros]:
  assumes "\<And>c. cn_con (f c) = cn_con c"
  shows "keeps (conns_upto xs) (upd_conn tupl f)" and "keeps (ok_with xs t con) (upd_conn tupl f)"
  using assms
  by (auto simp: keeps_def upd_conn_run conns_upto_def stored_replace ok_with_def conn_is_def update_conv'
      simp del: map_of_eq_Some_iff split: option.split)

lemma modify_keeps [keeps_intros]:
  assumes "\<And>s. cl_connections (f s) = cl_connections s" and "\<And>s. cl_trace (f s) = cl_trace s"
  shows "keeps (conns_upto xs) (modify f)" and "keeps (ok_with xs t con) (modify f)"
  using assms by (auto simp: keeps_def conns_upto_def ok_with_def conn_is_def)

section \<open>Storing and dropping a connection\<close>

lemma drop_connection_ok:
  "triple (ok_with xs tupl (Some con)) (drop_connection tupl con) (\<lambda>_. conns_upto xs) (conns_upto xs)"
  using table_live [of xs tupl "Some con"]
  by (auto simp: con_arg_def triple_def drop_connection_def ok_with_def conn_is_def conns_upto_def andthen_def bnd_def
      upd_conn_run on_trace_def stored_replace simp del: map_of_eq_Some_iff)

lemma add_conn_ok:
  "triple (\<lambda>s. conns_upto xs s \<and> \<not> (\<exists>c. conn_is tupl (Some c) s)) (add_conn tupl)
          (\<lambda>_. ok_with xs tupl None) (conns_upto xs)"
proof -
  have "ok_with xs tupl None (snd (add_conn tupl s))"
    if s: "conns_upto xs s" "\<not> (\<exists>c. conn_is tupl (Some c) s)" for s
  proof (cases "map_of (cl_connections s) tupl")
    case None
    then have "\<not> dhas tupl (cl_connections s)" by (simp add: dhas_iff)
    with None s(1) show ?thesis
      by (simp add: add_conn_def ok_with_def conn_is_def conns_upto_def stored_new new_conn_def
          update_conv' del: map_of_eq_Some_iff)
  next
    case (Some c)
    then have "dhas tupl (cl_connections s)" by (simp add: dhas_iff)
    moreover have "cn_con c = None" using s(2) Some by (cases "cn_con c") (auto simp: conn_is_def)
    ultimately show ?thesis
      using Some s(1) by (simp add: add_conn_def ok_with_def conn_is_def)
  qed
  then show ?thesis by (simp add: triple_def add_conn_def)
qed

lemma create_ok:
  "triple (ok_with L tupl None) (on_trace (call_create C)) (\<lambda>con. ok_with (con # L) tupl None) (conns_upto L)"
  by (auto simp: triple_def on_trace_def call_create_def ok_with_def conn_is_def conns_upto_def Let_def)

lemma store_ok:
  "triple (ok_with (con # L) tupl None) (upd_conn tupl (\<lambda>c. c\<lparr>cn_con := Some con\<rparr>))
          (\<lambda>_. ok_with L tupl (Some con)) (conns_upto L)"
  by (auto simp: triple_def upd_conn_run ok_with_def conn_is_def conns_upto_def stored_replace update_conv'
      simp del: map_of_eq_Some_iff)

lemma connect_ok:
  assumes "\<And>t. port \<noteq> PText t" and "port \<noteq> PNone"
  shows "triple (ok_with (con # L) tupl None) (on_trace (call_connect C con host port))
          (\<lambda>_. ok_with (con # L) tupl None) (conns_upto L)"
proof -
  have "conns_upto (con # L) s \<Longrightarrow> con \<noteq> 0 \<Longrightarrow> 0 < held ev_conns (cl_trace s) con" for s
    by (rule list_live)
  with assms show ?thesis
    by (cases port) (auto simp: triple_def on_trace_def ok_with_def conn_is_def conns_upto_def Let_def)
qed

lemma destroy_ok:
  "triple (ok_with (con # L) tupl None) (on_trace (emit (EDestroy con))) (\<lambda>_. conns_upto L) (conns_upto L)"
proof -
  have "conns_upto (con # L) s \<Longrightarrow> con \<noteq> 0 \<Longrightarrow> 0 < held ev_conns (cl_trace s) con" for s
    by (rule list_live)
  then show ?thesis by (auto simp: triple_def on_trace_def ok_with_def conns_upto_def)
qed

section \<open>The operations\<close>

lemma triple_io:
  assumes "\<And>c. keeps (balance con c) m"
  shows "triple (ok_with xs tupl (Some con)) (on_trace m) (\<lambda>_. ok_with xs tupl (Some con)) (conns_upto xs)"
  by (rule triple_keeps [OF keeps_con_io ok_withD]) (simp add: con_arg_def assms)

lemma triple_upd_conn:
  assumes "\<And>c. cn_con (f c) = cn_con c"
  shows "triple (ok_with xs t con) (upd_conn tupl f) (\<lambda>_. ok_with xs t con) (conns_upto xs)"
  by (rule triple_keeps [OF upd_conn_keeps(2) [OF assms] ok_withD])

lemma refresh_model_ok:
  "triple (ok_with L tupl (Some con)) (refresh_model n C tupl con) (\<lambda>_. (conns_upto L)) (conns_upto L)"
  unfolding refresh_model_def
  by (intro triple_bnd [OF triple_io [OF balance_discovery]] triple_if
      triple_andthen [OF triple_upd_conn] triple_andthen [OF drop_connection_ok] triple_ret)
    (auto intro: ok_withD)

lemma keeps_set_rcb [keeps_intros]:
  "keeps (conns_upto xs) (modify (set_rcb t i rcb))" "keeps (ok_with xs tupl con) (modify (set_rcb t i rcb))"
  by (rule modify_keeps; simp add: set_rcb_def split: option.split)+

lemma reenable_keeps: "keeps (ok_with xs tupl (Some con)) (reenable_reports C tupl con i rs)"
proof (induction rs arbitrary: i)
  case Nil
  show ?case unfolding reenable_reports.simps by (rule keeps_ret)
next
  case (Cons r rs)
  then show ?case
    unfolding reenable_reports.simps
    by (intro keeps_intros keeps_con_io) (simp_all add: con_arg_def balance_enable_report)
qed

lemma open_connection_ok:
  assumes "\<And>t. port \<noteq> PText t" and "port \<noteq> PNone"
  shows "triple (\<lambda>s. (conns_upto L) s \<and> \<not> (\<exists>c. conn_is tupl (Some c) s)) (open_connection n C tupl host port)
          (\<lambda>_. (conns_upto L)) (conns_upto L)"
proof -
  have opened: "triple (ok_with L tupl (Some con))
      (bnd (on_trace (discovery n C con)) (\<lambda>model.
             if model \<noteq> [] then
               andthen (upd_conn tupl (\<lambda>c. c\<lparr>cn_model := PDict model\<rparr>))
               (bnd (gets (registered_reports tupl)) (\<lambda>rs.
                  andthen (reenable_reports C tupl con 0 rs) (ret 0)))
             else ret (-1)))
      (\<lambda>_. (conns_upto L)) (conns_upto L)" for con
    by (intro triple_bnd [OF triple_io [OF balance_discovery]] triple_if triple_andthen [OF triple_upd_conn]
        triple_bnd [OF triple_keeps [OF keeps_gets ok_withD]]
        triple_andthen [OF triple_keeps [OF reenable_keeps ok_withD]] triple_ret)
      (auto intro: ok_withD)
  show ?thesis
    unfolding open_connection_def
    by (intro triple_andthen [OF add_conn_ok] triple_bnd [OF create_ok]
        triple_bnd [OF connect_ok [OF assms]] triple_if triple_andthen [OF store_ok]
        triple_andthen [OF destroy_ok] opened triple_ret)
qed

text \<open>
  With the port as a text \<open>connect\<close> is refused by ctypes, and the new connection is lost: the
  invariant holds with one more connection on the list.
\<close>

definition upto_one :: "addr list \<Rightarrow> client \<Rightarrow> bool" where
  "upto_one L s \<longleftrightarrow> conns_upto L s \<or> (\<exists>con. conns_upto (con # L) s)"

lemma open_connection_text:
  "triple (\<lambda>s. conns_upto L s \<and> \<not> (\<exists>c. conn_is tupl (Some c) s))
     (open_connection n C tupl host (PText t)) (\<lambda>_. upto_one L) (upto_one L)"
proof -
  have refused: "triple (ok_with (con # L) tupl None)
      (bnd (on_trace (call_connect C con host (PText t))) f) (\<lambda>_. upto_one L) (upto_one L)" for con f
    by (auto simp: triple_def bnd_def on_trace_def upto_one_def ok_with_def)
  show ?thesis
    unfolding open_connection_def
    by (rule triple_andthen [OF triple_post [OF add_conn_ok]]; (rule triple_bnd [OF triple_post [OF create_ok] refused])?)
      (auto simp: upto_one_def)
qed

definition numeric_port :: "portarg \<Rightarrow> bool" where
  "numeric_port p \<longleftrightarrow> (\<forall>t. p = PText t \<longrightarrow> t = [])"

lemma default_numeric:
  assumes "numeric_port p"
  shows "default_port p \<noteq> PText t" and "default_port p \<noteq> PNone"
  using assms by (auto simp: numeric_port_def default_port_def)

lemma numeric_default: "numeric_port p \<Longrightarrow> numeric_port (default_port p)"
  by (auto simp: numeric_port_def default_port_def)

text \<open>What is known after an operation that is given this port.\<close>

definition after_port :: "portarg \<Rightarrow> addr list \<Rightarrow> client \<Rightarrow> bool" where
  "after_port p L = (if numeric_port p then conns_upto L else upto_one L)"

lemma after_portI: "conns_upto L s \<Longrightarrow> after_port p L s"
  by (simp add: after_port_def upto_one_def)

lemma open_connection_any:
  "triple (\<lambda>s. conns_upto L s \<and> \<not> (\<exists>c. conn_is tupl (Some c) s))
     (open_connection n C tupl host (default_port p)) (\<lambda>_. after_port p L) (after_port p L)"
proof (cases "numeric_port p")
  case True
  with open_connection_ok [of "default_port p" L tupl n C host, OF default_numeric [OF True]]
  show ?thesis by (simp add: after_port_def)
next
  case False
  then obtain t where "default_port p = PText t" by (auto simp: numeric_port_def default_port_def)
  with False open_connection_text show ?thesis by (simp add: after_port_def)
qed

lemma getIED_any:
  "triple (conns_upto L) (getIED n C host port) (\<lambda>_. after_port port L) (after_port port L)"
proof (cases host)
  case None
  then show ?thesis by (auto simp: getIED_def Let_def intro: triple_ret after_portI simp del: ret_run)
next
  case (Some h)
  let ?p = "default_port port" and ?t = "conn_key h (default_port port)"
  have "triple (conns_upto L) (bnd (gets (\<lambda>s. map_of (cl_connections s) ?t)) (\<lambda>entry.
            case entry of
              None \<Rightarrow> open_connection n C ?t h ?p
            | Some c \<Rightarrow>
                (case cn_con c of
                   None \<Rightarrow> open_connection n C ?t h ?p
                 | Some con \<Rightarrow>
                     if truthy (cn_model c) then ret 0 else refresh_model n C ?t con)))
        (\<lambda>_. after_port port L) (after_port port L)"
  proof (rule triple_bnd [where R = "\<lambda>e s. conns_upto L s \<and> map_of (cl_connections s) ?t = e"])
    fix e
    note opn = open_connection_any [of L ?t n C h port]
    have ref: "triple (ok_with L ?t (Some con)) (refresh_model n C ?t con)
        (\<lambda>_. after_port port L) (after_port port L)" for con
      by (rule triple_post [OF refresh_model_ok]) (simp_all add: after_portI)
    show "triple (\<lambda>s. conns_upto L s \<and> map_of (cl_connections s) ?t = e)
       (case e of
          None \<Rightarrow> open_connection n C ?t h ?p
        | Some c \<Rightarrow>
            (case cn_con c of
               None \<Rightarrow> open_connection n C ?t h ?p
             | Some con \<Rightarrow> if truthy (cn_model c) then ret 0 else refresh_model n C ?t con))
       (\<lambda>_. after_port port L) (after_port port L)"
      by (auto intro!: triple_pre [OF opn] triple_pre [OF ref] triple_ret after_portI
          simp: conn_is_def ok_with_def simp del: ret_run split: option.split)
  qed (rule triple_gets, simp)
  then show ?thesis
    unfolding getIED_def Some Let_def by simp
qed

lemma getIED_keeps:
  assumes "numeric_port port"
  shows "keeps (conns_upto L) (getIED n C host port)"
  using getIED_any [of L n C host port] assms by (simp add: after_port_def keeps_triple)

text \<open>Looking up an entry tells what its connection is.\<close>

lemma get_conn_ok:
  "triple (conns_upto L) (get_conn tupl) (\<lambda>c. ok_with L tupl (cn_con c)) (conns_upto L)"
  by (simp add: triple_def get_conn_def dget_def ok_with_def conn_is_def split: option.split)

lemma usable_SomeD: "usable c = Some con \<Longrightarrow> cn_con c = Some con"
  by (auto simp: usable_def split: option.splits if_splits)

lemma on_error_ok:
  "triple (ok_with L tupl (Some con)) (on_error tupl con err) (\<lambda>_. (conns_upto L)) (conns_upto L)"
  unfolding on_error_def
  by (auto intro!: triple_if drop_connection_ok triple_ret ok_withD simp del: ret_run)

lemma ok_parts_keep [keeps_intros]:
  "keeps (ok_with L t (Some con)) (conn_value tupl path)"
  "keeps (ok_with L t (Some con)) (update_conn_model n C tupl con path)"
  "keeps (ok_with L t (Some con)) (write_conn_model n C F tupl con path v)"
  "keeps (ok_with L t (Some con)) (tell_read ref u)"
  unfolding conn_value_def update_conn_model_def write_conn_model_def tell_read_def
  by (intro keeps_intros keeps_con_io; simp add: con_arg_def keeps_intros del: ret_run emit_run)+

lemma finish_ok:
  assumes "keeps (ok_with L tupl con) m"
  shows "triple (ok_with L tupl con) m (\<lambda>_. (conns_upto L)) (conns_upto L)"
  by (rule triple_post [OF triple_keeps [OF assms ok_withD]]) (auto intro: ok_withD)

text \<open>A program that looks an entry up and then uses its connection.\<close>

lemma conn_keeps:
  assumes "\<And>c. keeps (ok_with L tupl (cn_con c)) (f c)"
  shows "keeps (conns_upto L) (bnd (get_conn tupl) f)"
  by (rule keeps_triple, rule triple_bnd [OF get_conn_ok finish_ok [OF assms]])

lemma registerForReporting_keeps [keeps_intros]: "keeps (conns_upto L) (registerForReporting C key tupl ref)"
  unfolding registerForReporting_def subscribe_def
  by (rule conn_keeps)
    (intro keeps_intros keeps_con_io; simp add: add_report_def keeps_intros del: ret_run emit_run)

lemma get_controlObject_keeps [keeps_intros]: "keeps (conns_upto L) (get_controlObject C tupl path)"
  unfolding get_controlObject_def
  by (rule conn_keeps)
    (intro keeps_intros keeps_con_io;
     simp add: ensure_control_def set_control_def keeps_intros del: ret_run emit_run split: option.split)

lemma parts_keep [keeps_intros]:
  "keeps (conns_upto L) (conn_value tupl path)" "keeps (conns_upto L) (tell_read ref u)"
  "keeps (conns_upto L) (last_cause C ctl)" "keeps (conns_upto L) (control_value C F ctl v)"
  unfolding conn_value_def tell_read_def last_cause_def control_value_def
  by (intro keeps_intros keeps_io; simp)+

lemma rbind_ValE:
  assumes "rbind r f = Val y"
  obtains x where "r = Val x" and "f x = Val y"
  using assms by (cases r) auto

lemma port_of_numeric: "numeric_port (port_of p)" "numeric_port (default_port (port_of p))"
  by (cases p; simp add: numeric_port_def default_port_def)+

lemma parse_target_port:
  assumes "parse_target ref = Val (Some t)"
  shows "numeric_port (tg_port t)"
  using assms
  by (auto simp: parse_target_def port_of_numeric elim!: rbind_ValE split: if_splits option.splits)

lemma keeps_lift_bnd:
  assumes "\<And>x. r = Val x \<Longrightarrow> keeps I (f x)"
  shows "keeps I (bnd (lift r) f)"
  using assms by (cases r) (auto simp: keeps_def)

text \<open>The frame shared by the operations on a reference.\<close>

lemma target_keeps:
  assumes "\<And>t. numeric_port (tg_port t) \<Longrightarrow> keeps (conns_upto L) (f t)"
  shows "keeps (conns_upto L) (bnd (lift (parse_target ref)) (\<lambda>t. case t of None \<Rightarrow> ret d | Some t \<Rightarrow> f t))"
proof (rule keeps_lift_bnd)
  fix t
  assume "parse_target ref = Val t"
  then show "keeps (conns_upto L) (case t of None \<Rightarrow> ret d | Some t \<Rightarrow> f t)"
    using assms parse_target_port by (auto intro: keeps_ret simp del: ret_run split: option.split)
qed

lemma device_keeps:
  assumes "numeric_port (tg_port t)"
    and "\<And>c con. triple (ok_with L (tg_key t) (Some con)) (B c con) (\<lambda>_. (conns_upto L)) (conns_upto L)"
  shows "keeps (conns_upto L) (bnd (getIED n C (Some (tg_host t)) (tg_port t)) (\<lambda>err.
           if err \<noteq> 0 then ret d1
           else bnd (get_conn (tg_key t)) (\<lambda>c. case usable c of None \<Rightarrow> ret d2 | Some con \<Rightarrow> B c con)))"
proof (rule keeps_bnd [OF getIED_keeps [OF assms(1)]], rule keeps_if [OF keeps_ret], rule keeps_triple,
    rule triple_bnd [OF get_conn_ok])
  fix c
  show "triple (ok_with L (tg_key t) (cn_con c)) (case usable c of None \<Rightarrow> ret d2 | Some con \<Rightarrow> B c con)
     (\<lambda>_. (conns_upto L)) (conns_upto L)"
  proof (cases "usable c")
    case None
    then show ?thesis by (auto intro: triple_ret ok_withD simp del: ret_run)
  next
    case (Some con)
    with assms(2) [of con c] usable_SomeD [OF Some] show ?thesis by simp
  qed
qed

lemma then_error_ok:
  "triple (ok_with L tupl (Some con)) (andthen (on_error tupl con err) (ret x)) (\<lambda>_. (conns_upto L)) (conns_upto L)"
  by (rule triple_andthen [OF on_error_ok]) (rule triple_ret)

lemma with_ok:
  "triple (ok_with L tupl con) m (\<lambda>_. ok_with L tupl con) (conns_upto L)" if "keeps (ok_with L tupl con) m"
  by (rule triple_keeps [OF that ok_withD])

lemma registerWriteValue_keeps: "keeps (conns_upto L) (registerWriteValue n C F ref v)"
  unfolding registerWriteValue_def
proof (rule target_keeps, erule device_keeps)
  fix t c con
  show "triple (ok_with L (tg_key t) (Some con))
     (if \<not> truthy (cn_model c) then ret (-1)
      else bnd (write_conn_model n C F (tg_key t) con (tg_path t) v) (\<lambda>error.
        if error = 0 then
          bnd (conn_value (tg_key t) (tg_path t)) (\<lambda>(submodel, path).
          andthen (tell_read ref submodel) (ret 0))
        else andthen (on_error (tg_key t) con error) (ret error)))
     (\<lambda>_. (conns_upto L)) (conns_upto L)"
    by (intro triple_if finish_ok [OF keeps_ret] triple_bnd [OF with_ok [OF ok_parts_keep(3)]]
        then_error_ok) (rule finish_ok, intro keeps_intros)
qed

lemma ReadValue_keeps: "keeps (conns_upto L) (ReadValue n C ref)"
  unfolding ReadValue_def
proof (rule target_keeps, erule device_keeps)
  fix t c con
  have "triple (ok_with L (tg_key t) (Some con))
     (case r of (submodel, path) \<Rightarrow>
        if \<not> truthy submodel then ret (PDict [], -1)
        else bnd (update_conn_model n C (tg_key t) con (tg_path t)) (\<lambda>error.
          if error = 0 then
            bnd (conn_value (tg_key t) (tg_path t)) (\<lambda>(submodel, path).
            andthen (tell_read ref submodel) (ret (submodel, 0)))
          else andthen (on_error (tg_key t) con error) (ret (PDict [], -1))))
     (\<lambda>_. (conns_upto L)) (conns_upto L)" for r :: "pv \<times> string list"
    unfolding prod.case_eq_if
    by (intro triple_if finish_ok [OF keeps_ret] triple_bnd [OF with_ok [OF ok_parts_keep(2)]]
        then_error_ok) (rule finish_ok, intro keeps_intros)
  then show "triple (ok_with L (tg_key t) (Some con))
     (if \<not> truthy (cn_model c) then ret (PDict [], -1)
      else bnd (conn_value (tg_key t) (tg_path t)) (\<lambda>(submodel, path).
        if \<not> truthy submodel then ret (PDict [], -1)
        else bnd (update_conn_model n C (tg_key t) con (tg_path t)) (\<lambda>error.
          if error = 0 then
            bnd (conn_value (tg_key t) (tg_path t)) (\<lambda>(submodel, path).
            andthen (tell_read ref submodel) (ret (submodel, 0)))
          else andthen (on_error (tg_key t) con error) (ret (PDict [], -1)))))
     (\<lambda>_. (conns_upto L)) (conns_upto L)"
    by (intro triple_if finish_ok [OF keeps_ret] triple_bnd [OF with_ok [OF ok_parts_keep(1)]])
qed

lemma poll_key_keeps: "keeps (conns_upto L) (poll_key n C key)"
  unfolding poll_key_def
proof (rule target_keeps, erule device_keeps)
  fix t c con
  show "triple (ok_with L (tg_key t) (Some con))
     (if \<not> truthy (cn_model c) then ret ()
      else bnd (update_conn_model n C (tg_key t) con (tg_path t)) (\<lambda>err.
        if err = 0 then
          bnd (conn_value (tg_key t) (tg_path t)) (\<lambda>(submodel, path). tell_read key submodel)
        else on_error (tg_key t) con err))
     (\<lambda>_. (conns_upto L)) (conns_upto L)"
    by (intro triple_if finish_ok [OF keeps_ret] triple_bnd [OF with_ok [OF ok_parts_keep(2)]]
        on_error_ok) (rule finish_ok, intro keeps_intros)
qed

lemma poll_keeps: "keeps (conns_upto L) (poll n C)"
  unfolding poll_def by (intro keeps_intros poll_key_keeps)

lemma registerReadValue_keeps: "keeps (conns_upto L) (registerReadValue n C ref)"
  unfolding registerReadValue_def
  by (intro keeps_bnd [OF keeps_gets] keeps_if keeps_ret target_keeps keeps_bnd [OF getIED_keeps])
    (auto intro!: keeps_intros simp del: ret_run modify_run)

lemma host_port_numeric: "host_port ref = Val (u, h, p) \<Longrightarrow> numeric_port p"
  by (auto simp: host_port_def port_of_numeric elim!: rbind_ValE)

lemma getDatamodel_any:
  "triple (conns_upto L) (getDatamodel n C ref host port)
     (\<lambda>_. after_port (if ref = None then port else PNone) L) (after_port (if ref = None then port else PNone) L)"
proof -
  let ?p = "if ref = None then port else PNone"
  have go: "triple (conns_upto L) (let port = default_port q in
       bnd (getIED n C h port) (\<lambda>err.
         case (err = 0, h) of
           (True, Some h) \<Rightarrow> bnd (get_conn (conn_key h port)) (\<lambda>c. ret (cn_model c))
         | _ \<Rightarrow> ret (PDict []))) (\<lambda>_. after_port ?p L) (after_port ?p L)"
    if q: "numeric_port ?p \<longrightarrow> numeric_port q" for h q
  proof -
    have weaken: "after_port (default_port q) L s \<Longrightarrow> after_port ?p L s" for s
      using q numeric_default [of q] by (auto simp: after_port_def upto_one_def split: if_splits)
    have get: "triple (conns_upto L) (getIED n C h (default_port q)) (\<lambda>_. after_port ?p L) (after_port ?p L)"
      by (rule triple_post [OF getIED_any]) (erule weaken)+
    have "keeps (after_port ?p L) (case (err = 0, h) of
           (True, Some h) \<Rightarrow> bnd (get_conn (conn_key h (default_port q))) (\<lambda>c. ret (cn_model c))
         | _ \<Rightarrow> ret (PDict []))" for err :: int
      by (auto intro!: keeps_intros simp del: ret_run split: option.split bool.split)
    then show ?thesis
      unfolding Let_def by (intro triple_bnd [OF get] triple_keeps) simp_all
  qed
  show ?thesis
  proof (cases ref)
    case None
    with go [of port host] show ?thesis by (simp add: getDatamodel_def bnd_def triple_def)
  next
    case (Some x)
    show ?thesis
    proof (cases "host_port x")
      case (Val r)
      obtain u h p where r: "r = (u, h, p)" by (cases r)
      with Val have "numeric_port p" by (simp add: host_port_numeric)
      with Val r Some go [of p h] show ?thesis by (simp add: getDatamodel_def bnd_def triple_def)
    qed (simp_all add: Some getDatamodel_def bnd_def triple_def after_portI)
  qed
qed

lemma with_control_keeps:
  assumes "\<And>ctl. keeps (conns_upto L) (f ctl)"
  shows "keeps (conns_upto L) (with_control n C ref d f)"
  unfolding with_control_def
proof (rule keeps_lift_bnd)
  fix x
  assume r: "control_target ref = Val x"
  obtain u h p where x: "x = (u, h, p)" by (cases x)
  then obtain r0 q where "host_port r0 = Val (u, h, q)" "p = default_port q"
    using r by (cases ref) (auto simp: control_target_def elim!: rbind_ValE)
  then have num: "numeric_port p" by (simp add: host_port_numeric numeric_default)
  show "keeps (conns_upto L) (case x of (u, host, port) \<Rightarrow>
     bnd (getIED n C host port) (\<lambda>err.
       case (err = 0, host) of
         (True, Some h) \<Rightarrow>
           bnd (get_controlObject C (conn_key h port) (drop 1 (u_path u))) f
       | _ \<Rightarrow> ret d))"
    unfolding x prod.case
    by (intro keeps_bnd [OF getIED_keeps [OF num]])
      (auto intro!: keeps_intros assms simp del: ret_run split: option.split bool.split)
qed

lemma control_keeps:
  "keeps (conns_upto L) (operate n C F ref v)" "keeps (conns_upto L) (select n C F ref v)"
  "keeps (conns_upto L) (cancel n C ref)"
  unfolding operate_def select_def cancel_def
  by (rule with_control_keeps; auto intro!: keeps_intros keeps_io simp del: ret_run emit_run)+

lemma callback_keeps:
  "keeps (conns_upto L) (ReportHandler_cb C rd report)"
  "keeps (conns_upto L) (commandTerminationHandler_cb C param ctl)"
  unfolding ReportHandler_cb_def commandTerminationHandler_cb_def report_member_def
  by (auto intro!: keeps_intros keeps_io simp del: ret_run emit_run lift_run raise_run split: pv.split)

section \<open>The client as a state machine\<close>

text \<open>
  What can happen to a client: a call of one of its operations, or a callback of the library.
  An operation may return, raise or not return; the state it leaves is the next one. The port
  of \<open>getDatamodel\<close> and \<open>getIED\<close> is whatever the caller gives.
\<close>

datatype action =
    DoRead string | DoWrite string pyarg | DoRegister string | DoPoll
  | DoConnect "string option" portarg | DoModel "string option" "string option" portarg
  | DoReporting string string string | DoControlObject string string
  | DoOperate "string option" pyarg | DoSelect "string option" pyarg | DoCancel "string option"
  | OnReport refdata addr | OnTermination string addr

definition perform :: "nat \<Rightarrow> capi \<Rightarrow> pyfloat \<Rightarrow> action \<Rightarrow> client \<Rightarrow> client" where
  "perform n C F act s =
     (case act of
        DoRead ref \<Rightarrow> snd (ReadValue n C ref s)
      | DoWrite ref v \<Rightarrow> snd (registerWriteValue n C F ref v s)
      | DoRegister ref \<Rightarrow> snd (registerReadValue n C ref s)
      | DoPoll \<Rightarrow> snd (poll n C s)
      | DoConnect host port \<Rightarrow> snd (getIED n C host port s)
      | DoModel ref host port \<Rightarrow> snd (getDatamodel n C ref host port s)
      | DoReporting key tupl ref \<Rightarrow> snd (registerForReporting C key tupl ref s)
      | DoControlObject tupl path \<Rightarrow> snd (get_controlObject C tupl path s)
      | DoOperate ref v \<Rightarrow> snd (operate n C F ref v s)
      | DoSelect ref v \<Rightarrow> snd (select n C F ref v s)
      | DoCancel ref \<Rightarrow> snd (cancel n C ref s)
      | OnReport rd report \<Rightarrow> snd (ReportHandler_cb C rd report s)
      | OnTermination param ctl \<Rightarrow> snd (commandTerminationHandler_cb C param ctl s))"

text \<open>The states a client reaches by a list of actions, in order.\<close>

inductive reachable :: "nat \<Rightarrow> capi \<Rightarrow> pyfloat \<Rightarrow> action list \<Rightarrow> client \<Rightarrow> bool" for n C F where
  Init: "reachable n C F [] (init_client readcb termcb rptcb)"
| Step: "reachable n C F acts s \<Longrightarrow> reachable n C F (acts @ [act]) (perform n C F act s)"

text \<open>The actions that hand a port that is a text, and not the empty one, to \<open>connect\<close>.\<close>

definition gives_text_port :: "action \<Rightarrow> bool" where
  "gives_text_port act \<longleftrightarrow> (\<exists>host t. t \<noteq> [] \<and> (act = DoConnect host (PText t) \<or> act = DoModel None host (PText t)))"

lemma triple_snd: "triple P m (\<lambda>_. Q) Q \<Longrightarrow> P s \<Longrightarrow> Q (snd (m s))"
  by (cases "m s"; cases "fst (m s)") (force simp: triple_def)+

lemma perform_keeps:
  assumes "conns_upto L s"
  shows "if gives_text_port act then upto_one L (perform n C F act s) else conns_upto L (perform n C F act s)"
proof (cases act)
  case (DoConnect host port)
  have "after_port port L (snd (getIED n C host port s))"
    by (rule triple_snd [OF getIED_any assms])
  moreover have "\<not> numeric_port port \<Longrightarrow> gives_text_port act"
    using DoConnect by (auto simp: numeric_port_def gives_text_port_def)
  ultimately show ?thesis
    using DoConnect by (auto simp: perform_def after_port_def upto_one_def split: if_splits)
next
  case (DoModel ref host port)
  have "after_port (if ref = None then port else PNone) L (snd (getDatamodel n C ref host port s))"
    by (rule triple_snd [OF getDatamodel_any assms])
  moreover have "\<not> numeric_port (if ref = None then port else PNone) \<Longrightarrow> gives_text_port act"
    using DoModel by (auto simp: numeric_port_def gives_text_port_def split: if_splits)
  ultimately show ?thesis
    using DoModel by (auto simp: perform_def after_port_def upto_one_def split: if_splits)
qed (use assms in \<open>simp_all add: gives_text_port_def perform_def keepsD [OF ReadValue_keeps]
      keepsD [OF registerWriteValue_keeps] keepsD [OF registerReadValue_keeps] keepsD [OF poll_keeps]
      keepsD [OF registerForReporting_keeps] keepsD [OF get_controlObject_keeps]
      keepsD [OF control_keeps(1)] keepsD [OF control_keeps(2)] keepsD [OF control_keeps(3)]
      keepsD [OF callback_keeps(1)] keepsD [OF callback_keeps(2)]\<close>)

lemma reachable_ok:
  "reachable n C F acts s \<Longrightarrow> \<exists>L. length L \<le> length (filter gives_text_port acts) \<and> conns_upto L s"
proof (induction rule: reachable.induct)
  case (Init readcb termcb rptcb)
  have "conns_upto [] (init_client readcb termcb rptcb)"
    by (simp add: init_client_def conns_upto_def held_def stored_def)
  then show ?case by auto
next
  case (Step acts s act)
  then obtain L where L: "length L \<le> length (filter gives_text_port acts)" "conns_upto L s" by blast
  show ?case
  proof (cases "gives_text_port act")
    case True
    with perform_keeps [OF L(2), of act n C F] consider "conns_upto L (perform n C F act s)"
      | con where "conns_upto (con # L) (perform n C F act s)" by (auto simp: upto_one_def)
    then show ?thesis
    proof cases
      case 1
      with L(1) True show ?thesis by (intro exI [of _ L]) simp
    next
      case (2 con)
      with L(1) True show ?thesis by (intro exI [of _ "con # L"]) simp
    qed
  next
    case False
    with perform_keeps [OF L(2), of act n C F] L(1) show ?thesis by (intro exI [of _ L]) simp
  qed
qed

end
