(* ===== verification/Client_State_Spec.thy ===== *)
theory Client_State_Spec
  imports Client_Invariants
begin

text \<open>Properties of the connection table: keys, readiness, ownership.\<close>

section \<open>Keys\<close>

lemma last_split:
  assumes "a @ c # b = a' @ c # (b' :: string)" and "c \<notin> set b" and "c \<notin> set b'"
  shows "a = a' \<and> b = b'"
proof -
  have "rpartition_at c (a @ c # b) = (a, True, b)" "rpartition_at c (a' @ c # b') = (a', True, b')"
    by (rule rpartition_at_app [OF assms(2)], rule rpartition_at_app [OF assms(3)])
  with assms(1) show ?thesis by (metis Pair_inject)
qed

lemma colon_not_in_int: "CHR '':'' \<notin> set (int_str i)"
  by (rule int_str_no_char) simp_all

text \<open>
  C30 The table's keys identify devices: two host and port pairs have the same key only if they
  are the same, and a reference \<open>iec61850://host:port/path\<close> leads to the key of its host and
  port with the path after the slash.
\<close>
theorem reference_addresses:
  assumes "list_all host_char h" and "h \<noteq> []" and "n \<le> 65535" and "list_all path_char p"
  shows "parse_target (make_ref h n p) =
           Val (Some \<lparr>tg_host = h, tg_port = PNum (int n), tg_path = p\<rparr>) \<and>
         (conn_key h (PNum (int n)) = conn_key h' (PNum j) \<longleftrightarrow> h = h' \<and> int n = j)"
proof
  show "parse_target (make_ref h n p) = Val (Some \<lparr>tg_host = h, tg_port = PNum (int n), tg_path = p\<rparr>)"
    using assms hostname_plain [OF assms(1,2), of "''iec61850''" n "''/'' @ p"]
      url_port_plain [OF assms(1,3), of "''iec61850''" "''/'' @ p"]
    by (simp add: parse_target_def urlparse_make_ref default_port_def)
  show "conn_key h (PNum (int n)) = conn_key h' (PNum j) \<longleftrightarrow> h = h' \<and> int n = j"
    using last_split [of h "CHR '':''" "int_str (int n)" h' "int_str j"] colon_not_in_int
    by (auto simp: conn_key_def)
qed

lemma reference_addresses_witness:
  "parse_target ''iec61850://ied1:102/LD/LN.Pos'' =
   Val (Some \<lparr>tg_host = ''ied1'', tg_port = PNum 102, tg_path = ''LD/LN.Pos''\<rparr>)"
  using reference_addresses [of "''ied1''" 102 "''LD/LN.Pos''"]
  by (simp add: make_ref_def host_char_def path_char_def is_lower_def is_digit_def
      nat_str.simps [of 102] nat_str.simps [of 10] nat_str.simps [of "Suc 0"])

section \<open>Readiness\<close>

definition ready :: "string \<Rightarrow> client \<Rightarrow> bool" where
  "ready tupl s \<longleftrightarrow>
     (\<exists>c con. map_of (cl_connections s) tupl = Some c \<and> cn_con c = Some con \<and> truthy (cn_model c))"

text \<open>A program over the trace keeps every property of the table.\<close>

lemma keeps_table_io: "keeps (\<lambda>s. P (cl_connections s)) (on_trace m)"
  by (simp add: keeps_def on_trace_def split: prod.split)

lemma ready_io: "keeps (ready tupl) (on_trace m)"
  using keeps_table_io [of "\<lambda>d. \<exists>c con. map_of d tupl = Some c \<and> cn_con c = Some con \<and> truthy (cn_model c)"]
  by (simp add: ready_def [abs_def])

lemma reenable_table: "keeps (\<lambda>s. P (cl_connections s)) (reenable_reports C tupl con i rs)"
proof (induction rs arbitrary: i)
  case Nil
  show ?case unfolding reenable_reports.simps by (rule keeps_ret)
next
  case (Cons r rs)
  have "keeps (\<lambda>s. P (cl_connections s)) (modify (set_rcb tupl i rcb))" for rcb
    by (rule keeps_modify) (simp add: set_rcb_def split: option.split)
  with Cons show ?case
    unfolding reenable_reports.simps by (intro keeps_intros keeps_table_io)
qed

lemma store_model_ready:
  "triple (conn_is tupl (Some con)) (upd_conn tupl (\<lambda>c. c\<lparr>cn_model := PDict (x # xs)\<rparr>)) (\<lambda>_. ready tupl) (\<lambda>_. True)"
  by (auto simp: triple_def upd_conn_run conn_is_def ready_def update_conv' split: option.split)

lemma conn_is_io: "triple (conn_is tupl con) (on_trace m) (\<lambda>_. conn_is tupl con) (\<lambda>_. True)"
  using keeps_table_io [of "\<lambda>d. \<exists>c. map_of d tupl = Some c \<and> cn_con c = con" m]
  by (intro triple_keeps) (simp_all add: conn_is_def [abs_def])

lemma refresh_model_ready:
  "triple (conn_is tupl (Some con)) (refresh_model n C tupl con) (\<lambda>r s. r = 0 \<longrightarrow> ready tupl s) (\<lambda>_. True)"
proof -
  have branch: "triple (conn_is tupl (Some con))
      (if model \<noteq> [] then andthen (upd_conn tupl (\<lambda>c. c\<lparr>cn_model := PDict model\<rparr>)) (ret 0)
       else andthen (drop_connection tupl con) (ret (-1)))
      (\<lambda>r s. r = (0 :: int) \<longrightarrow> ready tupl s) (\<lambda>_. True)" for model :: "(string \<times> pv) list"
  proof (cases model)
    case Nil
    have "triple (conn_is tupl (Some con)) (drop_connection tupl con) (\<lambda>_ _. True) (\<lambda>_. True)"
      by (simp add: triple_def split: prod.split result.split)
    with Nil show ?thesis by (auto intro!: triple_andthen triple_ret simp del: ret_run)
  next
    case (Cons x xs)
    then show ?thesis
      by (auto intro!: triple_andthen [OF store_model_ready] triple_ret simp del: ret_run)
  qed
  show ?thesis
    unfolding refresh_model_def by (rule triple_bnd [OF conn_is_io branch])
qed

lemma open_connection_ready:
  "triple (\<lambda>_. True) (open_connection n C tupl host port) (\<lambda>r s. r = 0 \<longrightarrow> ready tupl s) (\<lambda>_. True)"
proof -
  have any: "triple (\<lambda>_. True) m (\<lambda>_ _. True) (\<lambda>_. True)" for m :: "(client, 'b) prog"
    by (simp add: triple_def split: prod.split result.split)
  have store: "triple (\<lambda>_. True) (upd_conn tupl (\<lambda>c. c\<lparr>cn_con := Some con\<rparr>))
      (\<lambda>_. conn_is tupl (Some con)) (\<lambda>_. True)" for con
    by (auto simp: triple_def upd_conn_run conn_is_def update_conv' split: option.split)
  have rest: "triple (conn_is tupl (Some con))
      (if model \<noteq> [] then
         andthen (upd_conn tupl (\<lambda>c. c\<lparr>cn_model := PDict model\<rparr>))
         (bnd (gets (registered_reports tupl)) (\<lambda>rs.
            andthen (reenable_reports C tupl con 0 rs) (ret 0)))
       else ret (-1))
      (\<lambda>r s. r = (0 :: int) \<longrightarrow> ready tupl s) (\<lambda>_. True)" for con model
  proof (cases model)
    case Nil
    then show ?thesis by (auto intro: triple_ret simp del: ret_run)
  next
    case (Cons x xs)
    have "triple (ready tupl) (reenable_reports C tupl con 0 rs) (\<lambda>_. ready tupl) (\<lambda>_. True)" for rs
      using reenable_table [of "\<lambda>d. \<exists>c con. map_of d tupl = Some c \<and> cn_con c = Some con \<and> truthy (cn_model c)"]
      by (intro triple_keeps) (simp_all add: ready_def [abs_def])
    with Cons show ?thesis
      by (auto intro!: triple_andthen [OF store_model_ready] triple_bnd [OF triple_keeps [OF keeps_gets]]
          triple_andthen triple_ret simp del: ret_run)
  qed
  show ?thesis
    unfolding open_connection_def
    by (intro triple_andthen [OF any] triple_bnd [OF any] triple_if triple_andthen [OF store]
        triple_bnd [OF conn_is_io] rest triple_ret) simp
qed

lemma getIED_ready_triple:
  "triple (\<lambda>_. True) (getIED n C (Some h) port)
     (\<lambda>r s. r = 0 \<longrightarrow> ready (conn_key h (default_port port)) s) (\<lambda>_. True)"
proof -
  let ?p = "default_port port" and ?t = "conn_key h (default_port port)"
  let ?Q = "\<lambda>r s. r = (0 :: int) \<longrightarrow> ready ?t s"
  have opn: "triple P (open_connection n C ?t h ?p) ?Q (\<lambda>_. True)" for P
    by (rule triple_pre [OF open_connection_ready]) simp
  have "triple (\<lambda>_. True) (bnd (gets (\<lambda>s. map_of (cl_connections s) ?t)) (\<lambda>entry.
            case entry of
              None \<Rightarrow> open_connection n C ?t h ?p
            | Some c \<Rightarrow>
                (case cn_con c of
                   None \<Rightarrow> open_connection n C ?t h ?p
                 | Some con \<Rightarrow>
                     if truthy (cn_model c) then ret 0 else refresh_model n C ?t con)))
        ?Q (\<lambda>_. True)"
  proof (rule triple_bnd [where R = "\<lambda>e s. map_of (cl_connections s) ?t = e"])
    show "triple (\<lambda>s. map_of (cl_connections s) ?t = e)
       (case e of
          None \<Rightarrow> open_connection n C ?t h ?p
        | Some c \<Rightarrow>
            (case cn_con c of
               None \<Rightarrow> open_connection n C ?t h ?p
             | Some con \<Rightarrow> if truthy (cn_model c) then ret 0 else refresh_model n C ?t con))
       ?Q (\<lambda>_. True)" for e
    proof (cases e)
      case None
      with opn show ?thesis by simp
    next
      case (Some c)
      show ?thesis
      proof (cases "cn_con c")
        case None
        with opn Some show ?thesis by simp
      next
        case (Some con)
        have "triple (\<lambda>s. map_of (cl_connections s) ?t = e)
            (if truthy (cn_model c) then ret 0 else refresh_model n C ?t con) ?Q (\<lambda>_. True)"
          using \<open>e = Some c\<close> Some
          by (intro triple_if triple_ret triple_pre [OF refresh_model_ready])
            (auto simp: ready_def conn_is_def)
        with \<open>e = Some c\<close> Some show ?thesis by simp
      qed
    qed
  qed (rule triple_gets, simp)
  then show ?thesis
    unfolding getIED_def Let_def by simp
qed

text \<open>
  C6 When \<open>getIED\<close> reports success the device's entry is ready: it has a connection and a
  model that is not empty, whatever the table held before. Without a host it reports failure.
\<close>
theorem getIED_ready:
  assumes "getIED n C host port s = (Val 0, s')"
  shows "\<exists>h c con. host = Some h \<and>
           map_of (cl_connections s') (conn_key h (default_port port)) = Some c \<and>
           cn_con c = Some con \<and> truthy (cn_model c)"
proof (cases host)
  case None
  with assms show ?thesis by (simp add: getIED_def Let_def)
next
  case (Some h)
  with triple_run [OF getIED_ready_triple _ assms [unfolded Some]] show ?thesis
    by (simp add: ready_def)
qed

lemma demo_getIED:
  "fst (getIED 5 demo_lib (Some ''h'') PNone (init_client True True True)) = Val 0"
  by code_simp

lemma getIED_ready_witness:
  "\<exists>c con. map_of (cl_connections (snd (getIED 5 demo_lib (Some ''h'') PNone (init_client True True True))))
             ''h:102'' = Some c \<and> cn_con c = Some con"
proof -
  obtain s' where "getIED 5 demo_lib (Some ''h'') PNone (init_client True True True) = (Val 0, s')"
    using demo_getIED by (metis prod.collapse)
  moreover have "conn_key ''h'' (default_port PNone) = ''h:102''"
    by (simp add: conn_key_def default_port_def int_str_def nat_str.simps [of 102] nat_str.simps [of 10]
        nat_str.simps [of "Suc 0"])
  ultimately show ?thesis
    using getIED_ready [of 5 demo_lib "Some ''h''" PNone "init_client True True True" s'] by auto
qed

text \<open>
  When the discovery of a new connection fails by the missing variable, \<open>getIED\<close> raises
  NameError to its caller instead of returning an error code, and the entry keeps the new
  connection with an empty model.
\<close>
theorem getIED_name_error:
  assumes "map_of (cl_connections s) (conn_key h (PNum p)) = None"
    and "c_create C (cl_trace s) = con"
    and "c_connect C (cl_trace s @ [ECreate con]) con h (sint (word_of_int p :: 32 word)) = 0"
    and "discovery n C con (cl_trace s @ [ECreate con, EConnect con h (sint (word_of_int p :: 32 word)) 0]) =
           (Exn NameError, tr)"
  shows "\<exists>s'. getIED n C (Some h) (PNum p) s = (Exn NameError, s') \<and> cl_trace s' = tr \<and>
           map_of (cl_connections s') (conn_key h (PNum p)) =
             Some \<lparr>cn_con = Some con, cn_model = PDict [], cn_control = None\<rparr>"
proof -
  have "\<not> dhas (conn_key h (PNum p)) (cl_connections s)"
    using assms(1) by (simp add: dhas_iff)
  with assms show ?thesis
    by (simp add: getIED_def Let_def default_port_def open_connection_def add_conn_def andthen_def bnd_def
        on_trace_def call_create_def upd_conn_run update_conv' new_conn_def IED_ERROR_OK_def)
qed

lemma getIED_name_error_witness:
  "fst (getIED 5 (demo_lib\<lparr>c_deviceDirectory := \<lambda>h con ld. (0, [], 3)\<rparr>) (Some ''h'') (PNum 102)
     (init_client True True True)) = Exn NameError"
proof -
  let ?C = "demo_lib\<lparr>c_deviceDirectory := \<lambda>h con ld. (0, [], 3)\<rparr>"
  have "fst (discovery 5 ?C 1 [ECreate 1, EConnect 1 ''h'' 102 0]) = Exn NameError"
    by code_simp
  then obtain tr where "discovery 5 ?C 1 [ECreate 1, EConnect 1 ''h'' 102 0] = (Exn NameError, tr)"
    by (metis prod.collapse)
  then show ?thesis
    using getIED_name_error [of "init_client True True True" "''h''" 102 ?C 1 5 tr]
    by (auto simp: init_client_def demo_lib_def)
qed

section \<open>Every reachable state\<close>

lemma stored_filter: "stored d a = int (length (filter (\<lambda>p. cn_con (snd p) = Some a) d))"
  by (induction d) (auto simp: stored_def)

text \<open>
  C1 Who owns the connections: in every state a client can reach by its operations and callbacks,
  whatever the library answers and however the operations end, the table has one entry per key
  and every connection that was created and not destroyed is the connection of an entry, as many
  times as it was created, or is among those lost. At most one connection is lost for each time
  \<open>getIED\<close> or \<open>getDatamodel\<close> was called with a text for the port, which \<open>IedConnection_connect\<close>
  refuses after the connection has been created; without such calls none is.
\<close>
theorem reachable_connections:
  assumes "reachable n C F acts s"
  shows "distinct (map fst (cl_connections s)) \<and>
         (\<exists>lost. length lost \<le> length (filter gives_text_port acts) \<and>
            (\<forall>a. a \<noteq> 0 \<longrightarrow> held ev_conns (cl_trace s) a =
               int (length (filter (\<lambda>p. cn_con (snd p) = Some a) (cl_connections s))) +
               int (count_list lost a)))"
  using reachable_ok [OF assms] unfolding conns_upto_def stored_filter owed_def by blast

lemma reachable_connections_witness:
  "held ev_conns (cl_trace (perform 5 demo_lib demo_float (DoModel None (Some ''h'') (PNum 102))
     (init_client True True True))) 1 = 1"
proof -
  let ?s = "perform 5 demo_lib demo_float (DoModel None (Some ''h'') (PNum 102)) (init_client True True True)"
  have table: "length (filter (\<lambda>p. cn_con (snd p) = Some 1) (cl_connections ?s)) = 1"
    by code_simp
  have "reachable 5 demo_lib demo_float ([] @ [DoModel None (Some ''h'') (PNum 102)]) ?s"
    by (intro reachable.intros)
  from reachable_connections [OF this] obtain lost where
    lost: "length lost \<le> length (filter gives_text_port ([] @ [DoModel None (Some ''h'') (PNum 102)]))"
    "\<forall>a. a \<noteq> 0 \<longrightarrow> held ev_conns (cl_trace ?s) a =
       int (length (filter (\<lambda>p. cn_con (snd p) = Some a) (cl_connections ?s))) + int (count_list lost a)"
    by blast
  then have "lost = []" by (simp add: gives_text_port_def)
  with lost(2) table show ?thesis by simp
qed

text \<open>How one is lost: the key of a text port has no entry yet, and the call raises ArgumentError.\<close>

lemma text_port_loses_connection:
  "let r = getDatamodel 5 demo_lib None (Some ''h'') (PText ''102'') (init_client True True True)
   in fst r = Exn ArgumentError \<and> cl_trace (snd r) = [ECreate 1] \<and>
      map (\<lambda>p. cn_con (snd p)) (cl_connections (snd r)) = [None]"
  by code_simp

text \<open>
  C2 No connection is used after it is destroyed: in every run of a client's operations and
  callbacks, at the moment of each call that takes a connection, the destruction included, that
  connection has been created more often than it has been destroyed.
\<close>
theorem connections_used_alive:
  assumes "reachable n C F acts s" and "cl_trace s = g @ e # r" and "ev_uses e \<noteq> 0"
  shows "0 < held ev_conns g (ev_uses e)"
  using reachable_ok [OF assms(1)] assms(2,3) by (auto simp: conns_upto_def uses_live_def)

lemma connections_used_alive_witness:
  "\<exists>g e r. cl_trace (perform 5 demo_lib demo_float (DoConnect (Some ''h'') (PNum 102))
       (init_client True True True)) = g @ e # r \<and> ev_uses e = 1 \<and> 0 < held ev_conns g 1"
proof -
  let ?s = "perform 5 demo_lib demo_float (DoConnect (Some ''h'') (PNum 102)) (init_client True True True)"
  have "take 2 (cl_trace ?s) = [ECreate 1, EConnect 1 ''h'' 102 0]" by code_simp
  then have tr: "cl_trace ?s = [ECreate 1] @ EConnect 1 ''h'' 102 0 # drop 2 (cl_trace ?s)"
    by (metis append_Cons append_Nil append_take_drop_id)
  have "reachable 5 demo_lib demo_float ([] @ [DoConnect (Some ''h'') (PNum 102)]) ?s"
    by (intro reachable.intros)
  from connections_used_alive [OF this tr] have "0 < held ev_conns [ECreate 1] 1" by simp
  with tr show ?thesis by (metis ev_uses.simps(8))
qed

section \<open>Control objects\<close>

definition has_control :: "string \<Rightarrow> string \<Rightarrow> addr \<Rightarrow> (string, conn) dict \<Rightarrow> bool" where
  "has_control tupl path ctl d \<longleftrightarrow> (\<exists>c. map_of d tupl = Some c \<and> lookup_control path c = Some ctl)"

abbreviation controlled :: "string \<Rightarrow> string \<Rightarrow> addr \<Rightarrow> client \<Rightarrow> bool" where
  "controlled tupl path ctl s \<equiv> has_control tupl path ctl (cl_connections s)"

lemma controlled_upd:
  assumes "\<And>c. cn_control (f c) = cn_control c"
  shows "keeps (controlled tupl path ctl) (upd_conn k f)"
  using assms
  by (auto simp: keeps_def upd_conn_run has_control_def update_conv' lookup_control_def split: option.split)

lemma controlled_add: "keeps (controlled tupl path ctl) (add_conn k)"
  by (auto simp: keeps_def add_conn_def has_control_def update_conv' dhas_iff)

lemma controlled_getIED: "keeps (controlled tupl path ctl) (getIED n C host port)"
  unfolding getIED_def refresh_model_def open_connection_def drop_connection_def Let_def
  by (intro keeps_case_option keeps_bnd keeps_andthen keeps_if keeps_ret keeps_gets controlled_add
      reenable_table keeps_table_io controlled_upd) simp_all

text \<open>
  C20 A control object outlives its connection: once the table has one for a path, it is what
  \<open>get_controlObject\<close> returns after the entry has been connected again, and no control object is
  created on the new connection.
\<close>
theorem control_object_outlives:
  assumes "map_of (cl_connections s) (conn_key h (default_port port)) = Some c"
    and "lookup_control path c = Some ctl" and "getIED n C (Some h) port s = (Val 0, s')"
  shows "get_controlObject C (conn_key h (default_port port)) path s' = (Val ctl, s')"
proof -
  let ?t = "conn_key h (default_port port)"
  have "controlled ?t path ctl s" using assms(1,2) by (auto simp: has_control_def)
  then have "controlled ?t path ctl s'"
    using keeps_run [OF controlled_getIED _ assms(3)] by blast
  then obtain c' where c': "map_of (cl_connections s') ?t = Some c'" "lookup_control path c' = Some ctl"
    by (auto simp: has_control_def)
  then have "ensure_control c' = c'"
    by (auto simp: ensure_control_def lookup_control_def split: option.splits)
  moreover have "dset ?t c' (cl_connections s') = cl_connections s'"
    by (rule dset_same [OF c'(1)])
  ultimately show ?thesis
    using c' by (simp add: get_controlObject_def bnd_def get_conn_def dget_def andthen_def upd_conn_run)
qed

lemma control_object_outlives_witness:
  "\<exists>s'. getIED 5 demo_lib (Some ''h'') (PNum 102) ((init_client True True True)
       \<lparr>cl_connections := [(''h:102'', \<lparr>cn_con = None, cn_model = PDict [], cn_control = Some [(''p'', 66)]\<rparr>)]\<rparr>)
     = (Val 0, s') \<and> get_controlObject demo_lib ''h:102'' ''p'' s' = (Val 66, s')"
proof -
  let ?s = "(init_client True True True)
       \<lparr>cl_connections := [(''h:102'', \<lparr>cn_con = None, cn_model = PDict [], cn_control = Some [(''p'', 66)]\<rparr>)]\<rparr>"
  have "fst (getIED 5 demo_lib (Some ''h'') (PNum 102) ?s) = Val 0" by code_simp
  then obtain s' where "getIED 5 demo_lib (Some ''h'') (PNum 102) ?s = (Val 0, s')"
    by (metis prod.collapse)
  moreover have "conn_key ''h'' (default_port (PNum 102)) = ''h:102''"
    by (simp add: conn_key_def default_port_def int_str_def nat_str.simps [of 102] nat_str.simps [of 10]
        nat_str.simps [of "Suc 0"])
  ultimately show ?thesis
    using control_object_outlives [of ?s "''h''" "PNum 102" _ "''p''" 66 5 demo_lib s']
    by (simp add: lookup_control_def)
qed

end
