(* ===== verification/Client_Ops_Spec.thy ===== *)
theory Client_Ops_Spec
  imports Client_State_Spec Client_Update_Spec
begin

text \<open>Properties of reading, writing, registering, reporting and control.\<close>

lemma tell_read_run:
  "tell_read ref v s = (Val (), if cl_readcb s then s\<lparr>cl_trace := cl_trace s @ [EReadCb ref v]\<rparr> else s)"
  by (simp add: tell_read_def bnd_def on_trace_def)

lemma conn_value_eq:
  "conn_value tupl path s = (Val r, s') \<longleftrightarrow>
     s' = s \<and> (\<exists>c. map_of (cl_connections s) tupl = Some c \<and> parseRef (cn_model c) path = Val r)"
  by (auto simp: conn_value_def bnd_def get_conn_def dget_def split: option.split result.split)

section \<open>Reading and writing\<close>

text \<open>
  C7 A read that reports success returns what the table now holds at the reference, and the
  read callback, when there is one, was last called with the reference and that value.
\<close>
theorem ReadValue_cached:
  assumes "ReadValue n C ref s = (Val (v, 0), s')"
  shows "\<exists>t c path. parse_target ref = Val (Some t) \<and> map_of (cl_connections s') (tg_key t) = Some c \<and>
           parseRef (cn_model c) (tg_path t) = Val (v, path) \<and>
           (cl_readcb s' \<longrightarrow> (\<exists>h. cl_trace s' = h @ [EReadCb ref v]))"
  using assms
  by (auto simp: ReadValue_def conn_value_eq tell_read_run elim!: bnd_ValE andthen_ValE
      split: option.split_asm if_split_asm prod.split_asm)

lemma demo_read:
  "fst (ReadValue 5 demo_lib ''iec61850://h/LD/LN.Pos.stVal'' (init_client True True True)) =
   Val (PDict [(''reftype'', PStr ''DA''), (''FC'', PStr ''ST''), (''value'', PStr ''7''),
               (''type'', PStr ''integer'')], 0)"
  by code_simp

lemma ReadValue_cached_witness:
  "\<exists>t c path. parse_target ''iec61850://h/LD/LN.Pos.stVal'' = Val (Some t) \<and>
     map_of (cl_connections (snd (ReadValue 5 demo_lib ''iec61850://h/LD/LN.Pos.stVal''
       (init_client True True True)))) (tg_key t) = Some c \<and>
     parseRef (cn_model c) (tg_path t) =
       Val (PDict [(''reftype'', PStr ''DA''), (''FC'', PStr ''ST''), (''value'', PStr ''7''),
                   (''type'', PStr ''integer'')], path)"
  using ReadValue_cached [of 5 demo_lib "''iec61850://h/LD/LN.Pos.stVal''" "init_client True True True"]
    demo_read
  by (metis prod.collapse)

lemma usable_nonnull: "usable c = Some con \<Longrightarrow> con \<noteq> 0"
  by (auto simp: usable_def split: option.splits if_splits)

text \<open>What a write does to the table before its result is looked at: only the model changes.\<close>

lemma write_conn_model_table:
  assumes "write_conn_model n C F tupl con path v s = (r, s')" and "map_of (cl_connections s) tupl = Some c"
  shows "(\<exists>m. map_of (cl_connections s') tupl = Some (c\<lparr>cn_model := m\<rparr>)) \<and>
         (\<forall>k. k \<noteq> tupl \<longrightarrow> map_of (cl_connections s') k = map_of (cl_connections s) k)"
proof -
  have same: "c = c\<lparr>cn_model := cn_model c\<rparr>" by simp
  show ?thesis
    using assms same
    by (auto simp: write_conn_model_def bnd_def andthen_def get_conn_def dget_def on_trace_def upd_conn_run
        update_conv' split: prod.splits result.splits if_splits) (metis same)+
qed

lemma on_error_lost:
  assumes "on_error tupl con 3 s = (Val (), s')" and "map_of (cl_connections s) tupl = Some c"
  shows "cl_trace s' = cl_trace s @ [EDestroy con] \<and>
         map_of (cl_connections s') tupl = Some (c\<lparr>cn_con := None\<rparr>) \<and>
         (\<forall>k. k \<noteq> tupl \<longrightarrow> map_of (cl_connections s') k = map_of (cl_connections s) k)"
  using assms
  by (auto simp: on_error_def drop_connection_def andthen_def bnd_def on_trace_def upd_conn_run update_conv')

text \<open>
  C19 A write that ends with error 3, a lost connection, has destroyed, as its last call, the
  connection the device's entry had when the write began its work, and has taken it out of that
  entry, so that the next operation on the device connects again. The entry keeps its control
  objects and no other entry changes.
\<close>
theorem write_drops_lost_connection:
  assumes "registerWriteValue n C F ref v s = (Val 3, s')"
  shows "\<exists>t s0 c con h m. parse_target ref = Val (Some t) \<and>
           getIED n C (Some (tg_host t)) (tg_port t) s = (Val 0, s0) \<and>
           map_of (cl_connections s0) (tg_key t) = Some c \<and> cn_con c = Some con \<and> con \<noteq> 0 \<and>
           cl_trace s' = h @ [EDestroy con] \<and>
           map_of (cl_connections s') (tg_key t) = Some (c\<lparr>cn_model := m, cn_con := None\<rparr>) \<and>
           (\<forall>k. k \<noteq> tg_key t \<longrightarrow> map_of (cl_connections s') k = map_of (cl_connections s0) k)"
proof -
  from assms obtain t s0 c con s1 where t: "parse_target ref = Val (Some t)"
      "getIED n C (Some (tg_host t)) (tg_port t) s = (Val 0, s0)"
      "map_of (cl_connections s0) (tg_key t) = Some c" "usable c = Some con"
      and w: "write_conn_model n C F (tg_key t) con (tg_path t) v s0 = (Val 3, s1)"
      and e: "on_error (tg_key t) con 3 s1 = (Val (), s')"
    by (auto simp: registerWriteValue_def get_conn_def dget_def elim!: bnd_ValE andthen_ValE
        split: option.split_asm if_split_asm prod.split_asm)
  from write_conn_model_table [OF w t(3)] obtain m where
    m: "map_of (cl_connections s1) (tg_key t) = Some (c\<lparr>cn_model := m\<rparr>)"
       "\<forall>k. k \<noteq> tg_key t \<longrightarrow> map_of (cl_connections s1) k = map_of (cl_connections s0) k" by blast
  from on_error_lost [OF e m(1)] m(2) t(1-3) usable_SomeD [OF t(4)] usable_nonnull [OF t(4)]
  show ?thesis by auto
qed

lemma write_drops_lost_connection_witness:
  "\<exists>c h. map_of (cl_connections (snd (registerWriteValue 5 (demo_lib\<lparr>c_writeObject := \<lambda>h con ref fc v. 3\<rparr>)
       demo_float ''iec61850://h/LD/LN.Pos.stVal'' (AInt 1) (init_client True True True))))
       ''h:102'' = Some c \<and> cn_con c = None \<and>
     cl_trace (snd (registerWriteValue 5 (demo_lib\<lparr>c_writeObject := \<lambda>h con ref fc v. 3\<rparr>)
       demo_float ''iec61850://h/LD/LN.Pos.stVal'' (AInt 1) (init_client True True True))) = h @ [EDestroy 1]"
proof -
  let ?C = "demo_lib\<lparr>c_writeObject := \<lambda>h con ref fc v. 3\<rparr>"
  let ?s = "init_client True True True"
  let ?r = "registerWriteValue 5 ?C demo_float ''iec61850://h/LD/LN.Pos.stVal'' (AInt 1) ?s"
  let ?g = "snd (getIED 5 ?C (Some ''h'') (PNum 102) ?s)"
  have "fst ?r = Val 3" by code_simp
  then have "?r = (Val 3, snd ?r)" by (metis prod.collapse)
  from write_drops_lost_connection [OF this] obtain t s0 c con h m where
    t: "parse_target ''iec61850://h/LD/LN.Pos.stVal'' = Val (Some t)"
      "getIED 5 ?C (Some (tg_host t)) (tg_port t) ?s = (Val 0, s0)"
      "map_of (cl_connections s0) (tg_key t) = Some c" "cn_con c = Some con"
      "cl_trace (snd ?r) = h @ [EDestroy con]"
      "map_of (cl_connections (snd ?r)) (tg_key t) = Some (c\<lparr>cn_model := m, cn_con := None\<rparr>)" by blast
  have "parse_target ''iec61850://h/LD/LN.Pos.stVal'' =
      Val (Some \<lparr>tg_host = ''h'', tg_port = PNum 102, tg_path = ''LD/LN.Pos.stVal''\<rparr>)" by code_simp
  with t(1) have tg: "t = \<lparr>tg_host = ''h'', tg_port = PNum 102, tg_path = ''LD/LN.Pos.stVal''\<rparr>" by simp
  have key: "tg_key t = ''h:102''" unfolding tg by code_simp
  have "map_option cn_con (map_of (cl_connections ?g) ''h:102'') = Some (Some 1)" by code_simp
  moreover have "s0 = ?g" using t(2) tg by simp
  ultimately have "con = 1" using t(3,4) key by simp
  with t(5,6) key show ?thesis by auto
qed

section \<open>Registration\<close>

text \<open>What the searches of \<open>registerForReporting\<close> find, as paths of the model.\<close>

lemma first_some_found: "first_some xs f = Val (Some y) \<Longrightarrow> \<exists>x \<in> set xs. f x = Val (Some y)"
  by (induction xs) (auto elim!: rbind_ValE split: option.split_asm)

lemma py_get_found: "py_get v k = Val x \<longleftrightarrow> (\<exists>d. v = PDict d \<and> map_of d k = Some x)"
  by (cases v) (auto simp: dget_def split: option.split)

lemma py_startswith_found: "py_startswith ref v = Val True \<longleftrightarrow> (\<exists>p. v = PStr p \<and> starts_with ref p)"
  by (cases v) simp_all

lemma find_member_found:
  assumes "find_member ds ref = Val (Some i)"
  shows "\<exists>p. lookup_path ds [i, ''value''] = Some (PStr p) \<and> starts_with ref p"
  using assms
  by (auto simp: find_member_def py_get_found py_startswith_found elim!: rbind_ValE
      dest!: first_some_found split: if_splits)

lemma find_dataset_found:
  assumes "find_dataset model ref = Val (Some (LD, LN, DS, i))"
  shows "\<exists>p. lookup_path model [LD, LN, DS, i, ''value''] = Some (PStr p) \<and> starts_with ref p"
  using assms
  by (auto simp: find_dataset_def py_get_found elim!: rbind_ValE dest!: first_some_found find_member_found
      split: if_splits)

lemma find_report_found:
  assumes "find_report model LD LN DS = Val (Some RPT)"
  shows "\<exists>RP fc. RPT = LD @ ''/'' @ LN @ ''.'' @ fc @ ''.'' @ RP \<and>
           lookup_path model [LD, LN, RP, ''DatSet'', ''value''] = Some (PStr (LD @ ''/'' @ LN @ ''$'' @ DS)) \<and>
           lookup_path model [LD, LN, RP, ''DatSet'', ''FC''] = Some (PStr fc)"
proof -
  from assms obtain da dos RP rp dd fc where "model = PDict da" "map_of da LD = Some (PDict dos)"
      and db: "\<exists>db. map_of dos LN = Some (PDict db) \<and> map_of db RP = Some (PDict rp)"
      and "map_of rp ''DatSet'' = Some (PDict dd)"
      "map_of dd ''value'' = Some (PStr (LD @ ''/'' @ LN @ ''$'' @ DS))" "map_of dd ''FC'' = Some (PStr fc)"
      "RPT = LD @ ''/'' @ LN @ ''.'' @ fc @ ''.'' @ RP"
    by (auto simp: find_report_def py_get_found dget_def elim!: rbind_ValE dest!: first_some_found
        split: if_splits pv.splits option.splits)
  then show ?thesis
    by (intro exI [of _ RP] exI [of _ fc]) auto
qed

text \<open>A report on the list of subscriptions was there before or is registered with its data set.\<close>

definition subscribed :: "cbref list \<Rightarrow> string \<Rightarrow> string \<Rightarrow> string \<Rightarrow> string \<Rightarrow> string \<Rightarrow> string \<Rightarrow> client \<Rightarrow> bool" where
  "subscribed old key tupl LD LN DS RPT s \<longleftrightarrow>
     CbReport RPT \<in> set (cl_cb_refs s) \<and>
     (CbReport RPT \<in> set old \<or>
      (\<exists>r \<in> set (registered_reports tupl s). rb_RPT r = RPT \<and>
         rb_refdata r = \<lparr>rd_key = key, rd_tupl = tupl, rd_LD = LD, rd_LN = LN, rd_DS = DS\<rparr>))"

lemma subscribe_found:
  assumes "subscribe C con key tupl LD LN DS RPT s = (Val (), s')"
  shows "subscribed old key tupl LD LN DS RPT s' \<and> cl_connections s' = cl_connections s"
proof -
  let ?rd = "\<lparr>rd_key = key, rd_tupl = tupl, rd_LD = LD, rd_LN = LN, rd_DS = DS\<rparr>"
  from assms obtain rcb h where s': "s' = add_report tupl \<lparr>rb_rcb = rcb, rb_RPT = RPT, rb_refdata = ?rd\<rparr>
         (s\<lparr>cl_trace := h, cl_cb_refs := cl_cb_refs s @ [CbReport RPT]\<rparr>)"
    by (auto simp: subscribe_def on_trace_def bnd_def andthen_def split: prod.splits result.splits)
  then have "\<lparr>rb_rcb = rcb, rb_RPT = RPT, rb_refdata = ?rd\<rparr> \<in> set (registered_reports tupl s')"
    by (simp add: registered_reports_def add_report_def update_conv')
  moreover have "CbReport RPT \<in> set (cl_cb_refs s')" "cl_connections s' = cl_connections s"
    using s' by (simp_all add: add_report_def)
  ultimately show ?thesis
    unfolding subscribed_def by (intro conjI disjI2 bexI) simp_all
qed

lemma registerForReporting_found:
  assumes "registerForReporting C key tupl path s = (Val True, s')"
  shows "\<exists>c LD LN DS i RPT. map_of (cl_connections s') tupl = Some c \<and>
           find_dataset (cn_model c) path = Val (Some (LD, LN, DS, i)) \<and>
           find_report (cn_model c) LD LN DS = Val (Some RPT) \<and>
           subscribed (cl_cb_refs s) key tupl LD LN DS RPT s'"
proof -
  have get: "get_conn tupl s = (Val c, s') \<longleftrightarrow> s' = s \<and> map_of (cl_connections s) tupl = Some c" for s c s'
    by (auto simp: get_conn_def dget_def split: option.splits)
  have on_trace: "cl_connections s2 = cl_connections s1 \<and> cl_cb_refs s2 = cl_cb_refs s1"
    if "on_trace m s1 = (r, s2)" for m :: "(trace, 'b) prog" and r s1 s2
    using that by (auto simp: on_trace_def split: prod.splits)
  show ?thesis
    using assms subscribe_found [where old = "cl_cb_refs s"]
    by (fastforce simp: registerForReporting_def get subscribed_def elim!: bnd_ValE andthen_ValE
        dest!: on_trace split: option.split_asm if_split_asm prod.split_asm)
qed

lemma getIED_cb_refs: "keeps (\<lambda>s. P (cl_cb_refs s)) (getIED n C host port)"
proof -
  have io: "keeps (\<lambda>s. P (cl_cb_refs s)) (on_trace m)" for m :: "(trace, 'b) prog"
    by (simp add: keeps_def on_trace_def split: prod.split)
  have upd: "keeps (\<lambda>s. P (cl_cb_refs s)) (upd_conn k f)" and add: "keeps (\<lambda>s. P (cl_cb_refs s)) (add_conn k)" for k f
    by (auto simp: keeps_def upd_conn_run add_conn_def split: option.split)
  have loop: "keeps (\<lambda>s. P (cl_cb_refs s)) (reenable_reports C t con i rs)" for t con i rs
  proof (induction rs arbitrary: i)
    case Nil
    show ?case unfolding reenable_reports.simps by (rule keeps_ret)
  next
    case (Cons r rs)
    have "keeps (\<lambda>s. P (cl_cb_refs s)) (modify (set_rcb t i rcb))" for rcb
      by (rule keeps_modify) (simp add: set_rcb_def split: option.split)
    with Cons io show ?case unfolding reenable_reports.simps by (intro keeps_intros)
  qed
  show ?thesis
    unfolding getIED_def refresh_model_def open_connection_def drop_connection_def Let_def
    by (intro keeps_case_option keeps_bnd keeps_andthen keeps_if keeps_ret keeps_gets io upd add loop)
qed

text \<open>
  C9 What acceptance for reading means. After \<open>registerReadValue\<close> has returned 0, either the
  reference is polled, or the device's model holds a data set with a member whose reference is a
  textual prefix of the value's, and a report control block that names this data set, and the
  reference of that block, with its functional constraint, is among those the client subscribed
  to: it was there before, or it is registered for a reconnect with this value and data set. The
  prefix is one of characters and not of names, so the value need not lie below the member.
\<close>
theorem registered_is_watched:
  assumes "registerReadValue n C ref s = (Val 0, s')" and "\<not> dhas ref (cl_polling s')"
  shows "\<exists>t c LD LN DS i p rest RP fc. parse_target ref = Val (Some t) \<and>
           map_of (cl_connections s') (tg_key t) = Some c \<and>
           lookup_path (cn_model c) [LD, LN, DS, i, ''value''] = Some (PStr p) \<and> tg_path t = p @ rest \<and>
           lookup_path (cn_model c) [LD, LN, RP, ''DatSet'', ''value''] = Some (PStr (LD @ ''/'' @ LN @ ''$'' @ DS)) \<and>
           lookup_path (cn_model c) [LD, LN, RP, ''DatSet'', ''FC''] = Some (PStr fc) \<and>
           subscribed (cl_cb_refs s) ref (tg_key t) LD LN DS (LD @ ''/'' @ LN @ ''.'' @ fc @ ''.'' @ RP) s'"
proof -
  from assms obtain t s1 where t: "parse_target ref = Val (Some t)"
      and s1: "getIED n C (Some (tg_host t)) (tg_port t) s = (Val 0, s1)"
      and r: "registerForReporting C ref (tg_key t) (tg_path t) s1 = (Val True, s')"
    by (auto simp: registerReadValue_def conn_value_eq elim!: bnd_ValE andthen_ValE
        split: option.split_asm if_split_asm prod.split_asm)
  have "cl_cb_refs s1 = cl_cb_refs s"
    using keepsD [OF getIED_cb_refs [where P = "\<lambda>x. x = cl_cb_refs s"], of s] s1 by (metis snd_conv)
  with registerForReporting_found [OF r] obtain c LD LN DS i RPT where
    c: "map_of (cl_connections s') (tg_key t) = Some c"
      "find_dataset (cn_model c) (tg_path t) = Val (Some (LD, LN, DS, i))"
      "find_report (cn_model c) LD LN DS = Val (Some RPT)"
      "subscribed (cl_cb_refs s) ref (tg_key t) LD LN DS RPT s'" by auto
  from find_dataset_found [OF c(2)] obtain p rest where p:
    "lookup_path (cn_model c) [LD, LN, DS, i, ''value''] = Some (PStr p)" "tg_path t = p @ rest"
    unfolding starts_with_iff by blast
  from find_report_found [OF c(3)] obtain RP fc where RP: "RPT = LD @ ''/'' @ LN @ ''.'' @ fc @ ''.'' @ RP"
    "lookup_path (cn_model c) [LD, LN, RP, ''DatSet'', ''value''] = Some (PStr (LD @ ''/'' @ LN @ ''$'' @ DS))"
    "lookup_path (cn_model c) [LD, LN, RP, ''DatSet'', ''FC''] = Some (PStr fc)" by blast
  from t c(1) p RP(2,3) c(4) [unfolded RP(1)] show ?thesis by blast
qed

lemma registered_is_watched_witness:
  "\<exists>c. map_of (cl_connections (snd (registerReadValue 5 demo_lib ''iec61850://h/LD/LN.Pos.stVal''
       (init_client True True True)))) ''h:102'' = Some c \<and>
     (\<exists>LD LN DS RPT. subscribed [] ''iec61850://h/LD/LN.Pos.stVal'' ''h:102'' LD LN DS RPT
        (snd (registerReadValue 5 demo_lib ''iec61850://h/LD/LN.Pos.stVal'' (init_client True True True))))"
proof -
  let ?r = "registerReadValue 5 demo_lib ''iec61850://h/LD/LN.Pos.stVal'' (init_client True True True)"
  have "fst ?r = Val 0" "\<not> dhas ''iec61850://h/LD/LN.Pos.stVal'' (cl_polling (snd ?r))"
    by code_simp+
  then have "?r = (Val 0, snd ?r)" by (metis prod.collapse)
  from registered_is_watched [OF this] \<open>\<not> dhas _ _\<close> obtain t c LD LN DS RPT where
    "parse_target ''iec61850://h/LD/LN.Pos.stVal'' = Val (Some t)"
    "map_of (cl_connections (snd ?r)) (tg_key t) = Some c"
    "subscribed (cl_cb_refs (init_client True True True)) ''iec61850://h/LD/LN.Pos.stVal'' (tg_key t) LD LN DS RPT (snd ?r)"
    by blast
  moreover have "parse_target ''iec61850://h/LD/LN.Pos.stVal'' =
      Val (Some \<lparr>tg_host = ''h'', tg_port = PNum 102, tg_path = ''LD/LN.Pos.stVal''\<rparr>)" by code_simp
  moreover have "conn_key ''h'' (PNum 102) = ''h:102''" by code_simp
  moreover have "cl_cb_refs (init_client True True True) = []" by (simp add: init_client_def)
  ultimately have "t = \<lparr>tg_host = ''h'', tg_port = PNum 102, tg_path = ''LD/LN.Pos.stVal''\<rparr>"
    "map_of (cl_connections (snd ?r)) ''h:102'' = Some c"
    "subscribed [] ''iec61850://h/LD/LN.Pos.stVal'' ''h:102'' LD LN DS RPT (snd ?r)"
    by (auto simp: tg_key_def)
  then show ?thesis by blast
qed

text \<open>
  What the prefix of characters costs: on a device with the values \<open>stVal\<close> and \<open>stVal2\<close> whose only
  data set has the one member \<open>stVal\<close>, the value \<open>stVal2\<close> is accepted as covered by a report and is
  not polled.
\<close>

definition twin_lib :: capi where
  "twin_lib = demo_lib\<lparr>
     c_dataDirectory := (\<lambda>h con ref.
       if ref = ''LD/LN.Pos'' then (100, [''stVal[ST]'', ''stVal2[ST]''], 0)
       else case demo_names ref of None \<Rightarrow> (0, [], 22) | Some ns \<Rightarrow> (100, ns, 0)),
     c_readObject := (\<lambda>h con ref fc.
       if ref = ''LD/LN.Pos.stVal'' \<or> ref = ''LD/LN.Pos.stVal2'' then (9, 0)
       else if ref = ''LD/LN.RP.DatSet'' then (8, 0) else (0, 22))\<rparr>"

lemma prefix_match_not_polled:
  "let r = registerReadValue 5 twin_lib ''iec61850://h/LD/LN.Pos.stVal2'' (init_client True True True)
   in fst r = Val 0 \<and> cl_polling (snd r) = [] \<and>
      map_option (\<lambda>c. lookup_path (cn_model c) [''LD'', ''LN'', ''DS'']) (map_of (cl_connections (snd r)) ''h:102'') =
        Some (Some (PDict [(''0'', PDict [(''reftype'', PStr ''DX''), (''type'', PStr ''reference''),
                                      (''value'', PStr ''LD/LN.Pos.stVal''), (''FC'', PStr ''ST'')])]))"
  by code_simp

text \<open>
  C21 The list of subscribed reports does not tell devices apart: when a report of the same
  reference is already in it, registering a value of another device returns True with no
  handler installed there, nothing added to the reports to enable on a reconnect, and nothing
  added to the polling table.
\<close>
theorem same_report_on_other_device:
  assumes "map_of (cl_connections s) tupl = Some c" and "cn_con c = Some con"
    and "find_dataset (cn_model c) ref = Val (Some (LD, LN, DS, i))" and "i \<noteq> []"
    and "find_report (cn_model c) LD LN DS = Val (Some RPT)" and "CbReport RPT \<in> set (cl_cb_refs s)"
    and "c_getRCB C (cl_trace s) con RPT 0 = (rcb, err)" and "rcb \<noteq> 0"
  shows "registerForReporting C key tupl ref s =
           (Val True, s\<lparr>cl_trace := cl_trace s @ [EGetRCB con RPT 0 rcb err]\<rparr>)"
  using assms
  by (simp add: registerForReporting_def bnd_def andthen_def get_conn_def dget_def on_trace_def call_getRCB_def
      con_arg_def deref_def)

lemma same_report_on_other_device_witness:
  "\<exists>s'. registerForReporting demo_lib ''k'' ''b:102'' ''LD/LN.Pos.stVal''
     ((init_client True True True)\<lparr>cl_connections :=
         [(''b:102'', \<lparr>cn_con = Some 2, cn_model = PDict demo_tree, cn_control = None\<rparr>)],
       cl_cb_refs := [CbReport ''LD/LN.RP.RP'']\<rparr>) = (Val True, s') \<and> cl_reporting s' = []"
proof -
  have "find_dataset (PDict demo_tree) ''LD/LN.Pos.stVal'' = Val (Some (''LD'', ''LN'', ''DS'', ''0''))"
    "find_report (PDict demo_tree) ''LD'' ''LN'' ''DS'' = Val (Some ''LD/LN.RP.RP'')"
    by code_simp+
  then show ?thesis
    using same_report_on_other_device [of "(init_client True True True)\<lparr>cl_connections :=
         [(''b:102'', \<lparr>cn_con = Some 2, cn_model = PDict demo_tree, cn_control = None\<rparr>)],
       cl_cb_refs := [CbReport ''LD/LN.RP.RP'']\<rparr>" "''b:102''" _ 2 "''LD/LN.Pos.stVal''" "''LD''" "''LN''"
       "''DS''" "''0''" "''LD/LN.RP.RP''" demo_lib 50 0 "''k''"]
    by (simp add: init_client_def)
qed

section \<open>Reports\<close>

text \<open>
  The requests that enable a report on a connection, in order: fetch its control block, install
  the handler, set \<open>RptEna\<close> and \<open>GI\<close> in the block and write both back. \<open>r\<close> is the entry of the
  table of registered reports before, \<open>r'\<close> the entry after, which holds the new block.
\<close>

definition enabled_on :: "addr \<Rightarrow> rcbdata \<times> rcbdata \<Rightarrow> trace \<Rightarrow> bool" where
  "enabled_on con p es \<longleftrightarrow> (case p of (r, r') \<Rightarrow>
     r' = r\<lparr>rb_rcb := rb_rcb r'\<rparr> \<and> rb_rcb r' \<noteq> 0 \<and>
     (\<exists>rid e1 e2. es =
        [EGetRCB con (rb_RPT r) (rb_rcb r) (rb_rcb r') e1, EInstallReport con (rb_RPT r) rid,
         ESetRptEna (rb_rcb r') True, ESetGI (rb_rcb r') True,
         ESetRCB con (rb_rcb r') (or RCB_ELEMENT_RPT_ENA RCB_ELEMENT_GI) False e2]))"

lemma enable_report_Val:
  assumes "enable_report C con (rb_RPT r) (rb_rcb r) False h = (Val rcb, h')"
  shows "\<exists>es. h' = h @ es \<and> enabled_on con (r, r\<lparr>rb_rcb := rcb\<rparr>) es"
  using assms
  by (auto simp: enable_report_def bnd_def andthen_def call_getRCB_def call_setRCB_def deref_def enabled_on_def
      Let_def split: prod.splits if_splits)

lemma set_rcb_reports:
  assumes "registered_reports tupl s = ds @ r # rs"
  shows "registered_reports tupl (set_rcb tupl (length ds) rcb s) = ds @ r\<lparr>rb_rcb := rcb\<rparr> # rs"
    and "cl_trace (set_rcb tupl i rcb s) = cl_trace s"
  using assms
  by (auto simp: registered_reports_def set_rcb_def update_conv' split: option.splits)

lemma registered_reports_trace: "registered_reports tupl (s\<lparr>cl_trace := h\<rparr>) = registered_reports tupl s"
  by (simp add: registered_reports_def)

text \<open>The loop of \<open>getIED\<close>: \<open>ds\<close> are the entries already done.\<close>

lemma reenable_exact:
  assumes "reenable_reports C tupl con (length ds) rs s = (Val (), s')"
    and "registered_reports tupl s = ds @ rs"
  shows "\<exists>rs' calls. registered_reports tupl s' = ds @ rs' \<and> length rs' = length rs \<and>
           cl_trace s' = cl_trace s @ concat calls \<and> list_all2 (enabled_on con) (zip rs rs') calls"
  using assms
proof (induction rs arbitrary: ds s)
  case Nil
  then show ?case by (intro exI [of _ "[]"]) auto
next
  case (Cons r rs)
  from Cons.prems(1) obtain rcb h where
    e: "enable_report C con (rb_RPT r) (rb_rcb r) False (cl_trace s) = (Val rcb, h)"
    and k: "reenable_reports C tupl con (Suc (length ds)) rs (set_rcb tupl (length ds) rcb (s\<lparr>cl_trace := h\<rparr>))
      = (Val (), s')"
    by (auto simp: on_trace_def bnd_def andthen_def split: prod.splits result.splits)
  from enable_report_Val [OF e] obtain es where
    es: "h = cl_trace s @ es" "enabled_on con (r, r\<lparr>rb_rcb := rcb\<rparr>) es" by blast
  let ?t = "set_rcb tupl (length ds) rcb (s\<lparr>cl_trace := h\<rparr>)"
  have t: "registered_reports tupl ?t = (ds @ [r\<lparr>rb_rcb := rcb\<rparr>]) @ rs" "cl_trace ?t = h"
    using set_rcb_reports [of tupl "s\<lparr>cl_trace := h\<rparr>" ds r rs] Cons.prems(2)
    by (simp_all add: registered_reports_trace)
  from Cons.IH [of "ds @ [r\<lparr>rb_rcb := rcb\<rparr>]" ?t] k t obtain rs' calls where
    "registered_reports tupl s' = ds @ r\<lparr>rb_rcb := rcb\<rparr> # rs'" "length rs' = length rs"
    "cl_trace s' = h @ concat calls" "list_all2 (enabled_on con) (zip rs rs') calls" by auto
  with es show ?case
    by (intro exI [of _ "r\<lparr>rb_rcb := rcb\<rparr> # rs'"] exI [of _ "es # calls"]) simp
qed

lemma reports_table_keep:
  "keeps (\<lambda>s. P (registered_reports tupl s)) (on_trace m)"
  "keeps (\<lambda>s. P (registered_reports tupl s)) (upd_conn k f)"
  "keeps (\<lambda>s. P (registered_reports tupl s)) (add_conn k)"
  by (auto simp: keeps_def on_trace_def upd_conn_run add_conn_def registered_reports_def
      split: prod.split option.split)

lemma open_connection_reports:
  assumes "open_connection n C tupl host port s = (Val 0, s')"
  shows "\<exists>rs' h calls. registered_reports tupl s' = rs' \<and> length rs' = length (registered_reports tupl s) \<and>
           cl_trace s' = h @ concat calls \<and>
           list_all2 (enabled_on (c_create C (cl_trace s))) (zip (registered_reports tupl s) rs') calls \<and>
           conn_is tupl (Some (c_create C (cl_trace s))) s'"
proof -
  let ?I = "\<lambda>s'. registered_reports tupl s' = registered_reports tupl s"
  let ?con = "c_create C (cl_trace s)"
  from assms obtain s1 s2 s3 s4 s5 model where
    s1: "add_conn tupl s = (Val (), s1)" and s2: "on_trace (call_create C) s1 = (Val ?con, s2)"
    and s3: "on_trace (call_connect C ?con host port) s2 = (Val 0, s3)"
    and s4: "upd_conn tupl (\<lambda>c. c\<lparr>cn_con := Some ?con\<rparr>) s3 = (Val (), s4)"
    and s5: "on_trace (discovery n C ?con) s4 = (Val model, s5)"
    and rest: "andthen (upd_conn tupl (\<lambda>c. c\<lparr>cn_model := PDict model\<rparr>))
               (bnd (gets (registered_reports tupl)) (\<lambda>rs.
                  andthen (reenable_reports C tupl ?con 0 rs) (ret 0))) s5 = (Val 0, s')"
    by (auto simp: open_connection_def IED_ERROR_OK_def add_conn_def on_trace_def call_create_def Let_def
        elim!: bnd_ValE andthen_ValE split: if_splits prod.splits)
  from rest obtain s6 where
    s6: "upd_conn tupl (\<lambda>c. c\<lparr>cn_model := PDict model\<rparr>) s5 = (Val (), s6)"
    and loop: "reenable_reports C tupl ?con 0 (registered_reports tupl s6) s6 = (Val (), s')"
    by (auto elim!: bnd_ValE andthen_ValE)
  note tables = reports_table_keep [where P = "\<lambda>x. x = registered_reports tupl s" and tupl = tupl]
  have "?I s6"
    using keeps_run [OF tables(3) refl s1, THEN keeps_run [OF tables(1) _ s2],
      THEN keeps_run [OF tables(1) _ s3], THEN keeps_run [OF tables(2) _ s4],
      THEN keeps_run [OF tables(1) _ s5], THEN keeps_run [OF tables(2) _ s6]] .
  moreover have "conn_is tupl (Some ?con) s'"
  proof -
    have "conn_is tupl (Some ?con) s4"
      using s4 by (auto simp: upd_conn_run conn_is_def update_conv' split: option.splits)
    then have "conn_is tupl (Some ?con) s5"
      using triple_run [OF conn_is_io _ s5] by simp
    then have "conn_is tupl (Some ?con) s6"
      using s6 by (auto simp: upd_conn_run conn_is_def update_conv' split: option.splits)
    moreover have "keeps (conn_is tupl (Some ?con)) (reenable_reports C tupl ?con 0 rs)" for rs
      using reenable_table [of "\<lambda>d. \<exists>c. map_of d tupl = Some c \<and> cn_con c = Some ?con"]
      by (simp add: conn_is_def [abs_def])
    ultimately show ?thesis using keepsD [of "conn_is tupl (Some ?con)" _ s6] loop by (metis snd_conv)
  qed
  ultimately show ?thesis
    using reenable_exact [of C tupl ?con "[]" "registered_reports tupl s6" s6 s'] loop by auto
qed

text \<open>
  C22 When \<open>getIED\<close> makes a new connection, for a device without an entry or after its connection
  was lost, and reports success, it has ended by enabling again, on the new connection, every
  report registered on the device, in the order of registration: for each one exactly the request
  for its control block, the installation of the handler, \<open>RptEna\<close> and \<open>GI\<close> set and written back.
  The control blocks found are in the table of reports.
\<close>
theorem reports_enabled_again:
  assumes "getIED n C (Some h) port s = (Val 0, s')"
    and "\<forall>c. map_of (cl_connections s) (conn_key h (default_port port)) = Some c \<longrightarrow> cn_con c = None"
  shows "\<exists>c con g calls.
           map_of (cl_connections s') (conn_key h (default_port port)) = Some c \<and> cn_con c = Some con \<and>
           con = c_create C (cl_trace s) \<and> cl_trace s' = g @ concat calls \<and>
           length (registered_reports (conn_key h (default_port port)) s') =
             length (registered_reports (conn_key h (default_port port)) s) \<and>
           list_all2 (enabled_on con)
             (zip (registered_reports (conn_key h (default_port port)) s)
                  (registered_reports (conn_key h (default_port port)) s')) calls"
proof -
  let ?k = "conn_key h (default_port port)"
  have "open_connection n C ?k h (default_port port) s = (Val 0, s')"
    using assms by (auto simp: getIED_def Let_def bnd_def split: option.splits)
  from open_connection_reports [OF this] show ?thesis by (auto simp: conn_is_def)
qed

lemma reports_enabled_again_witness:
  "\<exists>g rid e1 e2. cl_trace (snd (getIED 5 demo_lib (Some ''h'') (PNum 102) ((init_client True True True)
      \<lparr>cl_reporting := [(''h:102'', [\<lparr>rb_rcb = 4, rb_RPT = ''A'',
         rb_refdata = \<lparr>rd_key = [], rd_tupl = [], rd_LD = [], rd_LN = [], rd_DS = []\<rparr>\<rparr>])]\<rparr>))) =
     g @ [EGetRCB 1 ''A'' 4 50 e1, EInstallReport 1 ''A'' rid, ESetRptEna 50 True, ESetGI 50 True,
          ESetRCB 1 50 (or RCB_ELEMENT_RPT_ENA RCB_ELEMENT_GI) False e2]"
proof -
  let ?r = "\<lparr>rb_rcb = 4, rb_RPT = ''A'',
         rb_refdata = \<lparr>rd_key = [], rd_tupl = [], rd_LD = [], rd_LN = [], rd_DS = []\<rparr>\<rparr>"
  let ?s = "(init_client True True True)\<lparr>cl_reporting := [(''h:102'', [?r])]\<rparr>"
  let ?g = "getIED 5 demo_lib (Some ''h'') (PNum 102) ?s"
  have "fst ?g = Val 0" by code_simp
  then have run: "?g = (Val 0, snd ?g)" by (metis prod.collapse)
  have key: "conn_key ''h'' (default_port (PNum 102)) = ''h:102''" by code_simp
  have new: "registered_reports ''h:102'' (snd ?g) = [?r\<lparr>rb_rcb := 50\<rparr>]" by code_simp
  have old: "registered_reports ''h:102'' ?s = [?r]" by (simp add: registered_reports_def)
  from reports_enabled_again [OF run] obtain g calls where
    "cl_trace (snd ?g) = g @ concat calls" "list_all2 (enabled_on 1) [(?r, ?r\<lparr>rb_rcb := 50\<rparr>)] calls"
    unfolding key new old by (auto simp: init_client_def)
  then show ?thesis
    by (auto simp: list_all2_Cons1 enabled_on_def)
qed




section \<open>Control\<close>

lemma last_cause_named:
  assumes "last_cause C ctl s = (Val cause, s')"
  shows "cause \<in> fst ` set AddCause"
  using assms by (auto simp: last_cause_def elim!: bnd_ValE dest!: enum_name_Val split: prod.splits)
    (metis fst_conv image_eqI)

text \<open>
  C25 The result of \<open>operate\<close> and of \<open>select\<close> tells success from failure: 1 comes with no cause,
  0 with the name of the cause the device gave, one of the names of \<open>AddCause\<close>, and the only
  other code is -1, for a device that cannot be reached or an object that cannot be selected.
\<close>
theorem control_result:
  assumes "operate n C F ref v s = (Val (code, cause), s') \<or> select n C F ref v s = (Val (code, cause), s')"
  shows "(code = 1 \<and> cause = []) \<or> (code = 0 \<and> cause \<in> fst ` set AddCause) \<or> code = -1"
proof -
  have c: "on_trace (call_operate C a b) s = (Val code, s') \<Longrightarrow> code = 1 \<or> code = 0"
      "on_trace (call_select C a) s = (Val code, s') \<Longrightarrow> code = 1 \<or> code = 0"
      "on_trace (call_selectValue C a b) s = (Val code, s') \<Longrightarrow> code = 1 \<or> code = 0" for a b s s' code
    by (auto simp: on_trace_def call_operate_def call_select_def call_selectValue_def of_c_bool_def Let_def
        split: if_splits)
  from assms show ?thesis
  proof
    assume "operate n C F ref v s = (Val (code, cause), s')"
    then show ?thesis
      unfolding operate_def with_control_def
      by (auto elim!: bnd_ValE andthen_ValE split: option.split_asm if_split_asm prod.split_asm bool.split_asm
          dest!: c last_cause_named)
  next
    assume "select n C F ref v s = (Val (code, cause), s')"
    then show ?thesis
      unfolding select_def with_control_def
      by (auto elim!: bnd_ValE andthen_ValE split: option.split_asm if_split_asm prod.split_asm bool.split_asm
          dest!: c last_cause_named)
  qed
qed

lemma control_result_witness:
  "(\<exists>cause. fst (select 5 demo_lib demo_float (Some ''iec61850://h/LD/LN.Pos'') (ABool True)
       (init_client True True True)) = Val (0, cause) \<and> cause \<in> fst ` set AddCause)"
proof -
  let ?r = "select 5 demo_lib demo_float (Some ''iec61850://h/LD/LN.Pos'') (ABool True) (init_client True True True)"
  have "fst ?r = Val (0, ''ADD_CAUSE_OBJECT_NOT_SELECTED'')" by code_simp
  then have "?r = (Val (0, ''ADD_CAUSE_OBJECT_NOT_SELECTED''), snd ?r)" by (metis prod.collapse)
  from control_result [OF disjI2 [OF this]] \<open>fst ?r = _\<close> show ?thesis by auto
qed

end
