(* ===== verification/Client_Main.thy ===== *)
theory Client_Main
  imports Client_Ops
begin

text \<open>
  The demonstration at the end of \<^verbatim>\<open>libiec61850client.py\<close>: a client without callbacks writes
  12 to a control model and reads it back. The logger and the two pauses have no effect on
  the client.
\<close>

text \<open>
  The variables set from the command line. The second argument goes to \<open>port\<close>, not to
  \<open>tcpPort\<close>, and none of the three is used afterwards.
\<close>

record main_vars =
  mv_hostname :: string
  mv_tcpPort :: int
  mv_port :: "string option"

definition main_args :: "string list \<Rightarrow> main_vars" where
  "main_args argv =
     \<lparr>mv_hostname = (if 1 < length argv then argv ! 1 else ''localhost''),
      mv_tcpPort = 9102,
      mv_port = (if 2 < length argv then Some (argv ! 2) else None)\<rparr>"

definition main_ref :: string where
  "main_ref = ''iec61850://127.0.0.1:102/IED1_XCBRGenericIO/CSWI1.Pos.ctlModel''"

text \<open>
  The whole run: the variables of the command line, what \<open>err\<close> holds at the end, the pair
  \<open>ReadValue\<close> returned, and the client.
\<close>

definition client_main ::
  "nat \<Rightarrow> capi \<Rightarrow> pyfloat \<Rightarrow> string list \<Rightarrow> (main_vars \<times> pv \<times> int) result \<times> client" where
  "client_main n C F argv =
     bnd (ret (main_args argv)) (\<lambda>vars.
     bnd (registerWriteValue n C F main_ref (AInt 12)) (\<lambda>err.
     bnd (ReadValue n C main_ref) (\<lambda>err.
       ret (vars, err)))) (init_client False False False)"

end
