(* ===== verification/Client_Session_Spec.thy ===== *)
theory Client_Session_Spec
  imports Client_Main Client_Ops_Spec
begin

text \<open>
  Properties of several operations in a row: a value written through the client is the value
  a later read returns, for a device that keeps what it accepts. The device's side is a
  predicate on the library parameter over one object, stated by replaying the trace.
\<close>

section \<open>What a device was last told\<close>

text \<open>
  A replay of the trace for one object: the values made so far, by address, and what was last
  written to the object. Any other call that may change the device, or end the association
  with it, forgets that.
\<close>

type_synonym replay = "(addr \<Rightarrow> mms_new option) \<times> mms_new option"

fun replay_step :: "addr \<Rightarrow> string \<Rightarrow> int \<Rightarrow> replay \<Rightarrow> cev \<Rightarrow> replay" where
  "replay_step con ref fc (vals, w) (EValueNew k v) = (vals(v := Some k), w)"
| "replay_step con ref fc (vals, w) (EWriteObject c r f v err) =
     (vals, if err \<noteq> 0 then w else if c = con \<and> r = ref \<and> f = fc then vals v else None)"
| "replay_step con ref fc (vals, w) (EValueDelete v) = (vals, w)"
| "replay_step con ref fc (vals, w) (EReadObject c r f v err) = (vals, w)"
| "replay_step con ref fc (vals, w) (EReadCb r v) = (vals, w)"
| "replay_step con ref fc (vals, w) e = (vals, None)"

definition last_write :: "trace \<Rightarrow> addr \<Rightarrow> string \<Rightarrow> int \<Rightarrow> mms_new option" where
  "last_write h con ref fc = snd (foldl (replay_step con ref fc) (Map.empty, None) h)"

text \<open>How the library presents a value of each kind; a C string ends at its first NUL.\<close>

definition until_nul :: "string \<Rightarrow> string" where
  "until_nul = takeWhile (\<lambda>c. c \<noteq> char_of (0 :: nat))"

fun presents :: "capi \<Rightarrow> trace \<Rightarrow> addr \<Rightarrow> mms_new \<Rightarrow> bool" where
  "presents C h v (NewBoolean b) \<longleftrightarrow> c_typeString C h v = ''boolean'' \<and> c_boolean C h v = b"
| "presents C h v (NewInteger w) \<longleftrightarrow> c_typeString C h v = ''integer'' \<and> c_int64 C h v = scast w"
| "presents C h v (NewUnsigned w) \<longleftrightarrow> c_typeString C h v = ''unsigned'' \<and> c_uint32 C h v = w"
| "presents C h v (NewUtcTime w) \<longleftrightarrow> c_typeString C h v = ''utc-time'' \<and> c_utcTime C h v = w"
| "presents C h v (NewVisibleString s) \<longleftrightarrow>
     c_typeString C h v = ''visible-string'' \<and> c_string C h v = Some (until_nul s)"
| "presents C h v (NewMmsString s) \<longleftrightarrow>
     c_typeString C h v = ''mms-string'' \<and> c_string C h v = Some (until_nul s)"
| "presents C h v _ \<longleftrightarrow> True"

definition keeps_writes :: "capi \<Rightarrow> addr \<Rightarrow> string \<Rightarrow> int \<Rightarrow> bool" where
  "keeps_writes C con ref fc \<longleftrightarrow>
     (\<forall>h k. last_write h con ref fc = Some k \<longrightarrow>
        (\<exists>v. c_readObject C h con ref fc = (v, 0) \<and>
             presents C (h @ [EReadObject con ref fc v 0]) v k))"

text \<open>The text a read shows of a Python value after it was written to a leaf of a type.\<close>

definition read_back :: "pyfloat \<Rightarrow> string \<Rightarrow> pyarg \<Rightarrow> string result" where
  "read_back F ty value =
     (if ty = ''boolean'' then Val (py_bool_str (is_true_arg value))
      else if ty = ''visible-string'' \<or> ty = ''mms-string'' then Val (until_nul (py_str_arg F value))
      else rbind (py_int value) (\<lambda>i. Val (int_str
        (if ty = ''integer'' then sint (word_of_int i :: 32 word)
         else if ty = ''unsigned'' then uint (word_of_int i :: 32 word)
         else uint (word_of_int i :: 64 word)))))"

section \<open>Writing\<close>

definition kept_types :: "string set" where
  "kept_types = {''boolean'', ''integer'', ''unsigned'', ''utc-time'', ''visible-string'', ''mms-string''}"

lemma made_and_shown:
  assumes "getMMsValue C F ty value 8 (-1) h = (Val (Some v), h1)" and "ty \<in> kept_types"
  shows "\<exists>k. h1 = h @ [EValueNew k v] \<and>
    (\<exists>r. (\<forall>h' u. presents C h' u k \<longrightarrow> printValue C h' u = r) \<and>
         (\<forall>vt. r = Val vt \<longrightarrow> snd vt = ty \<and> read_back F ty value = Val (fst vt)))"
proof -
  note run = getMMsValue_def mms_type_defs new_of_int_def call_new_def Let_def bnd_def
  note shown = printValue_def decode_ascii read_back_def decode_opt_def decode_utf8_def
  have scast: "sint (scast x :: 64 word) = sint x" for x :: "32 word"
    by transfer (simp add: signed_take_bit_signed_take_bit)
  from assms(2) show ?thesis
    unfolding kept_types_def
  proof (elim insertE emptyE)
    assume "ty = ''boolean''"
    with assms(1) show ?thesis by (auto simp: run shown)
  next
    assume "ty = ''integer''"
    with assms(1) show ?thesis by (auto simp: run shown scast split: result.splits)
  next
    assume "ty = ''unsigned''"
    with assms(1) show ?thesis by (auto simp: run shown split: result.splits)
  next
    assume "ty = ''utc-time''"
    with assms(1) show ?thesis by (auto simp: run shown split: result.splits)
  next
    assume "ty = ''visible-string''"
    with assms(1) show ?thesis by (auto simp: run shown split: if_splits)
  next
    assume "ty = ''mms-string''"
    with assms(1) show ?thesis by (auto simp: run shown split: if_splits)
  qed
qed

text \<open>
  What a reference leads to is what is at its path: replacing that leaves the reference leading
  to the replacement, and replacing another leaf leaves it alone.
\<close>

lemma parseRef_at:
  assumes "parseRef m ref = Val (x, p)" and "p \<noteq> []" and "lookup_path m' p = Some z"
  shows "parseRef m' ref = Val (z, p)"
proof -
  note path = parseRef_path [OF assms(1,2)]
  have "ref \<noteq> []" using assms(1,2) by (auto simp: parseRef_def)
  obtain d where d: "m = PDict d"
    using path assms(2) by (cases m; cases p) auto
  obtain e where e: "m' = PDict e"
    using assms(2,3) by (cases m'; cases p) auto
  from assms(1) \<open>ref \<noteq> []\<close> d assms(2) consider
    (one) q where "split_on (CHR ''/'') ref = [q]" "p = [ref]"
  | (two) q r mm where "split_on (CHR ''/'') ref = [q, r]"
      "walk (split_on (CHR ''.'') r) mm [q] = Val (x, p)"
    by (auto simp: parseRef_def split: list.splits if_splits elim!: rbind_ValE)
  then show ?thesis
  proof cases
    case one
    with e assms(3) \<open>ref \<noteq> []\<close> show ?thesis
      by (auto simp: parseRef_def dhas_iff dget_def split: option.splits)
  next
    case two
    from walk_lookup [OF two(2) assms(2)] have p: "p = q # split_on (CHR ''.'') r" by auto
    with assms(3) e obtain w where "map_of e q = Some w" "lookup_path w (split_on (CHR ''.'') r) = Some z"
      by (auto split: option.splits)
    with two(1) e p \<open>ref \<noteq> []\<close> show ?thesis
      by (simp add: parseRef_def dhas_iff dget_def lookup_walk)
  qed
qed

lemma parseRef_replaced:
  assumes "parseRef m ref = Val (x, p)" and "p \<noteq> []"
  shows "parseRef (update_path p y m) ref = Val (y, p)"
  using parseRef_at [OF assms] parseRef_path [OF assms] by (simp add: lookup_update_same)

section \<open>A leaf of a connected device\<close>

lemma leaf_refresh:
  assumes "parseRef model ref = Val (PDict d, p)" and "p \<noteq> []" and "leaf_dict fc d"
    and "c_readObject C h con ref (c_fcFromString C fc) = (v, 0)"
    and "printValue C (h @ [EReadObject con ref (c_fcFromString C fc) v 0]) v = Val vt"
  shows "updateValueInModel n C con model ref h =
           (Val (update_path p (refreshed d vt) model, 0),
            h @ [EReadObject con ref (c_fcFromString C fc) v 0, EValueDelete v])"
  by (rule updateValue_at [OF assms(1,2)]) (rule update_leaf_ok [OF _ assms(3,4,5)])

lemma update_recurse_needs:
  assumes "lookup_path m p = Some sub" and "update_recurse n C con ref m (p @ [k]) h = (Val z, h')"
  shows "\<exists>y. fst (update_recurse n C con ref sub [k] h) = Val y"
  using assms
proof (induction p arbitrary: m z h')
  case Nil
  then show ?case by simp
next
  case (Cons j p)
  then obtain e m' where m: "m = PDict e" "map_of e j = Some m'" "lookup_path m' p = Some sub"
    by (cases m) (auto split: option.splits)
  obtain q qs where pk: "p @ [k] = q # qs" by (cases "p @ [k]") auto
  with Cons.prems(2) m obtain z' h'' where "update_recurse n C con ref m' (p @ [k]) h = (Val z', h'')"
    by (auto simp: dget_def elim!: bnd_ValE)
  with Cons.IH [OF m(3)] show ?case by blast
qed

text \<open>A refresh that succeeds has read the value and could print it.\<close>

lemma leaf_refresh_ok:
  assumes "parseRef model ref = Val (PDict d, p)" and "p \<noteq> []" and "leaf_dict fc d"
    and "c_readObject C h con ref (c_fcFromString C fc) = (v, 0)"
    and "updateValueInModel n C con model ref h = (Val (model', e'), h')"
  shows "\<exists>vt. printValue C (h @ [EReadObject con ref (c_fcFromString C fc) v 0]) v = Val vt"
proof -
  obtain q k e where pk: "p = q @ [k]" "lookup_path model q = Some (PDict e)" "map_of e k = Some (PDict d)"
    using path_split parseRef_path [OF assms(1,2)] assms(2) by metis
  have "update_recurse n C con ref model (q @ [k]) h = (Val (model', e'), h')"
    using assms(1,5) pk(1) by (simp add: updateValueInModel_def)
  from update_recurse_needs [OF pk(2) this] obtain y where
    "fst (update_recurse n C con ref (PDict e) [k] h) = Val y" by blast
  then show ?thesis
    using pk(3) assms(4) leaf_dict_is_leaf [OF assms(3)] leaf_dict_FC [OF assms(3)]
    by (cases "printValue C (h @ [EReadObject con ref (c_fcFromString C fc) v 0]) v")
      (simp_all add: refresh_leaf_def bnd_def dget_def call_readObject_def show_value_def)
qed

text \<open>Reading, deleting a value and telling a value leave what was written.\<close>

fun quiet :: "cev \<Rightarrow> bool" where
  "quiet (EReadObject c r f v err) = True"
| "quiet (EValueDelete v) = True"
| "quiet (EReadCb r v) = True"
| "quiet e = False"

lemma replay_quiet: "quiet e \<Longrightarrow> snd (replay_step con ref fc r e) = snd r"
  by (cases r; cases e) simp_all

lemma last_write_quiet: "list_all quiet es \<Longrightarrow> last_write (h @ es) con ref fc = last_write h con ref fc"
proof (induction es rule: rev_induct)
  case (snoc e es)
  then show ?case
    by (simp add: last_write_def replay_quiet)
qed simp

lemma last_write_stored: "last_write (h @ [EValueNew k v, EWriteObject con ref fc v 0]) con ref fc = Some k"
proof (cases "foldl (replay_step con ref fc) (Map.empty, None) h")
  case (Pair vals w)
  then show ?thesis by (simp add: last_write_def)
qed

lemma last_write_replayed:
  assumes "list_all quiet es"
  shows "last_write (h @ [EValueNew k v, EWriteObject con ref fc v 0] @ es) con ref fc = Some k"
  using last_write_quiet [OF assms, of "h @ [EValueNew k v, EWriteObject con ref fc v 0]"]
  by (simp add: last_write_stored)

text \<open>
  A write that succeeds leaves the object holding a value that every later read of it prints
  in the same way, and the model holding that.
\<close>

definition holds :: "capi \<Rightarrow> trace \<Rightarrow> addr \<Rightarrow> string \<Rightarrow> int \<Rightarrow> string \<times> string \<Rightarrow> bool" where
  "holds C h con ref fc vt \<longleftrightarrow>
     (\<exists>v. c_readObject C h con ref fc = (v, 0) \<and> printValue C (h @ [EReadObject con ref fc v 0]) v = Val vt)"

lemma leaf_write:
  assumes "parseRef model ref = Val (PDict d, p)" and "p \<noteq> []" and "leaf_dict fc d"
    and "map_of d ''type'' = Some (PStr ty)" and "ty \<in> kept_types"
    and "keeps_writes C con ref (c_fcFromString C fc)"
    and "writeValue n C F con model ref value h = (Val (model', 0), h')"
  shows "\<exists>s. read_back F ty value = Val s \<and> model' = update_path p (refreshed d (s, ty)) model \<and>
    holds C h' con ref (c_fcFromString C fc) (s, ty) \<and>
    (\<forall>r x. holds C (h' @ [EReadCb r x]) con ref (c_fcFromString C fc) (s, ty))"
proof -
  let ?fc = "c_fcFromString C fc"
  have d: "d \<noteq> []" "dhas ''FC'' d" "dget ''FC'' d = Val (PStr fc)" "dget ''type'' d = Val (PStr ty)"
    using assms(3,4) by (auto simp: leaf_dict_def dhas_iff dget_def)
  from assms(7) obtain v h1 where v: "getMMsValue C F ty value 8 (-1) h = (Val (Some v), h1)"
      and w: "updateValueInModel n C con model ref (h1 @ [EWriteObject con ref ?fc v 0, EValueDelete v]) =
        (Val (model', 0), h')"
    using assms(1) d
    by (auto simp: writeValue_def call_writeObject_def Let_def elim!: bnd_ValE andthen_ValE
        split: option.split_asm if_split_asm)
  from made_and_shown [OF v assms(5)] obtain k r where k: "h1 = h @ [EValueNew k v]"
      "\<And>h' u. presents C h' u k \<Longrightarrow> printValue C h' u = r"
      "\<And>vt. r = Val vt \<Longrightarrow> snd vt = ty \<and> read_back F ty value = Val (fst vt)" by blast
  let ?h2 = "h1 @ [EWriteObject con ref ?fc v 0, EValueDelete v]"
  have kept: "\<exists>u. c_readObject C (?h2 @ es) con ref ?fc = (u, 0) \<and>
      printValue C ((?h2 @ es) @ [EReadObject con ref ?fc u 0]) u = r"
    if "list_all quiet es" for es
  proof -
    have "last_write (?h2 @ es) con ref ?fc = Some k"
      using last_write_replayed [of "EValueDelete v # es" h k v con ref ?fc] that k(1) by simp
    with assms(6) k(2) show ?thesis unfolding keeps_writes_def by blast
  qed
  obtain u where u: "c_readObject C ?h2 con ref ?fc = (u, 0)"
      "printValue C (?h2 @ [EReadObject con ref ?fc u 0]) u = r"
    using kept [of "[]"] by auto
  obtain vt where vt: "r = Val vt"
    using leaf_refresh_ok [OF assms(1,2,3) u(1) w] u(2) by auto
  have upd: "updateValueInModel n C con model ref ?h2 =
      (Val (update_path p (refreshed d vt) model, 0), ?h2 @ [EReadObject con ref ?fc u 0, EValueDelete u])"
    by (rule leaf_refresh [OF assms(1,2,3) u(1)], use u(2) vt in simp)
  from w upd have m': "model' = update_path p (refreshed d vt) model"
      "h' = ?h2 @ [EReadObject con ref ?fc u 0, EValueDelete u]" by auto
  have "holds C h' con ref ?fc vt" "holds C (h' @ [EReadCb q x]) con ref ?fc vt" for q x
    using kept [of "[EReadObject con ref ?fc u 0, EValueDelete u]"]
      kept [of "[EReadObject con ref ?fc u 0, EValueDelete u, EReadCb q x]"] vt
    by (auto simp: holds_def m'(2))
  with m'(1) k(3) [OF vt] show ?thesis
    by (cases vt) auto
qed

section \<open>Operations on a connected device\<close>

lemma getIED_connected:
  assumes "parse_target ref = Val (Some t)" and "map_of (cl_connections s) (tg_key t) = Some c"
    and "usable c = Some con" and "truthy (cn_model c)"
  shows "getIED n C (Some (tg_host t)) (tg_port t) s = (Val 0, s)"
proof -
  have "default_port (tg_port t) = tg_port t"
    using assms(1)
    by (auto simp: parse_target_def default_port_def elim!: rbind_ValE split: if_splits option.splits)
  moreover have "cn_con c = Some con"
    using assms(3) by (auto simp: usable_def split: option.splits if_splits)
  ultimately show ?thesis
    using assms(2,4) by (simp add: getIED_def tg_key_def bnd_def Let_def)
qed

lemma update_path_truthy: "lookup_path m p \<noteq> None \<Longrightarrow> p \<noteq> [] \<Longrightarrow> truthy (update_path p x m)"
proof (cases p)
  case (Cons k ks)
  assume "lookup_path m p \<noteq> None"
  with Cons obtain d v where "m = PDict d" "map_of d k = Some v" by (cases m) (auto split: option.splits)
  moreover have "dset k z d \<noteq> []" for z :: pv
    by (cases d) auto
  ultimately show ?thesis using Cons by simp
qed simp

lemma refreshed_fields:
  "py_get (refreshed d vt) ''value'' = Val (PStr (fst vt))"
  "py_get (refreshed d vt) ''type'' = Val (PStr (snd vt))"
  "truthy (refreshed d vt)"
proof -
  have "dset k x e \<noteq> []" for k and x :: pv and e by (cases e) auto
  then show "truthy (refreshed d vt)" by (simp add: refreshed_def)
qed (simp_all add: refreshed_def)

lemma refreshed_again: "leaf_dict fc d \<Longrightarrow> \<exists>e. refreshed d vt = PDict e \<and> leaf_dict fc e"
  by (auto simp: refreshed_def leaf_dict_def update_conv')

text \<open>Reading a leaf of a device that is connected and answers.\<close>

lemma ReadValue_leaf:
  assumes "parse_target ref = Val (Some t)" and "map_of (cl_connections s) (tg_key t) = Some c"
    and "usable c = Some con" and "parseRef (cn_model c) (tg_path t) = Val (PDict d, p)" and "p \<noteq> []"
    and "leaf_dict fc d" and "holds C (cl_trace s) con (tg_path t) (c_fcFromString C fc) vt"
  shows "\<exists>s'. ReadValue n C ref s = (Val (refreshed d vt, 0), s')"
proof -
  let ?fc = "c_fcFromString C fc" and ?m = "update_path p (refreshed d vt) (cn_model c)"
  from assms(7) obtain v where v: "c_readObject C (cl_trace s) con (tg_path t) ?fc = (v, 0)"
      "printValue C (cl_trace s @ [EReadObject con (tg_path t) ?fc v 0]) v = Val vt"
    by (auto simp: holds_def)
  let ?next = "s\<lparr>cl_trace := cl_trace s @ [EReadObject con (tg_path t) ?fc v 0, EValueDelete v],
     cl_connections := dset (tg_key t) (c\<lparr>cn_model := ?m\<rparr>) (cl_connections s)\<rparr>"
  have d: "truthy (PDict d)" using assms(6) by (auto simp: leaf_dict_def)
  have mt: "truthy (cn_model c)"
    using parseRef_path [OF assms(4,5)] assms(5) by (cases "cn_model c"; cases p) auto
  have "update_conn_model n C (tg_key t) con (tg_path t) s = (Val 0, ?next)"
    using leaf_refresh [OF assms(4,5,6) v, of n] assms(2)
    by (simp add: update_conn_model_def bnd_def andthen_def get_conn_def dget_def on_trace_def upd_conn_run)
  moreover have "conn_value (tg_key t) (tg_path t) s = (Val (PDict d, p), s)"
    using assms(2,4) by (simp add: conn_value_eq)
  moreover have "conn_value (tg_key t) (tg_path t) ?next = (Val (refreshed d vt, p), ?next)"
    using parseRef_replaced [OF assms(4,5)] by (simp add: conn_value_eq update_conv')
  moreover have "get_conn (tg_key t) s = (Val c, s)"
    using assms(2) by (simp add: get_conn_def dget_def)
  ultimately show ?thesis
    using getIED_connected [OF assms(1,2,3) mt, of n C] assms(1,3) mt d
    by (simp add: ReadValue_def tell_read_run)
qed

lemma registerWriteValue_leaf:
  assumes "parse_target ref = Val (Some t)"
    and "getIED n C (Some (tg_host t)) (tg_port t) s = (Val 0, s0)"
    and "map_of (cl_connections s0) (tg_key t) = Some c" and "usable c = Some con"
    and "parseRef (cn_model c) (tg_path t) = Val (PDict d, p)" and "p \<noteq> []"
    and "leaf_dict fc d" and "map_of d ''type'' = Some (PStr ty)" and "ty \<in> kept_types"
    and "keeps_writes C con (tg_path t) (c_fcFromString C fc)"
    and "registerWriteValue n C F ref value s = (Val 0, s')"
  shows "\<exists>sv. read_back F ty value = Val sv \<and>
    map_of (cl_connections s') (tg_key t) =
      Some (c\<lparr>cn_model := update_path p (refreshed d (sv, ty)) (cn_model c)\<rparr>) \<and>
    holds C (cl_trace s') con (tg_path t) (c_fcFromString C fc) (sv, ty)"
proof -
  have mt: "truthy (cn_model c)"
    using parseRef_path [OF assms(5,6)] assms(6) by (cases "cn_model c"; cases p) auto
  have "get_conn (tg_key t) s0 = (Val c, s0)"
    using assms(3) by (simp add: get_conn_def dget_def)
  with assms(1,2,4,11) mt obtain s1 where
      w: "write_conn_model n C F (tg_key t) con (tg_path t) value s0 = (Val 0, s1)"
    and s': "cl_connections s' = cl_connections s1 \<and>
      (cl_trace s' = cl_trace s1 \<or> (\<exists>x. cl_trace s' = cl_trace s1 @ [EReadCb ref x]))"
    by (auto simp: registerWriteValue_def tell_read_run conn_value_eq elim!: bnd_ValE andthen_ValE
        split: if_split_asm)
  from w assms(3) obtain m' h' where
      wv: "writeValue n C F con (cn_model c) (tg_path t) value (cl_trace s0) = (Val (m', 0), h')"
    and s1: "cl_trace s1 = h'" "m' \<noteq> PDict [] \<Longrightarrow> cl_connections s1 =
      dset (tg_key t) (c\<lparr>cn_model := m'\<rparr>) (cl_connections s0)"
    by (auto simp: write_conn_model_def get_conn_def dget_def on_trace_def upd_conn_run
        elim!: bnd_ValE andthen_ValE split: prod.splits if_split_asm)
  from leaf_write [OF assms(5-10) wv] obtain sv where sv: "read_back F ty value = Val sv"
      "m' = update_path p (refreshed d (sv, ty)) (cn_model c)"
      "holds C h' con (tg_path t) (c_fcFromString C fc) (sv, ty)"
      "\<And>r x. holds C (h' @ [EReadCb r x]) con (tg_path t) (c_fcFromString C fc) (sv, ty)" by blast
  have "truthy m'"
    unfolding sv(2) using parseRef_path [OF assms(5,6)] assms(6) by (intro update_path_truthy) auto
  then have "m' \<noteq> PDict []" by auto
  with s1 sv s' show ?thesis by (auto simp: update_conv')
qed

lemma leaf_read_back:
  assumes "parse_target ref = Val (Some t)"
    and "getIED n C (Some (tg_host t)) (tg_port t) s = (Val 0, s0)"
    and "map_of (cl_connections s0) (tg_key t) = Some c" and "usable c = Some con"
    and "parseRef (cn_model c) (tg_path t) = Val (PDict d, p)" and "p \<noteq> []"
    and "leaf_dict fc d" and "map_of d ''type'' = Some (PStr ty)" and "ty \<in> kept_types"
    and "keeps_writes C con (tg_path t) (c_fcFromString C fc)"
    and "registerWriteValue n C F ref value s = (Val 0, s')"
  shows "\<exists>v sv s''. ReadValue n C ref s' = (Val (v, 0), s'') \<and> read_back F ty value = Val sv \<and>
           py_get v ''value'' = Val (PStr sv) \<and> py_get v ''type'' = Val (PStr ty)"
proof -
  let ?m = "\<lambda>sv. update_path p (refreshed d (sv, ty)) (cn_model c)"
  from registerWriteValue_leaf [OF assms] obtain sv where sv: "read_back F ty value = Val sv"
      "map_of (cl_connections s') (tg_key t) = Some (c\<lparr>cn_model := ?m sv\<rparr>)"
      "holds C (cl_trace s') con (tg_path t) (c_fcFromString C fc) (sv, ty)" by blast
  obtain e where e: "refreshed d (sv, ty) = PDict e" "leaf_dict fc e"
    using refreshed_again [OF assms(7)] by blast
  have "parseRef (?m sv) (tg_path t) = Val (PDict e, p)"
    using parseRef_replaced [OF assms(5,6)] e(1) by simp
  moreover have "usable (c\<lparr>cn_model := ?m sv\<rparr>) = Some con"
    using assms(4) by (simp add: usable_def)
  ultimately obtain s'' where "ReadValue n C ref s' = (Val (refreshed e (sv, ty), 0), s'')"
    using ReadValue_leaf [OF assms(1) sv(2) _ _ assms(6) e(2) sv(3), of n] by auto
  with sv(1) refreshed_fields [of e "(sv, ty)"] show ?thesis by auto
qed

text \<open>
  The demonstration reads back the 12 it wrote, whatever the command line, when its control
  model is an integer of a device that answers and keeps what it accepts.
\<close>

lemma main_reads_back:
  assumes "parse_target main_ref = Val (Some t)"
    and "getIED n C (Some (tg_host t)) (tg_port t) (init_client False False False) = (Val 0, s0)"
    and "map_of (cl_connections s0) (tg_key t) = Some c" and "usable c = Some con"
    and "parseRef (cn_model c) (tg_path t) = Val (PDict d, p)" and "p \<noteq> []"
    and "leaf_dict fc d" and "map_of d ''type'' = Some (PStr ''integer'')"
    and "keeps_writes C con (tg_path t) (c_fcFromString C fc)"
    and "registerWriteValue n C F main_ref (AInt 12) (init_client False False False) = (Val 0, s')"
  shows "\<exists>v. fst (client_main n C F argv) = Val (main_args argv, v, 0) \<and> py_get v ''value'' = Val (PStr ''12'')"
proof -
  have "''integer'' \<in> kept_types" by (simp add: kept_types_def)
  from leaf_read_back [OF assms(1-8) this assms(9,10)] obtain v sv s'' where
    r: "ReadValue n C main_ref s' = (Val (v, 0), s'')" "read_back F ''integer'' (AInt 12) = Val sv"
      "py_get v ''value'' = Val (PStr sv)" by blast
  have "sv = ''12''"
    using r(2) by (simp add: read_back_def int_str_def nat_str.simps [of 12] nat_str.simps [of "Suc 0"])
  with r assms(10) show ?thesis by (simp add: client_main_def)
qed

section \<open>Property\<close>

text \<open>
  C8 What is written through the client is what a later read returns: once
  \<open>registerWriteValue\<close> has returned 0 for a leaf of a type whose values keep, \<open>ReadValue\<close> of the
  reference succeeds and returns the leaf with the printed form of the value asked for, cut to
  the width of the type, if the device keeps what it accepts.
\<close>
theorem write_then_read:
  assumes "parse_target ref = Val (Some t)"
    and "getIED n C (Some (tg_host t)) (tg_port t) s = (Val 0, s0)"
    and "map_of (cl_connections s0) (tg_key t) = Some c" and "usable c = Some con"
    and "parseRef (cn_model c) (tg_path t) = Val (PDict d, p)" and "p \<noteq> []"
    and "leaf_dict fc d" and "map_of d ''type'' = Some (PStr ty)" and "ty \<in> kept_types"
    and "keeps_writes C con (tg_path t) (c_fcFromString C fc)"
    and "registerWriteValue n C F ref value s = (Val 0, s')"
  shows "\<exists>v sv s''. ReadValue n C ref s' = (Val (v, 0), s'') \<and> read_back F ty value = Val sv \<and>
           py_get v ''value'' = Val (PStr sv) \<and> py_get v ''type'' = Val (PStr ty)"
  by (rule leaf_read_back [OF assms])

text \<open>
  A library whose device keeps what is written to \<open>LD/LN.Pos.stVal\<close>: a value read shows
  what was last written to the object read.
\<close>

definition told :: "trace \<Rightarrow> mms_new option" where
  "told h = last_write h 1 ''LD/LN.Pos.stVal'' 0"

definition store_lib :: capi where
  "store_lib = demo_lib
     \<lparr>c_readObject := \<lambda>h con ref fc. if ref = ''LD/LN.Pos.stVal'' then (9, 0) else (0, 22),
      c_typeString := \<lambda>h v. case told h of Some (NewBoolean b) \<Rightarrow> ''boolean''
        | Some (NewUnsigned w) \<Rightarrow> ''unsigned'' | Some (NewUtcTime w) \<Rightarrow> ''utc-time''
        | Some (NewVisibleString s) \<Rightarrow> ''visible-string'' | Some (NewMmsString s) \<Rightarrow> ''mms-string''
        | _ \<Rightarrow> ''integer'',
      c_boolean := \<lambda>h v. case told h of Some (NewBoolean b) \<Rightarrow> b | _ \<Rightarrow> False,
      c_int64 := \<lambda>h v. case told h of Some (NewInteger w) \<Rightarrow> scast w | _ \<Rightarrow> 7,
      c_uint32 := \<lambda>h v. case told h of Some (NewUnsigned w) \<Rightarrow> w | _ \<Rightarrow> 0,
      c_utcTime := \<lambda>h v. case told h of Some (NewUtcTime w) \<Rightarrow> w | _ \<Rightarrow> 0,
      c_string := \<lambda>h v. case told h of Some (NewVisibleString s) \<Rightarrow> Some (until_nul s)
        | Some (NewMmsString s) \<Rightarrow> Some (until_nul s) | _ \<Rightarrow> None\<rparr>"

lemma store_lib_keeps: "keeps_writes store_lib 1 ''LD/LN.Pos.stVal'' 0"
  unfolding keeps_writes_def
proof (intro allI impI)
  fix h k
  assume "last_write h 1 ''LD/LN.Pos.stVal'' 0 = Some k"
  then have "told (h @ [EReadObject 1 ''LD/LN.Pos.stVal'' 0 9 0]) = Some k"
    by (simp add: told_def last_write_quiet)
  then show "\<exists>v. c_readObject store_lib h 1 ''LD/LN.Pos.stVal'' 0 = (v, 0) \<and>
      presents store_lib (h @ [EReadObject 1 ''LD/LN.Pos.stVal'' 0 v 0]) v k"
    by (cases k) (simp_all add: store_lib_def)
qed

lemma run_of: "fst r = x \<Longrightarrow> r = (x, snd r)"
  by (cases r) simp

lemma write_then_read_witness:
  "\<exists>v s''. ReadValue 5 store_lib ''iec61850://h/LD/LN.Pos.stVal''
      (snd (registerWriteValue 5 store_lib demo_float ''iec61850://h/LD/LN.Pos.stVal'' (AInt 4294967295)
        (init_client True True True))) = (Val (v, 0), s'') \<and>
     py_get v ''value'' = Val (PStr ''-1'') \<and> py_get v ''type'' = Val (PStr ''integer'')"
proof -
  let ?ref = "''iec61850://h/LD/LN.Pos.stVal''" and ?init = "init_client True True True"
  let ?t = "\<lparr>tg_host = ''h'', tg_port = PNum 102, tg_path = ''LD/LN.Pos.stVal''\<rparr>"
  let ?after = "snd (getIED 5 store_lib (Some ''h'') (PNum 102) ?init)"
  let ?d = "[(''reftype'', PStr ''DA''), (''FC'', PStr ''ST''), (''value'', PStr ''7''), (''type'', PStr ''integer'')]"
  let ?w = "registerWriteValue 5 store_lib demo_float ?ref (AInt 4294967295) ?init"
  have key: "tg_key ?t = ''h:102''" by code_simp
  have t: "parse_target ?ref = Val (Some ?t)" by code_simp
  have c: "fst (getIED 5 store_lib (Some ''h'') (PNum 102) ?init) = Val 0" by code_simp
  have "map_of (cl_connections ?after) ''h:102'' \<noteq> None" by code_simp
  then obtain c where conn: "map_of (cl_connections ?after) ''h:102'' = Some c" by blast
  have "map_option usable (map_of (cl_connections ?after) ''h:102'') = Some (Some 1)"
    "map_option (\<lambda>c. parseRef (cn_model c) ''LD/LN.Pos.stVal'') (map_of (cl_connections ?after) ''h:102'') =
     Some (Val (PDict ?d, [''LD'', ''LN'', ''Pos'', ''stVal'']))"
    by code_simp+
  then have u: "usable c = Some 1"
    "parseRef (cn_model c) ''LD/LN.Pos.stVal'' = Val (PDict ?d, [''LD'', ''LN'', ''Pos'', ''stVal''])"
    using conn by simp_all
  have w: "fst ?w = Val 0" by code_simp
  have fc: "c_fcFromString store_lib ''ST'' = 0" by code_simp
  have rb: "read_back demo_float ''integer'' (AInt 4294967295) = Val ''-1''" by code_simp
  have ied: "getIED 5 store_lib (Some (tg_host ?t)) (tg_port ?t) ?init = (Val 0, ?after)"
    using run_of [OF c] by (simp only: target.select_convs)
  have entry: "map_of (cl_connections ?after) (tg_key ?t) = Some c" using conn key by simp
  have leaf: "parseRef (cn_model c) (tg_path ?t) = Val (PDict ?d, [''LD'', ''LN'', ''Pos'', ''stVal''])"
    "leaf_dict ''ST'' ?d" "map_of ?d ''type'' = Some (PStr ''integer'')" "''integer'' \<in> kept_types"
    using u(2) by (simp_all add: leaf_dict_def kept_types_def)
  have keeps: "keeps_writes store_lib 1 (tg_path ?t) (c_fcFromString store_lib ''ST'')"
    using store_lib_keeps fc by simp
  from write_then_read [OF t ied entry u(1) leaf(1) list.distinct(2) leaf(2-4) keeps run_of [OF w]]
  have "\<exists>v sv s''. ReadValue 5 store_lib ?ref (snd ?w) = (Val (v, 0), s'') \<and>
      read_back demo_float ''integer'' (AInt 4294967295) = Val sv \<and>
      py_get v ''value'' = Val (PStr sv) \<and> py_get v ''type'' = Val (PStr ''integer'')" .
  with rb show ?thesis by auto
qed

end
