(* ===== verification/Client_Poll_Spec.thy ===== *)
theory Client_Poll_Spec
  imports Client_Session_Spec
begin

text \<open>
  A round of polling: every registered reference is read once and told to the callback, in the
  order of registration, while the others stay readable.
\<close>

section \<open>Leaves of a model\<close>

text \<open>A leaf as the discovery makes it has strings only.\<close>

fun is_str :: "pv \<Rightarrow> bool" where
  "is_str (PStr s) = True"
| "is_str (PDict d) = False"

definition plain_leaf :: "string \<Rightarrow> (string \<times> pv) list \<Rightarrow> bool" where
  "plain_leaf fc d \<longleftrightarrow> leaf_dict fc d \<and> list_all (is_str \<circ> snd) d"

lemma plain_below:
  assumes "plain_leaf fc d"
  shows "lookup_path (PDict d) (k # r) \<noteq> Some (PDict e)"
proof (cases "map_of d k")
  case (Some v)
  then have "is_str v"
    using assms map_of_SomeD [OF Some] by (auto simp: plain_leaf_def list_all_iff)
  with Some show ?thesis by (cases v; cases r) auto
qed simp

lemma strings_dset: "is_str v \<Longrightarrow> list_all (is_str \<circ> snd) d \<Longrightarrow> list_all (is_str \<circ> snd) (dset k v d)"
  by (induction d) auto

lemma plain_refreshed: "plain_leaf fc d \<Longrightarrow> \<exists>e. refreshed d vt = PDict e \<and> plain_leaf fc e"
  using refreshed_again [of fc d vt] unfolding plain_leaf_def refreshed_def
  by (auto intro!: strings_dset simp del: o_apply)

lemma paths_related:
  "p = q \<or> diverge p q \<or> (\<exists>k r. p = q @ k # r) \<or> (\<exists>k r. q = p @ k # r)"
proof (induction p arbitrary: q)
  case Nil
  then show ?case by (cases q) auto
next
  case (Cons a p)
  then show ?case by (cases q) auto
qed

text \<open>Refreshing one leaf leaves every leaf a leaf.\<close>

lemma leaf_stays:
  assumes "lookup_path m p = Some (PDict d)" and "plain_leaf fc d"
    and "lookup_path m q = Some (PDict e)" and "plain_leaf fc' e"
  shows "\<exists>e'. lookup_path (update_path p (refreshed d vt) m) q = Some (PDict e') \<and> plain_leaf fc' e'"
proof -
  consider "p = q" | "diverge p q" | (above) k r where "p = q @ k # r" | (below) k r where "q = p @ k # r"
    using paths_related by blast
  then show ?thesis
  proof cases
    case 1
    with assms have "e = d" "fc' = fc" by (auto simp: plain_leaf_def leaf_dict_def)
    with 1 assms show ?thesis using plain_refreshed [of fc d vt] by (auto simp: lookup_update_same)
  next
    case 2
    with assms show ?thesis by (auto simp: lookup_update_other)
  next
    case above
    with assms(1,3) plain_below [OF assms(4)] show ?thesis by (simp add: lookup_path_append)
  next
    case below
    with assms(1,3) plain_below [OF assms(2)] show ?thesis by (simp add: lookup_path_append)
  qed
qed

section \<open>One reference\<close>

text \<open>The device answers every read of the object, with a value that can be printed.\<close>

definition answers :: "capi \<Rightarrow> addr \<Rightarrow> string \<Rightarrow> int \<Rightarrow> bool" where
  "answers C con ref fc \<longleftrightarrow> (\<forall>h. \<exists>vt. holds C h con ref fc vt)"

definition watched :: "capi \<Rightarrow> client \<Rightarrow> string \<Rightarrow> bool" where
  "watched C s key \<longleftrightarrow> (\<exists>t c con d p fc. parse_target key = Val (Some t) \<and>
     map_of (cl_connections s) (tg_key t) = Some c \<and> usable c = Some con \<and>
     parseRef (cn_model c) (tg_path t) = Val (PDict d, p) \<and> p \<noteq> [] \<and> plain_leaf fc d \<and>
     answers C con (tg_path t) (c_fcFromString C fc))"

text \<open>A value told for a reference: what the device answered to a read of its object.\<close>

definition answered :: "capi \<Rightarrow> string \<Rightarrow> pv \<Rightarrow> bool" where
  "answered C key v \<longleftrightarrow> (\<exists>t h con fc s ty. parse_target key = Val (Some t) \<and>
     holds C h con (tg_path t) fc (s, ty) \<and>
     py_get v ''value'' = Val (PStr s) \<and> py_get v ''type'' = Val (PStr ty))"

fun told_values :: "trace \<Rightarrow> (string \<times> pv) list" where
  "told_values [] = []"
| "told_values (EReadCb r v # h) = (r, v) # told_values h"
| "told_values (e # h) = told_values h"

lemma told_values_append [simp]: "told_values (h @ h') = told_values h @ told_values h'"
  by (induction h rule: told_values.induct) simp_all

lemma poll_key_leaf:
  assumes "watched C s key" and "cl_readcb s"
  shows "\<exists>s' v. poll_key n C key s = (Val (), s') \<and> answered C key v \<and> cl_readcb s' \<and>
    told_values (cl_trace s') = told_values (cl_trace s) @ [(key, v)] \<and>
    (\<forall>k. watched C s k \<longrightarrow> watched C s' k)"
proof -
  from assms(1) obtain t c con d p fc where t: "parse_target key = Val (Some t)"
    and c: "map_of (cl_connections s) (tg_key t) = Some c" "usable c = Some con"
    and d: "parseRef (cn_model c) (tg_path t) = Val (PDict d, p)" "p \<noteq> []" "plain_leaf fc d"
    and a: "answers C con (tg_path t) (c_fcFromString C fc)"
    by (auto simp: watched_def)
  let ?fc = "c_fcFromString C fc"
  from a obtain v st ty where v: "c_readObject C (cl_trace s) con (tg_path t) ?fc = (v, 0)"
      "printValue C (cl_trace s @ [EReadObject con (tg_path t) ?fc v 0]) v = Val (st, ty)"
      "holds C (cl_trace s) con (tg_path t) ?fc (st, ty)"
    unfolding answers_def holds_def by (metis surj_pair)
  let ?x = "refreshed d (st, ty)"
  let ?m = "update_path p ?x (cn_model c)"
  let ?h = "cl_trace s @ [EReadObject con (tg_path t) ?fc v 0, EValueDelete v]"
  let ?s1 = "s\<lparr>cl_trace := ?h, cl_connections := dset (tg_key t) (c\<lparr>cn_model := ?m\<rparr>) (cl_connections s)\<rparr>"
  let ?s2 = "?s1\<lparr>cl_trace := ?h @ [EReadCb key ?x]\<rparr>"
  have leaf: "leaf_dict fc d" using d(3) by (simp add: plain_leaf_def)
  have mt: "truthy (cn_model c)"
    using parseRef_path [OF d(1,2)] d(2) by (cases "cn_model c"; cases p) auto
  have "update_conn_model n C (tg_key t) con (tg_path t) s = (Val 0, ?s1)"
    using leaf_refresh [OF d(1,2) leaf v(1,2), of n] c
    by (simp add: update_conn_model_def bnd_def andthen_def get_conn_def dget_def on_trace_def upd_conn_run)
  moreover have "conn_value (tg_key t) (tg_path t) ?s1 = (Val (?x, p), ?s1)"
    using parseRef_replaced [OF d(1,2)] by (simp add: conn_value_eq update_conv')
  moreover have "get_conn (tg_key t) s = (Val c, s)"
    using c by (simp add: get_conn_def dget_def)
  moreover have "tell_read key ?x ?s1 = (Val (), ?s2)"
    using assms(2) by (simp add: tell_read_run)
  ultimately have "poll_key n C key s = (Val (), ?s2)"
    using getIED_connected [OF t c mt, of n C] t c mt
    by (simp add: poll_key_def)
  moreover have "answered C key ?x"
    unfolding answered_def using t v(3) refreshed_fields [of d "(st, ty)"] by fastforce
  moreover have "watched C ?s2 k" if k: "watched C s k" for k
  proof -
    from k obtain t' c' con' d' p' fc' where k: "parse_target k = Val (Some t')"
      "map_of (cl_connections s) (tg_key t') = Some c'" "usable c' = Some con'"
      "parseRef (cn_model c') (tg_path t') = Val (PDict d', p')" "p' \<noteq> []" "plain_leaf fc' d'"
      "answers C con' (tg_path t') (c_fcFromString C fc')"
      by (auto simp: watched_def)
    show ?thesis
    proof (cases "tg_key t' = tg_key t")
      case False
      with k show ?thesis unfolding watched_def by (fastforce simp: update_conv')
    next
      case True
      with k(2) c have "c' = c" by simp
      have "lookup_path (cn_model c) p = Some (PDict d)" "lookup_path (cn_model c) p' = Some (PDict d')"
        using parseRef_path [OF d(1,2)] parseRef_path [OF k(4,5)] \<open>c' = c\<close> by simp_all
      from leaf_stays [OF this(1) d(3) this(2) k(6), of "(st, ty)"] obtain e where
        e: "lookup_path ?m p' = Some (PDict e)" "plain_leaf fc' e" by blast
      have "parseRef ?m (tg_path t') = Val (PDict e, p')"
        by (rule parseRef_at [OF k(4,5) e(1)])
      moreover have "usable (c\<lparr>cn_model := ?m\<rparr>) = Some con'"
        using k(3) \<open>c' = c\<close> by (simp add: usable_def)
      moreover have "map_of (cl_connections ?s2) (tg_key t') = Some (c\<lparr>cn_model := ?m\<rparr>)"
        using True by (simp add: update_conv')
      ultimately show ?thesis
        unfolding watched_def using k(1,5,7) e(2) by (intro exI conjI) (assumption | simp)+
    qed
  qed
  ultimately show ?thesis
    using assms(2) by (intro exI [of _ ?s2] exI [of _ ?x]) auto
qed

section \<open>A round\<close>

lemma poll_keys_leaves:
  assumes "\<forall>key \<in> set keys. watched C s key" and "cl_readcb s"
  shows "\<exists>s' vs. for_each keys (poll_key n C) s = (Val (), s') \<and>
    told_values (cl_trace s') = told_values (cl_trace s) @ zip keys vs \<and> list_all2 (answered C) keys vs"
  using assms
proof (induction keys arbitrary: s)
  case Nil
  then show ?case by auto
next
  case (Cons key keys)
  from poll_key_leaf [of C s key n] Cons.prems obtain s1 v where s1: "poll_key n C key s = (Val (), s1)"
      "answered C key v" "cl_readcb s1" "told_values (cl_trace s1) = told_values (cl_trace s) @ [(key, v)]"
      "\<forall>k. watched C s k \<longrightarrow> watched C s1 k" by auto
  with Cons.prems have "\<forall>key \<in> set keys. watched C s1 key" by simp
  from Cons.IH [OF this s1(3)] obtain s' vs where "for_each keys (poll_key n C) s1 = (Val (), s')"
      "told_values (cl_trace s') = told_values (cl_trace s1) @ zip keys vs" "list_all2 (answered C) keys vs"
    by blast
  with s1 show ?case
    by (intro exI [of _ s'] exI [of _ "v # vs"]) simp
qed

text \<open>
  C10 A round of polling tells every registered reference to the read callback, once each and in
  the order of registration, with the value and the type the device answered to a read of that
  reference, if each of them is a leaf of a connected device that answers.
\<close>
theorem poll_tells_all:
  assumes "\<forall>key \<in> set (map fst (cl_polling s)). watched C s key" and "cl_readcb s"
  shows "\<exists>s' vs. poll n C s = (Val (), s') \<and> list_all2 (answered C) (map fst (cl_polling s)) vs \<and>
           told_values (cl_trace s') = told_values (cl_trace s) @ zip (map fst (cl_polling s)) vs"
proof -
  from poll_keys_leaves [OF assms, of n] obtain s' vs where
    "for_each (map fst (cl_polling s)) (poll_key n C) s = (Val (), s')"
    "told_values (cl_trace s') = told_values (cl_trace s) @ zip (map fst (cl_polling s)) vs"
    "list_all2 (answered C) (map fst (cl_polling s)) vs" by blast
  then show ?thesis
    by (intro exI [of _ s'] exI [of _ vs]) (simp add: poll_def bnd_def)
qed

lemma demo_printed: "printValue demo_lib h 9 = Val (''7'', ''integer'')"
proof -
  have "c_typeString demo_lib h 9 = ''integer''" by (simp add: demo_lib_def)
  moreover have "decode_utf8 ''integer'' = Val ''integer''" by code_simp
  moreover have "int_str 7 = ''7''" by code_simp
  ultimately show ?thesis by (simp add: printValue_def)
qed

lemma poll_tells_all_witness:
  "\<exists>s' v. poll 5 demo_lib ((init_client True True True)
      \<lparr>cl_polling := [(''iec61850://h/LD/LN.Pos.stVal'', 1)],
       cl_connections := [(''h:102'', \<lparr>cn_con = Some 2, cn_model = demo_model, cn_control = None\<rparr>)]\<rparr>) =
     (Val (), s') \<and> told_values (cl_trace s') = [(''iec61850://h/LD/LN.Pos.stVal'', v)]"
proof -
  let ?key = "''iec61850://h/LD/LN.Pos.stVal''"
  let ?st = "(init_client True True True) \<lparr>cl_polling := [(?key, 1)],
    cl_connections := [(''h:102'', \<lparr>cn_con = Some 2, cn_model = demo_model, cn_control = None\<rparr>)]\<rparr>"
  let ?t = "\<lparr>tg_host = ''h'', tg_port = PNum 102, tg_path = ''LD/LN.Pos.stVal''\<rparr>"
  let ?d = "[(''reftype'', PStr ''DA''), (''FC'', PStr ''ST''), (''value'', PStr ''7''), (''type'', PStr ''integer'')]"
  have t: "parse_target ?key = Val (Some ?t)" by code_simp
  have key: "tg_key ?t = ''h:102''" by code_simp
  have leaf: "parseRef demo_model ''LD/LN.Pos.stVal'' = Val (PDict ?d, [''LD'', ''LN'', ''Pos'', ''stVal''])"
    using demo_parse(1) by (simp add: demo_leaf_def)
  have plain: "plain_leaf ''ST'' ?d" by (simp add: plain_leaf_def leaf_dict_def)
  have "c_readObject demo_lib h 2 ''LD/LN.Pos.stVal'' 0 = (9, 0)" for h
    by (simp add: demo_lib_def)
  then have answers: "answers demo_lib 2 (tg_path ?t) (c_fcFromString demo_lib ''ST'')"
    by (simp add: answers_def holds_def demo_printed)
  have "watched demo_lib ?st ?key"
    unfolding watched_def using t key leaf plain answers
    by (intro exI [of _ ?t] exI [of _ "\<lparr>cn_con = Some 2, cn_model = demo_model, cn_control = None\<rparr>"]
        exI [of _ 2] exI [of _ ?d] exI [of _ "[''LD'', ''LN'', ''Pos'', ''stVal'']"] exI [of _ "''ST''"])
      (simp add: usable_def)
  then have "\<forall>key \<in> set (map fst (cl_polling ?st)). watched demo_lib ?st key" by simp
  moreover have "cl_readcb ?st" by (simp add: init_client_def)
  ultimately obtain s' vs where "poll 5 demo_lib ?st = (Val (), s')"
      "list_all2 (answered demo_lib) (map fst (cl_polling ?st)) vs"
      "told_values (cl_trace s') = told_values (cl_trace ?st) @ zip (map fst (cl_polling ?st)) vs"
    using poll_tells_all [of ?st demo_lib 5] by blast
  then show ?thesis
    by (cases vs) (auto simp: init_client_def)
qed

end
