(* ===== verification/Lib_Syntax.thy ===== *)
theory Lib_Syntax
  imports Py_Prelude
begin

text \<open>
  The generated part of \<^verbatim>\<open>tools/python_client/lib61850.py\<close>, from line 821 on, is a long list of
  statements of a few forms. This theory has those forms as a datatype, and the meaning of a
  statement as Python and ctypes give it: what it binds in the module's namespace, and when it
  raises. The statements themselves are in the theories \<open>Lib_Table_1\<close> to \<open>Lib_Table_4\<close>.
\<close>

unbundle bit_operations_syntax

section \<open>Forms of statements\<close>

text \<open>
  The simple types of ctypes, and \<open>String\<close>, the class the preamble of the module defines. The
  module never rebinds these names.
\<close>

datatype prim =
    c_bool | c_ubyte | c_uint | c_int | c_int8 | c_int16 | c_int32 | c_int64
  | c_uint8 | c_uint16 | c_uint32 | c_uint64 | c_float | c_double
  | c_char_p | c_void_p | String

text \<open>
  Expressions for types: \<open>Ptr\<close> is \<open>POINTER(t)\<close>, \<open>Arr\<close> is \<open>t * int(n)\<close>, \<open>Fn\<close> is
  \<open>CFUNCTYPE(r, \<dots>)\<close>, \<open>Unch\<close> is \<open>UNCHECKED(t)\<close>.
\<close>

datatype texpr =
    Prim prim | Name string | NoneT | Ptr texpr | Arr texpr nat | Unch texpr
  | Fn texpr "texpr list"

datatype cexpr =
    Num int | Ref string | Neg cexpr | Add cexpr cexpr | Shl cexpr cexpr | Or cexpr cexpr

text \<open>
  \<open>Bind f ts r\<close> is the block \<open>if has(f): f = get(f); f.argtypes = ts; f.restype = r\<close>;
  \<open>BindStr\<close> sets the result to \<open>String\<close> with \<open>ReturnString\<close> as \<open>errcheck\<close> (or \<open>ReturnString\<close>
  itself as the result when an \<open>int\<close> is as wide as a pointer); \<open>BindCast\<close> has the \<open>errcheck\<close>
  that casts the result to \<open>c_void_p\<close>; \<open>BindAny\<close> is the loop over all libraries, which leaves
  \<open>_lib\<close> bound. \<open>TryConst\<close> is a constant in a \<open>try: \<dots> except: pass\<close>.
\<close>

datatype stmt =
    Const string cexpr
  | TryConst string cexpr
  | Alias string texpr
  | StructDef string
  | UnionDef string
  | Slots string "string list"
  | Fields string "(string \<times> texpr) list"
  | Bind string "texpr list" texpr
  | BindStr string "texpr list"
  | BindCast string "texpr list" texpr
  | BindAny string "texpr list" texpr

section \<open>Values and the module\<close>

datatype cty =
    CPrim prim | CStruct string | CUnion string | CNone | CPtr cty | CArr cty nat
  | CFun cty "cty list"

datatype fres = RType cty | RString | RReturnString | RCast cty

datatype gval = GInt int | GType cty | GFun "cty list" fres | GLib

text \<open>
  The namespace, last binding first, and the classes whose layout is still open: ctypes
  refuses to set \<open>_fields_\<close> a second time, or after the class has been used as the type of a
  field.
\<close>

record lmod =
  gnames :: "(string \<times> gval) list"
  gopen :: "string list"

text \<open>The C library and the platform: the symbols it has, and whether \<open>int\<close> is as wide as a pointer.\<close>

record lenv =
  sym :: "string \<Rightarrow> bool"
  int_is_ptr :: bool

definition bind_name :: "string \<Rightarrow> gval \<Rightarrow> (lmod, unit) prog" where
  "bind_name n v = modify (\<lambda>m. m\<lparr>gnames := (n, v) # gnames m\<rparr>)"

section \<open>Types and constants\<close>

text \<open>\<open>UNCHECKED\<close> (lines 403-407): simple types other than \<open>c_void_p\<close> are kept.\<close>

fun UNCHECKED :: "cty \<Rightarrow> cty" where
  "UNCHECKED (CPrim p) = (if p = String then CPrim c_void_p else CPrim p)"
| "UNCHECKED _ = CPrim c_void_p"

fun pointer_to :: "cty \<Rightarrow> cty" where
  "pointer_to CNone = CPrim c_void_p"
| "pointer_to t = CPtr t"

text \<open>A type that can be an argument, a field or the element of an array: not \<open>None\<close>.\<close>

definition c_type :: "cty \<Rightarrow> cty result" where
  "c_type t = (if t = CNone then Exn TypeError else Val t)"

fun all_results :: "'a result list \<Rightarrow> 'a list result" where
  "all_results [] = Val []"
| "all_results (r # rs) = rbind r (\<lambda>x. rbind (all_results rs) (\<lambda>xs. Val (x # xs)))"

fun teval :: "(string \<times> gval) list \<Rightarrow> texpr \<Rightarrow> cty result" where
  "teval g (Prim p) = Val (CPrim p)"
| "teval g (Name n) = (case map_of g n of
     None \<Rightarrow> Exn NameError
   | Some v \<Rightarrow> (case v of GType t \<Rightarrow> Val t | _ \<Rightarrow> Exn TypeError))"
| "teval g NoneT = Val CNone"
| "teval g (Ptr e) = rbind (teval g e) (\<lambda>t. Val (pointer_to t))"
| "teval g (Arr e n) = rbind (rbind (teval g e) c_type) (\<lambda>t. Val (CArr t n))"
| "teval g (Unch e) = rbind (teval g e) (\<lambda>t. Val (UNCHECKED t))"
| "teval g (Fn e es) = rbind (teval g e) (\<lambda>r.
     rbind (all_results (map (\<lambda>e. rbind (teval g e) c_type) es)) (\<lambda>ts. Val (CFun r ts)))"

definition targs :: "(string \<times> gval) list \<Rightarrow> texpr list \<Rightarrow> cty list result" where
  "targs g es = all_results (map (\<lambda>e. rbind (teval g e) c_type) es)"

fun ceval :: "(string \<times> gval) list \<Rightarrow> cexpr \<Rightarrow> int result" where
  "ceval g (Num i) = Val i"
| "ceval g (Ref n) = (case map_of g n of
     None \<Rightarrow> Exn NameError
   | Some v \<Rightarrow> (case v of GInt i \<Rightarrow> Val i | _ \<Rightarrow> Exn TypeError))"
| "ceval g (Neg e) = rbind (ceval g e) (\<lambda>i. Val (- i))"
| "ceval g (Add a b) = rbind (ceval g a) (\<lambda>i. rbind (ceval g b) (\<lambda>j. Val (i + j)))"
| "ceval g (Shl a b) = rbind (ceval g a) (\<lambda>i. rbind (ceval g b) (\<lambda>j.
     if j < 0 then Exn ValueError else Val (push_bit (nat j) i)))"
| "ceval g (Or a b) = rbind (ceval g a) (\<lambda>i. rbind (ceval g b) (\<lambda>j. Val (i OR j)))"

section \<open>Statements\<close>

text \<open>The value of a name on the right of an assignment can be any object.\<close>

definition aeval :: "(string \<times> gval) list \<Rightarrow> texpr \<Rightarrow> gval result" where
  "aeval g e = (case e of
     Name n \<Rightarrow> (case map_of g n of None \<Rightarrow> Exn NameError | Some v \<Rightarrow> Val v)
   | _ \<Rightarrow> rbind (teval g e) (\<lambda>t. Val (GType t)))"

fun class_of :: "cty \<Rightarrow> string option" where
  "class_of (CStruct c) = Some c"
| "class_of (CUnion c) = Some c"
| "class_of _ = None"

definition object_of :: "lmod \<Rightarrow> string \<Rightarrow> gval result" where
  "object_of m n = aeval (gnames m) (Name n)"

text \<open>Setting an attribute: an integer has none that can be set.\<close>

definition set_attr :: "string \<Rightarrow> (lmod, gval) prog" where
  "set_attr n m = (case object_of m n of
     Val v \<Rightarrow> (case v of GInt _ \<Rightarrow> (Exn AttributeError, m) | _ \<Rightarrow> (Val v, m))
   | Exn e \<Rightarrow> (Exn e, m) | NoReturn \<Rightarrow> (NoReturn, m))"

text \<open>
  \<open>_fields_\<close> of a structure or union fixes its layout and that of the classes of its fields;
  on any other object it is an attribute like others.
\<close>

definition fix_layout :: "gval \<Rightarrow> cty list \<Rightarrow> (lmod, unit) prog" where
  "fix_layout v ts m = (case v of
     GType t \<Rightarrow> (case class_of t of
         Some c \<Rightarrow>
           if c \<notin> set (gopen m) then (Exn AttributeError, m)
           else if CNone \<in> set ts then (Exn TypeError, m)
           else (Val (), m\<lparr>gopen := filter (\<lambda>d. d \<noteq> c \<and> Some d \<notin> set (map class_of ts)) (gopen m)\<rparr>)
       | None \<Rightarrow> (Val (), m))
   | _ \<Rightarrow> (Val (), m))"

definition set_fields :: "string \<Rightarrow> (string \<times> texpr) list \<Rightarrow> (lmod, unit) prog" where
  "set_fields n fs = bnd (\<lambda>m. (all_results (map (\<lambda>(_, e). teval (gnames m) e) fs), m))
     (\<lambda>ts. bnd (set_attr n) (\<lambda>v. fix_layout v ts))"

definition bind_fun :: "lenv \<Rightarrow> string \<Rightarrow> texpr list \<Rightarrow> texpr \<Rightarrow> (cty \<Rightarrow> fres) \<Rightarrow> (lmod, unit) prog" where
  "bind_fun E f es r k = (if sym E f
     then bnd (\<lambda>m. (targs (gnames m) es, m)) (\<lambda>ts.
          bnd (\<lambda>m. (teval (gnames m) r, m)) (\<lambda>t. bind_name f (GFun ts (k t))))
     else ret ())"

definition string_result :: "bool \<Rightarrow> fres" where
  "string_result p = (if p then RReturnString else RString)"

fun exec :: "lenv \<Rightarrow> stmt \<Rightarrow> (lmod, unit) prog" where
  "exec E (Const n e) = bnd (\<lambda>m. (ceval (gnames m) e, m)) (\<lambda>i. bind_name n (GInt i))"
| "exec E (TryConst n e) = (\<lambda>m. case ceval (gnames m) e of
     Val i \<Rightarrow> bind_name n (GInt i) m | _ \<Rightarrow> (Val (), m))"
| "exec E (Alias n e) = bnd (\<lambda>m. (aeval (gnames m) e, m)) (bind_name n)"
| "exec E (StructDef n) = bnd (bind_name n (GType (CStruct n)))
     (\<lambda>_. modify (\<lambda>m. m\<lparr>gopen := List.insert n (gopen m)\<rparr>))"
| "exec E (UnionDef n) = bnd (bind_name n (GType (CUnion n)))
     (\<lambda>_. modify (\<lambda>m. m\<lparr>gopen := List.insert n (gopen m)\<rparr>))"
| "exec E (Slots n xs) = bnd (set_attr n) (\<lambda>_. ret ())"
| "exec E (Fields n fs) = set_fields n fs"
| "exec E (Bind f es r) = bind_fun E f es r RType"
| "exec E (BindStr f es) = bind_fun E f es (Prim String) (\<lambda>_. string_result (int_is_ptr E))"
| "exec E (BindCast f es r) = bind_fun E f es r RCast"
| "exec E (BindAny f es r) = bnd (bind_name ''_lib'' GLib) (\<lambda>_. bind_fun E f es r RType)"

fun exec_all :: "lenv \<Rightarrow> stmt list \<Rightarrow> (lmod, unit) prog" where
  "exec_all E [] = ret ()"
| "exec_all E (s # ss) = bnd (exec E s) (\<lambda>_. exec_all E ss)"

end
