(* ===== verification/Lib_Check.thy ===== *)
theory Lib_Check
  imports Lib_Syntax
begin

text \<open>
  A static check of the generated statements, in the manner of a definite assignment analysis.
  It runs against a table of all names of the module: the position at which a name is first
  bound, and what it is bound to, a type, an integer, or a function with so many arguments.
  The state of the check is the position reached and the positions of the classes whose layout
  is open. If the check succeeds, then the import ends normally whatever symbols the library
  has, and the namespace it leaves is the one of the table.
\<close>

datatype entry = ET cty | EI int | EF nat

type_synonym table = "string \<Rightarrow> (nat \<times> entry) option"

section \<open>The check\<close>

definition bound :: "table \<Rightarrow> nat \<Rightarrow> string \<Rightarrow> entry option" where
  "bound tab c n = (case tab n of None \<Rightarrow> None | Some (i, e) \<Rightarrow> if i < c then Some e else None)"

definition type_at :: "table \<Rightarrow> nat \<Rightarrow> string \<Rightarrow> cty option" where
  "type_at tab c n = (case bound tab c n of
     Some e \<Rightarrow> (case e of ET t \<Rightarrow> Some t | _ \<Rightarrow> None) | None \<Rightarrow> None)"

definition int_at :: "table \<Rightarrow> nat \<Rightarrow> string \<Rightarrow> int option" where
  "int_at tab c n = (case bound tab c n of
     Some e \<Rightarrow> (case e of EI i \<Rightarrow> Some i | _ \<Rightarrow> None) | None \<Rightarrow> None)"

text \<open>A name is bound at its position; it may be bound again to the same.\<close>

definition assign :: "table \<Rightarrow> nat \<Rightarrow> string \<Rightarrow> entry \<Rightarrow> nat option" where
  "assign tab c n e = (case tab n of None \<Rightarrow> None | Some (i, e') \<Rightarrow>
     if e' = e \<and> i \<le> c then Some (if i = c then c + 1 else c) else None)"

fun args_chk :: "(texpr \<Rightarrow> cty option) \<Rightarrow> texpr list \<Rightarrow> cty list option" where
  "args_chk f [] = Some []"
| "args_chk f (e # es) = (case f e of
     None \<Rightarrow> None
   | Some t \<Rightarrow> if t = CNone then None
       else (case args_chk f es of None \<Rightarrow> None | Some ts \<Rightarrow> Some (t # ts)))"

lemma args_chk_cong [fundef_cong]:
  "es = es' \<Longrightarrow> (\<And>e. e \<in> set es' \<Longrightarrow> f e = f' e) \<Longrightarrow> args_chk f es = args_chk f' es'"
  by (induction es arbitrary: es') (auto split: option.split)

fun tchk :: "(string \<Rightarrow> cty option) \<Rightarrow> texpr \<Rightarrow> cty option" where
  "tchk ty (Prim p) = Some (CPrim p)"
| "tchk ty (Name n) = ty n"
| "tchk ty NoneT = Some CNone"
| "tchk ty (Ptr e) = (case tchk ty e of None \<Rightarrow> None | Some t \<Rightarrow> Some (pointer_to t))"
| "tchk ty (Arr e n) = (case tchk ty e of None \<Rightarrow> None
     | Some t \<Rightarrow> if t = CNone then None else Some (CArr t n))"
| "tchk ty (Unch e) = (case tchk ty e of None \<Rightarrow> None | Some t \<Rightarrow> Some (UNCHECKED t))"
| "tchk ty (Fn e es) = (case tchk ty e of None \<Rightarrow> None
     | Some r \<Rightarrow> (case args_chk (tchk ty) es of None \<Rightarrow> None | Some as \<Rightarrow> Some (CFun r as)))"

fun cchk :: "(string \<Rightarrow> int option) \<Rightarrow> cexpr \<Rightarrow> int option" where
  "cchk iv (Num i) = Some i"
| "cchk iv (Ref n) = iv n"
| "cchk iv (Neg e) = (case cchk iv e of None \<Rightarrow> None | Some i \<Rightarrow> Some (- i))"
| "cchk iv (Add a b) = (case cchk iv a of None \<Rightarrow> None
     | Some i \<Rightarrow> (case cchk iv b of None \<Rightarrow> None | Some j \<Rightarrow> Some (i + j)))"
| "cchk iv (Shl a b) = (case cchk iv a of None \<Rightarrow> None
     | Some i \<Rightarrow> (case cchk iv b of None \<Rightarrow> None
         | Some j \<Rightarrow> if j < 0 then None else Some (push_bit (nat j) i)))"
| "cchk iv (Or a b) = (case cchk iv a of None \<Rightarrow> None
     | Some i \<Rightarrow> (case cchk iv b of None \<Rightarrow> None | Some j \<Rightarrow> Some (i OR j)))"

definition fun_chk :: "table \<Rightarrow> nat \<Rightarrow> string \<Rightarrow> texpr list \<Rightarrow> texpr \<Rightarrow> nat option" where
  "fun_chk tab c f es r = (case args_chk (tchk (type_at tab c)) es of None \<Rightarrow> None
     | Some as \<Rightarrow> (case tchk (type_at tab c) r of None \<Rightarrow> None
         | Some t \<Rightarrow> assign tab c f (EF (length as))))"

definition int_chk :: "table \<Rightarrow> nat \<Rightarrow> string \<Rightarrow> cexpr \<Rightarrow> nat option" where
  "int_chk tab c n e = (case cchk (int_at tab c) e of None \<Rightarrow> None | Some i \<Rightarrow> assign tab c n (EI i))"

definition type_chk :: "table \<Rightarrow> nat \<Rightarrow> string \<Rightarrow> texpr \<Rightarrow> nat option" where
  "type_chk tab c n e = (case tchk (type_at tab c) e of None \<Rightarrow> None | Some t \<Rightarrow> assign tab c n (ET t))"

text \<open>The positions of the classes among some types; every class must be in the table.\<close>

fun class_positions :: "table \<Rightarrow> cty list \<Rightarrow> nat list option" where
  "class_positions tab [] = Some []"
| "class_positions tab (t # ts) = (case class_of t of
     None \<Rightarrow> class_positions tab ts
   | Some d \<Rightarrow> (case tab d of None \<Rightarrow> None
       | Some (i, _) \<Rightarrow> (case class_positions tab ts of None \<Rightarrow> None | Some is \<Rightarrow> Some (i # is))))"

definition fields_chk :: "table \<Rightarrow> nat \<Rightarrow> nat list \<Rightarrow> string \<Rightarrow> texpr list \<Rightarrow> nat list option" where
  "fields_chk tab c os n es = (case type_at tab c n of None \<Rightarrow> None
     | Some t \<Rightarrow> (case class_positions tab [t] of None \<Rightarrow> None
         | Some is \<Rightarrow> if is \<noteq> [] \<and> list_all (\<lambda>i. i \<in> set os) is
             then (case args_chk (tchk (type_at tab c)) es of None \<Rightarrow> None
               | Some as \<Rightarrow> (case class_positions tab as of None \<Rightarrow> None
                   | Some js \<Rightarrow> Some (filter (\<lambda>j. j \<notin> set (is @ js)) os)))
             else None))"

definition keep_open :: "nat list \<Rightarrow> nat option \<Rightarrow> (nat \<times> nat list) option" where
  "keep_open os r = (case r of None \<Rightarrow> None | Some c \<Rightarrow> Some (c, os))"

fun chk :: "table \<Rightarrow> nat \<times> nat list \<Rightarrow> stmt \<Rightarrow> (nat \<times> nat list) option" where
  "chk tab (c, os) (Const n e) = keep_open os (int_chk tab c n e)"
| "chk tab (c, os) (TryConst n e) = keep_open os (int_chk tab c n e)"
| "chk tab (c, os) (Alias n e) = keep_open os (type_chk tab c n e)"
| "chk tab (c, os) (StructDef n) =
     (if bound tab c n = None then keep_open (c # os) (assign tab c n (ET (CStruct n))) else None)"
| "chk tab (c, os) (UnionDef n) =
     (if bound tab c n = None then keep_open (c # os) (assign tab c n (ET (CUnion n))) else None)"
| "chk tab (c, os) (Slots n xs) = (case type_at tab c n of None \<Rightarrow> None | Some _ \<Rightarrow> Some (c, os))"
| "chk tab (c, os) (Fields n fs) =
     (case fields_chk tab c os n (map snd fs) of None \<Rightarrow> None | Some os' \<Rightarrow> Some (c, os'))"
| "chk tab (c, os) (Bind f es r) = keep_open os (fun_chk tab c f es r)"
| "chk tab (c, os) (BindStr f es) = keep_open os (fun_chk tab c f es (Prim String))"
| "chk tab (c, os) (BindCast f es r) = keep_open os (fun_chk tab c f es r)"
| "chk tab (c, os) (BindAny f es r) = keep_open os (fun_chk tab c f es r)"

fun chk_all :: "table \<Rightarrow> nat \<times> nat list \<Rightarrow> stmt list \<Rightarrow> (nat \<times> nat list) option" where
  "chk_all tab s [] = Some s"
| "chk_all tab s (x # xs) = (case chk tab s x of None \<Rightarrow> None | Some s' \<Rightarrow> chk_all tab s' xs)"

lemma chk_all_append:
  "chk_all tab s (xs @ ys) = (case chk_all tab s xs of None \<Rightarrow> None | Some s' \<Rightarrow> chk_all tab s' ys)"
  by (induction xs arbitrary: s) (auto split: option.split)

section \<open>Meaning of a table\<close>

text \<open>What an entry says of the namespace; a function is bound exactly if the library has it.\<close>

fun holds :: "lenv \<Rightarrow> lmod \<Rightarrow> string \<Rightarrow> entry \<Rightarrow> bool" where
  "holds E m n (ET t) = (map_of (gnames m) n = Some (GType t))"
| "holds E m n (EI i) = (map_of (gnames m) n = Some (GInt i))"
| "holds E m n (EF k) = (if sym E n
     then \<exists>as r. map_of (gnames m) n = Some (GFun as r) \<and> length as = k
     else map_of (gnames m) n = None)"

definition agrees :: "table \<Rightarrow> lenv \<Rightarrow> nat \<Rightarrow> lmod \<Rightarrow> bool" where
  "agrees tab E c m \<longleftrightarrow> (\<forall>n. n \<noteq> ''_lib'' \<longrightarrow> (case bound tab c n of
     Some e \<Rightarrow> holds E m n e | None \<Rightarrow> map_of (gnames m) n = None))"

definition open_ok :: "table \<Rightarrow> nat list \<Rightarrow> lmod \<Rightarrow> bool" where
  "open_ok tab os m \<longleftrightarrow> (\<forall>n i e. tab n = Some (i, e) \<longrightarrow> i \<in> set os \<longrightarrow> n \<in> set (gopen m))"

lemma agreesD: "agrees tab E c m \<Longrightarrow> bound tab c n = Some e \<Longrightarrow> n \<noteq> ''_lib'' \<Longrightarrow> holds E m n e"
  by (auto simp: agrees_def dest!: spec [of _ n])

section \<open>A checked list runs\<close>

lemma holds_cong: "map_of (gnames m') n = map_of (gnames m) n \<Longrightarrow> holds E m' n e = holds E m n e"
  by (cases e) auto

lemma args_sound:
  assumes "args_chk f es = Some ts" and "\<And>e t. e \<in> set es \<Longrightarrow> f e = Some t \<Longrightarrow> g e = Val t"
  shows "all_results (map (\<lambda>e. rbind (g e) c_type) es) = Val ts"
    and "all_results (map g es) = Val ts" and "CNone \<notin> set ts"
  using assms by (induction es arbitrary: ts) (auto simp: c_type_def split: option.splits if_splits)

lemma tchk_sound:
  assumes "\<And>n t. ty n = Some t \<Longrightarrow> map_of g n = Some (GType t)"
  shows "tchk ty e = Some t \<Longrightarrow> teval g e = Val t"
proof (induction e arbitrary: t)
  case (Fn e es)
  from Fn.prems obtain r ts where "tchk ty e = Some r" "args_chk (tchk ty) es = Some ts" "t = CFun r ts"
    by (auto split: option.splits)
  with Fn.IH args_sound(1) [of "tchk ty" es ts "teval g"] show ?case by simp
qed (auto simp: assms c_type_def split: option.splits if_splits)

lemma cchk_sound:
  assumes "\<And>n i. iv n = Some i \<Longrightarrow> map_of g n = Some (GInt i)"
  shows "cchk iv e = Some i \<Longrightarrow> ceval g e = Val i"
  by (induction e arbitrary: i) (auto simp: assms split: option.splits if_splits)

lemma aeval_sound:
  assumes "\<And>n t. ty n = Some t \<Longrightarrow> map_of g n = Some (GType t)"
  shows "tchk ty e = Some t \<Longrightarrow> aeval g e = Val (GType t)"
  using assms tchk_sound [OF assms, of ty e t] by (cases e) (auto simp: aeval_def simp del: tchk.simps(3-) teval.simps(3-))

text \<open>
  The table as an interface: every position belongs to one name, and \<open>_lib\<close>, the variable of
  the generated loops, is not in it.
\<close>

locale name_table =
  fixes tab :: table
  assumes one_name: "tab n = Some (i, e) \<Longrightarrow> tab n' = Some (i, e') \<Longrightarrow> n = n'"
    and no_lib: "tab ''_lib'' = None"
begin

lemma bound_not_lib: "bound tab c n = Some e \<Longrightarrow> n \<noteq> ''_lib''"
  using no_lib by (auto simp: bound_def)

lemma type_at_bound:
  assumes "agrees tab E c m" and "type_at tab c n = Some t"
  shows "map_of (gnames m) n = Some (GType t)"
proof -
  from assms(2) have "bound tab c n = Some (ET t)"
    by (auto simp: type_at_def split: option.splits entry.splits)
  with agreesD [OF assms(1) this bound_not_lib] show ?thesis by simp
qed

lemma int_at_bound:
  assumes "agrees tab E c m" and "int_at tab c n = Some i"
  shows "map_of (gnames m) n = Some (GInt i)"
proof -
  from assms(2) have "bound tab c n = Some (EI i)"
    by (auto simp: int_at_def split: option.splits entry.splits)
  with agreesD [OF assms(1) this bound_not_lib] show ?thesis by simp
qed

text \<open>Binding a name at its position, or not binding a function that the library lacks.\<close>

lemma agrees_step:
  assumes "agrees tab E c m" and "assign tab c n e = Some c'" and "holds E m' n e"
    and "\<And>k. k \<noteq> n \<Longrightarrow> k \<noteq> ''_lib'' \<Longrightarrow> map_of (gnames m') k = map_of (gnames m) k"
  shows "agrees tab E c' m'"
proof -
  from assms(2) obtain i where i: "tab n = Some (i, e)" "i \<le> c" "c' = (if i = c then c + 1 else c)"
    by (auto simp: assign_def split: option.splits if_splits)
  have n: "bound tab c' n = Some e"
    using i by (auto simp: bound_def)
  have other: "bound tab c' k = bound tab c k" if "k \<noteq> n" for k
    using i that one_name by (fastforce simp: bound_def split: option.splits)
  show ?thesis
    unfolding agrees_def
  proof (intro allI impI)
    fix k :: string
    assume k: "k \<noteq> ''_lib''"
    show "case bound tab c' k of None \<Rightarrow> map_of (gnames m') k = None | Some e \<Rightarrow> holds E m' k e"
    proof (cases "k = n")
      case True
      with n assms(3) show ?thesis by simp
    next
      case False
      have "case bound tab c k of None \<Rightarrow> map_of (gnames m) k = None | Some e \<Rightarrow> holds E m k e"
        using assms(1) k by (simp add: agrees_def)
      with other [OF False] assms(4) [OF False k] holds_cong [of m' k m E] show ?thesis
        by (auto split: option.splits)
    qed
  qed
qed

lemma agrees_bind:
  assumes "agrees tab E c m" "assign tab c n e = Some c'" "holds E (m\<lparr>gnames := (n, v) # gnames m\<rparr>) n e"
  shows "agrees tab E c' (m\<lparr>gnames := (n, v) # gnames m\<rparr>)"
  by (rule agrees_step [OF assms]) simp

lemma holds_lib: "n \<noteq> ''_lib'' \<Longrightarrow> holds E (m\<lparr>gnames := (''_lib'', v) # gnames m\<rparr>) n e = holds E m n e"
  by (rule holds_cong) simp

lemma agrees_lib: "agrees tab E c m \<Longrightarrow> agrees tab E c (m\<lparr>gnames := (''_lib'', v) # gnames m\<rparr>)"
  unfolding agrees_def
  by (intro allI impI) (drule spec, drule (1) mp, auto split: option.splits simp: holds_lib)

lemma fun_sound:
  assumes "agrees tab E c m" and "fun_chk tab c f es r = Some c'"
  shows "\<exists>m'. bind_fun E f es r k m = (Val (), m') \<and> agrees tab E c' m' \<and> gopen m' = gopen m"
proof -
  from assms(2) obtain as t where as: "args_chk (tchk (type_at tab c)) es = Some as"
    and t: "tchk (type_at tab c) r = Some t" and c': "assign tab c f (EF (length as)) = Some c'"
    by (auto simp: fun_chk_def split: option.splits)
  have ty: "tchk (type_at tab c) e = Some t \<Longrightarrow> teval (gnames m) e = Val t" for e t
    by (rule tchk_sound) (rule type_at_bound [OF assms(1)])
  have as': "targs (gnames m) es = Val as"
    unfolding targs_def by (rule args_sound(1) [OF as]) (rule ty)
  show ?thesis
  proof (cases "sym E f")
    case True
    with as' ty [OF t] agrees_bind [OF assms(1) c'] show ?thesis
      by (simp add: bind_fun_def bnd_def bind_name_def modify_def)
  next
    case False
    from c' obtain i where i: "tab f = Some (i, EF (length as))" "i \<le> c"
      by (auto simp: assign_def split: option.splits if_splits)
    have "map_of (gnames m) f = None"
      using assms(1) i no_lib False
      by (auto simp: agrees_def bound_def dest!: spec [of _ f] split: if_splits)
    with False agrees_step [OF assms(1) c'] show ?thesis
      by (simp add: bind_fun_def ret_def)
  qed
qed

lemma int_sound:
  assumes "agrees tab E c m" and "int_chk tab c n e = Some c'"
  shows "\<exists>i. ceval (gnames m) e = Val i \<and> agrees tab E c' (m\<lparr>gnames := (n, GInt i) # gnames m\<rparr>)"
proof -
  from assms(2) obtain i where i: "cchk (int_at tab c) e = Some i" and c': "assign tab c n (EI i) = Some c'"
    by (auto simp: int_chk_def split: option.splits)
  have "ceval (gnames m) e = Val i"
    by (rule cchk_sound [OF _ i]) (rule int_at_bound [OF assms(1)])
  with agrees_bind [OF assms(1) c'] show ?thesis by simp
qed

lemma type_sound:
  assumes "agrees tab E c m" and "type_chk tab c n e = Some c'"
  shows "\<exists>t. aeval (gnames m) e = Val (GType t) \<and>
           agrees tab E c' (m\<lparr>gnames := (n, GType t) # gnames m\<rparr>)"
proof -
  from assms(2) obtain t where t: "tchk (type_at tab c) e = Some t" and c': "assign tab c n (ET t) = Some c'"
    by (auto simp: type_chk_def split: option.splits)
  have "aeval (gnames m) e = Val (GType t)"
    by (rule aeval_sound [OF _ t]) (rule type_at_bound [OF assms(1)])
  with agrees_bind [OF assms(1) c'] show ?thesis by simp
qed

lemma agrees_gopen: "agrees tab E c (m\<lparr>gopen := os\<rparr>) = agrees tab E c m"
  unfolding agrees_def by (auto simp: holds_cong [of "m\<lparr>gopen := os\<rparr>" _ m] split: option.splits)

lemma class_sound:
  assumes "agrees tab E c m" "open_ok tab os m" "bound tab c n = None" "assign tab c n (ET t) = Some c'"
  shows "agrees tab E c' (m\<lparr>gnames := (n, GType t) # gnames m, gopen := List.insert n (gopen m)\<rparr>)"
    and "open_ok tab (c # os) (m\<lparr>gnames := (n, GType t) # gnames m, gopen := List.insert n (gopen m)\<rparr>)"
proof -
  show "agrees tab E c' (m\<lparr>gnames := (n, GType t) # gnames m, gopen := List.insert n (gopen m)\<rparr>)"
    using agrees_bind [OF assms(1,4), of "GType t"] agrees_gopen by simp
  from assms(3,4) have "tab n = Some (c, ET t)"
    by (auto simp: assign_def bound_def split: option.splits if_splits)
  then show "open_ok tab (c # os) (m\<lparr>gnames := (n, GType t) # gnames m, gopen := List.insert n (gopen m)\<rparr>)"
    using assms(2) one_name by (fastforce simp: open_ok_def)
qed

lemma class_positions_mem:
  "class_positions tab ts = Some is \<Longrightarrow> t \<in> set ts \<Longrightarrow> class_of t = Some d \<Longrightarrow>
     \<exists>i e. tab d = Some (i, e) \<and> i \<in> set is"
  by (induction ts arbitrary: "is") (fastforce split: option.splits prod.splits)+

lemma fields_sound:
  assumes "agrees tab E c m" "open_ok tab os m" "fields_chk tab c os n (map snd fs) = Some os'"
  shows "\<exists>m'. set_fields n fs m = (Val (), m') \<and> agrees tab E c m' \<and> open_ok tab os' m'"
proof -
  from assms(3) obtain t "is" as js where t: "type_at tab c n = Some t"
    and "is": "class_positions tab [t] = Some is" "is \<noteq> []" "\<forall>i\<in>set is. i \<in> set os"
    and as: "args_chk (tchk (type_at tab c)) (map snd fs) = Some as"
    and js: "class_positions tab as = Some js"
    and os': "os' = filter (\<lambda>j. j \<notin> set (is @ js)) os"
    by (auto simp: fields_chk_def list_all_iff split: option.splits if_splits)
  from "is"(1,2) obtain d i e where d: "class_of t = Some d" "tab d = Some (i, e)" "is = [i]"
    by (auto split: option.splits prod.splits)
  with "is"(3) assms(2) have "d \<in> set (gopen m)" by (auto simp: open_ok_def)
  have ty: "tchk (type_at tab c) e = Some t \<Longrightarrow> teval (gnames m) e = Val t" for e t
    by (rule tchk_sound) (rule type_at_bound [OF assms(1)])
  from args_sound(2,3) [OF as ty] have all: "all_results (map (\<lambda>(_, e). teval (gnames m) e) fs) = Val as"
    and none: "CNone \<notin> set as"
    by (simp_all add: comp_def split_def)
  define m' where "m' = m\<lparr>gopen := filter (\<lambda>k. k \<noteq> d \<and> Some k \<notin> set (map class_of as)) (gopen m)\<rparr>"
  have "set_fields n fs m = (Val (), m')"
    using all none d \<open>d \<in> set (gopen m)\<close> type_at_bound [OF assms(1) t]
    by (simp add: set_fields_def bnd_def set_attr_def object_of_def aeval_def fix_layout_def m'_def)
  moreover have "agrees tab E c m'"
    using assms(1) by (simp add: m'_def agrees_gopen)
  moreover have "open_ok tab os' m'"
    unfolding open_ok_def
  proof (intro allI impI)
    fix k j e'
    assume k: "tab k = Some (j, e')" "j \<in> set os'"
    with assms(2) os' have "k \<in> set (gopen m)" by (auto simp: open_ok_def)
    moreover have "k \<noteq> d" using k d os' by auto
    moreover have "class_of a \<noteq> Some k" if "a \<in> set as" for a
      using class_positions_mem [OF js that, of k] k os' by auto
    ultimately show "k \<in> set (gopen m')" unfolding m'_def by fastforce
  qed
  ultimately show ?thesis by blast
qed

lemma chk_sound:
  assumes "agrees tab E c m" "open_ok tab os m" "chk tab (c, os) s = Some (c', os')"
  shows "\<exists>m'. exec E s m = (Val (), m') \<and> agrees tab E c' m' \<and> open_ok tab os' m'"
proof -
  have same_open: "open_ok tab os m'" if "gopen m' = gopen m" for m'
    using assms(2) that by (simp add: open_ok_def)
  have fun_case: "\<exists>m'. bind_fun E f es r k m = (Val (), m') \<and> agrees tab E c' m' \<and> open_ok tab os m'"
    if "fun_chk tab c f es r = Some c'" for f es r k
    using fun_sound [OF assms(1) that, of k] same_open by metis
  show ?thesis
  proof (cases s)
    case (Const n e)
    with assms(3) int_sound [OF assms(1), of n e c'] same_open show ?thesis
      by (auto simp: keep_open_def bnd_def bind_name_def modify_def split: option.splits)
  next
    case (TryConst n e)
    with assms(3) int_sound [OF assms(1), of n e c'] same_open show ?thesis
      by (auto simp: keep_open_def bnd_def bind_name_def modify_def split: option.splits)
  next
    case (Alias n e)
    with assms(3) type_sound [OF assms(1), of n e c'] same_open show ?thesis
      by (auto simp: keep_open_def bnd_def bind_name_def modify_def split: option.splits)
  next
    case (StructDef n)
    with assms(3) class_sound [OF assms(1,2), of n "CStruct n"] show ?thesis
      by (auto simp: keep_open_def bnd_def bind_name_def modify_def split: option.splits if_splits)
  next
    case (UnionDef n)
    with assms(3) class_sound [OF assms(1,2), of n "CUnion n"] show ?thesis
      by (auto simp: keep_open_def bnd_def bind_name_def modify_def split: option.splits if_splits)
  next
    case (Slots n xs)
    with assms type_at_bound [OF assms(1), of n] show ?thesis
      by (auto simp: bnd_def set_attr_def object_of_def aeval_def ret_def split: option.splits)
  next
    case (Fields n fs)
    with assms(3) fields_sound [OF assms(1,2), of n fs] show ?thesis
      by (auto split: option.splits)
  next
    case (BindAny f es r)
    have "open_ok tab os (m\<lparr>gnames := (''_lib'', GLib) # gnames m\<rparr>)"
      using assms(2) by (simp add: open_ok_def)
    with BindAny assms(3) fun_sound [OF agrees_lib [OF assms(1), of GLib], of f es r c' RType]
    show ?thesis
      by (auto simp: keep_open_def bnd_def bind_name_def modify_def open_ok_def split: option.splits)
  qed (use assms(3) in \<open>auto simp: keep_open_def split: option.splits dest: fun_case\<close>)
qed

theorem chk_all_sound:
  "agrees tab E c m \<Longrightarrow> open_ok tab os m \<Longrightarrow> chk_all tab (c, os) ss = Some (c', os') \<Longrightarrow>
     \<exists>m'. exec_all E ss m = (Val (), m') \<and> agrees tab E c' m' \<and> open_ok tab os' m'"
proof (induction ss arbitrary: c os m)
  case (Cons s ss)
  from Cons.prems(3) obtain c1 os1 where "chk tab (c, os) s = Some (c1, os1)"
    and rest: "chk_all tab (c1, os1) ss = Some (c', os')"
    by (auto split: option.splits)
  with chk_sound [OF Cons.prems(1,2)] obtain m1 where "exec E s m = (Val (), m1)"
    and "agrees tab E c1 m1" "open_ok tab os1 m1" by metis
  with Cons.IH [OF _ _ rest, of m1] show ?case by (auto simp: bnd_def)
qed (simp add: ret_def)

end

end
