(* ===== verification/Lib_Table_1.thy ===== *)
theory Lib_Table_1
  imports Lib_Syntax
begin

text \<open>
  The statements of \<^verbatim>\<open>tools/python_client/lib61850.py\<close>, in order: MMS data types and values, linked lists, log storage, common IEC 61850 types, connection parameters.
\<close>

definition mms_common_1 :: "stmt list" where
  "mms_common_1 = [
    Alias ''enum_anon_20'' (Prim c_int),
    Const ''MMS_ERROR_NONE'' (Num 0),
    Const ''MMS_ERROR_CONNECTION_REJECTED'' (Num 1),
    Const ''MMS_ERROR_CONNECTION_LOST'' (Num 2),
    Const ''MMS_ERROR_SERVICE_TIMEOUT'' (Num 3),
    Const ''MMS_ERROR_PARSING_RESPONSE'' (Num 4),
    Const ''MMS_ERROR_HARDWARE_FAULT'' (Num 5),
    Const ''MMS_ERROR_CONCLUDE_REJECTED'' (Num 6),
    Const ''MMS_ERROR_INVALID_ARGUMENTS'' (Num 7),
    Const ''MMS_ERROR_OUTSTANDING_CALL_LIMIT'' (Num 8),
    Const ''MMS_ERROR_OTHER'' (Num 9),
    Const ''MMS_ERROR_VMDSTATE_OTHER'' (Num 10),
    Const ''MMS_ERROR_APPLICATION_REFERENCE_OTHER'' (Num 20),
    Const ''MMS_ERROR_DEFINITION_OTHER'' (Num 30),
    Const ''MMS_ERROR_DEFINITION_INVALID_ADDRESS'' (Num 31),
    Const ''MMS_ERROR_DEFINITION_TYPE_UNSUPPORTED'' (Num 32),
    Const ''MMS_ERROR_DEFINITION_TYPE_INCONSISTENT'' (Num 33),
    Const ''MMS_ERROR_DEFINITION_OBJECT_UNDEFINED'' (Num 34),
    Const ''MMS_ERROR_DEFINITION_OBJECT_EXISTS'' (Num 35),
    Const ''MMS_ERROR_DEFINITION_OBJECT_ATTRIBUTE_INCONSISTENT'' (Num 36),
    Const ''MMS_ERROR_RESOURCE_OTHER'' (Num 40),
    Const ''MMS_ERROR_RESOURCE_CAPABILITY_UNAVAILABLE'' (Num 41),
    Const ''MMS_ERROR_SERVICE_OTHER'' (Num 50),
    Const ''MMS_ERROR_SERVICE_OBJECT_CONSTRAINT_CONFLICT'' (Num 55),
    Const ''MMS_ERROR_SERVICE_PREEMPT_OTHER'' (Num 60),
    Const ''MMS_ERROR_TIME_RESOLUTION_OTHER'' (Num 70),
    Const ''MMS_ERROR_ACCESS_OTHER'' (Num 80),
    Const ''MMS_ERROR_ACCESS_OBJECT_NON_EXISTENT'' (Num 81),
    Const ''MMS_ERROR_ACCESS_OBJECT_ACCESS_UNSUPPORTED'' (Num 82),
    Const ''MMS_ERROR_ACCESS_OBJECT_ACCESS_DENIED'' (Num 83),
    Const ''MMS_ERROR_ACCESS_OBJECT_INVALIDATED'' (Num 84),
    Const ''MMS_ERROR_ACCESS_OBJECT_VALUE_INVALID'' (Num 85),
    Const ''MMS_ERROR_ACCESS_TEMPORARILY_UNAVAILABLE'' (Num 86),
    Const ''MMS_ERROR_FILE_OTHER'' (Num 90),
    Const ''MMS_ERROR_FILE_FILENAME_AMBIGUOUS'' (Num 91),
    Const ''MMS_ERROR_FILE_FILE_BUSY'' (Num 92),
    Const ''MMS_ERROR_FILE_FILENAME_SYNTAX_ERROR'' (Num 93),
    Const ''MMS_ERROR_FILE_CONTENT_TYPE_INVALID'' (Num 94),
    Const ''MMS_ERROR_FILE_POSITION_INVALID'' (Num 95),
    Const ''MMS_ERROR_FILE_FILE_ACCESS_DENIED'' (Num 96),
    Const ''MMS_ERROR_FILE_FILE_NON_EXISTENT'' (Num 97),
    Const ''MMS_ERROR_FILE_DUPLICATE_FILENAME'' (Num 98),
    Const ''MMS_ERROR_FILE_INSUFFICIENT_SPACE_IN_FILESTORE'' (Num 99),
    Const ''MMS_ERROR_REJECT_OTHER'' (Num 100),
    Const ''MMS_ERROR_REJECT_UNKNOWN_PDU_TYPE'' (Num 101),
    Const ''MMS_ERROR_REJECT_INVALID_PDU'' (Num 102),
    Const ''MMS_ERROR_REJECT_UNRECOGNIZED_SERVICE'' (Num 103),
    Const ''MMS_ERROR_REJECT_UNRECOGNIZED_MODIFIER'' (Num 104),
    Const ''MMS_ERROR_REJECT_REQUEST_INVALID_ARGUMENT'' (Num 105),
    Alias ''MmsError'' (Name ''enum_anon_20''),
    Alias ''enum_anon_21'' (Prim c_int),
    Const ''MMS_ARRAY'' (Num 0),
    Const ''MMS_STRUCTURE'' (Num 1),
    Const ''MMS_BOOLEAN'' (Num 2),
    Const ''MMS_BIT_STRING'' (Num 3),
    Const ''MMS_INTEGER'' (Num 4),
    Const ''MMS_UNSIGNED'' (Num 5),
    Const ''MMS_FLOAT'' (Num 6),
    Const ''MMS_OCTET_STRING'' (Num 7),
    Const ''MMS_VISIBLE_STRING'' (Num 8),
    Const ''MMS_GENERALIZED_TIME'' (Num 9),
    Const ''MMS_BINARY_TIME'' (Num 10),
    Const ''MMS_BCD'' (Num 11),
    Const ''MMS_OBJ_ID'' (Num 12),
    Const ''MMS_STRING'' (Num 13),
    Const ''MMS_UTC_TIME'' (Num 14),
    Const ''MMS_DATA_ACCESS_ERROR'' (Num 15),
    Alias ''MmsType'' (Name ''enum_anon_21''),
    StructDef ''struct_sMmsDomain'',
    Alias ''MmsDomain'' (Name ''struct_sMmsDomain''),
    StructDef ''struct_sMmsAccessSpecifier'']"

definition mms_common_2 :: "stmt list" where
  "mms_common_2 = [
    Slots ''struct_sMmsAccessSpecifier'' [''domain'', ''variableName'', ''arrayIndex'',
        ''componentName''],
    Fields ''struct_sMmsAccessSpecifier'' [(''domain'', Ptr (Name ''MmsDomain'')),
        (''variableName'', Prim String), (''arrayIndex'', Prim c_int), (''componentName'', Prim
        String)],
    Alias ''MmsAccessSpecifier'' (Name ''struct_sMmsAccessSpecifier''),
    StructDef ''struct_anon_22'',
    Slots ''struct_anon_22'' [''domainId'', ''itemId'', ''arrayIndex'', ''componentName''],
    Fields ''struct_anon_22'' [(''domainId'', Prim String), (''itemId'', Prim String),
        (''arrayIndex'', Prim c_int32), (''componentName'', Prim String)],
    Alias ''MmsVariableAccessSpecification'' (Name ''struct_anon_22''),
    StructDef ''struct_sMmsNamedVariableList'',
    Alias ''MmsNamedVariableList'' (Ptr (Name ''struct_sMmsNamedVariableList'')),
    Alias ''MmsNamedVariableListEntry'' (Ptr (Name ''struct_sMmsAccessSpecifier'')),
    StructDef ''struct_anon_23'',
    Slots ''struct_anon_23'' [''arc'', ''arcCount''],
    Fields ''struct_anon_23'' [(''arc'', Arr (Prim c_uint16) 10), (''arcCount'', Prim c_int)],
    Alias ''ItuObjectIdentifier'' (Name ''struct_anon_23''),
    StructDef ''struct_anon_24'',
    Slots ''struct_anon_24'' [''apTitle'', ''aeQualifier''],
    Fields ''struct_anon_24'' [(''apTitle'', Name ''ItuObjectIdentifier''), (''aeQualifier'',
        Prim c_int)],
    Alias ''IsoApplicationReference'' (Name ''struct_anon_24'')]"

definition mms_types_1 :: "stmt list" where
  "mms_types_1 = [
    Alias ''enum_anon_25'' (Prim c_int),
    Const ''MMS_VALUE_NO_RESPONSE'' (Num 0),
    Const ''MMS_VALUE_OK'' (Add (Ref ''MMS_VALUE_NO_RESPONSE'') (Num 1)),
    Const ''MMS_VALUE_ACCESS_DENIED'' (Add (Ref ''MMS_VALUE_OK'') (Num 1)),
    Const ''MMS_VALUE_VALUE_INVALID'' (Add (Ref ''MMS_VALUE_ACCESS_DENIED'') (Num 1)),
    Const ''MMS_VALUE_TEMPORARILY_UNAVAILABLE'' (Add (Ref ''MMS_VALUE_VALUE_INVALID'') (Num 1)),
    Const ''MMS_VALUE_OBJECT_ACCESS_UNSUPPORTED'' (Add (Ref
        ''MMS_VALUE_TEMPORARILY_UNAVAILABLE'') (Num 1)),
    Alias ''MmsValueIndication'' (Name ''enum_anon_25''),
    StructDef ''struct_sMmsVariableSpecification'',
    Alias ''MmsVariableSpecification'' (Name ''struct_sMmsVariableSpecification''),
    StructDef ''struct_sMmsArray'',
    Slots ''struct_sMmsArray'' [''elementCount'', ''elementTypeSpec''],
    Fields ''struct_sMmsArray'' [(''elementCount'', Prim c_int), (''elementTypeSpec'', Ptr (Name
        ''MmsVariableSpecification''))],
    StructDef ''struct_sMmsStructure'',
    Slots ''struct_sMmsStructure'' [''elementCount'', ''elements''],
    Fields ''struct_sMmsStructure'' [(''elementCount'', Prim c_int), (''elements'', Ptr (Ptr
        (Name ''MmsVariableSpecification'')))],
    StructDef ''struct_sMmsFloat'',
    Slots ''struct_sMmsFloat'' [''exponentWidth'', ''formatWidth''],
    Fields ''struct_sMmsFloat'' [(''exponentWidth'', Prim c_uint8), (''formatWidth'', Prim
        c_uint8)],
    UnionDef ''union_uMmsTypeSpecification'',
    Slots ''union_uMmsTypeSpecification'' [''array'', ''structure'', ''boolean'', ''integer'',
        ''unsignedInteger'', ''floatingpoint'', ''bitString'', ''octetString'',
        ''visibleString'', ''mmsString'', ''utctime'', ''binaryTime''],
    Fields ''union_uMmsTypeSpecification'' [(''array'', Name ''struct_sMmsArray''),
        (''structure'', Name ''struct_sMmsStructure''), (''boolean'', Prim c_int), (''integer'',
        Prim c_int), (''unsignedInteger'', Prim c_int), (''floatingpoint'', Name
        ''struct_sMmsFloat''), (''bitString'', Prim c_int), (''octetString'', Prim c_int),
        (''visibleString'', Prim c_int), (''mmsString'', Prim c_int), (''utctime'', Prim c_int),
        (''binaryTime'', Prim c_int)],
    Slots ''struct_sMmsVariableSpecification'' [''type'', ''name'', ''typeSpec''],
    Fields ''struct_sMmsVariableSpecification'' [(''type'', Name ''MmsType''), (''name'', Prim
        String), (''typeSpec'', Name ''union_uMmsTypeSpecification'')]]"

definition mms_value_1 :: "stmt list" where
  "mms_value_1 = [
    Alias ''enum_anon_26'' (Prim c_int),
    Const ''DATA_ACCESS_ERROR_NO_RESPONSE'' (Neg (Num 2)),
    Const ''DATA_ACCESS_ERROR_SUCCESS'' (Neg (Num 1)),
    Const ''DATA_ACCESS_ERROR_OBJECT_INVALIDATED'' (Num 0),
    Const ''DATA_ACCESS_ERROR_HARDWARE_FAULT'' (Num 1),
    Const ''DATA_ACCESS_ERROR_TEMPORARILY_UNAVAILABLE'' (Num 2),
    Const ''DATA_ACCESS_ERROR_OBJECT_ACCESS_DENIED'' (Num 3),
    Const ''DATA_ACCESS_ERROR_OBJECT_UNDEFINED'' (Num 4),
    Const ''DATA_ACCESS_ERROR_INVALID_ADDRESS'' (Num 5),
    Const ''DATA_ACCESS_ERROR_TYPE_UNSUPPORTED'' (Num 6),
    Const ''DATA_ACCESS_ERROR_TYPE_INCONSISTENT'' (Num 7),
    Const ''DATA_ACCESS_ERROR_OBJECT_ATTRIBUTE_INCONSISTENT'' (Num 8),
    Const ''DATA_ACCESS_ERROR_OBJECT_ACCESS_UNSUPPORTED'' (Num 9),
    Const ''DATA_ACCESS_ERROR_OBJECT_NONE_EXISTENT'' (Num 10),
    Const ''DATA_ACCESS_ERROR_OBJECT_VALUE_INVALID'' (Num 11),
    Const ''DATA_ACCESS_ERROR_UNKNOWN'' (Num 12),
    Alias ''MmsDataAccessError'' (Name ''enum_anon_26''),
    StructDef ''struct_sMmsValue'',
    Alias ''MmsValue'' (Name ''struct_sMmsValue''),
    Bind ''MmsValue_createArray'' [Ptr (Name ''MmsVariableSpecification''), Prim c_int] (Ptr
        (Name ''MmsValue'')),
    Bind ''MmsValue_getArraySize'' [Ptr (Name ''MmsValue'')] (Prim c_uint32),
    Bind ''MmsValue_getElement'' [Ptr (Name ''MmsValue''), Prim c_int] (Ptr (Name ''MmsValue'')),
    Bind ''MmsValue_createEmptyArray'' [Prim c_int] (Ptr (Name ''MmsValue'')),
    Bind ''MmsValue_setElement'' [Ptr (Name ''MmsValue''), Prim c_int, Ptr (Name ''MmsValue'')]
        NoneT,
    Bind ''MmsValue_getDataAccessError'' [Ptr (Name ''MmsValue'')] (Name ''MmsDataAccessError''),
    Bind ''MmsValue_toInt64'' [Ptr (Name ''MmsValue'')] (Prim c_int64),
    Bind ''MmsValue_toInt32'' [Ptr (Name ''MmsValue'')] (Prim c_int32),
    Bind ''MmsValue_toUint32'' [Ptr (Name ''MmsValue'')] (Prim c_uint32),
    Bind ''MmsValue_toDouble'' [Ptr (Name ''MmsValue'')] (Prim c_double),
    Bind ''MmsValue_toFloat'' [Ptr (Name ''MmsValue'')] (Prim c_float),
    Bind ''MmsValue_toUnixTimestamp'' [Ptr (Name ''MmsValue'')] (Prim c_uint32),
    Bind ''MmsValue_setFloat'' [Ptr (Name ''MmsValue''), Prim c_float] NoneT,
    Bind ''MmsValue_setDouble'' [Ptr (Name ''MmsValue''), Prim c_double] NoneT,
    Bind ''MmsValue_setInt8'' [Ptr (Name ''MmsValue''), Prim c_int8] NoneT,
    Bind ''MmsValue_setInt16'' [Ptr (Name ''MmsValue''), Prim c_int16] NoneT,
    Bind ''MmsValue_setInt32'' [Ptr (Name ''MmsValue''), Prim c_int32] NoneT,
    Bind ''MmsValue_setInt64'' [Ptr (Name ''MmsValue''), Prim c_int64] NoneT]"

definition mms_value_2 :: "stmt list" where
  "mms_value_2 = [
    Bind ''MmsValue_setUint8'' [Ptr (Name ''MmsValue''), Prim c_uint8] NoneT,
    Bind ''MmsValue_setUint16'' [Ptr (Name ''MmsValue''), Prim c_uint16] NoneT,
    Bind ''MmsValue_setUint32'' [Ptr (Name ''MmsValue''), Prim c_uint32] NoneT,
    Bind ''MmsValue_setBoolean'' [Ptr (Name ''MmsValue''), Prim c_bool] NoneT,
    Bind ''MmsValue_getBoolean'' [Ptr (Name ''MmsValue'')] (Prim c_bool),
    Bind ''MmsValue_toString'' [Ptr (Name ''MmsValue'')] (Prim c_char_p),
    Bind ''MmsValue_getStringSize'' [Ptr (Name ''MmsValue'')] (Prim c_int),
    Bind ''MmsValue_setVisibleString'' [Ptr (Name ''MmsValue''), Prim String] NoneT,
    Bind ''MmsValue_setBitStringBit'' [Ptr (Name ''MmsValue''), Prim c_int, Prim c_bool] NoneT,
    Bind ''MmsValue_getBitStringBit'' [Ptr (Name ''MmsValue''), Prim c_int] (Prim c_bool),
    Bind ''MmsValue_deleteAllBitStringBits'' [Ptr (Name ''MmsValue'')] NoneT,
    Bind ''MmsValue_getBitStringSize'' [Ptr (Name ''MmsValue'')] (Prim c_int),
    Bind ''MmsValue_getBitStringByteSize'' [Ptr (Name ''MmsValue'')] (Prim c_int),
    Bind ''MmsValue_getNumberOfSetBits'' [Ptr (Name ''MmsValue'')] (Prim c_int),
    Bind ''MmsValue_setAllBitStringBits'' [Ptr (Name ''MmsValue'')] NoneT,
    Bind ''MmsValue_getBitStringAsInteger'' [Ptr (Name ''MmsValue'')] (Prim c_uint32),
    Bind ''MmsValue_setBitStringFromInteger'' [Ptr (Name ''MmsValue''), Prim c_uint32] NoneT,
    Bind ''MmsValue_getBitStringAsIntegerBigEndian'' [Ptr (Name ''MmsValue'')] (Prim c_uint32),
    Bind ''MmsValue_setBitStringFromIntegerBigEndian'' [Ptr (Name ''MmsValue''), Prim c_uint32]
        NoneT,
    Bind ''MmsValue_setUtcTime'' [Ptr (Name ''MmsValue''), Prim c_uint32] (Ptr (Name
        ''MmsValue'')),
    Bind ''MmsValue_setUtcTimeMs'' [Ptr (Name ''MmsValue''), Prim c_uint64] (Ptr (Name
        ''MmsValue'')),
    Bind ''MmsValue_setUtcTimeByBuffer'' [Ptr (Name ''MmsValue''), Ptr (Prim c_uint8)] NoneT,
    Bind ''MmsValue_getUtcTimeBuffer'' [Ptr (Name ''MmsValue'')] (Ptr (Prim c_uint8)),
    Bind ''MmsValue_getUtcTimeInMs'' [Ptr (Name ''MmsValue'')] (Prim c_uint64),
    Bind ''MmsValue_getUtcTimeInMsWithUs'' [Ptr (Name ''MmsValue''), Ptr (Prim c_uint32)] (Prim
        c_uint64)]"

definition mms_value_3 :: "stmt list" where
  "mms_value_3 = [
    Bind ''MmsValue_setUtcTimeQuality'' [Ptr (Name ''MmsValue''), Prim c_uint8] NoneT,
    Bind ''MmsValue_getUtcTimeQuality'' [Ptr (Name ''MmsValue'')] (Prim c_uint8),
    Bind ''MmsValue_setBinaryTime'' [Ptr (Name ''MmsValue''), Prim c_uint64] NoneT,
    Bind ''MmsValue_getBinaryTimeAsUtcMs'' [Ptr (Name ''MmsValue'')] (Prim c_uint64),
    Bind ''MmsValue_setOctetString'' [Ptr (Name ''MmsValue''), Ptr (Prim c_uint8), Prim c_int]
        NoneT,
    Bind ''MmsValue_getOctetStringSize'' [Ptr (Name ''MmsValue'')] (Prim c_uint16),
    Bind ''MmsValue_getOctetStringMaxSize'' [Ptr (Name ''MmsValue'')] (Prim c_uint16),
    Bind ''MmsValue_getOctetStringBuffer'' [Ptr (Name ''MmsValue'')] (Ptr (Prim c_uint8)),
    Bind ''MmsValue_update'' [Ptr (Name ''MmsValue''), Ptr (Name ''MmsValue'')] (Prim c_bool),
    Bind ''MmsValue_equals'' [Ptr (Name ''MmsValue''), Ptr (Name ''MmsValue'')] (Prim c_bool),
    Bind ''MmsValue_equalTypes'' [Ptr (Name ''MmsValue''), Ptr (Name ''MmsValue'')] (Prim c_bool),
    Bind ''MmsValue_newDataAccessError'' [Name ''MmsDataAccessError''] (Ptr (Name ''MmsValue'')),
    Bind ''MmsValue_newInteger'' [Prim c_int] (Ptr (Name ''MmsValue'')),
    Bind ''MmsValue_newUnsigned'' [Prim c_int] (Ptr (Name ''MmsValue'')),
    Bind ''MmsValue_newBoolean'' [Prim c_bool] (Ptr (Name ''MmsValue'')),
    Bind ''MmsValue_newBitString'' [Prim c_int] (Ptr (Name ''MmsValue'')),
    Bind ''MmsValue_newOctetString'' [Prim c_int, Prim c_int] (Ptr (Name ''MmsValue'')),
    Bind ''MmsValue_newStructure'' [Ptr (Name ''MmsVariableSpecification'')] (Ptr (Name
        ''MmsValue'')),
    Bind ''MmsValue_createEmptyStructure'' [Prim c_int] (Ptr (Name ''MmsValue'')),
    Bind ''MmsValue_newDefaultValue'' [Ptr (Name ''MmsVariableSpecification'')] (Ptr (Name
        ''MmsValue'')),
    Bind ''MmsValue_newIntegerFromInt8'' [Prim c_int8] (Ptr (Name ''MmsValue'')),
    Bind ''MmsValue_newIntegerFromInt16'' [Prim c_int16] (Ptr (Name ''MmsValue'')),
    Bind ''MmsValue_newIntegerFromInt32'' [Prim c_int32] (Ptr (Name ''MmsValue'')),
    Bind ''MmsValue_newIntegerFromInt64'' [Prim c_int64] (Ptr (Name ''MmsValue'')),
    Bind ''MmsValue_newUnsignedFromUint32'' [Prim c_uint32] (Ptr (Name ''MmsValue''))]"

definition mms_value_4 :: "stmt list" where
  "mms_value_4 = [
    Bind ''MmsValue_newFloat'' [Prim c_float] (Ptr (Name ''MmsValue'')),
    Bind ''MmsValue_newDouble'' [Prim c_double] (Ptr (Name ''MmsValue'')),
    Bind ''MmsValue_clone'' [Ptr (Name ''MmsValue'')] (Ptr (Name ''MmsValue'')),
    Bind ''MmsValue_cloneToBuffer'' [Ptr (Name ''MmsValue''), Ptr (Prim c_uint8)] (Ptr (Prim
        c_uint8)),
    Bind ''MmsValue_getSizeInMemory'' [Ptr (Name ''MmsValue'')] (Prim c_int),
    Bind ''MmsValue_delete'' [Ptr (Name ''MmsValue'')] NoneT,
    Bind ''MmsValue_deleteConditional'' [Ptr (Name ''MmsValue'')] NoneT,
    Bind ''MmsValue_newVisibleString'' [Prim String] (Ptr (Name ''MmsValue'')),
    Bind ''MmsValue_newVisibleStringWithSize'' [Prim c_int] (Ptr (Name ''MmsValue'')),
    Bind ''MmsValue_newMmsStringWithSize'' [Prim c_int] (Ptr (Name ''MmsValue'')),
    Bind ''MmsValue_newBinaryTime'' [Prim c_bool] (Ptr (Name ''MmsValue'')),
    Bind ''MmsValue_newVisibleStringFromByteArray'' [Ptr (Prim c_uint8), Prim c_int] (Ptr (Name
        ''MmsValue'')),
    Bind ''MmsValue_newMmsStringFromByteArray'' [Ptr (Prim c_uint8), Prim c_int] (Ptr (Name
        ''MmsValue'')),
    Bind ''MmsValue_newMmsString'' [Prim String] (Ptr (Name ''MmsValue'')),
    Bind ''MmsValue_setMmsString'' [Ptr (Name ''MmsValue''), Prim String] NoneT,
    Bind ''MmsValue_newUtcTime'' [Prim c_uint32] (Ptr (Name ''MmsValue'')),
    Bind ''MmsValue_newUtcTimeByMsTime'' [Prim c_uint64] (Ptr (Name ''MmsValue'')),
    Bind ''MmsValue_setDeletable'' [Ptr (Name ''MmsValue'')] NoneT,
    Bind ''MmsValue_setDeletableRecursive'' [Ptr (Name ''MmsValue'')] NoneT,
    Bind ''MmsValue_isDeletable'' [Ptr (Name ''MmsValue'')] (Prim c_int),
    Bind ''MmsValue_getType'' [Ptr (Name ''MmsValue'')] (Name ''MmsType''),
    Bind ''MmsValue_getSubElement'' [Ptr (Name ''MmsValue''), Ptr (Name
        ''MmsVariableSpecification''), Prim String] (Ptr (Name ''MmsValue'')),
    BindStr ''MmsValue_getTypeString'' [Ptr (Name ''MmsValue'')],
    Bind ''MmsValue_printToBuffer'' [Ptr (Name ''MmsValue''), Prim String, Prim c_int] (Prim
        c_char_p)]"

definition mms_value_5 :: "stmt list" where
  "mms_value_5 = [
    Bind ''MmsValue_decodeMmsData'' [Ptr (Prim c_uint8), Prim c_int, Prim c_int, Ptr (Prim
        c_int)] (Ptr (Name ''MmsValue'')),
    Bind ''MmsValue_encodeMmsData'' [Ptr (Name ''MmsValue''), Ptr (Prim c_uint8), Prim c_int,
        Prim c_bool] (Prim c_int)]"

definition linked_list_1 :: "stmt list" where
  "linked_list_1 = [
    StructDef ''struct_sLinkedList'',
    Slots ''struct_sLinkedList'' [''data'', ''next''],
    Fields ''struct_sLinkedList'' [(''data'', Ptr NoneT), (''next'', Ptr (Name
        ''struct_sLinkedList''))],
    Alias ''LinkedList'' (Ptr (Name ''struct_sLinkedList'')),
    Bind ''LinkedList_create'' [] (Name ''LinkedList''),
    Bind ''LinkedList_destroy'' [Name ''LinkedList''] NoneT,
    Alias ''LinkedListValueDeleteFunction'' (Fn (Unch NoneT) [Ptr NoneT]),
    Bind ''LinkedList_destroyDeep'' [Name ''LinkedList'', Name ''LinkedListValueDeleteFunction'']
        NoneT,
    Bind ''LinkedList_destroyStatic'' [Name ''LinkedList''] NoneT,
    Bind ''LinkedList_add'' [Name ''LinkedList'', Ptr NoneT] NoneT,
    Bind ''LinkedList_contains'' [Name ''LinkedList'', Ptr NoneT] (Prim c_bool),
    Bind ''LinkedList_remove'' [Name ''LinkedList'', Ptr NoneT] (Prim c_bool),
    Bind ''LinkedList_get'' [Name ''LinkedList'', Prim c_int] (Name ''LinkedList''),
    Bind ''LinkedList_getNext'' [Name ''LinkedList''] (Name ''LinkedList''),
    Bind ''LinkedList_getLastElement'' [Name ''LinkedList''] (Name ''LinkedList''),
    Bind ''LinkedList_insertAfter'' [Name ''LinkedList'', Ptr NoneT] (Name ''LinkedList''),
    Bind ''LinkedList_size'' [Name ''LinkedList''] (Prim c_int),
    BindCast ''LinkedList_getData'' [Name ''LinkedList''] (Ptr (Prim c_ubyte)),
    Bind ''LinkedList_printStringList'' [Name ''LinkedList''] NoneT]"

definition logging_api_1 :: "stmt list" where
  "logging_api_1 = [
    StructDef ''struct_sLogStorage'',
    Alias ''LogStorage'' (Ptr (Name ''struct_sLogStorage'')),
    Alias ''LogEntryCallback'' (Fn (Unch (Prim c_bool)) [Ptr NoneT, Prim c_uint64, Prim c_uint64,
        Prim c_bool]),
    Alias ''LogEntryDataCallback'' (Fn (Unch (Prim c_bool)) [Ptr NoneT, Prim String, Ptr (Prim
        c_uint8), Prim c_int, Prim c_uint8, Prim c_bool]),
    Slots ''struct_sLogStorage'' [''instanceData'', ''maxLogEntries'', ''addEntry'',
        ''addEntryData'', ''getEntries'', ''getEntriesAfter'', ''getOldestAndNewestEntries'',
        ''destroy''],
    Fields ''struct_sLogStorage'' [(''instanceData'', Ptr NoneT), (''maxLogEntries'', Prim
        c_int), (''addEntry'', Fn (Unch (Prim c_uint64)) [Name ''LogStorage'', Prim c_uint64]),
        (''addEntryData'', Fn (Unch (Prim c_bool)) [Name ''LogStorage'', Prim c_uint64, Prim
        String, Ptr (Prim c_uint8), Prim c_int, Prim c_uint8]), (''getEntries'', Fn (Unch (Prim
        c_bool)) [Name ''LogStorage'', Prim c_uint64, Prim c_uint64, Name ''LogEntryCallback'',
        Name ''LogEntryDataCallback'', Ptr NoneT]), (''getEntriesAfter'', Fn (Unch (Prim c_bool))
        [Name ''LogStorage'', Prim c_uint64, Prim c_uint64, Name ''LogEntryCallback'', Name
        ''LogEntryDataCallback'', Ptr NoneT]), (''getOldestAndNewestEntries'', Fn (Unch (Prim
        c_bool)) [Name ''LogStorage'', Ptr (Prim c_uint64), Ptr (Prim c_uint64), Ptr (Prim
        c_uint64), Ptr (Prim c_uint64)]), (''destroy'', Fn (Unch NoneT) [Name ''LogStorage''])]]"

definition iec61850_common_1 :: "stmt list" where
  "iec61850_common_1 = [
    StructDef ''struct_anon_27'',
    Slots ''struct_anon_27'' [''vlanPriority'', ''vlanId'', ''appId'', ''dstAddress''],
    Fields ''struct_anon_27'' [(''vlanPriority'', Prim c_uint8), (''vlanId'', Prim c_uint16),
        (''appId'', Prim c_uint16), (''dstAddress'', Arr (Prim c_uint8) 6)],
    Alias ''PhyComAddress'' (Name ''struct_anon_27''),
    Alias ''enum_anon_28'' (Prim c_int),
    Const ''CONTROL_MODEL_STATUS_ONLY'' (Num 0),
    Const ''CONTROL_MODEL_DIRECT_NORMAL'' (Num 1),
    Const ''CONTROL_MODEL_SBO_NORMAL'' (Num 2),
    Const ''CONTROL_MODEL_DIRECT_ENHANCED'' (Num 3),
    Const ''CONTROL_MODEL_SBO_ENHANCED'' (Num 4),
    Alias ''ControlModel'' (Name ''enum_anon_28''),
    Alias ''enum_anon_29'' (Prim c_int),
    Const ''ADD_CAUSE_UNKNOWN'' (Num 0),
    Const ''ADD_CAUSE_NOT_SUPPORTED'' (Num 1),
    Const ''ADD_CAUSE_BLOCKED_BY_SWITCHING_HIERARCHY'' (Num 2),
    Const ''ADD_CAUSE_SELECT_FAILED'' (Num 3),
    Const ''ADD_CAUSE_INVALID_POSITION'' (Num 4),
    Const ''ADD_CAUSE_POSITION_REACHED'' (Num 5),
    Const ''ADD_CAUSE_PARAMETER_CHANGE_IN_EXECUTION'' (Num 6),
    Const ''ADD_CAUSE_STEP_LIMIT'' (Num 7),
    Const ''ADD_CAUSE_BLOCKED_BY_MODE'' (Num 8),
    Const ''ADD_CAUSE_BLOCKED_BY_PROCESS'' (Num 9),
    Const ''ADD_CAUSE_BLOCKED_BY_INTERLOCKING'' (Num 10),
    Const ''ADD_CAUSE_BLOCKED_BY_SYNCHROCHECK'' (Num 11),
    Const ''ADD_CAUSE_COMMAND_ALREADY_IN_EXECUTION'' (Num 12),
    Const ''ADD_CAUSE_BLOCKED_BY_HEALTH'' (Num 13),
    Const ''ADD_CAUSE_1_OF_N_CONTROL'' (Num 14),
    Const ''ADD_CAUSE_ABORTION_BY_CANCEL'' (Num 15),
    Const ''ADD_CAUSE_TIME_LIMIT_OVER'' (Num 16),
    Const ''ADD_CAUSE_ABORTION_BY_TRIP'' (Num 17),
    Const ''ADD_CAUSE_OBJECT_NOT_SELECTED'' (Num 18),
    Const ''ADD_CAUSE_OBJECT_ALREADY_SELECTED'' (Num 19),
    Const ''ADD_CAUSE_NO_ACCESS_AUTHORITY'' (Num 20),
    Const ''ADD_CAUSE_ENDED_WITH_OVERSHOOT'' (Num 21),
    Const ''ADD_CAUSE_ABORTION_DUE_TO_DEVIATION'' (Num 22),
    Const ''ADD_CAUSE_ABORTION_BY_COMMUNICATION_LOSS'' (Num 23),
    Const ''ADD_CAUSE_ABORTION_BY_COMMAND'' (Num 24),
    Const ''ADD_CAUSE_NONE'' (Num 25),
    Const ''ADD_CAUSE_INCONSISTENT_PARAMETERS'' (Num 26),
    Const ''ADD_CAUSE_LOCKED_BY_OTHER_CLIENT'' (Num 27),
    Alias ''ControlAddCause'' (Name ''enum_anon_29''),
    Alias ''enum_eFunctionalConstraint'' (Prim c_int),
    Const ''IEC61850_FC_ST'' (Num 0),
    Const ''IEC61850_FC_MX'' (Num 1),
    Const ''IEC61850_FC_SP'' (Num 2),
    Const ''IEC61850_FC_SV'' (Num 3),
    Const ''IEC61850_FC_CF'' (Num 4),
    Const ''IEC61850_FC_DC'' (Num 5),
    Const ''IEC61850_FC_SG'' (Num 6),
    Const ''IEC61850_FC_SE'' (Num 7),
    Const ''IEC61850_FC_SR'' (Num 8),
    Const ''IEC61850_FC_OR'' (Num 9),
    Const ''IEC61850_FC_BL'' (Num 10),
    Const ''IEC61850_FC_EX'' (Num 11),
    Const ''IEC61850_FC_CO'' (Num 12),
    Const ''IEC61850_FC_US'' (Num 13),
    Const ''IEC61850_FC_MS'' (Num 14),
    Const ''IEC61850_FC_RP'' (Num 15),
    Const ''IEC61850_FC_BR'' (Num 16),
    Const ''IEC61850_FC_LG'' (Num 17),
    Const ''IEC61850_FC_GO'' (Num 18),
    Const ''IEC61850_FC_ALL'' (Num 99),
    Const ''IEC61850_FC_NONE'' (Neg (Num 1)),
    Alias ''FunctionalConstraint'' (Name ''enum_eFunctionalConstraint''),
    BindStr ''FunctionalConstraint_toString'' [Name ''FunctionalConstraint'']]"

definition iec61850_common_2 :: "stmt list" where
  "iec61850_common_2 = [
    Bind ''FunctionalConstraint_fromString'' [Prim String] (Name ''FunctionalConstraint''),
    Alias ''Quality'' (Prim c_uint16),
    Alias ''Validity'' (Prim c_uint16),
    Bind ''Quality_getValidity'' [Ptr (Name ''Quality'')] (Name ''Validity''),
    Bind ''Quality_setValidity'' [Ptr (Name ''Quality''), Name ''Validity''] NoneT,
    Bind ''Quality_setFlag'' [Ptr (Name ''Quality''), Prim c_int] NoneT,
    Bind ''Quality_unsetFlag'' [Ptr (Name ''Quality''), Prim c_int] NoneT,
    Bind ''Quality_isFlagSet'' [Ptr (Name ''Quality''), Prim c_int] (Prim c_bool),
    Bind ''Quality_fromMmsValue'' [Ptr (Name ''MmsValue'')] (Name ''Quality''),
    Alias ''enum_anon_30'' (Prim c_int),
    Const ''DBPOS_INTERMEDIATE_STATE'' (Num 0),
    Const ''DBPOS_OFF'' (Num 1),
    Const ''DBPOS_ON'' (Num 2),
    Const ''DBPOS_BAD_STATE'' (Num 3),
    Alias ''Dbpos'' (Name ''enum_anon_30''),
    Bind ''Dbpos_fromMmsValue'' [Ptr (Name ''MmsValue'')] (Name ''Dbpos''),
    Bind ''Dbpos_toMmsValue'' [Ptr (Name ''MmsValue''), Name ''Dbpos''] (Ptr (Name ''MmsValue'')),
    UnionDef ''union_anon_31'',
    Slots ''union_anon_31'' [''val''],
    Fields ''union_anon_31'' [(''val'', Arr (Prim c_uint8) 8)],
    Alias ''Timestamp'' (Name ''union_anon_31''),
    Bind ''Timestamp_create'' [] (Ptr (Name ''Timestamp'')),
    Bind ''Timestamp_createFromByteArray'' [Ptr (Prim c_uint8)] (Ptr (Name ''Timestamp'')),
    Bind ''Timestamp_destroy'' [Ptr (Name ''Timestamp'')] NoneT,
    Bind ''Timestamp_clearFlags'' [Ptr (Name ''Timestamp'')] NoneT,
    Bind ''Timestamp_getTimeInSeconds'' [Ptr (Name ''Timestamp'')] (Prim c_uint32),
    Bind ''Timestamp_getTimeInMs'' [Ptr (Name ''Timestamp'')] (Prim c_uint64),
    Bind ''Timestamp_isLeapSecondKnown'' [Ptr (Name ''Timestamp'')] (Prim c_bool),
    Bind ''Timestamp_setLeapSecondKnown'' [Ptr (Name ''Timestamp''), Prim c_bool] NoneT,
    Bind ''Timestamp_hasClockFailure'' [Ptr (Name ''Timestamp'')] (Prim c_bool),
    Bind ''Timestamp_setClockFailure'' [Ptr (Name ''Timestamp''), Prim c_bool] NoneT,
    Bind ''Timestamp_isClockNotSynchronized'' [Ptr (Name ''Timestamp'')] (Prim c_bool)]"

definition iec61850_common_3 :: "stmt list" where
  "iec61850_common_3 = [
    Bind ''Timestamp_setClockNotSynchronized'' [Ptr (Name ''Timestamp''), Prim c_bool] NoneT,
    Bind ''Timestamp_getSubsecondPrecision'' [Ptr (Name ''Timestamp'')] (Prim c_int),
    Bind ''Timestamp_setSubsecondPrecision'' [Ptr (Name ''Timestamp''), Prim c_int] NoneT,
    Bind ''Timestamp_setTimeInSeconds'' [Ptr (Name ''Timestamp''), Prim c_uint32] NoneT,
    Bind ''Timestamp_setTimeInMilliseconds'' [Ptr (Name ''Timestamp''), Prim c_uint64] NoneT,
    Bind ''Timestamp_setByMmsUtcTime'' [Ptr (Name ''Timestamp''), Ptr (Name ''MmsValue'')] NoneT,
    Bind ''Timestamp_toMmsValue'' [Ptr (Name ''Timestamp''), Ptr (Name ''MmsValue'')] (Ptr (Name
        ''MmsValue'')),
    BindStr ''LibIEC61850_getVersionString'' []]"

definition mms_type_spec_1 :: "stmt list" where
  "mms_type_spec_1 = [
    Bind ''MmsVariableSpecification_destroy'' [Ptr (Name ''MmsVariableSpecification'')] NoneT,
    Bind ''MmsVariableSpecification_getChildValue'' [Ptr (Name ''MmsVariableSpecification''), Ptr
        (Name ''MmsValue''), Prim String] (Ptr (Name ''MmsValue'')),
    Bind ''MmsVariableSpecification_getNamedVariableRecursive'' [Ptr (Name
        ''MmsVariableSpecification''), Prim String] (Ptr (Name ''MmsVariableSpecification'')),
    Bind ''MmsVariableSpecification_getType'' [Ptr (Name ''MmsVariableSpecification'')] (Name
        ''MmsType''),
    Bind ''MmsVariableSpecification_isValueOfType'' [Ptr (Name ''MmsVariableSpecification''), Ptr
        (Name ''MmsValue'')] (Prim c_bool),
    Bind ''MmsVariableSpecification_getName'' [Ptr (Name ''MmsVariableSpecification'')] (Prim
        c_char_p),
    Bind ''MmsVariableSpecification_getStructureElements'' [Ptr (Name
        ''MmsVariableSpecification'')] (Name ''LinkedList''),
    Bind ''MmsVariableSpecification_getSize'' [Ptr (Name ''MmsVariableSpecification'')] (Prim
        c_int),
    Bind ''MmsVariableSpecification_getChildSpecificationByIndex'' [Ptr (Name
        ''MmsVariableSpecification''), Prim c_int] (Ptr (Name ''MmsVariableSpecification'')),
    Bind ''MmsVariableSpecification_getChildSpecificationByName'' [Ptr (Name
        ''MmsVariableSpecification''), Prim String, Ptr (Prim c_int)] (Ptr (Name
        ''MmsVariableSpecification'')),
    Bind ''MmsVariableSpecification_getArrayElementSpecification'' [Ptr (Name
        ''MmsVariableSpecification'')] (Ptr (Name ''MmsVariableSpecification'')),
    Bind ''MmsVariableSpecification_getExponentWidth'' [Ptr (Name ''MmsVariableSpecification'')]
        (Prim c_int)]"

definition tls_config_1 :: "stmt list" where
  "tls_config_1 = [
    StructDef ''struct_sTLSConfiguration'',
    Alias ''TLSConfiguration'' (Ptr (Name ''struct_sTLSConfiguration''))]"

definition iso_connection_parameters_1 :: "stmt list" where
  "iso_connection_parameters_1 = [
    Alias ''enum_anon_32'' (Prim c_int),
    Const ''ACSE_AUTH_NONE'' (Num 0),
    Const ''ACSE_AUTH_PASSWORD'' (Num 1),
    Const ''ACSE_AUTH_CERTIFICATE'' (Num 2),
    Const ''ACSE_AUTH_TLS'' (Num 3),
    Alias ''AcseAuthenticationMechanism'' (Name ''enum_anon_32''),
    StructDef ''struct_sAcseAuthenticationParameter'',
    Alias ''AcseAuthenticationParameter'' (Ptr (Name ''struct_sAcseAuthenticationParameter'')),
    StructDef ''struct_anon_33'',
    Slots ''struct_anon_33'' [''octetString'', ''passwordLength''],
    Fields ''struct_anon_33'' [(''octetString'', Ptr (Prim c_uint8)), (''passwordLength'', Prim
        c_int)],
    StructDef ''struct_anon_34'',
    Slots ''struct_anon_34'' [''buf'', ''length''],
    Fields ''struct_anon_34'' [(''buf'', Ptr (Prim c_uint8)), (''length'', Prim c_int)],
    UnionDef ''union_anon_35'',
    Slots ''union_anon_35'' [''password'', ''certificate''],
    Fields ''union_anon_35'' [(''password'', Name ''struct_anon_33''), (''certificate'', Name
        ''struct_anon_34'')],
    Slots ''struct_sAcseAuthenticationParameter'' [''mechanism'', ''value''],
    Fields ''struct_sAcseAuthenticationParameter'' [(''mechanism'', Name
        ''AcseAuthenticationMechanism''), (''value'', Name ''union_anon_35'')],
    Bind ''AcseAuthenticationParameter_create'' [] (Name ''AcseAuthenticationParameter''),
    Bind ''AcseAuthenticationParameter_destroy'' [Name ''AcseAuthenticationParameter''] NoneT,
    Bind ''AcseAuthenticationParameter_setAuthMechanism'' [Name ''AcseAuthenticationParameter'',
        Name ''AcseAuthenticationMechanism''] NoneT,
    Bind ''AcseAuthenticationParameter_setPassword'' [Name ''AcseAuthenticationParameter'', Prim
        String] NoneT,
    Alias ''AcseAuthenticator'' (Fn (Unch (Prim c_bool)) [Ptr NoneT, Name
        ''AcseAuthenticationParameter'', Ptr (Ptr NoneT), Ptr (Name
        ''IsoApplicationReference'')]),
    StructDef ''struct_anon_36'',
    Slots ''struct_anon_36'' [''size'', ''value''],
    Fields ''struct_anon_36'' [(''size'', Prim c_uint8), (''value'', Arr (Prim c_uint8) 4)],
    Alias ''TSelector'' (Name ''struct_anon_36''),
    StructDef ''struct_anon_37'',
    Slots ''struct_anon_37'' [''size'', ''value''],
    Fields ''struct_anon_37'' [(''size'', Prim c_uint8), (''value'', Arr (Prim c_uint8) 16)],
    Alias ''SSelector'' (Name ''struct_anon_37''),
    StructDef ''struct_anon_38'',
    Slots ''struct_anon_38'' [''size'', ''value''],
    Fields ''struct_anon_38'' [(''size'', Prim c_uint8), (''value'', Arr (Prim c_uint8) 16)],
    Alias ''PSelector'' (Name ''struct_anon_38''),
    StructDef ''struct_sIsoConnectionParameters'']"

definition iso_connection_parameters_2 :: "stmt list" where
  "iso_connection_parameters_2 = [
    Slots ''struct_sIsoConnectionParameters'' [''acseAuthParameter'', ''hostname'', ''tcpPort'',
        ''remoteApTitle'', ''remoteApTitleLen'', ''remoteAEQualifier'', ''remotePSelector'',
        ''remoteSSelector'', ''remoteTSelector'', ''localApTitle'', ''localApTitleLen'',
        ''localAEQualifier'', ''localPSelector'', ''localSSelector'', ''localTSelector''],
    Fields ''struct_sIsoConnectionParameters'' [(''acseAuthParameter'', Name
        ''AcseAuthenticationParameter''), (''hostname'', Prim String), (''tcpPort'', Prim c_int),
        (''remoteApTitle'', Arr (Prim c_uint8) 10), (''remoteApTitleLen'', Prim c_int),
        (''remoteAEQualifier'', Prim c_int), (''remotePSelector'', Name ''PSelector''),
        (''remoteSSelector'', Name ''SSelector''), (''remoteTSelector'', Name ''TSelector''),
        (''localApTitle'', Arr (Prim c_uint8) 10), (''localApTitleLen'', Prim c_int),
        (''localAEQualifier'', Prim c_int), (''localPSelector'', Name ''PSelector''),
        (''localSSelector'', Name ''SSelector''), (''localTSelector'', Name ''TSelector'')],
    Alias ''IsoConnectionParameters'' (Ptr (Name ''struct_sIsoConnectionParameters'')),
    Bind ''IsoConnectionParameters_create'' [] (Name ''IsoConnectionParameters''),
    Bind ''IsoConnectionParameters_destroy'' [Name ''IsoConnectionParameters''] NoneT,
    Bind ''IsoConnectionParameters_setTlsConfiguration'' [Name ''IsoConnectionParameters'', Name
        ''TLSConfiguration''] NoneT,
    Bind ''IsoConnectionParameters_setAcseAuthenticationParameter'' [Name
        ''IsoConnectionParameters'', Name ''AcseAuthenticationParameter''] NoneT,
    Bind ''IsoConnectionParameters_setTcpParameters'' [Name ''IsoConnectionParameters'', Prim
        String, Prim c_int] NoneT,
    Bind ''IsoConnectionParameters_setRemoteApTitle'' [Name ''IsoConnectionParameters'', Prim
        String, Prim c_int] NoneT,
    Bind ''IsoConnectionParameters_setRemoteAddresses'' [Name ''IsoConnectionParameters'', Name
        ''PSelector'', Name ''SSelector'', Name ''TSelector''] NoneT,
    Bind ''IsoConnectionParameters_setLocalApTitle'' [Name ''IsoConnectionParameters'', Prim
        String, Prim c_int] NoneT,
    Bind ''IsoConnectionParameters_setLocalAddresses'' [Name ''IsoConnectionParameters'', Name
        ''PSelector'', Name ''SSelector'', Name ''TSelector''] NoneT]"

end
