(* ===== verification/Lib_Table_2.thy ===== *)
theory Lib_Table_2
  imports Lib_Syntax
begin

text \<open>
  The statements of \<^verbatim>\<open>tools/python_client/lib61850.py\<close>, in order: the MMS client and the IEC 61850 client.
\<close>

definition mms_client_connection_1 :: "stmt list" where
  "mms_client_connection_1 = [
    StructDef ''struct_sMmsConnectionParameters'',
    Slots ''struct_sMmsConnectionParameters'' [''maxServOutstandingCalling'',
        ''maxServOutstandingCalled'', ''dataStructureNestingLevel'', ''maxPduSize'',
        ''servicesSupported''],
    Fields ''struct_sMmsConnectionParameters'' [(''maxServOutstandingCalling'', Prim c_int),
        (''maxServOutstandingCalled'', Prim c_int), (''dataStructureNestingLevel'', Prim c_int),
        (''maxPduSize'', Prim c_int), (''servicesSupported'', Arr (Prim c_uint8) 11)],
    Alias ''MmsConnectionParameters'' (Name ''struct_sMmsConnectionParameters''),
    StructDef ''struct_anon_39'',
    Slots ''struct_anon_39'' [''vendorName'', ''modelName'', ''revision''],
    Fields ''struct_anon_39'' [(''vendorName'', Prim String), (''modelName'', Prim String),
        (''revision'', Prim String)],
    Alias ''MmsServerIdentity'' (Name ''struct_anon_39''),
    Alias ''enum_anon_40'' (Prim c_int),
    Const ''MMS_CONNECTION_STATE_CLOSED'' (Num 0),
    Const ''MMS_CONNECTION_STATE_CONNECTING'' (Add (Ref ''MMS_CONNECTION_STATE_CLOSED'') (Num 1)),
    Const ''MMS_CONNECTION_STATE_CONNECTED'' (Add (Ref ''MMS_CONNECTION_STATE_CONNECTING'') (Num
        1)),
    Const ''MMS_CONNECTION_STATE_CLOSING'' (Add (Ref ''MMS_CONNECTION_STATE_CONNECTED'') (Num 1)),
    Alias ''MmsConnectionState'' (Name ''enum_anon_40''),
    Alias ''MmsInformationReportHandler'' (Fn (Unch NoneT) [Ptr NoneT, Prim String, Prim String,
        Ptr (Name ''MmsValue''), Prim c_bool]),
    StructDef ''struct_sMmsConnection'',
    Alias ''MmsConnection'' (Ptr (Name ''struct_sMmsConnection'')),
    Bind ''MmsConnection_create'' [] (Name ''MmsConnection''),
    Bind ''MmsConnection_createSecure'' [Name ''TLSConfiguration''] (Name ''MmsConnection''),
    Bind ''MmsConnection_createNonThreaded'' [Name ''TLSConfiguration''] (Name ''MmsConnection''),
    Alias ''MmsRawMessageHandler'' (Fn (Unch NoneT) [Ptr NoneT, Ptr (Prim c_uint8), Prim c_int,
        Prim c_bool]),
    Bind ''MmsConnection_setRawMessageHandler'' [Name ''MmsConnection'', Name
        ''MmsRawMessageHandler'', Ptr NoneT] NoneT,
    Bind ''MmsConnection_setFilestoreBasepath'' [Name ''MmsConnection'', Prim String] NoneT,
    Bind ''MmsConnection_setRequestTimeout'' [Name ''MmsConnection'', Prim c_uint32] NoneT,
    Bind ''MmsConnection_getRequestTimeout'' [Name ''MmsConnection''] (Prim c_uint32),
    Bind ''MmsConnection_setConnectTimeout'' [Name ''MmsConnection'', Prim c_uint32] NoneT,
    Bind ''MmsConnection_setInformationReportHandler'' [Name ''MmsConnection'', Name
        ''MmsInformationReportHandler'', Ptr NoneT] NoneT,
    Bind ''MmsConnection_getIsoConnectionParameters'' [Name ''MmsConnection''] (Name
        ''IsoConnectionParameters''),
    Bind ''MmsConnection_getMmsConnectionParameters'' [Name ''MmsConnection''] (Name
        ''MmsConnectionParameters''),
    Alias ''MmsConnectionStateChangedHandler'' (Fn (Unch NoneT) [Name ''MmsConnection'', Ptr
        NoneT, Name ''MmsConnectionState'']),
    Bind ''MmsConnection_setConnectionStateChangedHandler'' [Name ''MmsConnection'', Name
        ''MmsConnectionStateChangedHandler'', Ptr NoneT] NoneT,
    Alias ''MmsConnectionLostHandler'' (Fn (Unch NoneT) [Name ''MmsConnection'', Ptr NoneT]),
    Bind ''MmsConnection_setConnectionLostHandler'' [Name ''MmsConnection'', Name
        ''MmsConnectionLostHandler'', Ptr NoneT] NoneT,
    BindAny ''MmsConnection_setIsoConnectionParameters'' [Name ''MmsConnection'', Ptr (Name
        ''IsoConnectionParameters'')] NoneT]"

definition mms_client_connection_2 :: "stmt list" where
  "mms_client_connection_2 = [
    Bind ''MmsConnection_destroy'' [Name ''MmsConnection''] NoneT,
    Bind ''MmsConnection_connect'' [Name ''MmsConnection'', Ptr (Name ''MmsError''), Prim String,
        Prim c_int] (Prim c_bool),
    Bind ''MmsConnection_connectAsync'' [Name ''MmsConnection'', Ptr (Name ''MmsError''), Prim
        String, Prim c_int] NoneT,
    Bind ''MmsConnection_tick'' [Name ''MmsConnection''] (Prim c_bool),
    Bind ''MmsConnection_close'' [Name ''MmsConnection''] NoneT,
    Alias ''MmsConnection_ConcludeAbortHandler'' (Fn (Unch NoneT) [Ptr NoneT, Name ''MmsError'',
        Prim c_bool]),
    Bind ''MmsConnection_abort'' [Name ''MmsConnection'', Ptr (Name ''MmsError'')] NoneT,
    Bind ''MmsConnection_abortAsync'' [Name ''MmsConnection'', Ptr (Name ''MmsError'')] NoneT,
    Bind ''MmsConnection_conclude'' [Name ''MmsConnection'', Ptr (Name ''MmsError'')] NoneT,
    Bind ''MmsConnection_concludeAsync'' [Name ''MmsConnection'', Ptr (Name ''MmsError''), Name
        ''MmsConnection_ConcludeAbortHandler'', Ptr NoneT] NoneT,
    Alias ''MmsConnection_GenericServiceHandler'' (Fn (Unch NoneT) [Prim c_uint32, Ptr NoneT,
        Name ''MmsError'', Prim c_bool]),
    Alias ''MmsConnection_GetNameListHandler'' (Fn (Unch NoneT) [Prim c_uint32, Ptr NoneT, Name
        ''MmsError'', Name ''LinkedList'', Prim c_bool]),
    Bind ''MmsConnection_getVMDVariableNames'' [Name ''MmsConnection'', Ptr (Name ''MmsError'')]
        (Name ''LinkedList''),
    Bind ''MmsConnection_getVMDVariableNamesAsync'' [Name ''MmsConnection'', Ptr (Name
        ''MmsError''), Prim String, Name ''MmsConnection_GetNameListHandler'', Ptr NoneT] (Prim
        c_uint32),
    Bind ''MmsConnection_getDomainNames'' [Name ''MmsConnection'', Ptr (Name ''MmsError'')] (Name
        ''LinkedList''),
    Bind ''MmsConnection_getDomainNamesAsync'' [Name ''MmsConnection'', Ptr (Name ''MmsError''),
        Prim String, Name ''LinkedList'', Name ''MmsConnection_GetNameListHandler'', Ptr NoneT]
        (Prim c_uint32),
    Bind ''MmsConnection_getDomainVariableNames'' [Name ''MmsConnection'', Ptr (Name
        ''MmsError''), Prim String] (Name ''LinkedList''),
    Bind ''MmsConnection_getDomainVariableNamesAsync'' [Name ''MmsConnection'', Ptr (Name
        ''MmsError''), Prim String, Prim String, Name ''LinkedList'', Name
        ''MmsConnection_GetNameListHandler'', Ptr NoneT] (Prim c_uint32),
    Bind ''MmsConnection_getDomainVariableListNames'' [Name ''MmsConnection'', Ptr (Name
        ''MmsError''), Prim String] (Name ''LinkedList''),
    Bind ''MmsConnection_getDomainVariableListNamesAsync'' [Name ''MmsConnection'', Ptr (Name
        ''MmsError''), Prim String, Prim String, Name ''LinkedList'', Name
        ''MmsConnection_GetNameListHandler'', Ptr NoneT] (Prim c_uint32),
    Bind ''MmsConnection_getDomainJournals'' [Name ''MmsConnection'', Ptr (Name ''MmsError''),
        Prim String] (Name ''LinkedList''),
    Bind ''MmsConnection_getDomainJournalsAsync'' [Name ''MmsConnection'', Ptr (Name
        ''MmsError''), Prim String, Prim String, Name ''MmsConnection_GetNameListHandler'', Ptr
        NoneT] (Prim c_uint32),
    Bind ''MmsConnection_getVariableListNamesAssociationSpecific'' [Name ''MmsConnection'', Ptr
        (Name ''MmsError'')] (Name ''LinkedList''),
    Bind ''MmsConnection_getVariableListNamesAssociationSpecificAsync'' [Name ''MmsConnection'',
        Ptr (Name ''MmsError''), Prim String, Name ''MmsConnection_GetNameListHandler'', Ptr
        NoneT] (Prim c_uint32),
    Bind ''MmsConnection_readVariable'' [Name ''MmsConnection'', Ptr (Name ''MmsError''), Prim
        String, Prim String] (Ptr (Name ''MmsValue'')),
    Alias ''MmsConnection_ReadVariableHandler'' (Fn (Unch NoneT) [Prim c_uint32, Ptr NoneT, Name
        ''MmsError'', Ptr (Name ''MmsValue'')]),
    Bind ''MmsConnection_readVariableAsync'' [Name ''MmsConnection'', Ptr (Name ''MmsError''),
        Prim String, Prim String, Name ''MmsConnection_ReadVariableHandler'', Ptr NoneT] (Prim
        c_uint32),
    Bind ''MmsConnection_readVariableComponent'' [Name ''MmsConnection'', Ptr (Name
        ''MmsError''), Prim String, Prim String, Prim String] (Ptr (Name ''MmsValue''))]"

definition mms_client_connection_3 :: "stmt list" where
  "mms_client_connection_3 = [
    Bind ''MmsConnection_readVariableComponentAsync'' [Name ''MmsConnection'', Ptr (Name
        ''MmsError''), Prim String, Prim String, Prim String, Name
        ''MmsConnection_ReadVariableHandler'', Ptr NoneT] (Prim c_uint32),
    Bind ''MmsConnection_readArrayElements'' [Name ''MmsConnection'', Ptr (Name ''MmsError''),
        Prim String, Prim String, Prim c_uint32, Prim c_uint32] (Ptr (Name ''MmsValue'')),
    Bind ''MmsConnection_readArrayElementsAsync'' [Name ''MmsConnection'', Ptr (Name
        ''MmsError''), Prim String, Prim String, Prim c_uint32, Prim c_uint32, Name
        ''MmsConnection_ReadVariableHandler'', Ptr NoneT] (Prim c_uint32),
    Bind ''MmsConnection_readSingleArrayElementWithComponent'' [Name ''MmsConnection'', Ptr (Name
        ''MmsError''), Prim String, Prim String, Prim c_uint32, Prim String] (Ptr (Name
        ''MmsValue'')),
    Bind ''MmsConnection_readSingleArrayElementWithComponentAsync'' [Name ''MmsConnection'', Ptr
        (Name ''MmsError''), Prim String, Prim String, Prim c_uint32, Prim String, Name
        ''MmsConnection_ReadVariableHandler'', Ptr NoneT] (Prim c_uint32),
    Bind ''MmsConnection_readMultipleVariables'' [Name ''MmsConnection'', Ptr (Name
        ''MmsError''), Prim String, Name ''LinkedList''] (Ptr (Name ''MmsValue'')),
    Bind ''MmsConnection_readMultipleVariablesAsync'' [Name ''MmsConnection'', Ptr (Name
        ''MmsError''), Prim String, Name ''LinkedList'', Name
        ''MmsConnection_ReadVariableHandler'', Ptr NoneT] (Prim c_uint32),
    Bind ''MmsConnection_writeVariable'' [Name ''MmsConnection'', Ptr (Name ''MmsError''), Prim
        String, Prim String, Ptr (Name ''MmsValue'')] (Name ''MmsDataAccessError''),
    Alias ''MmsConnection_WriteVariableHandler'' (Fn (Unch NoneT) [Prim c_uint32, Ptr NoneT, Name
        ''MmsError'', Name ''MmsDataAccessError'']),
    Bind ''MmsConnection_writeVariableAsync'' [Name ''MmsConnection'', Ptr (Name ''MmsError''),
        Prim String, Prim String, Ptr (Name ''MmsValue''), Name
        ''MmsConnection_WriteVariableHandler'', Ptr NoneT] (Prim c_uint32),
    Bind ''MmsConnection_writeSingleArrayElementWithComponent'' [Name ''MmsConnection'', Ptr
        (Name ''MmsError''), Prim String, Prim String, Prim c_uint32, Prim String, Ptr (Name
        ''MmsValue'')] (Name ''MmsDataAccessError''),
    Bind ''MmsConnection_writeSingleArrayElementWithComponentAsync'' [Name ''MmsConnection'', Ptr
        (Name ''MmsError''), Prim String, Prim String, Prim c_uint32, Prim String, Ptr (Name
        ''MmsValue''), Name ''MmsConnection_WriteVariableHandler'', Ptr NoneT] (Prim c_uint32),
    Bind ''MmsConnection_writeArrayElements'' [Name ''MmsConnection'', Ptr (Name ''MmsError''),
        Prim String, Prim String, Prim c_int, Prim c_int, Ptr (Name ''MmsValue'')] (Name
        ''MmsDataAccessError''),
    Bind ''MmsConnection_writeArrayElementsAsync'' [Name ''MmsConnection'', Ptr (Name
        ''MmsError''), Prim String, Prim String, Prim c_int, Prim c_int, Ptr (Name ''MmsValue''),
        Name ''MmsConnection_WriteVariableHandler'', Ptr NoneT] (Prim c_uint32),
    Alias ''MmsConnection_WriteMultipleVariablesHandler'' (Fn (Unch NoneT) [Prim c_uint32, Ptr
        NoneT, Name ''MmsError'', Name ''LinkedList'']),
    Bind ''MmsConnection_writeMultipleVariables'' [Name ''MmsConnection'', Ptr (Name
        ''MmsError''), Prim String, Name ''LinkedList'', Name ''LinkedList'', Ptr (Name
        ''LinkedList'')] NoneT,
    Bind ''MmsConnection_writeMultipleVariablesAsync'' [Name ''MmsConnection'', Ptr (Name
        ''MmsError''), Prim String, Name ''LinkedList'', Name ''LinkedList'', Name
        ''MmsConnection_WriteMultipleVariablesHandler'', Ptr NoneT] (Prim c_uint32),
    Bind ''MmsConnection_writeNamedVariableList'' [Name ''MmsConnection'', Ptr (Name
        ''MmsError''), Prim c_bool, Prim String, Prim String, Name ''LinkedList'', Ptr (Name
        ''LinkedList'')] NoneT,
    Bind ''MmsConnection_writeNamedVariableListAsync'' [Name ''MmsConnection'', Ptr (Name
        ''MmsError''), Prim c_bool, Prim String, Prim String, Name ''LinkedList'', Name
        ''MmsConnection_WriteMultipleVariablesHandler'', Ptr NoneT] (Prim c_uint32),
    Bind ''MmsConnection_getVariableAccessAttributes'' [Name ''MmsConnection'', Ptr (Name
        ''MmsError''), Prim String, Prim String] (Ptr (Name ''MmsVariableSpecification'')),
    Alias ''MmsConnection_GetVariableAccessAttributesHandler'' (Fn (Unch NoneT) [Prim c_uint32,
        Ptr NoneT, Name ''MmsError'', Ptr (Name ''MmsVariableSpecification'')]),
    Bind ''MmsConnection_getVariableAccessAttributesAsync'' [Name ''MmsConnection'', Ptr (Name
        ''MmsError''), Prim String, Prim String, Name
        ''MmsConnection_GetVariableAccessAttributesHandler'', Ptr NoneT] (Prim c_uint32),
    Bind ''MmsConnection_readNamedVariableListValues'' [Name ''MmsConnection'', Ptr (Name
        ''MmsError''), Prim String, Prim String, Prim c_bool] (Ptr (Name ''MmsValue'')),
    Bind ''MmsConnection_readNamedVariableListValuesAsync'' [Name ''MmsConnection'', Ptr (Name
        ''MmsError''), Prim String, Prim String, Prim c_bool, Name
        ''MmsConnection_ReadVariableHandler'', Ptr NoneT] (Prim c_uint32),
    Bind ''MmsConnection_readNamedVariableListValuesAssociationSpecific'' [Name
        ''MmsConnection'', Ptr (Name ''MmsError''), Prim String, Prim c_bool] (Ptr (Name
        ''MmsValue'')),
    Bind ''MmsConnection_readNamedVariableListValuesAssociationSpecificAsync'' [Name
        ''MmsConnection'', Ptr (Name ''MmsError''), Prim String, Prim c_bool, Name
        ''MmsConnection_ReadVariableHandler'', Ptr NoneT] (Prim c_uint32),
    Bind ''MmsConnection_defineNamedVariableList'' [Name ''MmsConnection'', Ptr (Name
        ''MmsError''), Prim String, Prim String, Name ''LinkedList''] NoneT]"

definition mms_client_connection_4 :: "stmt list" where
  "mms_client_connection_4 = [
    Bind ''MmsConnection_defineNamedVariableListAsync'' [Name ''MmsConnection'', Ptr (Name
        ''MmsError''), Prim String, Prim String, Name ''LinkedList'', Name
        ''MmsConnection_GenericServiceHandler'', Ptr NoneT] (Prim c_uint32),
    Bind ''MmsConnection_defineNamedVariableListAssociationSpecific'' [Name ''MmsConnection'',
        Ptr (Name ''MmsError''), Prim String, Name ''LinkedList''] NoneT,
    Bind ''MmsConnection_defineNamedVariableListAssociationSpecificAsync'' [Name
        ''MmsConnection'', Ptr (Name ''MmsError''), Prim String, Name ''LinkedList'', Name
        ''MmsConnection_GenericServiceHandler'', Ptr NoneT] (Prim c_uint32),
    Bind ''MmsConnection_readNamedVariableListDirectory'' [Name ''MmsConnection'', Ptr (Name
        ''MmsError''), Prim String, Prim String, Ptr (Prim c_bool)] (Name ''LinkedList''),
    Alias ''MmsConnection_ReadNVLDirectoryHandler'' (Fn (Unch NoneT) [Prim c_uint32, Ptr NoneT,
        Name ''MmsError'', Name ''LinkedList'', Prim c_bool]),
    Bind ''MmsConnection_readNamedVariableListDirectoryAsync'' [Name ''MmsConnection'', Ptr (Name
        ''MmsError''), Prim String, Prim String, Name ''MmsConnection_ReadNVLDirectoryHandler'',
        Ptr NoneT] (Prim c_uint32),
    Bind ''MmsConnection_readNamedVariableListDirectoryAssociationSpecific'' [Name
        ''MmsConnection'', Ptr (Name ''MmsError''), Prim String, Ptr (Prim c_bool)] (Name
        ''LinkedList''),
    Bind ''MmsConnection_readNamedVariableListDirectoryAssociationSpecificAsync'' [Name
        ''MmsConnection'', Ptr (Name ''MmsError''), Prim String, Name
        ''MmsConnection_ReadNVLDirectoryHandler'', Ptr NoneT] (Prim c_uint32),
    Bind ''MmsConnection_deleteNamedVariableList'' [Name ''MmsConnection'', Ptr (Name
        ''MmsError''), Prim String, Prim String] (Prim c_bool),
    Bind ''MmsConnection_deleteNamedVariableListAsync'' [Name ''MmsConnection'', Ptr (Name
        ''MmsError''), Prim String, Prim String, Name ''MmsConnection_GenericServiceHandler'',
        Ptr NoneT] (Prim c_uint32),
    Bind ''MmsConnection_deleteAssociationSpecificNamedVariableList'' [Name ''MmsConnection'',
        Ptr (Name ''MmsError''), Prim String] (Prim c_bool),
    Bind ''MmsConnection_deleteAssociationSpecificNamedVariableListAsync'' [Name
        ''MmsConnection'', Ptr (Name ''MmsError''), Prim String, Name
        ''MmsConnection_GenericServiceHandler'', Ptr NoneT] (Prim c_uint32),
    Bind ''MmsVariableAccessSpecification_create'' [Prim String, Prim String] (Ptr (Name
        ''MmsVariableAccessSpecification'')),
    Bind ''MmsVariableAccessSpecification_createAlternateAccess'' [Prim String, Prim String, Prim
        c_int32, Prim String] (Ptr (Name ''MmsVariableAccessSpecification'')),
    Bind ''MmsVariableAccessSpecification_destroy'' [Ptr (Name
        ''MmsVariableAccessSpecification'')] NoneT,
    Bind ''MmsConnection_setLocalDetail'' [Name ''MmsConnection'', Prim c_int32] NoneT,
    Bind ''MmsConnection_getLocalDetail'' [Name ''MmsConnection''] (Prim c_int32),
    Bind ''MmsConnection_identify'' [Name ''MmsConnection'', Ptr (Name ''MmsError'')] (Ptr (Name
        ''MmsServerIdentity'')),
    Alias ''MmsConnection_IdentifyHandler'' (Fn (Unch NoneT) [Prim c_uint32, Ptr NoneT, Name
        ''MmsError'', Prim String, Prim String, Prim String]),
    Bind ''MmsConnection_identifyAsync'' [Name ''MmsConnection'', Ptr (Name ''MmsError''), Name
        ''MmsConnection_IdentifyHandler'', Ptr NoneT] (Prim c_uint32),
    Bind ''MmsServerIdentity_destroy'' [Ptr (Name ''MmsServerIdentity'')] NoneT,
    Bind ''MmsConnection_getServerStatus'' [Name ''MmsConnection'', Ptr (Name ''MmsError''), Ptr
        (Prim c_int), Ptr (Prim c_int), Prim c_bool] NoneT,
    Alias ''MmsConnection_GetServerStatusHandler'' (Fn (Unch NoneT) [Prim c_uint32, Ptr NoneT,
        Name ''MmsError'', Prim c_int, Prim c_int]),
    Bind ''MmsConnection_getServerStatusAsync'' [Name ''MmsConnection'', Ptr (Name ''MmsError''),
        Prim c_bool, Name ''MmsConnection_GetServerStatusHandler'', Ptr NoneT] (Prim c_uint32),
    Alias ''MmsFileDirectoryHandler'' (Fn (Unch NoneT) [Ptr NoneT, Prim String, Prim c_uint32,
        Prim c_uint64]),
    Alias ''MmsConnection_FileDirectoryHandler'' (Fn (Unch NoneT) [Prim c_uint32, Ptr NoneT, Name
        ''MmsError'', Prim String, Prim c_uint32, Prim c_uint64, Prim c_bool]),
    Alias ''MmsFileReadHandler'' (Fn (Unch NoneT) [Ptr NoneT, Prim c_int32, Ptr (Prim c_uint8),
        Prim c_uint32]),
    Alias ''MmsConnection_FileReadHandler'' (Fn (Unch NoneT) [Prim c_uint32, Ptr NoneT, Name
        ''MmsError'', Prim c_int32, Ptr (Prim c_uint8), Prim c_uint32, Prim c_bool]),
    Bind ''MmsConnection_fileOpen'' [Name ''MmsConnection'', Ptr (Name ''MmsError''), Prim
        String, Prim c_uint32, Ptr (Prim c_uint32), Ptr (Prim c_uint64)] (Prim c_int32),
    Alias ''MmsConnection_FileOpenHandler'' (Fn (Unch NoneT) [Prim c_uint32, Ptr NoneT, Name
        ''MmsError'', Prim c_int32, Prim c_uint32, Prim c_uint64])]"

definition mms_client_connection_5 :: "stmt list" where
  "mms_client_connection_5 = [
    Bind ''MmsConnection_fileOpenAsync'' [Name ''MmsConnection'', Ptr (Name ''MmsError''), Prim
        String, Prim c_uint32, Name ''MmsConnection_FileOpenHandler'', Ptr NoneT] (Prim c_uint32),
    Bind ''MmsConnection_fileRead'' [Name ''MmsConnection'', Ptr (Name ''MmsError''), Prim
        c_int32, Name ''MmsFileReadHandler'', Ptr NoneT] (Prim c_bool),
    Bind ''MmsConnection_fileReadAsync'' [Name ''MmsConnection'', Ptr (Name ''MmsError''), Prim
        c_int32, Name ''MmsConnection_FileReadHandler'', Ptr NoneT] (Prim c_uint32),
    Bind ''MmsConnection_fileClose'' [Name ''MmsConnection'', Ptr (Name ''MmsError''), Prim
        c_int32] NoneT,
    Bind ''MmsConnection_fileCloseAsync'' [Name ''MmsConnection'', Ptr (Name ''MmsError''), Prim
        c_uint32, Name ''MmsConnection_GenericServiceHandler'', Ptr NoneT] (Prim c_uint32),
    Bind ''MmsConnection_fileDelete'' [Name ''MmsConnection'', Ptr (Name ''MmsError''), Prim
        String] NoneT,
    Bind ''MmsConnection_fileDeleteAsync'' [Name ''MmsConnection'', Ptr (Name ''MmsError''), Prim
        String, Name ''MmsConnection_GenericServiceHandler'', Ptr NoneT] (Prim c_uint32),
    Bind ''MmsConnection_fileRename'' [Name ''MmsConnection'', Ptr (Name ''MmsError''), Prim
        String, Prim String] NoneT,
    Bind ''MmsConnection_fileRenameAsync'' [Name ''MmsConnection'', Ptr (Name ''MmsError''), Prim
        String, Prim String, Name ''MmsConnection_GenericServiceHandler'', Ptr NoneT] (Prim
        c_uint32),
    Bind ''MmsConnection_obtainFile'' [Name ''MmsConnection'', Ptr (Name ''MmsError''), Prim
        String, Prim String] NoneT,
    Bind ''MmsConnection_obtainFileAsync'' [Name ''MmsConnection'', Ptr (Name ''MmsError''), Prim
        String, Prim String, Name ''MmsConnection_GenericServiceHandler'', Ptr NoneT] (Prim
        c_uint32),
    Bind ''MmsConnection_getFileDirectory'' [Name ''MmsConnection'', Ptr (Name ''MmsError''),
        Prim String, Prim String, Name ''MmsFileDirectoryHandler'', Ptr NoneT] (Prim c_bool),
    Bind ''MmsConnection_getFileDirectoryAsync'' [Name ''MmsConnection'', Ptr (Name
        ''MmsError''), Prim String, Prim String, Name ''MmsConnection_FileDirectoryHandler'', Ptr
        NoneT] (Prim c_uint32),
    StructDef ''struct_sMmsJournalEntry'',
    Alias ''MmsJournalEntry'' (Ptr (Name ''struct_sMmsJournalEntry'')),
    StructDef ''struct_sMmsJournalVariable'',
    Alias ''MmsJournalVariable'' (Ptr (Name ''struct_sMmsJournalVariable'')),
    Slots ''struct_sMmsJournalEntry'' [''entryID'', ''occurenceTime'', ''journalVariables''],
    Fields ''struct_sMmsJournalEntry'' [(''entryID'', Ptr (Name ''MmsValue'')),
        (''occurenceTime'', Ptr (Name ''MmsValue'')), (''journalVariables'', Name
        ''LinkedList'')],
    Slots ''struct_sMmsJournalVariable'' [''tag'', ''value''],
    Fields ''struct_sMmsJournalVariable'' [(''tag'', Prim String), (''value'', Ptr (Name
        ''MmsValue''))],
    Bind ''MmsJournalEntry_destroy'' [Name ''MmsJournalEntry''] NoneT,
    Bind ''MmsJournalEntry_getEntryID'' [Name ''MmsJournalEntry''] (Ptr (Name ''MmsValue'')),
    Bind ''MmsJournalEntry_getOccurenceTime'' [Name ''MmsJournalEntry''] (Ptr (Name ''MmsValue'')),
    Bind ''MmsJournalEntry_getJournalVariables'' [Name ''MmsJournalEntry''] (Name ''LinkedList''),
    Bind ''MmsJournalVariable_getTag'' [Name ''MmsJournalVariable''] (Prim c_char_p),
    Bind ''MmsJournalVariable_getValue'' [Name ''MmsJournalVariable''] (Ptr (Name ''MmsValue'')),
    Alias ''MmsConnection_ReadJournalHandler'' (Fn (Unch NoneT) [Prim c_uint32, Ptr NoneT, Name
        ''MmsError'', Name ''LinkedList'', Prim c_bool])]"

definition mms_client_connection_6 :: "stmt list" where
  "mms_client_connection_6 = [
    Bind ''MmsConnection_readJournalTimeRange'' [Name ''MmsConnection'', Ptr (Name ''MmsError''),
        Prim String, Prim String, Ptr (Name ''MmsValue''), Ptr (Name ''MmsValue''), Ptr (Prim
        c_bool)] (Name ''LinkedList''),
    Bind ''MmsConnection_readJournalTimeRangeAsync'' [Name ''MmsConnection'', Ptr (Name
        ''MmsError''), Prim String, Prim String, Ptr (Name ''MmsValue''), Ptr (Name
        ''MmsValue''), Name ''MmsConnection_ReadJournalHandler'', Ptr NoneT] (Prim c_uint32),
    Bind ''MmsConnection_readJournalStartAfter'' [Name ''MmsConnection'', Ptr (Name
        ''MmsError''), Prim String, Prim String, Ptr (Name ''MmsValue''), Ptr (Name
        ''MmsValue''), Ptr (Prim c_bool)] (Name ''LinkedList''),
    Bind ''MmsConnection_readJournalStartAfterAsync'' [Name ''MmsConnection'', Ptr (Name
        ''MmsError''), Prim String, Prim String, Ptr (Name ''MmsValue''), Ptr (Name
        ''MmsValue''), Name ''MmsConnection_ReadJournalHandler'', Ptr NoneT] (Prim c_uint32),
    Bind ''MmsServerIdentity_destroy'' [Ptr (Name ''MmsServerIdentity'')] NoneT]"

definition iec61850_client_1 :: "stmt list" where
  "iec61850_client_1 = [
    StructDef ''struct_sClientDataSet'',
    Alias ''ClientDataSet'' (Ptr (Name ''struct_sClientDataSet'')),
    StructDef ''struct_sClientReport'',
    Alias ''ClientReport'' (Ptr (Name ''struct_sClientReport'')),
    StructDef ''struct_sClientReportControlBlock'',
    Alias ''ClientReportControlBlock'' (Ptr (Name ''struct_sClientReportControlBlock'')),
    StructDef ''struct_sClientGooseControlBlock'',
    Alias ''ClientGooseControlBlock'' (Ptr (Name ''struct_sClientGooseControlBlock'')),
    StructDef ''struct_sIedConnection'',
    Alias ''IedConnection'' (Ptr (Name ''struct_sIedConnection'')),
    StructDef ''struct_anon_41'',
    Slots ''struct_anon_41'' [''ctlNum'', ''error'', ''addCause''],
    Fields ''struct_anon_41'' [(''ctlNum'', Prim c_int), (''error'', Prim c_int), (''addCause'',
        Name ''ControlAddCause'')],
    Alias ''LastApplError'' (Name ''struct_anon_41''),
    Alias ''enum_anon_42'' (Prim c_int),
    Const ''IED_STATE_CLOSED'' (Num 0),
    Const ''IED_STATE_CONNECTING'' (Add (Ref ''IED_STATE_CLOSED'') (Num 1)),
    Const ''IED_STATE_CONNECTED'' (Add (Ref ''IED_STATE_CONNECTING'') (Num 1)),
    Const ''IED_STATE_CLOSING'' (Add (Ref ''IED_STATE_CONNECTED'') (Num 1)),
    Alias ''IedConnectionState'' (Name ''enum_anon_42''),
    Alias ''enum_anon_43'' (Prim c_int),
    Const ''IED_ERROR_OK'' (Num 0),
    Const ''IED_ERROR_NOT_CONNECTED'' (Num 1),
    Const ''IED_ERROR_ALREADY_CONNECTED'' (Num 2),
    Const ''IED_ERROR_CONNECTION_LOST'' (Num 3),
    Const ''IED_ERROR_SERVICE_NOT_SUPPORTED'' (Num 4),
    Const ''IED_ERROR_CONNECTION_REJECTED'' (Num 5),
    Const ''IED_ERROR_OUTSTANDING_CALL_LIMIT_REACHED'' (Num 6),
    Const ''IED_ERROR_USER_PROVIDED_INVALID_ARGUMENT'' (Num 10),
    Const ''IED_ERROR_ENABLE_REPORT_FAILED_DATASET_MISMATCH'' (Num 11),
    Const ''IED_ERROR_OBJECT_REFERENCE_INVALID'' (Num 12),
    Const ''IED_ERROR_UNEXPECTED_VALUE_RECEIVED'' (Num 13),
    Const ''IED_ERROR_TIMEOUT'' (Num 20),
    Const ''IED_ERROR_ACCESS_DENIED'' (Num 21),
    Const ''IED_ERROR_OBJECT_DOES_NOT_EXIST'' (Num 22),
    Const ''IED_ERROR_OBJECT_EXISTS'' (Num 23),
    Const ''IED_ERROR_OBJECT_ACCESS_UNSUPPORTED'' (Num 24),
    Const ''IED_ERROR_TYPE_INCONSISTENT'' (Num 25),
    Const ''IED_ERROR_TEMPORARILY_UNAVAILABLE'' (Num 26),
    Const ''IED_ERROR_OBJECT_UNDEFINED'' (Num 27),
    Const ''IED_ERROR_INVALID_ADDRESS'' (Num 28),
    Const ''IED_ERROR_HARDWARE_FAULT'' (Num 29),
    Const ''IED_ERROR_TYPE_UNSUPPORTED'' (Num 30),
    Const ''IED_ERROR_OBJECT_ATTRIBUTE_INCONSISTENT'' (Num 31),
    Const ''IED_ERROR_OBJECT_VALUE_INVALID'' (Num 32),
    Const ''IED_ERROR_OBJECT_INVALIDATED'' (Num 33),
    Const ''IED_ERROR_MALFORMED_MESSAGE'' (Num 34),
    Const ''IED_ERROR_SERVICE_NOT_IMPLEMENTED'' (Num 98),
    Const ''IED_ERROR_UNKNOWN'' (Num 99),
    Alias ''IedClientError'' (Name ''enum_anon_43''),
    Bind ''IedConnection_create'' [] (Name ''IedConnection''),
    Bind ''IedConnection_createEx'' [Name ''TLSConfiguration'', Prim c_bool] (Name
        ''IedConnection''),
    Bind ''IedConnection_createWithTlsSupport'' [Name ''TLSConfiguration''] (Name
        ''IedConnection''),
    Bind ''IedConnection_destroy'' [Name ''IedConnection''] NoneT,
    Bind ''IedConnection_setConnectTimeout'' [Name ''IedConnection'', Prim c_uint32] NoneT]"

definition iec61850_client_2 :: "stmt list" where
  "iec61850_client_2 = [
    Bind ''IedConnection_setRequestTimeout'' [Name ''IedConnection'', Prim c_uint32] NoneT,
    Bind ''IedConnection_getRequestTimeout'' [Name ''IedConnection''] (Prim c_uint32),
    Bind ''IedConnection_tick'' [Name ''IedConnection''] (Prim c_bool),
    Alias ''IedConnection_GenericServiceHandler'' (Fn (Unch NoneT) [Prim c_uint32, Ptr NoneT,
        Name ''IedClientError'']),
    Bind ''IedConnection_connect'' [Name ''IedConnection'', Ptr (Name ''IedClientError''), Prim
        String, Prim c_int] NoneT,
    Bind ''IedConnection_connectAsync'' [Name ''IedConnection'', Ptr (Name ''IedClientError''),
        Prim String, Prim c_int] NoneT,
    Bind ''IedConnection_abort'' [Name ''IedConnection'', Ptr (Name ''IedClientError'')] NoneT,
    Bind ''IedConnection_abortAsync'' [Name ''IedConnection'', Ptr (Name ''IedClientError'')]
        NoneT,
    Bind ''IedConnection_release'' [Name ''IedConnection'', Ptr (Name ''IedClientError'')] NoneT,
    Bind ''IedConnection_releaseAsync'' [Name ''IedConnection'', Ptr (Name ''IedClientError'')]
        NoneT,
    Bind ''IedConnection_close'' [Name ''IedConnection''] NoneT,
    Bind ''IedConnection_getState'' [Name ''IedConnection''] (Name ''IedConnectionState''),
    Bind ''IedConnection_getLastApplError'' [Name ''IedConnection''] (Name ''LastApplError''),
    Alias ''IedConnectionClosedHandler'' (Fn (Unch NoneT) [Ptr NoneT, Name ''IedConnection'']),
    Bind ''IedConnection_installConnectionClosedHandler'' [Name ''IedConnection'', Name
        ''IedConnectionClosedHandler'', Ptr NoneT] NoneT,
    Alias ''IedConnection_StateChangedHandler'' (Fn (Unch NoneT) [Ptr NoneT, Name
        ''IedConnection'', Name ''IedConnectionState'']),
    Bind ''IedConnection_installStateChangedHandler'' [Name ''IedConnection'', Name
        ''IedConnection_StateChangedHandler'', Ptr NoneT] NoneT,
    Bind ''IedConnection_getMmsConnection'' [Name ''IedConnection''] (Name ''MmsConnection''),
    StructDef ''struct_sClientSVControlBlock'',
    Alias ''ClientSVControlBlock'' (Ptr (Name ''struct_sClientSVControlBlock'')),
    Bind ''ClientSVControlBlock_create'' [Name ''IedConnection'', Prim String] (Name
        ''ClientSVControlBlock''),
    Bind ''ClientSVControlBlock_destroy'' [Name ''ClientSVControlBlock''] NoneT,
    Bind ''ClientSVControlBlock_isMulticast'' [Name ''ClientSVControlBlock''] (Prim c_bool),
    Bind ''ClientSVControlBlock_getLastComError'' [Name ''ClientSVControlBlock''] (Name
        ''IedClientError''),
    Bind ''ClientSVControlBlock_setSvEna'' [Name ''ClientSVControlBlock'', Prim c_bool] (Prim
        c_bool),
    Bind ''ClientSVControlBlock_getSvEna'' [Name ''ClientSVControlBlock''] (Prim c_bool),
    Bind ''ClientSVControlBlock_setResv'' [Name ''ClientSVControlBlock'', Prim c_bool] (Prim
        c_bool),
    Bind ''ClientSVControlBlock_getResv'' [Name ''ClientSVControlBlock''] (Prim c_bool)]"

definition iec61850_client_3 :: "stmt list" where
  "iec61850_client_3 = [
    BindStr ''ClientSVControlBlock_getMsvID'' [Name ''ClientSVControlBlock''],
    BindStr ''ClientSVControlBlock_getDatSet'' [Name ''ClientSVControlBlock''],
    Bind ''ClientSVControlBlock_getConfRev'' [Name ''ClientSVControlBlock''] (Prim c_uint32),
    Bind ''ClientSVControlBlock_getSmpRate'' [Name ''ClientSVControlBlock''] (Prim c_uint16),
    Bind ''ClientSVControlBlock_getDstAddress'' [Name ''ClientSVControlBlock''] (Name
        ''PhyComAddress''),
    Bind ''ClientSVControlBlock_getOptFlds'' [Name ''ClientSVControlBlock''] (Prim c_int),
    Bind ''ClientSVControlBlock_getSmpMod'' [Name ''ClientSVControlBlock''] (Prim c_uint8),
    Bind ''ClientSVControlBlock_getNoASDU'' [Name ''ClientSVControlBlock''] (Prim c_int),
    Bind ''ClientGooseControlBlock_create'' [Prim String] (Name ''ClientGooseControlBlock''),
    Bind ''ClientGooseControlBlock_destroy'' [Name ''ClientGooseControlBlock''] NoneT,
    Bind ''ClientGooseControlBlock_getGoEna'' [Name ''ClientGooseControlBlock''] (Prim c_bool),
    Bind ''ClientGooseControlBlock_setGoEna'' [Name ''ClientGooseControlBlock'', Prim c_bool]
        NoneT,
    Bind ''ClientGooseControlBlock_getGoID'' [Name ''ClientGooseControlBlock''] (Prim c_char_p),
    Bind ''ClientGooseControlBlock_setGoID'' [Name ''ClientGooseControlBlock'', Prim String] NoneT,
    Bind ''ClientGooseControlBlock_getDatSet'' [Name ''ClientGooseControlBlock''] (Prim c_char_p),
    Bind ''ClientGooseControlBlock_setDatSet'' [Name ''ClientGooseControlBlock'', Prim String]
        NoneT,
    Bind ''ClientGooseControlBlock_getConfRev'' [Name ''ClientGooseControlBlock''] (Prim c_uint32),
    Bind ''ClientGooseControlBlock_getNdsComm'' [Name ''ClientGooseControlBlock''] (Prim c_bool),
    Bind ''ClientGooseControlBlock_getMinTime'' [Name ''ClientGooseControlBlock''] (Prim c_uint32),
    Bind ''ClientGooseControlBlock_getMaxTime'' [Name ''ClientGooseControlBlock''] (Prim c_uint32),
    Bind ''ClientGooseControlBlock_getFixedOffs'' [Name ''ClientGooseControlBlock''] (Prim c_bool),
    Bind ''ClientGooseControlBlock_getDstAddress'' [Name ''ClientGooseControlBlock''] (Name
        ''PhyComAddress''),
    Bind ''ClientGooseControlBlock_setDstAddress'' [Name ''ClientGooseControlBlock'', Name
        ''PhyComAddress''] NoneT,
    Bind ''ClientGooseControlBlock_getDstAddress_addr'' [Name ''ClientGooseControlBlock''] (Ptr
        (Name ''MmsValue''))]"

definition iec61850_client_4 :: "stmt list" where
  "iec61850_client_4 = [
    Bind ''ClientGooseControlBlock_setDstAddress_addr'' [Name ''ClientGooseControlBlock'', Ptr
        (Name ''MmsValue'')] NoneT,
    Bind ''ClientGooseControlBlock_getDstAddress_priority'' [Name ''ClientGooseControlBlock'']
        (Prim c_uint8),
    Bind ''ClientGooseControlBlock_setDstAddress_priority'' [Name ''ClientGooseControlBlock'',
        Prim c_uint8] NoneT,
    Bind ''ClientGooseControlBlock_getDstAddress_vid'' [Name ''ClientGooseControlBlock''] (Prim
        c_uint16),
    Bind ''ClientGooseControlBlock_setDstAddress_vid'' [Name ''ClientGooseControlBlock'', Prim
        c_uint16] NoneT,
    Bind ''ClientGooseControlBlock_getDstAddress_appid'' [Name ''ClientGooseControlBlock''] (Prim
        c_uint16),
    Bind ''ClientGooseControlBlock_setDstAddress_appid'' [Name ''ClientGooseControlBlock'', Prim
        c_uint16] NoneT,
    Bind ''IedConnection_getGoCBValues'' [Name ''IedConnection'', Ptr (Name ''IedClientError''),
        Prim String, Name ''ClientGooseControlBlock''] (Name ''ClientGooseControlBlock''),
    Bind ''IedConnection_setGoCBValues'' [Name ''IedConnection'', Ptr (Name ''IedClientError''),
        Name ''ClientGooseControlBlock'', Prim c_uint32, Prim c_bool] NoneT,
    Bind ''IedConnection_readObject'' [Name ''IedConnection'', Ptr (Name ''IedClientError''),
        Prim String, Name ''FunctionalConstraint''] (Ptr (Name ''MmsValue'')),
    Alias ''IedConnection_ReadObjectHandler'' (Fn (Unch NoneT) [Prim c_uint32, Ptr NoneT, Name
        ''IedClientError'', Ptr (Name ''MmsValue'')]),
    Bind ''IedConnection_readObjectAsync'' [Name ''IedConnection'', Ptr (Name
        ''IedClientError''), Prim String, Name ''FunctionalConstraint'', Name
        ''IedConnection_ReadObjectHandler'', Ptr NoneT] (Prim c_uint32),
    Bind ''IedConnection_writeObject'' [Name ''IedConnection'', Ptr (Name ''IedClientError''),
        Prim String, Name ''FunctionalConstraint'', Ptr (Name ''MmsValue'')] NoneT,
    Bind ''IedConnection_writeObjectAsync'' [Name ''IedConnection'', Ptr (Name
        ''IedClientError''), Prim String, Name ''FunctionalConstraint'', Ptr (Name ''MmsValue''),
        Name ''IedConnection_GenericServiceHandler'', Ptr NoneT] (Prim c_uint32),
    Bind ''IedConnection_readBooleanValue'' [Name ''IedConnection'', Ptr (Name
        ''IedClientError''), Prim String, Name ''FunctionalConstraint''] (Prim c_bool),
    Bind ''IedConnection_readFloatValue'' [Name ''IedConnection'', Ptr (Name ''IedClientError''),
        Prim String, Name ''FunctionalConstraint''] (Prim c_float),
    BindStr ''IedConnection_readStringValue'' [Name ''IedConnection'', Ptr (Name
        ''IedClientError''), Prim String, Name ''FunctionalConstraint''],
    Bind ''IedConnection_readInt32Value'' [Name ''IedConnection'', Ptr (Name ''IedClientError''),
        Prim String, Name ''FunctionalConstraint''] (Prim c_int32),
    Bind ''IedConnection_readInt64Value'' [Name ''IedConnection'', Ptr (Name ''IedClientError''),
        Prim String, Name ''FunctionalConstraint''] (Prim c_int64),
    Bind ''IedConnection_readUnsigned32Value'' [Name ''IedConnection'', Ptr (Name
        ''IedClientError''), Prim String, Name ''FunctionalConstraint''] (Prim c_uint32),
    Bind ''IedConnection_readTimestampValue'' [Name ''IedConnection'', Ptr (Name
        ''IedClientError''), Prim String, Name ''FunctionalConstraint'', Ptr (Name
        ''Timestamp'')] (Ptr (Name ''Timestamp'')),
    Bind ''IedConnection_readQualityValue'' [Name ''IedConnection'', Ptr (Name
        ''IedClientError''), Prim String, Name ''FunctionalConstraint''] (Name ''Quality''),
    Bind ''IedConnection_writeBooleanValue'' [Name ''IedConnection'', Ptr (Name
        ''IedClientError''), Prim String, Name ''FunctionalConstraint'', Prim c_bool] NoneT,
    Bind ''IedConnection_writeInt32Value'' [Name ''IedConnection'', Ptr (Name
        ''IedClientError''), Prim String, Name ''FunctionalConstraint'', Prim c_int32] NoneT,
    Bind ''IedConnection_writeUnsigned32Value'' [Name ''IedConnection'', Ptr (Name
        ''IedClientError''), Prim String, Name ''FunctionalConstraint'', Prim c_uint32] NoneT]"

definition iec61850_client_5 :: "stmt list" where
  "iec61850_client_5 = [
    Bind ''IedConnection_writeFloatValue'' [Name ''IedConnection'', Ptr (Name
        ''IedClientError''), Prim String, Name ''FunctionalConstraint'', Prim c_float] NoneT,
    Bind ''IedConnection_writeVisibleStringValue'' [Name ''IedConnection'', Ptr (Name
        ''IedClientError''), Prim String, Name ''FunctionalConstraint'', Prim String] NoneT,
    Bind ''IedConnection_writeOctetString'' [Name ''IedConnection'', Ptr (Name
        ''IedClientError''), Prim String, Name ''FunctionalConstraint'', Ptr (Prim c_uint8), Prim
        c_int] NoneT,
    Bind ''IedConnection_getRCBValues'' [Name ''IedConnection'', Ptr (Name ''IedClientError''),
        Prim String, Name ''ClientReportControlBlock''] (Name ''ClientReportControlBlock''),
    Alias ''IedConnection_GetRCBValuesHandler'' (Fn (Unch NoneT) [Prim c_uint32, Ptr NoneT, Name
        ''IedClientError'', Name ''ClientReportControlBlock'']),
    Bind ''IedConnection_getRCBValuesAsync'' [Name ''IedConnection'', Ptr (Name
        ''IedClientError''), Prim String, Name ''ClientReportControlBlock'', Name
        ''IedConnection_GetRCBValuesHandler'', Ptr NoneT] (Prim c_uint32),
    Alias ''enum_anon_44'' (Prim c_int),
    Const ''IEC61850_REASON_NOT_INCLUDED'' (Num 0),
    Const ''IEC61850_REASON_DATA_CHANGE'' (Num 1),
    Const ''IEC61850_REASON_QUALITY_CHANGE'' (Num 2),
    Const ''IEC61850_REASON_DATA_UPDATE'' (Num 3),
    Const ''IEC61850_REASON_INTEGRITY'' (Num 4),
    Const ''IEC61850_REASON_GI'' (Num 5),
    Const ''IEC61850_REASON_UNKNOWN'' (Num 6),
    Alias ''ReasonForInclusion'' (Name ''enum_anon_44''),
    Bind ''IedConnection_setRCBValues'' [Name ''IedConnection'', Ptr (Name ''IedClientError''),
        Name ''ClientReportControlBlock'', Prim c_uint32, Prim c_bool] NoneT,
    Bind ''IedConnection_setRCBValuesAsync'' [Name ''IedConnection'', Ptr (Name
        ''IedClientError''), Name ''ClientReportControlBlock'', Prim c_uint32, Prim c_bool, Name
        ''IedConnection_GenericServiceHandler'', Ptr NoneT] (Prim c_uint32),
    Alias ''ReportCallbackFunction'' (Fn (Unch NoneT) [Ptr NoneT, Name ''ClientReport'']),
    Bind ''IedConnection_installReportHandler'' [Name ''IedConnection'', Prim String, Prim
        String, Name ''ReportCallbackFunction'', Ptr NoneT] NoneT,
    Bind ''IedConnection_uninstallReportHandler'' [Name ''IedConnection'', Prim String] NoneT,
    Bind ''IedConnection_triggerGIReport'' [Name ''IedConnection'', Ptr (Name
        ''IedClientError''), Prim String] NoneT,
    Bind ''ClientReport_getDataSetName'' [Name ''ClientReport''] (Prim c_char_p),
    Bind ''ClientReport_getDataSetValues'' [Name ''ClientReport''] (Ptr (Name ''MmsValue'')),
    BindStr ''ClientReport_getRcbReference'' [Name ''ClientReport''],
    BindStr ''ClientReport_getRptId'' [Name ''ClientReport''],
    Bind ''ClientReport_getReasonForInclusion'' [Name ''ClientReport'', Prim c_int] (Name
        ''ReasonForInclusion''),
    Bind ''ClientReport_getEntryId'' [Name ''ClientReport''] (Ptr (Name ''MmsValue'')),
    Bind ''ClientReport_hasTimestamp'' [Name ''ClientReport''] (Prim c_bool),
    Bind ''ClientReport_hasSeqNum'' [Name ''ClientReport''] (Prim c_bool),
    Bind ''ClientReport_getSeqNum'' [Name ''ClientReport''] (Prim c_uint16),
    Bind ''ClientReport_hasDataSetName'' [Name ''ClientReport''] (Prim c_bool)]"

definition iec61850_client_6 :: "stmt list" where
  "iec61850_client_6 = [
    Bind ''ClientReport_hasReasonForInclusion'' [Name ''ClientReport''] (Prim c_bool),
    Bind ''ClientReport_hasConfRev'' [Name ''ClientReport''] (Prim c_bool),
    Bind ''ClientReport_getConfRev'' [Name ''ClientReport''] (Prim c_uint32),
    Bind ''ClientReport_hasBufOvfl'' [Name ''ClientReport''] (Prim c_bool),
    Bind ''ClientReport_getBufOvfl'' [Name ''ClientReport''] (Prim c_bool),
    Bind ''ClientReport_hasDataReference'' [Name ''ClientReport''] (Prim c_bool),
    Bind ''ClientReport_getDataReference'' [Name ''ClientReport'', Prim c_int] (Prim c_char_p),
    Bind ''ClientReport_getTimestamp'' [Name ''ClientReport''] (Prim c_uint64),
    Bind ''ClientReport_hasSubSeqNum'' [Name ''ClientReport''] (Prim c_bool),
    Bind ''ClientReport_getSubSeqNum'' [Name ''ClientReport''] (Prim c_uint16),
    Bind ''ClientReport_getMoreSeqmentsFollow'' [Name ''ClientReport''] (Prim c_bool),
    BindStr ''ReasonForInclusion_getValueAsString'' [Name ''ReasonForInclusion''],
    Bind ''ClientReportControlBlock_create'' [Prim String] (Name ''ClientReportControlBlock''),
    Bind ''ClientReportControlBlock_destroy'' [Name ''ClientReportControlBlock''] NoneT,
    BindStr ''ClientReportControlBlock_getObjectReference'' [Name ''ClientReportControlBlock''],
    Bind ''ClientReportControlBlock_isBuffered'' [Name ''ClientReportControlBlock''] (Prim c_bool),
    Bind ''ClientReportControlBlock_getRptId'' [Name ''ClientReportControlBlock''] (Prim c_char_p),
    Bind ''ClientReportControlBlock_setRptId'' [Name ''ClientReportControlBlock'', Prim String]
        NoneT,
    Bind ''ClientReportControlBlock_getRptEna'' [Name ''ClientReportControlBlock''] (Prim c_bool),
    Bind ''ClientReportControlBlock_setRptEna'' [Name ''ClientReportControlBlock'', Prim c_bool]
        NoneT,
    Bind ''ClientReportControlBlock_getResv'' [Name ''ClientReportControlBlock''] (Prim c_bool),
    Bind ''ClientReportControlBlock_setResv'' [Name ''ClientReportControlBlock'', Prim c_bool]
        NoneT,
    Bind ''ClientReportControlBlock_getDataSetReference'' [Name ''ClientReportControlBlock'']
        (Prim c_char_p),
    Bind ''ClientReportControlBlock_setDataSetReference'' [Name ''ClientReportControlBlock'',
        Prim String] NoneT]"

definition iec61850_client_7 :: "stmt list" where
  "iec61850_client_7 = [
    Bind ''ClientReportControlBlock_getConfRev'' [Name ''ClientReportControlBlock''] (Prim
        c_uint32),
    Bind ''ClientReportControlBlock_getOptFlds'' [Name ''ClientReportControlBlock''] (Prim c_int),
    Bind ''ClientReportControlBlock_setOptFlds'' [Name ''ClientReportControlBlock'', Prim c_int]
        NoneT,
    Bind ''ClientReportControlBlock_getBufTm'' [Name ''ClientReportControlBlock''] (Prim c_uint32),
    Bind ''ClientReportControlBlock_setBufTm'' [Name ''ClientReportControlBlock'', Prim c_uint32]
        NoneT,
    Bind ''ClientReportControlBlock_getSqNum'' [Name ''ClientReportControlBlock''] (Prim c_uint16),
    Bind ''ClientReportControlBlock_getTrgOps'' [Name ''ClientReportControlBlock''] (Prim c_int),
    Bind ''ClientReportControlBlock_setTrgOps'' [Name ''ClientReportControlBlock'', Prim c_int]
        NoneT,
    Bind ''ClientReportControlBlock_getIntgPd'' [Name ''ClientReportControlBlock''] (Prim
        c_uint32),
    Bind ''ClientReportControlBlock_setIntgPd'' [Name ''ClientReportControlBlock'', Prim
        c_uint32] NoneT,
    Bind ''ClientReportControlBlock_getGI'' [Name ''ClientReportControlBlock''] (Prim c_bool),
    Bind ''ClientReportControlBlock_setGI'' [Name ''ClientReportControlBlock'', Prim c_bool] NoneT,
    Bind ''ClientReportControlBlock_getPurgeBuf'' [Name ''ClientReportControlBlock''] (Prim
        c_bool),
    Bind ''ClientReportControlBlock_setPurgeBuf'' [Name ''ClientReportControlBlock'', Prim
        c_bool] NoneT,
    Bind ''ClientReportControlBlock_hasResvTms'' [Name ''ClientReportControlBlock''] (Prim c_bool),
    Bind ''ClientReportControlBlock_getResvTms'' [Name ''ClientReportControlBlock''] (Prim
        c_int16),
    Bind ''ClientReportControlBlock_setResvTms'' [Name ''ClientReportControlBlock'', Prim
        c_int16] NoneT,
    Bind ''ClientReportControlBlock_getEntryId'' [Name ''ClientReportControlBlock''] (Ptr (Name
        ''MmsValue'')),
    Bind ''ClientReportControlBlock_setEntryId'' [Name ''ClientReportControlBlock'', Ptr (Name
        ''MmsValue'')] NoneT,
    Bind ''ClientReportControlBlock_getEntryTime'' [Name ''ClientReportControlBlock''] (Prim
        c_uint64),
    Bind ''ClientReportControlBlock_getOwner'' [Name ''ClientReportControlBlock''] (Ptr (Name
        ''MmsValue'')),
    Bind ''IedConnection_readDataSetValues'' [Name ''IedConnection'', Ptr (Name
        ''IedClientError''), Prim String, Name ''ClientDataSet''] (Name ''ClientDataSet''),
    Alias ''IedConnection_ReadDataSetHandler'' (Fn (Unch NoneT) [Prim c_uint32, Ptr NoneT, Name
        ''IedClientError'', Name ''ClientDataSet'']),
    Bind ''IedConnection_readDataSetValuesAsync'' [Name ''IedConnection'', Ptr (Name
        ''IedClientError''), Prim String, Name ''ClientDataSet'', Name
        ''IedConnection_ReadDataSetHandler'', Ptr NoneT] (Prim c_uint32),
    Bind ''IedConnection_createDataSet'' [Name ''IedConnection'', Ptr (Name ''IedClientError''),
        Prim String, Name ''LinkedList''] NoneT,
    Bind ''IedConnection_deleteDataSet'' [Name ''IedConnection'', Ptr (Name ''IedClientError''),
        Prim String] (Prim c_bool)]"

definition iec61850_client_8 :: "stmt list" where
  "iec61850_client_8 = [
    Bind ''IedConnection_getDataSetDirectory'' [Name ''IedConnection'', Ptr (Name
        ''IedClientError''), Prim String, Ptr (Prim c_bool)] (Name ''LinkedList''),
    Bind ''IedConnection_writeDataSetValues'' [Name ''IedConnection'', Ptr (Name
        ''IedClientError''), Prim String, Name ''LinkedList'', Ptr (Name ''LinkedList'')] NoneT,
    Alias ''IedConnection_WriteDataSetHandler'' (Fn (Unch NoneT) [Prim c_uint32, Ptr NoneT, Name
        ''IedClientError'', Name ''LinkedList'']),
    Bind ''IedConnection_writeDataSetValuesAsync'' [Name ''IedConnection'', Ptr (Name
        ''IedClientError''), Prim String, Name ''LinkedList'', Name
        ''IedConnection_WriteDataSetHandler'', Ptr NoneT] (Prim c_uint32),
    Bind ''ClientDataSet_destroy'' [Name ''ClientDataSet''] NoneT,
    Bind ''ClientDataSet_getValues'' [Name ''ClientDataSet''] (Ptr (Name ''MmsValue'')),
    BindStr ''ClientDataSet_getReference'' [Name ''ClientDataSet''],
    Bind ''ClientDataSet_getDataSetSize'' [Name ''ClientDataSet''] (Prim c_int),
    StructDef ''struct_sControlObjectClient'',
    Alias ''ControlObjectClient'' (Ptr (Name ''struct_sControlObjectClient'')),
    Bind ''ControlObjectClient_create'' [Prim String, Name ''IedConnection''] (Name
        ''ControlObjectClient''),
    Bind ''ControlObjectClient_createEx'' [Prim String, Name ''IedConnection'', Name
        ''ControlModel'', Ptr (Name ''MmsVariableSpecification'')] (Name ''ControlObjectClient''),
    Bind ''ControlObjectClient_destroy'' [Name ''ControlObjectClient''] NoneT,
    Alias ''enum_anon_45'' (Prim c_int),
    Const ''CONTROL_ACTION_TYPE_SELECT'' (Num 0),
    Const ''CONTROL_ACTION_TYPE_OPERATE'' (Num 1),
    Const ''CONTROL_ACTION_TYPE_CANCEL'' (Num 2),
    Alias ''ControlActionType'' (Name ''enum_anon_45''),
    Alias ''ControlObjectClient_ControlActionHandler'' (Fn (Unch NoneT) [Prim c_uint32, Ptr
        NoneT, Name ''IedClientError'', Name ''ControlActionType'', Prim c_bool]),
    Bind ''ControlObjectClient_getObjectReference'' [Name ''ControlObjectClient''] (Prim c_char_p),
    Bind ''ControlObjectClient_getControlModel'' [Name ''ControlObjectClient''] (Name
        ''ControlModel''),
    Bind ''ControlObjectClient_setControlModel'' [Name ''ControlObjectClient'', Name
        ''ControlModel''] NoneT,
    Bind ''ControlObjectClient_changeServerControlModel'' [Name ''ControlObjectClient'', Name
        ''ControlModel''] NoneT,
    Bind ''ControlObjectClient_getCtlValType'' [Name ''ControlObjectClient''] (Name ''MmsType''),
    Bind ''ControlObjectClient_getLastError'' [Name ''ControlObjectClient''] (Name
        ''IedClientError''),
    Bind ''ControlObjectClient_operate'' [Name ''ControlObjectClient'', Ptr (Name ''MmsValue''),
        Prim c_uint64] (Prim c_bool),
    Bind ''ControlObjectClient_select'' [Name ''ControlObjectClient''] (Prim c_bool),
    Bind ''ControlObjectClient_selectWithValue'' [Name ''ControlObjectClient'', Ptr (Name
        ''MmsValue'')] (Prim c_bool),
    Bind ''ControlObjectClient_cancel'' [Name ''ControlObjectClient''] (Prim c_bool),
    Bind ''ControlObjectClient_operateAsync'' [Name ''ControlObjectClient'', Ptr (Name
        ''IedClientError''), Ptr (Name ''MmsValue''), Prim c_uint64, Name
        ''ControlObjectClient_ControlActionHandler'', Ptr NoneT] (Prim c_uint32)]"

definition iec61850_client_9 :: "stmt list" where
  "iec61850_client_9 = [
    Bind ''ControlObjectClient_selectAsync'' [Name ''ControlObjectClient'', Ptr (Name
        ''IedClientError''), Name ''ControlObjectClient_ControlActionHandler'', Ptr NoneT] (Prim
        c_uint32),
    Bind ''ControlObjectClient_selectWithValueAsync'' [Name ''ControlObjectClient'', Ptr (Name
        ''IedClientError''), Ptr (Name ''MmsValue''), Name
        ''ControlObjectClient_ControlActionHandler'', Ptr NoneT] (Prim c_uint32),
    Bind ''ControlObjectClient_cancelAsync'' [Name ''ControlObjectClient'', Ptr (Name
        ''IedClientError''), Name ''ControlObjectClient_ControlActionHandler'', Ptr NoneT] (Prim
        c_uint32),
    Bind ''ControlObjectClient_getLastApplError'' [Name ''ControlObjectClient''] (Name
        ''LastApplError''),
    Bind ''ControlObjectClient_setTestMode'' [Name ''ControlObjectClient'', Prim c_bool] NoneT,
    Bind ''ControlObjectClient_setOrigin'' [Name ''ControlObjectClient'', Prim String, Prim
        c_int] NoneT,
    Bind ''ControlObjectClient_useConstantT'' [Name ''ControlObjectClient'', Prim c_bool] NoneT,
    Bind ''ControlObjectClient_enableInterlockCheck'' [Name ''ControlObjectClient''] NoneT,
    Bind ''ControlObjectClient_enableSynchroCheck'' [Name ''ControlObjectClient''] NoneT,
    Bind ''ControlObjectClient_setInterlockCheck'' [Name ''ControlObjectClient'', Prim c_bool]
        NoneT,
    Bind ''ControlObjectClient_setSynchroCheck'' [Name ''ControlObjectClient'', Prim c_bool] NoneT,
    Alias ''CommandTerminationHandler'' (Fn (Unch NoneT) [Ptr NoneT, Name
        ''ControlObjectClient'']),
    Bind ''ControlObjectClient_setCommandTerminationHandler'' [Name ''ControlObjectClient'', Name
        ''CommandTerminationHandler'', Ptr NoneT] NoneT,
    Bind ''IedConnection_getDeviceModelFromServer'' [Name ''IedConnection'', Ptr (Name
        ''IedClientError'')] NoneT,
    Bind ''IedConnection_getLogicalDeviceList'' [Name ''IedConnection'', Ptr (Name
        ''IedClientError'')] (Name ''LinkedList''),
    Bind ''IedConnection_getServerDirectory'' [Name ''IedConnection'', Ptr (Name
        ''IedClientError''), Prim c_bool] (Name ''LinkedList''),
    Bind ''IedConnection_getLogicalDeviceDirectory'' [Name ''IedConnection'', Ptr (Name
        ''IedClientError''), Prim String] (Name ''LinkedList''),
    Alias ''enum_anon_46'' (Prim c_int),
    Const ''ACSI_CLASS_DATA_OBJECT'' (Num 0),
    Const ''ACSI_CLASS_DATA_SET'' (Add (Ref ''ACSI_CLASS_DATA_OBJECT'') (Num 1)),
    Const ''ACSI_CLASS_BRCB'' (Add (Ref ''ACSI_CLASS_DATA_SET'') (Num 1)),
    Const ''ACSI_CLASS_URCB'' (Add (Ref ''ACSI_CLASS_BRCB'') (Num 1)),
    Const ''ACSI_CLASS_LCB'' (Add (Ref ''ACSI_CLASS_URCB'') (Num 1)),
    Const ''ACSI_CLASS_LOG'' (Add (Ref ''ACSI_CLASS_LCB'') (Num 1)),
    Const ''ACSI_CLASS_SGCB'' (Add (Ref ''ACSI_CLASS_LOG'') (Num 1)),
    Const ''ACSI_CLASS_GoCB'' (Add (Ref ''ACSI_CLASS_SGCB'') (Num 1)),
    Const ''ACSI_CLASS_GsCB'' (Add (Ref ''ACSI_CLASS_GoCB'') (Num 1)),
    Const ''ACSI_CLASS_MSVCB'' (Add (Ref ''ACSI_CLASS_GsCB'') (Num 1)),
    Const ''ACSI_CLASS_USVCB'' (Add (Ref ''ACSI_CLASS_MSVCB'') (Num 1)),
    Alias ''ACSIClass'' (Name ''enum_anon_46''),
    Bind ''IedConnection_getLogicalNodeVariables'' [Name ''IedConnection'', Ptr (Name
        ''IedClientError''), Prim String] (Name ''LinkedList''),
    Bind ''IedConnection_getLogicalNodeDirectory'' [Name ''IedConnection'', Ptr (Name
        ''IedClientError''), Prim String, Name ''ACSIClass''] (Name ''LinkedList''),
    Bind ''IedConnection_getDataDirectory'' [Name ''IedConnection'', Ptr (Name
        ''IedClientError''), Prim String] (Name ''LinkedList''),
    Bind ''IedConnection_getDataDirectoryFC'' [Name ''IedConnection'', Ptr (Name
        ''IedClientError''), Prim String] (Name ''LinkedList'')]"

definition iec61850_client_10 :: "stmt list" where
  "iec61850_client_10 = [
    Bind ''IedConnection_getDataDirectoryByFC'' [Name ''IedConnection'', Ptr (Name
        ''IedClientError''), Prim String, Name ''FunctionalConstraint''] (Name ''LinkedList''),
    Bind ''IedConnection_getVariableSpecification'' [Name ''IedConnection'', Ptr (Name
        ''IedClientError''), Prim String, Name ''FunctionalConstraint''] (Ptr (Name
        ''MmsVariableSpecification'')),
    Bind ''IedConnection_getLogicalDeviceVariables'' [Name ''IedConnection'', Ptr (Name
        ''IedClientError''), Prim String] (Name ''LinkedList''),
    Bind ''IedConnection_getLogicalDeviceDataSets'' [Name ''IedConnection'', Ptr (Name
        ''IedClientError''), Prim String] (Name ''LinkedList''),
    Alias ''IedConnection_GetNameListHandler'' (Fn (Unch NoneT) [Prim c_uint32, Ptr NoneT, Name
        ''IedClientError'', Name ''LinkedList'', Prim c_bool]),
    Bind ''IedConnection_getServerDirectoryAsync'' [Name ''IedConnection'', Ptr (Name
        ''IedClientError''), Prim String, Name ''LinkedList'', Name
        ''IedConnection_GetNameListHandler'', Ptr NoneT] (Prim c_uint32),
    Bind ''IedConnection_getLogicalDeviceVariablesAsync'' [Name ''IedConnection'', Ptr (Name
        ''IedClientError''), Prim String, Prim String, Name ''LinkedList'', Name
        ''IedConnection_GetNameListHandler'', Ptr NoneT] (Prim c_uint32),
    Bind ''IedConnection_getLogicalDeviceDataSetsAsync'' [Name ''IedConnection'', Ptr (Name
        ''IedClientError''), Prim String, Prim String, Name ''LinkedList'', Name
        ''IedConnection_GetNameListHandler'', Ptr NoneT] (Prim c_uint32),
    Alias ''IedConnection_GetVariableSpecificationHandler'' (Fn (Unch NoneT) [Prim c_uint32, Ptr
        NoneT, Name ''IedClientError'', Ptr (Name ''MmsVariableSpecification'')]),
    Bind ''IedConnection_getVariableSpecificationAsync'' [Name ''IedConnection'', Ptr (Name
        ''IedClientError''), Prim String, Name ''FunctionalConstraint'', Name
        ''IedConnection_GetVariableSpecificationHandler'', Ptr NoneT] (Prim c_uint32),
    Bind ''IedConnection_queryLogByTime'' [Name ''IedConnection'', Ptr (Name ''IedClientError''),
        Prim String, Prim c_uint64, Prim c_uint64, Ptr (Prim c_bool)] (Name ''LinkedList''),
    Bind ''IedConnection_queryLogAfter'' [Name ''IedConnection'', Ptr (Name ''IedClientError''),
        Prim String, Ptr (Name ''MmsValue''), Prim c_uint64, Ptr (Prim c_bool)] (Name
        ''LinkedList''),
    Alias ''IedConnection_QueryLogHandler'' (Fn (Unch NoneT) [Prim c_uint32, Ptr NoneT, Name
        ''IedClientError'', Name ''LinkedList'', Prim c_bool]),
    Bind ''IedConnection_queryLogByTimeAsync'' [Name ''IedConnection'', Ptr (Name
        ''IedClientError''), Prim String, Prim c_uint64, Prim c_uint64, Name
        ''IedConnection_QueryLogHandler'', Ptr NoneT] (Prim c_uint32),
    Bind ''IedConnection_queryLogAfterAsync'' [Name ''IedConnection'', Ptr (Name
        ''IedClientError''), Prim String, Ptr (Name ''MmsValue''), Prim c_uint64, Name
        ''IedConnection_QueryLogHandler'', Ptr NoneT] (Prim c_uint32),
    StructDef ''struct_sFileDirectoryEntry'',
    Alias ''FileDirectoryEntry'' (Ptr (Name ''struct_sFileDirectoryEntry'')),
    Bind ''FileDirectoryEntry_create'' [Prim String, Prim c_uint32, Prim c_uint64] (Name
        ''FileDirectoryEntry''),
    Bind ''FileDirectoryEntry_destroy'' [Name ''FileDirectoryEntry''] NoneT,
    Bind ''FileDirectoryEntry_getFileName'' [Name ''FileDirectoryEntry''] (Prim c_char_p),
    Bind ''FileDirectoryEntry_getFileSize'' [Name ''FileDirectoryEntry''] (Prim c_uint32),
    Bind ''FileDirectoryEntry_getLastModified'' [Name ''FileDirectoryEntry''] (Prim c_uint64),
    Bind ''IedConnection_getFileDirectory'' [Name ''IedConnection'', Ptr (Name
        ''IedClientError''), Prim String] (Name ''LinkedList''),
    Bind ''IedConnection_getFileDirectoryEx'' [Name ''IedConnection'', Ptr (Name
        ''IedClientError''), Prim String, Prim String, Ptr (Prim c_bool)] (Name ''LinkedList''),
    Alias ''IedConnection_FileDirectoryEntryHandler'' (Fn (Unch (Prim c_bool)) [Prim c_uint32,
        Ptr NoneT, Name ''IedClientError'', Prim String, Prim c_uint32, Prim c_uint64, Prim
        c_bool]),
    Bind ''IedConnection_getFileDirectoryAsyncEx'' [Name ''IedConnection'', Ptr (Name
        ''IedClientError''), Prim String, Prim String, Name
        ''IedConnection_FileDirectoryEntryHandler'', Ptr NoneT] (Prim c_uint32),
    Alias ''IedClientGetFileHandler'' (Fn (Unch (Prim c_bool)) [Ptr NoneT, Ptr (Prim c_uint8),
        Prim c_uint32]),
    Bind ''IedConnection_getFile'' [Name ''IedConnection'', Ptr (Name ''IedClientError''), Prim
        String, Name ''IedClientGetFileHandler'', Ptr NoneT] (Prim c_uint32),
    Alias ''IedConnection_GetFileAsyncHandler'' (Fn (Unch (Prim c_bool)) [Prim c_uint32, Ptr
        NoneT, Name ''IedClientError'', Prim c_uint32, Ptr (Prim c_uint8), Prim c_uint32, Prim
        c_bool]),
    Bind ''IedConnection_getFileAsync'' [Name ''IedConnection'', Ptr (Name ''IedClientError''),
        Prim String, Name ''IedConnection_GetFileAsyncHandler'', Ptr NoneT] (Prim c_uint32)]"

definition iec61850_client_11 :: "stmt list" where
  "iec61850_client_11 = [
    Bind ''IedConnection_setFilestoreBasepath'' [Name ''IedConnection'', Prim String] NoneT,
    Bind ''IedConnection_setFile'' [Name ''IedConnection'', Ptr (Name ''IedClientError''), Prim
        String, Prim String] NoneT,
    Bind ''IedConnection_setFileAsync'' [Name ''IedConnection'', Ptr (Name ''IedClientError''),
        Prim String, Prim String, Name ''IedConnection_GenericServiceHandler'', Ptr NoneT] (Prim
        c_uint32),
    Bind ''IedConnection_deleteFile'' [Name ''IedConnection'', Ptr (Name ''IedClientError''),
        Prim String] NoneT,
    Bind ''IedConnection_deleteFileAsync'' [Name ''IedConnection'', Ptr (Name
        ''IedClientError''), Prim String, Name ''IedConnection_GenericServiceHandler'', Ptr
        NoneT] (Prim c_uint32)]"

end
