(* ===== verification/Lib_Table_3.thy ===== *)
theory Lib_Table_3
  imports Lib_Syntax
begin

text \<open>
  The statements of \<^verbatim>\<open>tools/python_client/lib61850.py\<close>, in order: data models, common data classes, the server.
\<close>

definition mms_server_1 :: "stmt list" where
  "mms_server_1 = [
    StructDef ''struct_sMmsServer'',
    Alias ''MmsServer'' (Ptr (Name ''struct_sMmsServer''))]"

definition iec61850_model_1 :: "stmt list" where
  "iec61850_model_1 = [
    StructDef ''struct_sModelNode'',
    Alias ''ModelNode'' (Name ''struct_sModelNode''),
    StructDef ''struct_sDataAttribute'',
    Alias ''DataAttribute'' (Name ''struct_sDataAttribute''),
    StructDef ''struct_sDataObject'',
    Alias ''DataObject'' (Name ''struct_sDataObject''),
    StructDef ''struct_sLogicalNode'',
    Alias ''LogicalNode'' (Name ''struct_sLogicalNode''),
    StructDef ''struct_sLogicalDevice'',
    Alias ''LogicalDevice'' (Name ''struct_sLogicalDevice''),
    StructDef ''struct_sIedModel'',
    Alias ''IedModel'' (Name ''struct_sIedModel''),
    StructDef ''struct_sDataSet'',
    Alias ''DataSet'' (Name ''struct_sDataSet''),
    StructDef ''struct_sReportControlBlock'',
    Alias ''ReportControlBlock'' (Name ''struct_sReportControlBlock''),
    StructDef ''struct_sSettingGroupControlBlock'',
    Alias ''SettingGroupControlBlock'' (Name ''struct_sSettingGroupControlBlock''),
    StructDef ''struct_sGSEControlBlock'',
    Alias ''GSEControlBlock'' (Name ''struct_sGSEControlBlock''),
    StructDef ''struct_sSVControlBlock'',
    Alias ''SVControlBlock'' (Name ''struct_sSVControlBlock''),
    StructDef ''struct_sLogControlBlock'',
    Alias ''LogControlBlock'' (Name ''struct_sLogControlBlock''),
    StructDef ''struct_sLog'',
    Alias ''Log'' (Name ''struct_sLog''),
    Alias ''enum_anon_50'' (Prim c_int),
    Const ''IEC61850_BOOLEAN'' (Num 0),
    Const ''IEC61850_INT8'' (Num 1),
    Const ''IEC61850_INT16'' (Num 2),
    Const ''IEC61850_INT32'' (Num 3),
    Const ''IEC61850_INT64'' (Num 4),
    Const ''IEC61850_INT128'' (Num 5),
    Const ''IEC61850_INT8U'' (Num 6),
    Const ''IEC61850_INT16U'' (Num 7),
    Const ''IEC61850_INT24U'' (Num 8),
    Const ''IEC61850_INT32U'' (Num 9),
    Const ''IEC61850_FLOAT32'' (Num 10),
    Const ''IEC61850_FLOAT64'' (Num 11),
    Const ''IEC61850_ENUMERATED'' (Num 12),
    Const ''IEC61850_OCTET_STRING_64'' (Num 13),
    Const ''IEC61850_OCTET_STRING_6'' (Num 14),
    Const ''IEC61850_OCTET_STRING_8'' (Num 15),
    Const ''IEC61850_VISIBLE_STRING_32'' (Num 16),
    Const ''IEC61850_VISIBLE_STRING_64'' (Num 17),
    Const ''IEC61850_VISIBLE_STRING_65'' (Num 18),
    Const ''IEC61850_VISIBLE_STRING_129'' (Num 19),
    Const ''IEC61850_VISIBLE_STRING_255'' (Num 20),
    Const ''IEC61850_UNICODE_STRING_255'' (Num 21),
    Const ''IEC61850_TIMESTAMP'' (Num 22),
    Const ''IEC61850_QUALITY'' (Num 23),
    Const ''IEC61850_CHECK'' (Num 24),
    Const ''IEC61850_CODEDENUM'' (Num 25),
    Const ''IEC61850_GENERIC_BITSTRING'' (Num 26),
    Const ''IEC61850_CONSTRUCTED'' (Num 27),
    Const ''IEC61850_ENTRY_TIME'' (Num 28),
    Const ''IEC61850_PHYCOMADDR'' (Num 29),
    Const ''IEC61850_CURRENCY'' (Num 30),
    Const ''IEC61850_OPTFLDS'' (Num 31),
    Const ''IEC61850_TRGOPS'' (Num 32),
    Alias ''DataAttributeType'' (Name ''enum_anon_50''),
    Alias ''enum_anon_51'' (Prim c_int),
    Const ''LogicalDeviceModelType'' (Num 0)]"

definition iec61850_model_2 :: "stmt list" where
  "iec61850_model_2 = [
    Const ''LogicalNodeModelType'' (Add (Ref ''LogicalDeviceModelType'') (Num 1)),
    Const ''DataObjectModelType'' (Add (Ref ''LogicalNodeModelType'') (Num 1)),
    Const ''DataAttributeModelType'' (Add (Ref ''DataObjectModelType'') (Num 1)),
    Alias ''ModelNodeType'' (Name ''enum_anon_51''),
    Slots ''struct_sIedModel'' [''name'', ''firstChild'', ''dataSets'', ''rcbs'', ''gseCBs'',
        ''svCBs'', ''sgcbs'', ''lcbs'', ''logs'', ''initializer''],
    Fields ''struct_sIedModel'' [(''name'', Prim String), (''firstChild'', Ptr (Name
        ''LogicalDevice'')), (''dataSets'', Ptr (Name ''DataSet'')), (''rcbs'', Ptr (Name
        ''ReportControlBlock'')), (''gseCBs'', Ptr (Name ''GSEControlBlock'')), (''svCBs'', Ptr
        (Name ''SVControlBlock'')), (''sgcbs'', Ptr (Name ''SettingGroupControlBlock'')),
        (''lcbs'', Ptr (Name ''LogControlBlock'')), (''logs'', Ptr (Name ''Log'')),
        (''initializer'', Fn (Unch NoneT) [])],
    Slots ''struct_sLogicalDevice'' [''modelType'', ''name'', ''parent'', ''sibling'',
        ''firstChild''],
    Fields ''struct_sLogicalDevice'' [(''modelType'', Name ''ModelNodeType''), (''name'', Prim
        String), (''parent'', Ptr (Name ''ModelNode'')), (''sibling'', Ptr (Name ''ModelNode'')),
        (''firstChild'', Ptr (Name ''ModelNode''))],
    Slots ''struct_sModelNode'' [''modelType'', ''name'', ''parent'', ''sibling'', ''firstChild''],
    Fields ''struct_sModelNode'' [(''modelType'', Name ''ModelNodeType''), (''name'', Prim
        String), (''parent'', Ptr (Name ''ModelNode'')), (''sibling'', Ptr (Name ''ModelNode'')),
        (''firstChild'', Ptr (Name ''ModelNode''))],
    Slots ''struct_sLogicalNode'' [''modelType'', ''name'', ''parent'', ''sibling'',
        ''firstChild''],
    Fields ''struct_sLogicalNode'' [(''modelType'', Name ''ModelNodeType''), (''name'', Prim
        String), (''parent'', Ptr (Name ''ModelNode'')), (''sibling'', Ptr (Name ''ModelNode'')),
        (''firstChild'', Ptr (Name ''ModelNode''))],
    Slots ''struct_sDataObject'' [''modelType'', ''name'', ''parent'', ''sibling'',
        ''firstChild'', ''elementCount''],
    Fields ''struct_sDataObject'' [(''modelType'', Name ''ModelNodeType''), (''name'', Prim
        String), (''parent'', Ptr (Name ''ModelNode'')), (''sibling'', Ptr (Name ''ModelNode'')),
        (''firstChild'', Ptr (Name ''ModelNode'')), (''elementCount'', Prim c_int)],
    Slots ''struct_sDataAttribute'' [''modelType'', ''name'', ''parent'', ''sibling'',
        ''firstChild'', ''elementCount'', ''fc'', ''type'', ''triggerOptions'', ''mmsValue'',
        ''sAddr''],
    Fields ''struct_sDataAttribute'' [(''modelType'', Name ''ModelNodeType''), (''name'', Prim
        String), (''parent'', Ptr (Name ''ModelNode'')), (''sibling'', Ptr (Name ''ModelNode'')),
        (''firstChild'', Ptr (Name ''ModelNode'')), (''elementCount'', Prim c_int), (''fc'', Name
        ''FunctionalConstraint''), (''type'', Name ''DataAttributeType''), (''triggerOptions'',
        Prim c_uint8), (''mmsValue'', Ptr (Name ''MmsValue'')), (''sAddr'', Prim c_uint32)],
    StructDef ''struct_sDataSetEntry'',
    Slots ''struct_sDataSetEntry'' [''logicalDeviceName'', ''isLDNameDynamicallyAllocated'',
        ''variableName'', ''index'', ''componentName'', ''value'', ''sibling''],
    Fields ''struct_sDataSetEntry'' [(''logicalDeviceName'', Prim String),
        (''isLDNameDynamicallyAllocated'', Prim c_bool), (''variableName'', Prim String),
        (''index'', Prim c_int), (''componentName'', Prim String), (''value'', Ptr (Name
        ''MmsValue'')), (''sibling'', Ptr (Name ''struct_sDataSetEntry''))],
    Alias ''DataSetEntry'' (Name ''struct_sDataSetEntry'')]"

definition iec61850_model_3 :: "stmt list" where
  "iec61850_model_3 = [
    Slots ''struct_sDataSet'' [''logicalDeviceName'', ''name'', ''elementCount'', ''fcdas'',
        ''sibling''],
    Fields ''struct_sDataSet'' [(''logicalDeviceName'', Prim String), (''name'', Prim String),
        (''elementCount'', Prim c_int), (''fcdas'', Ptr (Name ''DataSetEntry'')), (''sibling'',
        Ptr (Name ''DataSet''))],
    Slots ''struct_sReportControlBlock'' [''parent'', ''name'', ''rptId'', ''buffered'',
        ''dataSetName'', ''confRef'', ''trgOps'', ''options'', ''bufferTime'', ''intPeriod'',
        ''clientReservation'', ''sibling''],
    Fields ''struct_sReportControlBlock'' [(''parent'', Ptr (Name ''LogicalNode'')), (''name'',
        Prim String), (''rptId'', Prim String), (''buffered'', Prim c_bool), (''dataSetName'',
        Prim String), (''confRef'', Prim c_uint32), (''trgOps'', Prim c_uint8), (''options'',
        Prim c_uint8), (''bufferTime'', Prim c_uint32), (''intPeriod'', Prim c_uint32),
        (''clientReservation'', Arr (Prim c_uint8) 17), (''sibling'', Ptr (Name
        ''ReportControlBlock''))],
    Slots ''struct_sLogControlBlock'' [''parent'', ''name'', ''dataSetName'', ''logRef'',
        ''trgOps'', ''intPeriod'', ''logEna'', ''reasonCode'', ''sibling''],
    Fields ''struct_sLogControlBlock'' [(''parent'', Ptr (Name ''LogicalNode'')), (''name'', Prim
        String), (''dataSetName'', Prim String), (''logRef'', Prim String), (''trgOps'', Prim
        c_uint8), (''intPeriod'', Prim c_uint32), (''logEna'', Prim c_bool), (''reasonCode'',
        Prim c_bool), (''sibling'', Ptr (Name ''LogControlBlock''))],
    Slots ''struct_sLog'' [''parent'', ''name'', ''sibling''],
    Fields ''struct_sLog'' [(''parent'', Ptr (Name ''LogicalNode'')), (''name'', Prim String),
        (''sibling'', Ptr (Name ''Log''))],
    Slots ''struct_sSettingGroupControlBlock'' [''parent'', ''actSG'', ''numOfSGs'', ''editSG'',
        ''cnfEdit'', ''timestamp'', ''resvTms'', ''sibling''],
    Fields ''struct_sSettingGroupControlBlock'' [(''parent'', Ptr (Name ''LogicalNode'')),
        (''actSG'', Prim c_uint8), (''numOfSGs'', Prim c_uint8), (''editSG'', Prim c_uint8),
        (''cnfEdit'', Prim c_bool), (''timestamp'', Prim c_uint64), (''resvTms'', Prim c_uint16),
        (''sibling'', Ptr (Name ''SettingGroupControlBlock''))],
    Slots ''struct_sGSEControlBlock'' [''parent'', ''name'', ''appId'', ''dataSetName'',
        ''confRev'', ''fixedOffs'', ''address'', ''minTime'', ''maxTime'', ''sibling''],
    Fields ''struct_sGSEControlBlock'' [(''parent'', Ptr (Name ''LogicalNode'')), (''name'', Prim
        String), (''appId'', Prim String), (''dataSetName'', Prim String), (''confRev'', Prim
        c_uint32), (''fixedOffs'', Prim c_bool), (''address'', Ptr (Name ''PhyComAddress'')),
        (''minTime'', Prim c_int), (''maxTime'', Prim c_int), (''sibling'', Ptr (Name
        ''GSEControlBlock''))],
    Slots ''struct_sSVControlBlock'' [''parent'', ''name'', ''svId'', ''dataSetName'',
        ''optFlds'', ''smpMod'', ''smpRate'', ''confRev'', ''dstAddress'', ''isUnicast'',
        ''noASDU'', ''sibling'']]"

definition iec61850_model_4 :: "stmt list" where
  "iec61850_model_4 = [
    Fields ''struct_sSVControlBlock'' [(''parent'', Ptr (Name ''LogicalNode'')), (''name'', Prim
        String), (''svId'', Prim String), (''dataSetName'', Prim String), (''optFlds'', Prim
        c_uint8), (''smpMod'', Prim c_uint8), (''smpRate'', Prim c_uint16), (''confRev'', Prim
        c_uint32), (''dstAddress'', Ptr (Name ''PhyComAddress'')), (''isUnicast'', Prim c_bool),
        (''noASDU'', Prim c_int), (''sibling'', Ptr (Name ''SVControlBlock''))],
    Bind ''ModelNode_getChildCount'' [Ptr (Name ''ModelNode'')] (Prim c_int),
    Bind ''ModelNode_getChild'' [Ptr (Name ''ModelNode''), Prim String] (Ptr (Name ''ModelNode'')),
    Bind ''ModelNode_getChildWithFc'' [Ptr (Name ''ModelNode''), Prim String, Name
        ''FunctionalConstraint''] (Ptr (Name ''ModelNode'')),
    BindStr ''ModelNode_getObjectReference'' [Ptr (Name ''ModelNode''), Prim String],
    Bind ''ModelNode_getType'' [Ptr (Name ''ModelNode'')] (Name ''ModelNodeType''),
    Bind ''IedModel_setIedName'' [Ptr (Name ''IedModel''), Prim String] NoneT,
    Bind ''IedModel_getModelNodeByObjectReference'' [Ptr (Name ''IedModel''), Prim String] (Ptr
        (Name ''ModelNode'')),
    Bind ''IedModel_getSVControlBlock'' [Ptr (Name ''IedModel''), Ptr (Name ''LogicalNode''),
        Prim String] (Ptr (Name ''SVControlBlock'')),
    Bind ''IedModel_getModelNodeByShortObjectReference'' [Ptr (Name ''IedModel''), Prim String]
        (Ptr (Name ''ModelNode'')),
    Bind ''IedModel_getModelNodeByShortAddress'' [Ptr (Name ''IedModel''), Prim c_uint32] (Ptr
        (Name ''ModelNode'')),
    Bind ''IedModel_getDeviceByInst'' [Ptr (Name ''IedModel''), Prim String] (Ptr (Name
        ''LogicalDevice'')),
    Bind ''IedModel_getDeviceByIndex'' [Ptr (Name ''IedModel''), Prim c_int] (Ptr (Name
        ''LogicalDevice'')),
    Bind ''LogicalDevice_getLogicalNode'' [Ptr (Name ''LogicalDevice''), Prim String] (Ptr (Name
        ''LogicalNode'')),
    Bind ''LogicalDevice_getSettingGroupControlBlock'' [Ptr (Name ''LogicalDevice'')] (Ptr (Name
        ''SettingGroupControlBlock'')),
    Bind ''IedModel_setAttributeValuesToNull'' [Ptr (Name ''IedModel'')] NoneT,
    Bind ''IedModel_getDevice'' [Ptr (Name ''IedModel''), Prim String] (Ptr (Name
        ''LogicalDevice'')),
    Bind ''IedModel_lookupDataSet'' [Ptr (Name ''IedModel''), Prim String] (Ptr (Name
        ''DataSet'')),
    Bind ''IedModel_lookupDataAttributeByMmsValue'' [Ptr (Name ''IedModel''), Ptr (Name
        ''MmsValue'')] (Ptr (Name ''DataAttribute'')),
    Bind ''IedModel_getLogicalDeviceCount'' [Ptr (Name ''IedModel'')] (Prim c_int),
    Bind ''LogicalDevice_getLogicalNodeCount'' [Ptr (Name ''LogicalDevice'')] (Prim c_int),
    Bind ''LogicalDevice_getChildByMmsVariableName'' [Ptr (Name ''LogicalDevice''), Prim String]
        (Ptr (Name ''ModelNode'')),
    Bind ''LogicalNode_hasFCData'' [Ptr (Name ''LogicalNode''), Name ''FunctionalConstraint'']
        (Prim c_bool)]"

definition iec61850_model_5 :: "stmt list" where
  "iec61850_model_5 = [
    BindAny ''LogicalNode_hasBufferedReports'' [Ptr (Name ''LogicalNode'')] (Prim c_bool),
    BindAny ''LogicalNode_hasUnbufferedReports'' [Ptr (Name ''LogicalNode'')] (Prim c_bool),
    Bind ''LogicalNode_getDataSet'' [Ptr (Name ''LogicalNode''), Prim String] (Ptr (Name
        ''DataSet'')),
    Bind ''DataObject_hasFCData'' [Ptr (Name ''DataObject''), Name ''FunctionalConstraint'']
        (Prim c_bool)]"

definition iec61850_cdc_1 :: "stmt list" where
  "iec61850_cdc_1 = [
    Bind ''CAC_AnalogueValue_create'' [Prim String, Ptr (Name ''ModelNode''), Name
        ''FunctionalConstraint'', Prim c_uint8, Prim c_bool] (Ptr (Name ''DataAttribute'')),
    Bind ''CAC_ValWithTrans_create'' [Prim String, Ptr (Name ''ModelNode''), Name
        ''FunctionalConstraint'', Prim c_uint8, Prim c_bool] (Ptr (Name ''DataAttribute'')),
    Bind ''CAC_Vector_create'' [Prim String, Ptr (Name ''ModelNode''), Prim c_uint32, Name
        ''FunctionalConstraint'', Prim c_uint8] (Ptr (Name ''DataAttribute'')),
    Bind ''CAC_Point_create'' [Prim String, Ptr (Name ''ModelNode''), Name
        ''FunctionalConstraint'', Prim c_uint8, Prim c_bool] (Ptr (Name ''DataAttribute'')),
    Bind ''CAC_ScaledValueConfig_create'' [Prim String, Ptr (Name ''ModelNode'')] (Ptr (Name
        ''DataAttribute'')),
    Bind ''CAC_Unit_create'' [Prim String, Ptr (Name ''ModelNode''), Prim c_bool] (Ptr (Name
        ''DataAttribute'')),
    BindAny ''CDA_OperBoolean'' [Ptr (Name ''ModelNode''), Prim c_bool] (Ptr (Name
        ''DataAttribute'')),
    Bind ''CDC_SPS_create'' [Prim String, Ptr (Name ''ModelNode''), Prim c_uint32] (Ptr (Name
        ''DataObject'')),
    Bind ''CDC_DPS_create'' [Prim String, Ptr (Name ''ModelNode''), Prim c_uint32] (Ptr (Name
        ''DataObject'')),
    Bind ''CDC_INS_create'' [Prim String, Ptr (Name ''ModelNode''), Prim c_uint32] (Ptr (Name
        ''DataObject'')),
    Bind ''CDC_ENS_create'' [Prim String, Ptr (Name ''ModelNode''), Prim c_uint32] (Ptr (Name
        ''DataObject'')),
    Bind ''CDC_BCR_create'' [Prim String, Ptr (Name ''ModelNode''), Prim c_uint32] (Ptr (Name
        ''DataObject'')),
    Bind ''CDC_VSS_create'' [Prim String, Ptr (Name ''ModelNode''), Prim c_uint32] (Ptr (Name
        ''DataObject'')),
    Bind ''CDC_SEC_create'' [Prim String, Ptr (Name ''ModelNode''), Prim c_uint32] (Ptr (Name
        ''DataObject'')),
    Bind ''CDC_MV_create'' [Prim String, Ptr (Name ''ModelNode''), Prim c_uint32, Prim c_bool]
        (Ptr (Name ''DataObject'')),
    Bind ''CDC_CMV_create'' [Prim String, Ptr (Name ''ModelNode''), Prim c_uint32] (Ptr (Name
        ''DataObject'')),
    Bind ''CDC_SAV_create'' [Prim String, Ptr (Name ''ModelNode''), Prim c_uint32, Prim c_bool]
        (Ptr (Name ''DataObject'')),
    Bind ''CDC_LPL_create'' [Prim String, Ptr (Name ''ModelNode''), Prim c_uint32] (Ptr (Name
        ''DataObject'')),
    Bind ''CDC_DPL_create'' [Prim String, Ptr (Name ''ModelNode''), Prim c_uint32] (Ptr (Name
        ''DataObject'')),
    Bind ''CDC_HST_create'' [Prim String, Ptr (Name ''ModelNode''), Prim c_uint32, Prim c_uint16]
        (Ptr (Name ''DataObject'')),
    Bind ''CDC_ACD_create'' [Prim String, Ptr (Name ''ModelNode''), Prim c_uint32] (Ptr (Name
        ''DataObject'')),
    Bind ''CDC_ACT_create'' [Prim String, Ptr (Name ''ModelNode''), Prim c_uint32] (Ptr (Name
        ''DataObject'')),
    Bind ''CDC_SPG_create'' [Prim String, Ptr (Name ''ModelNode''), Prim c_uint32] (Ptr (Name
        ''DataObject'')),
    Bind ''CDC_VSG_create'' [Prim String, Ptr (Name ''ModelNode''), Prim c_uint32] (Ptr (Name
        ''DataObject''))]"

definition iec61850_cdc_2 :: "stmt list" where
  "iec61850_cdc_2 = [
    Bind ''CDC_ENG_create'' [Prim String, Ptr (Name ''ModelNode''), Prim c_uint32] (Ptr (Name
        ''DataObject'')),
    Bind ''CDC_ING_create'' [Prim String, Ptr (Name ''ModelNode''), Prim c_uint32] (Ptr (Name
        ''DataObject'')),
    Bind ''CDC_ASG_create'' [Prim String, Ptr (Name ''ModelNode''), Prim c_uint32, Prim c_bool]
        (Ptr (Name ''DataObject'')),
    Bind ''CDC_WYE_create'' [Prim String, Ptr (Name ''ModelNode''), Prim c_uint32] (Ptr (Name
        ''DataObject'')),
    Bind ''CDC_DEL_create'' [Prim String, Ptr (Name ''ModelNode''), Prim c_uint32] (Ptr (Name
        ''DataObject'')),
    Bind ''CDC_SPC_create'' [Prim String, Ptr (Name ''ModelNode''), Prim c_uint32, Prim c_uint32]
        (Ptr (Name ''DataObject'')),
    Bind ''CDC_DPC_create'' [Prim String, Ptr (Name ''ModelNode''), Prim c_uint32, Prim c_uint32]
        (Ptr (Name ''DataObject'')),
    Bind ''CDC_INC_create'' [Prim String, Ptr (Name ''ModelNode''), Prim c_uint32, Prim c_uint32]
        (Ptr (Name ''DataObject'')),
    Bind ''CDC_ENC_create'' [Prim String, Ptr (Name ''ModelNode''), Prim c_uint32, Prim c_uint32]
        (Ptr (Name ''DataObject'')),
    Bind ''CDC_BSC_create'' [Prim String, Ptr (Name ''ModelNode''), Prim c_uint32, Prim c_uint32,
        Prim c_bool] (Ptr (Name ''DataObject'')),
    Bind ''CDC_ISC_create'' [Prim String, Ptr (Name ''ModelNode''), Prim c_uint32, Prim c_uint32,
        Prim c_bool] (Ptr (Name ''DataObject'')),
    Bind ''CDC_APC_create'' [Prim String, Ptr (Name ''ModelNode''), Prim c_uint32, Prim c_uint32,
        Prim c_bool] (Ptr (Name ''DataObject'')),
    Bind ''CDC_BAC_create'' [Prim String, Ptr (Name ''ModelNode''), Prim c_uint32, Prim c_uint32,
        Prim c_bool] (Ptr (Name ''DataObject'')),
    Bind ''CDC_SPV_create'' [Prim String, Ptr (Name ''ModelNode''), Prim c_uint32, Prim c_uint32,
        Prim c_uint32, Prim c_bool] (Ptr (Name ''DataObject'')),
    Bind ''CDC_STV_create'' [Prim String, Ptr (Name ''ModelNode''), Prim c_uint32, Prim c_uint32,
        Prim c_uint32, Prim c_bool] (Ptr (Name ''DataObject'')),
    Bind ''CDC_CMD_create'' [Prim String, Ptr (Name ''ModelNode''), Prim c_uint32, Prim c_uint32,
        Prim c_uint32, Prim c_bool, Prim c_bool, Prim c_bool] (Ptr (Name ''DataObject'')),
    Bind ''CDC_ALM_create'' [Prim String, Ptr (Name ''ModelNode''), Prim c_uint32, Prim c_uint32,
        Prim c_uint32, Prim c_bool] (Ptr (Name ''DataObject'')),
    Bind ''CDC_CTE_create'' [Prim String, Ptr (Name ''ModelNode''), Prim c_uint32, Prim c_uint32,
        Prim c_uint32, Prim c_bool] (Ptr (Name ''DataObject'')),
    Bind ''CDC_TMS_create'' [Prim String, Ptr (Name ''ModelNode''), Prim c_uint32, Prim c_uint32,
        Prim c_uint32, Prim c_bool] (Ptr (Name ''DataObject''))]"

definition iec61850_dynamic_model_1 :: "stmt list" where
  "iec61850_dynamic_model_1 = [
    Bind ''IedModel_create'' [Prim String] (Ptr (Name ''IedModel'')),
    Bind ''IedModel_setIedNameForDynamicModel'' [Ptr (Name ''IedModel''), Prim String] NoneT,
    Bind ''IedModel_destroy'' [Ptr (Name ''IedModel'')] NoneT,
    Bind ''LogicalDevice_create'' [Prim String, Ptr (Name ''IedModel'')] (Ptr (Name
        ''LogicalDevice'')),
    Bind ''LogicalNode_create'' [Prim String, Ptr (Name ''LogicalDevice'')] (Ptr (Name
        ''LogicalNode'')),
    Bind ''DataObject_create'' [Prim String, Ptr (Name ''ModelNode''), Prim c_int] (Ptr (Name
        ''DataObject'')),
    Bind ''DataAttribute_create'' [Prim String, Ptr (Name ''ModelNode''), Name
        ''DataAttributeType'', Name ''FunctionalConstraint'', Prim c_uint8, Prim c_int, Prim
        c_uint32] (Ptr (Name ''DataAttribute'')),
    Bind ''ReportControlBlock_create'' [Prim String, Ptr (Name ''LogicalNode''), Prim String,
        Prim c_bool, Prim String, Prim c_uint32, Prim c_uint8, Prim c_uint8, Prim c_uint32, Prim
        c_uint32] (Ptr (Name ''ReportControlBlock'')),
    Bind ''ReportControlBlock_setPreconfiguredClient'' [Ptr (Name ''ReportControlBlock''), Prim
        c_uint8, Ptr (Prim c_uint8)] NoneT,
    Bind ''LogControlBlock_create'' [Prim String, Ptr (Name ''LogicalNode''), Prim String, Prim
        String, Prim c_uint8, Prim c_uint32, Prim c_bool, Prim c_bool] (Ptr (Name
        ''LogControlBlock'')),
    Bind ''Log_create'' [Prim String, Ptr (Name ''LogicalNode'')] (Ptr (Name ''Log'')),
    Bind ''SettingGroupControlBlock_create'' [Ptr (Name ''LogicalNode''), Prim c_uint8, Prim
        c_uint8] (Ptr (Name ''SettingGroupControlBlock'')),
    Bind ''GSEControlBlock_create'' [Prim String, Ptr (Name ''LogicalNode''), Prim String, Prim
        String, Prim c_uint32, Prim c_bool, Prim c_int, Prim c_int] (Ptr (Name
        ''GSEControlBlock'')),
    Bind ''SVControlBlock_create'' [Prim String, Ptr (Name ''LogicalNode''), Prim String, Prim
        String, Prim c_uint32, Prim c_uint8, Prim c_uint16, Prim c_uint8, Prim c_bool] (Ptr (Name
        ''SVControlBlock'')),
    Bind ''SVControlBlock_addPhyComAddress'' [Ptr (Name ''SVControlBlock''), Ptr (Name
        ''PhyComAddress'')] NoneT,
    Bind ''GSEControlBlock_addPhyComAddress'' [Ptr (Name ''GSEControlBlock''), Ptr (Name
        ''PhyComAddress'')] NoneT,
    Bind ''PhyComAddress_create'' [Prim c_uint8, Prim c_uint16, Prim c_uint16, Ptr (Prim
        c_uint8)] (Ptr (Name ''PhyComAddress'')),
    Bind ''DataSet_create'' [Prim String, Ptr (Name ''LogicalNode'')] (Ptr (Name ''DataSet'')),
    Bind ''DataSet_getSize'' [Ptr (Name ''DataSet'')] (Prim c_int),
    Bind ''DataSet_getFirstEntry'' [Ptr (Name ''DataSet'')] (Ptr (Name ''DataSetEntry'')),
    Bind ''DataSetEntry_getNext'' [Ptr (Name ''DataSetEntry'')] (Ptr (Name ''DataSetEntry'')),
    Bind ''DataSetEntry_create'' [Ptr (Name ''DataSet''), Prim String, Prim c_int, Prim String]
        (Ptr (Name ''DataSetEntry''))]"

definition hal_filesystem_1 :: "stmt list" where
  "hal_filesystem_1 = [
    Alias ''FileHandle'' (Ptr NoneT)]"

definition iec61850_config_file_parser_1 :: "stmt list" where
  "iec61850_config_file_parser_1 = [
    Bind ''ConfigFileParser_createModelFromConfigFileEx'' [Prim String] (Ptr (Name ''IedModel'')),
    Bind ''ConfigFileParser_createModelFromConfigFile'' [Name ''FileHandle''] (Ptr (Name
        ''IedModel''))]"

definition iec61850_server_1 :: "stmt list" where
  "iec61850_server_1 = [
    StructDef ''struct_sIedServerConfig'',
    Alias ''IedServerConfig'' (Ptr (Name ''struct_sIedServerConfig'')),
    Slots ''struct_sIedServerConfig'' [''reportBufferSize'', ''reportBufferSizeURCBs'',
        ''fileServiceBasepath'', ''enableFileService'', ''enableDynamicDataSetService'',
        ''maxAssociationSpecificDataSets'', ''maxDomainSpecificDataSets'', ''maxDataSetEntries'',
        ''enableLogService'', ''edition'', ''maxMmsConnections''],
    Fields ''struct_sIedServerConfig'' [(''reportBufferSize'', Prim c_int),
        (''reportBufferSizeURCBs'', Prim c_int), (''fileServiceBasepath'', Prim String),
        (''enableFileService'', Prim c_bool), (''enableDynamicDataSetService'', Prim c_bool),
        (''maxAssociationSpecificDataSets'', Prim c_int), (''maxDomainSpecificDataSets'', Prim
        c_int), (''maxDataSetEntries'', Prim c_int), (''enableLogService'', Prim c_bool),
        (''edition'', Prim c_uint8), (''maxMmsConnections'', Prim c_int)],
    Bind ''IedServerConfig_create'' [] (Name ''IedServerConfig''),
    Bind ''IedServerConfig_destroy'' [Name ''IedServerConfig''] NoneT,
    Bind ''IedServerConfig_setEdition'' [Name ''IedServerConfig'', Prim c_uint8] NoneT,
    Bind ''IedServerConfig_getEdition'' [Name ''IedServerConfig''] (Prim c_uint8),
    Bind ''IedServerConfig_setReportBufferSize'' [Name ''IedServerConfig'', Prim c_int] NoneT,
    Bind ''IedServerConfig_getReportBufferSize'' [Name ''IedServerConfig''] (Prim c_int),
    Bind ''IedServerConfig_setReportBufferSizeForURCBs'' [Name ''IedServerConfig'', Prim c_int]
        NoneT,
    Bind ''IedServerConfig_getReportBufferSizeForURCBs'' [Name ''IedServerConfig''] (Prim c_int),
    Bind ''IedServerConfig_setMaxMmsConnections'' [Name ''IedServerConfig'', Prim c_int] NoneT,
    Bind ''IedServerConfig_getMaxMmsConnections'' [Name ''IedServerConfig''] (Prim c_int),
    Bind ''IedServerConfig_setFileServiceBasePath'' [Name ''IedServerConfig'', Prim String] NoneT,
    Bind ''IedServerConfig_getFileServiceBasePath'' [Name ''IedServerConfig''] (Prim c_char_p),
    Bind ''IedServerConfig_enableFileService'' [Name ''IedServerConfig'', Prim c_bool] NoneT,
    Bind ''IedServerConfig_isFileServiceEnabled'' [Name ''IedServerConfig''] (Prim c_bool),
    Bind ''IedServerConfig_enableDynamicDataSetService'' [Name ''IedServerConfig'', Prim c_bool]
        NoneT,
    Bind ''IedServerConfig_isDynamicDataSetServiceEnabled'' [Name ''IedServerConfig''] (Prim
        c_bool),
    Bind ''IedServerConfig_setMaxAssociationSpecificDataSets'' [Name ''IedServerConfig'', Prim
        c_int] NoneT,
    Bind ''IedServerConfig_getMaxAssociationSpecificDataSets'' [Name ''IedServerConfig''] (Prim
        c_int),
    Bind ''IedServerConfig_setMaxDomainSpecificDataSets'' [Name ''IedServerConfig'', Prim c_int]
        NoneT]"

definition iec61850_server_2 :: "stmt list" where
  "iec61850_server_2 = [
    Bind ''IedServerConfig_getMaxDomainSpecificDataSets'' [Name ''IedServerConfig''] (Prim c_int),
    Bind ''IedServerConfig_setMaxDataSetEntries'' [Name ''IedServerConfig'', Prim c_int] NoneT,
    Bind ''IedServerConfig_getMaxDatasSetEntries'' [Name ''IedServerConfig''] (Prim c_int),
    Bind ''IedServerConfig_enableLogService'' [Name ''IedServerConfig'', Prim c_bool] NoneT,
    Bind ''IedServerConfig_isLogServiceEnabled'' [Name ''IedServerConfig''] (Prim c_bool),
    StructDef ''struct_sIedServer'',
    Alias ''IedServer'' (Ptr (Name ''struct_sIedServer'')),
    StructDef ''struct_sClientConnection'',
    Alias ''ClientConnection'' (Ptr (Name ''struct_sClientConnection'')),
    Bind ''IedServer_create'' [Ptr (Name ''IedModel'')] (Name ''IedServer''),
    Bind ''IedServer_createWithTlsSupport'' [Ptr (Name ''IedModel''), Name ''TLSConfiguration'']
        (Name ''IedServer''),
    Bind ''IedServer_createWithConfig'' [Ptr (Name ''IedModel''), Name ''TLSConfiguration'', Name
        ''IedServerConfig''] (Name ''IedServer''),
    Bind ''IedServer_destroy'' [Name ''IedServer''] NoneT,
    Bind ''IedServer_setLocalIpAddress'' [Name ''IedServer'', Prim String] NoneT,
    Bind ''IedServer_setServerIdentity'' [Name ''IedServer'', Prim String, Prim String, Prim
        String] NoneT,
    Bind ''IedServer_setFilestoreBasepath'' [Name ''IedServer'', Prim String] NoneT,
    Bind ''IedServer_start'' [Name ''IedServer'', Prim c_int] NoneT,
    Bind ''IedServer_stop'' [Name ''IedServer''] NoneT,
    Bind ''IedServer_startThreadless'' [Name ''IedServer'', Prim c_int] NoneT,
    Bind ''IedServer_waitReady'' [Name ''IedServer'', Prim c_uint] (Prim c_int),
    Bind ''IedServer_processIncomingData'' [Name ''IedServer''] NoneT,
    Bind ''IedServer_performPeriodicTasks'' [Name ''IedServer''] NoneT,
    Bind ''IedServer_stopThreadless'' [Name ''IedServer''] NoneT,
    Bind ''IedServer_getDataModel'' [Name ''IedServer''] (Ptr (Name ''IedModel'')),
    Bind ''IedServer_isRunning'' [Name ''IedServer''] (Prim c_bool),
    Bind ''IedServer_getNumberOfOpenConnections'' [Name ''IedServer''] (Prim c_int),
    Bind ''IedServer_getMmsServer'' [Name ''IedServer''] (Name ''MmsServer'')]"

definition iec61850_server_3 :: "stmt list" where
  "iec61850_server_3 = [
    Bind ''IedServer_enableGoosePublishing'' [Name ''IedServer''] NoneT,
    Bind ''IedServer_disableGoosePublishing'' [Name ''IedServer''] NoneT,
    Bind ''IedServer_setGooseInterfaceId'' [Name ''IedServer'', Prim String] NoneT,
    Bind ''IedServer_setGooseInterfaceIdEx'' [Name ''IedServer'', Ptr (Name ''LogicalNode''),
        Prim String, Prim String] NoneT,
    Bind ''IedServer_useGooseVlanTag'' [Name ''IedServer'', Ptr (Name ''LogicalNode''), Prim
        String, Prim c_bool] NoneT,
    Bind ''IedServer_setAuthenticator'' [Name ''IedServer'', Name ''AcseAuthenticator'', Ptr
        NoneT] NoneT,
    Bind ''ClientConnection_getPeerAddress'' [Name ''ClientConnection''] (Prim c_char_p),
    Bind ''ClientConnection_getLocalAddress'' [Name ''ClientConnection''] (Prim c_char_p),
    BindCast ''ClientConnection_getSecurityToken'' [Name ''ClientConnection''] (Ptr (Prim
        c_ubyte)),
    Alias ''IedConnectionIndicationHandler'' (Fn (Unch NoneT) [Name ''IedServer'', Name
        ''ClientConnection'', Prim c_bool, Ptr NoneT]),
    Bind ''IedServer_setConnectionIndicationHandler'' [Name ''IedServer'', Name
        ''IedConnectionIndicationHandler'', Ptr NoneT] NoneT,
    Bind ''IedServer_lockDataModel'' [Name ''IedServer''] NoneT,
    Bind ''IedServer_unlockDataModel'' [Name ''IedServer''] NoneT,
    Bind ''IedServer_getAttributeValue'' [Name ''IedServer'', Ptr (Name ''DataAttribute'')] (Ptr
        (Name ''MmsValue'')),
    Bind ''IedServer_getBooleanAttributeValue'' [Name ''IedServer'', Ptr (Name
        ''DataAttribute'')] (Prim c_bool),
    Bind ''IedServer_getInt32AttributeValue'' [Name ''IedServer'', Ptr (Name ''DataAttribute'')]
        (Prim c_int32),
    Bind ''IedServer_getInt64AttributeValue'' [Name ''IedServer'', Ptr (Name ''DataAttribute'')]
        (Prim c_int64),
    Bind ''IedServer_getUInt32AttributeValue'' [Name ''IedServer'', Ptr (Name ''DataAttribute'')]
        (Prim c_uint32),
    Bind ''IedServer_getFloatAttributeValue'' [Name ''IedServer'', Ptr (Name ''DataAttribute'')]
        (Prim c_float),
    Bind ''IedServer_getUTCTimeAttributeValue'' [Name ''IedServer'', Ptr (Name
        ''DataAttribute'')] (Prim c_uint64),
    Bind ''IedServer_getBitStringAttributeValue'' [Name ''IedServer'', Ptr (Name
        ''DataAttribute'')] (Prim c_uint32),
    Bind ''IedServer_getStringAttributeValue'' [Name ''IedServer'', Ptr (Name ''DataAttribute'')]
        (Prim c_char_p),
    Bind ''IedServer_getFunctionalConstrainedData'' [Name ''IedServer'', Ptr (Name
        ''DataObject''), Name ''FunctionalConstraint''] (Ptr (Name ''MmsValue'')),
    Bind ''IedServer_updateAttributeValue'' [Name ''IedServer'', Ptr (Name ''DataAttribute''),
        Ptr (Name ''MmsValue'')] NoneT,
    Bind ''IedServer_updateFloatAttributeValue'' [Name ''IedServer'', Ptr (Name
        ''DataAttribute''), Prim c_float] NoneT]"

definition iec61850_server_4 :: "stmt list" where
  "iec61850_server_4 = [
    Bind ''IedServer_updateInt32AttributeValue'' [Name ''IedServer'', Ptr (Name
        ''DataAttribute''), Prim c_int32] NoneT,
    Bind ''IedServer_updateDbposValue'' [Name ''IedServer'', Ptr (Name ''DataAttribute''), Name
        ''Dbpos''] NoneT,
    Bind ''IedServer_updateInt64AttributeValue'' [Name ''IedServer'', Ptr (Name
        ''DataAttribute''), Prim c_int64] NoneT,
    Bind ''IedServer_updateUnsignedAttributeValue'' [Name ''IedServer'', Ptr (Name
        ''DataAttribute''), Prim c_uint32] NoneT,
    Bind ''IedServer_updateBitStringAttributeValue'' [Name ''IedServer'', Ptr (Name
        ''DataAttribute''), Prim c_uint32] NoneT,
    Bind ''IedServer_updateBooleanAttributeValue'' [Name ''IedServer'', Ptr (Name
        ''DataAttribute''), Prim c_bool] NoneT,
    Bind ''IedServer_updateVisibleStringAttributeValue'' [Name ''IedServer'', Ptr (Name
        ''DataAttribute''), Prim String] NoneT,
    Bind ''IedServer_updateUTCTimeAttributeValue'' [Name ''IedServer'', Ptr (Name
        ''DataAttribute''), Prim c_uint64] NoneT,
    Bind ''IedServer_updateTimestampAttributeValue'' [Name ''IedServer'', Ptr (Name
        ''DataAttribute''), Ptr (Name ''Timestamp'')] NoneT,
    Bind ''IedServer_updateQuality'' [Name ''IedServer'', Ptr (Name ''DataAttribute''), Name
        ''Quality''] NoneT,
    Bind ''IedServer_setLogStorage'' [Name ''IedServer'', Prim String, Name ''LogStorage''] NoneT,
    Bind ''IedServer_changeActiveSettingGroup'' [Name ''IedServer'', Ptr (Name
        ''SettingGroupControlBlock''), Prim c_uint8] NoneT,
    Bind ''IedServer_getActiveSettingGroup'' [Name ''IedServer'', Ptr (Name
        ''SettingGroupControlBlock'')] (Prim c_uint8),
    Alias ''ActiveSettingGroupChangedHandler'' (Fn (Unch (Prim c_bool)) [Ptr NoneT, Ptr (Name
        ''SettingGroupControlBlock''), Prim c_uint8, Name ''ClientConnection'']),
    Bind ''IedServer_setActiveSettingGroupChangedHandler'' [Name ''IedServer'', Ptr (Name
        ''SettingGroupControlBlock''), Name ''ActiveSettingGroupChangedHandler'', Ptr NoneT]
        NoneT,
    Alias ''EditSettingGroupChangedHandler'' (Fn (Unch (Prim c_bool)) [Ptr NoneT, Ptr (Name
        ''SettingGroupControlBlock''), Prim c_uint8, Name ''ClientConnection'']),
    Bind ''IedServer_setEditSettingGroupChangedHandler'' [Name ''IedServer'', Ptr (Name
        ''SettingGroupControlBlock''), Name ''EditSettingGroupChangedHandler'', Ptr NoneT] NoneT,
    Alias ''EditSettingGroupConfirmationHandler'' (Fn (Unch NoneT) [Ptr NoneT, Ptr (Name
        ''SettingGroupControlBlock''), Prim c_uint8]),
    Bind ''IedServer_setEditSettingGroupConfirmationHandler'' [Name ''IedServer'', Ptr (Name
        ''SettingGroupControlBlock''), Name ''EditSettingGroupConfirmationHandler'', Ptr NoneT]
        NoneT,
    Alias ''enum_anon_52'' (Prim c_int),
    Const ''CONTROL_ACCEPTED'' (Neg (Num 1)),
    Const ''CONTROL_HARDWARE_FAULT'' (Num 1),
    Const ''CONTROL_TEMPORARILY_UNAVAILABLE'' (Num 2),
    Const ''CONTROL_OBJECT_ACCESS_DENIED'' (Num 3),
    Const ''CONTROL_OBJECT_UNDEFINED'' (Num 4),
    Const ''CONTROL_VALUE_INVALID'' (Num 11),
    Alias ''CheckHandlerResult'' (Name ''enum_anon_52''),
    Alias ''enum_anon_53'' (Prim c_int),
    Const ''CONTROL_RESULT_FAILED'' (Num 0),
    Const ''CONTROL_RESULT_OK'' (Num 1),
    Const ''CONTROL_RESULT_WAITING'' (Num 2),
    Alias ''ControlHandlerResult'' (Name ''enum_anon_53''),
    Alias ''ControlAction'' (Ptr NoneT),
    Bind ''ControlAction_setAddCause'' [Name ''ControlAction'', Name ''ControlAddCause''] NoneT,
    Bind ''ControlAction_getOrCat'' [Name ''ControlAction''] (Prim c_int),
    Bind ''ControlAction_getOrIdent'' [Name ''ControlAction'', Ptr (Prim c_int)] (Ptr (Prim
        c_uint8))]"

definition iec61850_server_5 :: "stmt list" where
  "iec61850_server_5 = [
    Bind ''ControlAction_getCtlNum'' [Name ''ControlAction''] (Prim c_int),
    Bind ''ControlAction_isSelect'' [Name ''ControlAction''] (Prim c_bool),
    Bind ''ControlAction_getClientConnection'' [Name ''ControlAction''] (Name
        ''ClientConnection''),
    Bind ''ControlAction_getControlObject'' [Name ''ControlAction''] (Ptr (Name ''DataObject'')),
    Bind ''ControlAction_getControlTime'' [Name ''ControlAction''] (Prim c_uint64),
    Alias ''ControlPerformCheckHandler'' (Fn (Unch (Name ''CheckHandlerResult'')) [Name
        ''ControlAction'', Ptr NoneT, Ptr (Name ''MmsValue''), Prim c_bool, Prim c_bool]),
    Alias ''ControlWaitForExecutionHandler'' (Fn (Unch (Name ''ControlHandlerResult'')) [Name
        ''ControlAction'', Ptr NoneT, Ptr (Name ''MmsValue''), Prim c_bool, Prim c_bool]),
    Alias ''ControlHandler'' (Fn (Unch (Name ''ControlHandlerResult'')) [Name ''ControlAction'',
        Ptr NoneT, Ptr (Name ''MmsValue''), Prim c_bool]),
    Bind ''IedServer_setControlHandler'' [Name ''IedServer'', Ptr (Name ''DataObject''), Name
        ''ControlHandler'', Ptr NoneT] NoneT,
    Bind ''IedServer_setPerformCheckHandler'' [Name ''IedServer'', Ptr (Name ''DataObject''),
        Name ''ControlPerformCheckHandler'', Ptr NoneT] NoneT,
    Bind ''IedServer_setWaitForExecutionHandler'' [Name ''IedServer'', Ptr (Name ''DataObject''),
        Name ''ControlWaitForExecutionHandler'', Ptr NoneT] NoneT,
    Bind ''IedServer_updateCtlModel'' [Name ''IedServer'', Ptr (Name ''DataObject''), Name
        ''ControlModel''] NoneT,
    Alias ''SVCBEventHandler'' (Fn (Unch NoneT) [Ptr (Name ''SVControlBlock''), Prim c_int, Ptr
        NoneT]),
    Bind ''IedServer_setSVCBHandler'' [Name ''IedServer'', Ptr (Name ''SVControlBlock''), Name
        ''SVCBEventHandler'', Ptr NoneT] NoneT,
    Alias ''WriteAccessHandler'' (Fn (Unch (Name ''MmsDataAccessError'')) [Ptr (Name
        ''DataAttribute''), Ptr (Name ''MmsValue''), Name ''ClientConnection'', Ptr NoneT]),
    Bind ''IedServer_handleWriteAccess'' [Name ''IedServer'', Ptr (Name ''DataAttribute''), Name
        ''WriteAccessHandler'', Ptr NoneT] NoneT,
    Alias ''enum_anon_54'' (Prim c_int),
    Const ''ACCESS_POLICY_ALLOW'' (Num 0),
    Const ''ACCESS_POLICY_DENY'' (Add (Ref ''ACCESS_POLICY_ALLOW'') (Num 1)),
    Alias ''AccessPolicy'' (Name ''enum_anon_54''),
    Bind ''IedServer_setWriteAccessPolicy'' [Name ''IedServer'', Name ''FunctionalConstraint'',
        Name ''AccessPolicy''] NoneT,
    Alias ''ReadAccessHandler'' (Fn (Unch (Name ''MmsDataAccessError'')) [Ptr (Name
        ''LogicalDevice''), Ptr (Name ''LogicalNode''), Ptr (Name ''DataObject''), Name
        ''FunctionalConstraint'', Name ''ClientConnection'', Ptr NoneT]),
    Bind ''IedServer_setReadAccessHandler'' [Name ''IedServer'', Name ''ReadAccessHandler'', Ptr
        NoneT] NoneT]"

end
