(* ===== verification/Lib_Table_4.thy ===== *)
theory Lib_Table_4
  imports Lib_Syntax
begin

text \<open>
  The statements of \<^verbatim>\<open>tools/python_client/lib61850.py\<close>, in order: constants of macros and names of structures.
\<close>

definition iec61850_common_4 :: "stmt list" where
  "iec61850_common_4 = [
    TryConst ''IEC_61850_EDITION_1'' (Num 0),
    TryConst ''IEC_61850_EDITION_2'' (Num 1),
    TryConst ''IEC_61850_EDITION_2_1'' (Num 2),
    TryConst ''TRG_OPT_DATA_CHANGED'' (Num 1),
    TryConst ''TRG_OPT_QUALITY_CHANGED'' (Num 2),
    TryConst ''TRG_OPT_DATA_UPDATE'' (Num 4),
    TryConst ''TRG_OPT_INTEGRITY'' (Num 8),
    TryConst ''TRG_OPT_GI'' (Num 16),
    TryConst ''TRG_OPT_TRANSIENT'' (Num 128),
    TryConst ''RPT_OPT_SEQ_NUM'' (Num 1),
    TryConst ''RPT_OPT_TIME_STAMP'' (Num 2),
    TryConst ''RPT_OPT_REASON_FOR_INCLUSION'' (Num 4),
    TryConst ''RPT_OPT_DATA_SET'' (Num 8),
    TryConst ''RPT_OPT_DATA_REFERENCE'' (Num 16),
    TryConst ''RPT_OPT_BUFFER_OVERFLOW'' (Num 32),
    TryConst ''RPT_OPT_ENTRY_ID'' (Num 64),
    TryConst ''RPT_OPT_CONF_REV'' (Num 128),
    TryConst ''CONTROL_ORCAT_NOT_SUPPORTED'' (Num 0),
    TryConst ''CONTROL_ORCAT_BAY_CONTROL'' (Num 1),
    TryConst ''CONTROL_ORCAT_STATION_CONTROL'' (Num 2),
    TryConst ''CONTROL_ORCAT_REMOTE_CONTROL'' (Num 3),
    TryConst ''CONTROL_ORCAT_AUTOMATIC_BAY'' (Num 4),
    TryConst ''CONTROL_ORCAT_AUTOMATIC_STATION'' (Num 5),
    TryConst ''CONTROL_ORCAT_AUTOMATIC_REMOTE'' (Num 6),
    TryConst ''CONTROL_ORCAT_MAINTENANCE'' (Num 7)]"

definition iec61850_common_5 :: "stmt list" where
  "iec61850_common_5 = [
    TryConst ''CONTROL_ORCAT_PROCESS'' (Num 8),
    TryConst ''QUALITY_VALIDITY_GOOD'' (Num 0),
    TryConst ''QUALITY_VALIDITY_INVALID'' (Num 2),
    TryConst ''QUALITY_VALIDITY_RESERVED'' (Num 1),
    TryConst ''QUALITY_VALIDITY_QUESTIONABLE'' (Num 3),
    TryConst ''QUALITY_DETAIL_OVERFLOW'' (Num 4),
    TryConst ''QUALITY_DETAIL_OUT_OF_RANGE'' (Num 8),
    TryConst ''QUALITY_DETAIL_BAD_REFERENCE'' (Num 16),
    TryConst ''QUALITY_DETAIL_OSCILLATORY'' (Num 32),
    TryConst ''QUALITY_DETAIL_FAILURE'' (Num 64),
    TryConst ''QUALITY_DETAIL_OLD_DATA'' (Num 128),
    TryConst ''QUALITY_DETAIL_INCONSISTENT'' (Num 256),
    TryConst ''QUALITY_DETAIL_INACCURATE'' (Num 512),
    TryConst ''QUALITY_SOURCE_SUBSTITUTED'' (Num 1024),
    TryConst ''QUALITY_TEST'' (Num 2048),
    TryConst ''QUALITY_OPERATOR_BLOCKED'' (Num 4096),
    TryConst ''QUALITY_DERIVED'' (Num 8192)]"

definition iec61850_client_12 :: "stmt list" where
  "iec61850_client_12 = [
    TryConst ''IEC61850_SV_OPT_REFRESH_TIME'' (Num 1),
    TryConst ''IEC61850_SV_OPT_SAMPLE_SYNC'' (Num 2),
    TryConst ''IEC61850_SV_OPT_SAMPLE_RATE'' (Num 4),
    TryConst ''IEC61850_SV_OPT_DATA_SET'' (Num 8),
    TryConst ''IEC61850_SV_OPT_SECURITY'' (Num 16),
    TryConst ''IEC61850_SV_SMPMOD_SAMPLES_PER_PERIOD'' (Num 0),
    TryConst ''IEC61850_SV_SMPMOD_SAMPLES_PER_SECOND'' (Num 1),
    TryConst ''IEC61850_SV_SMPMOD_SECONDS_PER_SAMPLE'' (Num 2),
    TryConst ''GOCB_ELEMENT_GO_ENA'' (Num 1),
    TryConst ''GOCB_ELEMENT_GO_ID'' (Num 2),
    TryConst ''GOCB_ELEMENT_DATSET'' (Num 4),
    TryConst ''GOCB_ELEMENT_CONF_REV'' (Num 8),
    TryConst ''GOCB_ELEMENT_NDS_COMM'' (Num 16),
    TryConst ''GOCB_ELEMENT_DST_ADDRESS'' (Num 32),
    TryConst ''GOCB_ELEMENT_MIN_TIME'' (Num 64),
    TryConst ''GOCB_ELEMENT_MAX_TIME'' (Num 128),
    TryConst ''GOCB_ELEMENT_FIXED_OFFS'' (Num 256),
    TryConst ''GOCB_ELEMENT_ALL'' (Num 511),
    TryConst ''REASON_NOT_INCLUDED'' (Ref ''IEC61850_REASON_NOT_INCLUDED''),
    TryConst ''REASON_DATA_CHANGE'' (Ref ''IEC61850_REASON_DATA_CHANGE''),
    TryConst ''REASON_QUALITY_CHANGE'' (Ref ''IEC61850_REASON_QUALITY_CHANGE''),
    TryConst ''REASON_DATA_UPDATE'' (Ref ''IEC61850_REASON_DATA_UPDATE''),
    TryConst ''REASON_INTEGRITY'' (Ref ''IEC61850_REASON_INTEGRITY''),
    TryConst ''REASON_GI'' (Ref ''IEC61850_REASON_GI''),
    TryConst ''REASON_UNKNOWN'' (Ref ''IEC61850_REASON_UNKNOWN'')]"

definition iec61850_client_13 :: "stmt list" where
  "iec61850_client_13 = [
    TryConst ''RCB_ELEMENT_RPT_ID'' (Num 1),
    TryConst ''RCB_ELEMENT_RPT_ENA'' (Num 2),
    TryConst ''RCB_ELEMENT_RESV'' (Num 4),
    TryConst ''RCB_ELEMENT_DATSET'' (Num 8),
    TryConst ''RCB_ELEMENT_CONF_REV'' (Num 16),
    TryConst ''RCB_ELEMENT_OPT_FLDS'' (Num 32),
    TryConst ''RCB_ELEMENT_BUF_TM'' (Num 64),
    TryConst ''RCB_ELEMENT_SQ_NUM'' (Num 128),
    TryConst ''RCB_ELEMENT_TRG_OPS'' (Num 256),
    TryConst ''RCB_ELEMENT_INTG_PD'' (Num 512),
    TryConst ''RCB_ELEMENT_GI'' (Num 1024),
    TryConst ''RCB_ELEMENT_PURGE_BUF'' (Num 2048),
    TryConst ''RCB_ELEMENT_ENTRY_ID'' (Num 4096),
    TryConst ''RCB_ELEMENT_TIME_OF_ENTRY'' (Num 8192),
    TryConst ''RCB_ELEMENT_RESV_TMS'' (Num 16384),
    TryConst ''RCB_ELEMENT_OWNER'' (Num 32768)]"

definition iec61850_cdc_3 :: "stmt list" where
  "iec61850_cdc_3 = [
    TryConst ''CDC_OPTION_PICS_SUBST'' (Shl (Num 1) (Num 0)),
    TryConst ''CDC_OPTION_BLK_ENA'' (Shl (Num 1) (Num 1)),
    TryConst ''CDC_OPTION_DESC'' (Shl (Num 1) (Num 2)),
    TryConst ''CDC_OPTION_DESC_UNICODE'' (Shl (Num 1) (Num 3)),
    TryConst ''CDC_OPTION_AC_DLNDA'' (Shl (Num 1) (Num 4)),
    TryConst ''CDC_OPTION_AC_DLN'' (Shl (Num 1) (Num 5)),
    TryConst ''CDC_OPTION_UNIT'' (Shl (Num 1) (Num 6)),
    TryConst ''CDC_OPTION_FROZEN_VALUE'' (Shl (Num 1) (Num 7)),
    TryConst ''CDC_OPTION_ADDR'' (Shl (Num 1) (Num 8)),
    TryConst ''CDC_OPTION_ADDINFO'' (Shl (Num 1) (Num 9)),
    TryConst ''CDC_OPTION_INST_MAG'' (Shl (Num 1) (Num 10)),
    TryConst ''CDC_OPTION_RANGE'' (Shl (Num 1) (Num 11)),
    TryConst ''CDC_OPTION_UNIT_MULTIPLIER'' (Shl (Num 1) (Num 12)),
    TryConst ''CDC_OPTION_AC_SCAV'' (Shl (Num 1) (Num 13)),
    TryConst ''CDC_OPTION_MIN'' (Shl (Num 1) (Num 14)),
    TryConst ''CDC_OPTION_MAX'' (Shl (Num 1) (Num 15)),
    TryConst ''CDC_OPTION_AC_CLC_O'' (Shl (Num 1) (Num 16)),
    TryConst ''CDC_OPTION_RANGE_ANG'' (Shl (Num 1) (Num 17)),
    TryConst ''CDC_OPTION_PHASE_A'' (Shl (Num 1) (Num 18)),
    TryConst ''CDC_OPTION_PHASE_B'' (Shl (Num 1) (Num 19)),
    TryConst ''CDC_OPTION_PHASE_C'' (Shl (Num 1) (Num 20)),
    TryConst ''CDC_OPTION_PHASE_NEUT'' (Shl (Num 1) (Num 21)),
    TryConst ''CDC_OPTION_PHASES_ABC'' (Or (Or (Ref ''CDC_OPTION_PHASE_A'') (Ref
        ''CDC_OPTION_PHASE_B'')) (Ref ''CDC_OPTION_PHASE_C'')),
    TryConst ''CDC_OPTION_PHASES_ALL'' (Or (Or (Or (Ref ''CDC_OPTION_PHASE_A'') (Ref
        ''CDC_OPTION_PHASE_B'')) (Ref ''CDC_OPTION_PHASE_C'')) (Ref ''CDC_OPTION_PHASE_NEUT'')),
    TryConst ''CDC_OPTION_STEP_SIZE'' (Shl (Num 1) (Num 22))]"

definition iec61850_cdc_4 :: "stmt list" where
  "iec61850_cdc_4 = [
    TryConst ''CDC_OPTION_ANGLE_REF'' (Shl (Num 1) (Num 23)),
    TryConst ''CDC_OPTION_DPL_HWREV'' (Shl (Num 1) (Num 17)),
    TryConst ''CDC_OPTION_DPL_SWREV'' (Shl (Num 1) (Num 18)),
    TryConst ''CDC_OPTION_DPL_SERNUM'' (Shl (Num 1) (Num 19)),
    TryConst ''CDC_OPTION_DPL_MODEL'' (Shl (Num 1) (Num 20)),
    TryConst ''CDC_OPTION_DPL_LOCATION'' (Shl (Num 1) (Num 21)),
    TryConst ''CDC_OPTION_AC_LN0_M'' (Shl (Num 1) (Num 24)),
    TryConst ''CDC_OPTION_AC_LN0_EX'' (Shl (Num 1) (Num 25)),
    TryConst ''CDC_OPTION_AC_DLD_M'' (Shl (Num 1) (Num 26)),
    TryConst ''CDC_CTL_MODEL_NONE'' (Num 0),
    TryConst ''CDC_CTL_MODEL_DIRECT_NORMAL'' (Num 1),
    TryConst ''CDC_CTL_MODEL_SBO_NORMAL'' (Num 2),
    TryConst ''CDC_CTL_MODEL_DIRECT_ENHANCED'' (Num 3),
    TryConst ''CDC_CTL_MODEL_SBO_ENHANCED'' (Num 4),
    TryConst ''CDC_CTL_MODEL_HAS_CANCEL'' (Shl (Num 1) (Num 4)),
    TryConst ''CDC_CTL_MODEL_IS_TIME_ACTIVATED'' (Shl (Num 1) (Num 5)),
    TryConst ''CDC_CTL_OPTION_ORIGIN'' (Shl (Num 1) (Num 6)),
    TryConst ''CDC_CTL_OPTION_CTL_NUM'' (Shl (Num 1) (Num 7)),
    TryConst ''CDC_CTL_OPTION_ST_SELD'' (Shl (Num 1) (Num 8)),
    TryConst ''CDC_CTL_OPTION_OP_RCVD'' (Shl (Num 1) (Num 9)),
    TryConst ''CDC_CTL_OPTION_OP_OK'' (Shl (Num 1) (Num 10)),
    TryConst ''CDC_CTL_OPTION_T_OP_OK'' (Shl (Num 1) (Num 11)),
    TryConst ''CDC_CTL_OPTION_SBO_TIMEOUT'' (Shl (Num 1) (Num 12)),
    TryConst ''CDC_CTL_OPTION_SBO_CLASS'' (Shl (Num 1) (Num 13)),
    TryConst ''CDC_CTL_OPTION_OPER_TIMEOUT'' (Shl (Num 1) (Num 14))]"

definition iec61850_cdc_5 :: "stmt list" where
  "iec61850_cdc_5 = [
    TryConst ''CDC_OPTION_61400_MIN_MX_VAL'' (Shl (Num 1) (Num 10)),
    TryConst ''CDC_OPTION_61400_MAX_MX_VAL'' (Shl (Num 1) (Num 11)),
    TryConst ''CDC_OPTION_61400_TOT_AV_VAL'' (Shl (Num 1) (Num 12)),
    TryConst ''CDC_OPTION_61400_SDV_VAL'' (Shl (Num 1) (Num 13)),
    TryConst ''CDC_OPTION_61400_INC_RATE'' (Shl (Num 1) (Num 14)),
    TryConst ''CDC_OPTION_61400_DEC_RATE'' (Shl (Num 1) (Num 15)),
    TryConst ''CDC_OPTION_61400_SP_ACS'' (Shl (Num 1) (Num 16)),
    TryConst ''CDC_OPTION_61400_CHA_PER_RS'' (Shl (Num 1) (Num 17)),
    TryConst ''CDC_OPTION_61400_CM_ACS'' (Shl (Num 1) (Num 18)),
    TryConst ''CDC_OPTION_61400_TM_TOT'' (Shl (Num 1) (Num 19)),
    TryConst ''CDC_OPTION_61400_COUNTING_DAILY'' (Shl (Num 1) (Num 20)),
    TryConst ''CDC_OPTION_61400_COUNTING_MONTHLY'' (Shl (Num 1) (Num 21)),
    TryConst ''CDC_OPTION_61400_COUNTING_YEARLY'' (Shl (Num 1) (Num 22)),
    TryConst ''CDC_OPTION_61400_COUNTING_TOTAL'' (Shl (Num 1) (Num 23)),
    TryConst ''CDC_OPTION_61400_COUNTING_ALL'' (Or (Or (Or (Ref
        ''CDC_OPTION_61400_COUNTING_DAILY'') (Ref ''CDC_OPTION_61400_COUNTING_MONTHLY'')) (Ref
        ''CDC_OPTION_61400_COUNTING_YEARLY'')) (Ref ''CDC_OPTION_61400_COUNTING_TOTAL''))]"

definition iec61850_server_6 :: "stmt list" where
  "iec61850_server_6 = [
    TryConst ''IEC61850_SVCB_EVENT_ENABLE'' (Num 1),
    TryConst ''IEC61850_SVCB_EVENT_DISABLE'' (Num 0)]"

definition mms_common_3 :: "stmt list" where
  "mms_common_3 = [
    Alias ''sMmsDomain'' (Name ''struct_sMmsDomain''),
    Alias ''sMmsAccessSpecifier'' (Name ''struct_sMmsAccessSpecifier''),
    Alias ''sMmsNamedVariableList'' (Name ''struct_sMmsNamedVariableList'')]"

definition mms_types_2 :: "stmt list" where
  "mms_types_2 = [
    Alias ''sMmsVariableSpecification'' (Name ''struct_sMmsVariableSpecification''),
    Alias ''sMmsArray'' (Name ''struct_sMmsArray''),
    Alias ''sMmsStructure'' (Name ''struct_sMmsStructure''),
    Alias ''sMmsFloat'' (Name ''struct_sMmsFloat''),
    Alias ''uMmsTypeSpecification'' (Name ''union_uMmsTypeSpecification'')]"

definition mms_value_6 :: "stmt list" where
  "mms_value_6 = [
    Alias ''sMmsValue'' (Name ''struct_sMmsValue'')]"

definition linked_list_2 :: "stmt list" where
  "linked_list_2 = [
    Alias ''sLinkedList'' (Name ''struct_sLinkedList'')]"

definition iso_connection_parameters_3 :: "stmt list" where
  "iso_connection_parameters_3 = [
    Alias ''sAcseAuthenticationParameter'' (Name ''struct_sAcseAuthenticationParameter''),
    Alias ''sIsoConnectionParameters'' (Name ''struct_sIsoConnectionParameters'')]"

definition mms_client_connection_7 :: "stmt list" where
  "mms_client_connection_7 = [
    Alias ''sMmsConnectionParameters'' (Name ''struct_sMmsConnectionParameters''),
    Alias ''sMmsConnection'' (Name ''struct_sMmsConnection''),
    Alias ''sMmsJournalEntry'' (Name ''struct_sMmsJournalEntry''),
    Alias ''sMmsJournalVariable'' (Name ''struct_sMmsJournalVariable'')]"

definition iec61850_client_14 :: "stmt list" where
  "iec61850_client_14 = [
    Alias ''sClientDataSet'' (Name ''struct_sClientDataSet''),
    Alias ''sClientReport'' (Name ''struct_sClientReport''),
    Alias ''sClientReportControlBlock'' (Name ''struct_sClientReportControlBlock''),
    Alias ''sClientGooseControlBlock'' (Name ''struct_sClientGooseControlBlock''),
    Alias ''sIedConnection'' (Name ''struct_sIedConnection''),
    Alias ''sClientSVControlBlock'' (Name ''struct_sClientSVControlBlock''),
    Alias ''sControlObjectClient'' (Name ''struct_sControlObjectClient''),
    Alias ''sFileDirectoryEntry'' (Name ''struct_sFileDirectoryEntry'')]"

definition iec61850_model_6 :: "stmt list" where
  "iec61850_model_6 = [
    Alias ''sModelNode'' (Name ''struct_sModelNode''),
    Alias ''sDataAttribute'' (Name ''struct_sDataAttribute''),
    Alias ''sDataObject'' (Name ''struct_sDataObject''),
    Alias ''sLogicalNode'' (Name ''struct_sLogicalNode''),
    Alias ''sLogicalDevice'' (Name ''struct_sLogicalDevice''),
    Alias ''sIedModel'' (Name ''struct_sIedModel''),
    Alias ''sDataSet'' (Name ''struct_sDataSet''),
    Alias ''sReportControlBlock'' (Name ''struct_sReportControlBlock''),
    Alias ''sSettingGroupControlBlock'' (Name ''struct_sSettingGroupControlBlock''),
    Alias ''sGSEControlBlock'' (Name ''struct_sGSEControlBlock''),
    Alias ''sSVControlBlock'' (Name ''struct_sSVControlBlock''),
    Alias ''sLogControlBlock'' (Name ''struct_sLogControlBlock''),
    Alias ''sLog'' (Name ''struct_sLog''),
    Alias ''sDataSetEntry'' (Name ''struct_sDataSetEntry'')]"

definition iec61850_server_7 :: "stmt list" where
  "iec61850_server_7 = [
    Alias ''sIedServerConfig'' (Name ''struct_sIedServerConfig''),
    Alias ''sIedServer'' (Name ''struct_sIedServer''),
    Alias ''sClientConnection'' (Name ''struct_sClientConnection'')]"

end
