(* ===== verification/Lib_Names.thy ===== *)
theory Lib_Names
  imports Lib_Check
begin

text \<open>
  All names of the generated part of \<^verbatim>\<open>lib61850.py\<close> in alphabetical order, each with the
  position at which it is first bound and what it stands for. The table is not part of the
  program; \<open>Lib_Import\<close> proves that running the module's statements leaves this namespace.
\<close>

definition names_1 :: "(string \<times> nat \<times> entry) list" where
  "names_1 = [
    (''ACCESS_POLICY_ALLOW'', 1121, EI 0),
    (''ACCESS_POLICY_DENY'', 1122, EI 1),
    (''ACSE_AUTH_CERTIFICATE'', 347, EI 2),
    (''ACSE_AUTH_NONE'', 345, EI 0),
    (''ACSE_AUTH_PASSWORD'', 346, EI 1),
    (''ACSE_AUTH_TLS'', 348, EI 3),
    (''ACSIClass'', 790, ET (CPrim c_int)),
    (''ACSI_CLASS_BRCB'', 781, EI 2),
    (''ACSI_CLASS_DATA_OBJECT'', 779, EI 0),
    (''ACSI_CLASS_DATA_SET'', 780, EI 1),
    (''ACSI_CLASS_GoCB'', 786, EI 7),
    (''ACSI_CLASS_GsCB'', 787, EI 8),
    (''ACSI_CLASS_LCB'', 783, EI 4),
    (''ACSI_CLASS_LOG'', 784, EI 5),
    (''ACSI_CLASS_MSVCB'', 788, EI 9),
    (''ACSI_CLASS_SGCB'', 785, EI 6),
    (''ACSI_CLASS_URCB'', 782, EI 3),
    (''ACSI_CLASS_USVCB'', 789, EI 10),
    (''ADD_CAUSE_1_OF_N_CONTROL'', 253, EI 14),
    (''ADD_CAUSE_ABORTION_BY_CANCEL'', 254, EI 15),
    (''ADD_CAUSE_ABORTION_BY_COMMAND'', 263, EI 24),
    (''ADD_CAUSE_ABORTION_BY_COMMUNICATION_LOSS'', 262, EI 23),
    (''ADD_CAUSE_ABORTION_BY_TRIP'', 256, EI 17),
    (''ADD_CAUSE_ABORTION_DUE_TO_DEVIATION'', 261, EI 22),
    (''ADD_CAUSE_BLOCKED_BY_HEALTH'', 252, EI 13),
    (''ADD_CAUSE_BLOCKED_BY_INTERLOCKING'', 249, EI 10),
    (''ADD_CAUSE_BLOCKED_BY_MODE'', 247, EI 8),
    (''ADD_CAUSE_BLOCKED_BY_PROCESS'', 248, EI 9),
    (''ADD_CAUSE_BLOCKED_BY_SWITCHING_HIERARCHY'', 241, EI 2),
    (''ADD_CAUSE_BLOCKED_BY_SYNCHROCHECK'', 250, EI 11),
    (''ADD_CAUSE_COMMAND_ALREADY_IN_EXECUTION'', 251, EI 12),
    (''ADD_CAUSE_ENDED_WITH_OVERSHOOT'', 260, EI 21),
    (''ADD_CAUSE_INCONSISTENT_PARAMETERS'', 265, EI 26),
    (''ADD_CAUSE_INVALID_POSITION'', 243, EI 4),
    (''ADD_CAUSE_LOCKED_BY_OTHER_CLIENT'', 266, EI 27),
    (''ADD_CAUSE_NONE'', 264, EI 25),
    (''ADD_CAUSE_NOT_SUPPORTED'', 240, EI 1),
    (''ADD_CAUSE_NO_ACCESS_AUTHORITY'', 259, EI 20),
    (''ADD_CAUSE_OBJECT_ALREADY_SELECTED'', 258, EI 19),
    (''ADD_CAUSE_OBJECT_NOT_SELECTED'', 257, EI 18),
    (''ADD_CAUSE_PARAMETER_CHANGE_IN_EXECUTION'', 245, EI 6),
    (''ADD_CAUSE_POSITION_REACHED'', 244, EI 5),
    (''ADD_CAUSE_SELECT_FAILED'', 242, EI 3),
    (''ADD_CAUSE_STEP_LIMIT'', 246, EI 7),
    (''ADD_CAUSE_TIME_LIMIT_OVER'', 255, EI 16),
    (''ADD_CAUSE_UNKNOWN'', 239, EI 0),
    (''AccessPolicy'', 1123, ET (CPrim c_int)),
    (''AcseAuthenticationMechanism'', 349, ET (CPrim c_int)),
    (''AcseAuthenticationParameter'', 351, ET (CPtr (CStruct
        ''struct_sAcseAuthenticationParameter''))),
    (''AcseAuthenticationParameter_create'', 355, EF 0),
    (''AcseAuthenticationParameter_destroy'', 356, EF 1),
    (''AcseAuthenticationParameter_setAuthMechanism'', 357, EF 2),
    (''AcseAuthenticationParameter_setPassword'', 358, EF 2),
    (''AcseAuthenticator'', 359, ET (CFun (CPrim c_bool) [CPrim c_void_p, CPtr (CStruct
        ''struct_sAcseAuthenticationParameter''), CPtr (CPrim c_void_p), CPtr (CStruct
        ''struct_anon_24'')])),
    (''ActiveSettingGroupChangedHandler'', 1081, ET (CFun (CPrim c_bool) [CPrim c_void_p, CPtr
        (CStruct ''struct_sSettingGroupControlBlock''), CPrim c_uint8, CPtr (CStruct
        ''struct_sClientConnection'')])),
    (''CAC_AnalogueValue_create'', 927, EF 5),
    (''CAC_Point_create'', 930, EF 5),
    (''CAC_ScaledValueConfig_create'', 931, EF 2),
    (''CAC_Unit_create'', 932, EF 3),
    (''CAC_ValWithTrans_create'', 928, EF 5),
    (''CAC_Vector_create'', 929, EF 5),
    (''CDA_OperBoolean'', 933, EF 2),
    (''CDC_ACD_create'', 947, EF 3),
    (''CDC_ACT_create'', 948, EF 3),
    (''CDC_ALM_create'', 967, EF 6),
    (''CDC_APC_create'', 962, EF 5),
    (''CDC_ASG_create'', 953, EF 4),
    (''CDC_BAC_create'', 963, EF 5),
    (''CDC_BCR_create'', 938, EF 3),
    (''CDC_BSC_create'', 960, EF 5),
    (''CDC_CMD_create'', 966, EF 8),
    (''CDC_CMV_create'', 942, EF 3),
    (''CDC_CTE_create'', 968, EF 6),
    (''CDC_CTL_MODEL_DIRECT_ENHANCED'', 1247, EI 3),
    (''CDC_CTL_MODEL_DIRECT_NORMAL'', 1245, EI 1),
    (''CDC_CTL_MODEL_HAS_CANCEL'', 1249, EI 16),
    (''CDC_CTL_MODEL_IS_TIME_ACTIVATED'', 1250, EI 32),
    (''CDC_CTL_MODEL_NONE'', 1244, EI 0),
    (''CDC_CTL_MODEL_SBO_ENHANCED'', 1248, EI 4),
    (''CDC_CTL_MODEL_SBO_NORMAL'', 1246, EI 2),
    (''CDC_CTL_OPTION_CTL_NUM'', 1252, EI 128),
    (''CDC_CTL_OPTION_OPER_TIMEOUT'', 1259, EI 16384),
    (''CDC_CTL_OPTION_OP_OK'', 1255, EI 1024),
    (''CDC_CTL_OPTION_OP_RCVD'', 1254, EI 512),
    (''CDC_CTL_OPTION_ORIGIN'', 1251, EI 64),
    (''CDC_CTL_OPTION_SBO_CLASS'', 1258, EI 8192),
    (''CDC_CTL_OPTION_SBO_TIMEOUT'', 1257, EI 4096),
    (''CDC_CTL_OPTION_ST_SELD'', 1253, EI 256),
    (''CDC_CTL_OPTION_T_OP_OK'', 1256, EI 2048),
    (''CDC_DEL_create'', 955, EF 3),
    (''CDC_DPC_create'', 957, EF 4),
    (''CDC_DPL_create'', 945, EF 3),
    (''CDC_DPS_create'', 935, EF 3),
    (''CDC_ENC_create'', 959, EF 4),
    (''CDC_ENG_create'', 951, EF 3),
    (''CDC_ENS_create'', 937, EF 3),
    (''CDC_HST_create'', 946, EF 4),
    (''CDC_INC_create'', 958, EF 4),
    (''CDC_ING_create'', 952, EF 3),
    (''CDC_INS_create'', 936, EF 3),
    (''CDC_ISC_create'', 961, EF 5),
    (''CDC_LPL_create'', 944, EF 3),
    (''CDC_MV_create'', 941, EF 4),
    (''CDC_OPTION_61400_CHA_PER_RS'', 1267, EI 131072),
    (''CDC_OPTION_61400_CM_ACS'', 1268, EI 262144),
    (''CDC_OPTION_61400_COUNTING_ALL'', 1274, EI 15728640),
    (''CDC_OPTION_61400_COUNTING_DAILY'', 1270, EI 1048576),
    (''CDC_OPTION_61400_COUNTING_MONTHLY'', 1271, EI 2097152),
    (''CDC_OPTION_61400_COUNTING_TOTAL'', 1273, EI 8388608),
    (''CDC_OPTION_61400_COUNTING_YEARLY'', 1272, EI 4194304)]"

definition names_2 :: "(string \<times> nat \<times> entry) list" where
  "names_2 = [
    (''CDC_OPTION_61400_DEC_RATE'', 1265, EI 32768),
    (''CDC_OPTION_61400_INC_RATE'', 1264, EI 16384),
    (''CDC_OPTION_61400_MAX_MX_VAL'', 1261, EI 2048),
    (''CDC_OPTION_61400_MIN_MX_VAL'', 1260, EI 1024),
    (''CDC_OPTION_61400_SDV_VAL'', 1263, EI 8192),
    (''CDC_OPTION_61400_SP_ACS'', 1266, EI 65536),
    (''CDC_OPTION_61400_TM_TOT'', 1269, EI 524288),
    (''CDC_OPTION_61400_TOT_AV_VAL'', 1262, EI 4096),
    (''CDC_OPTION_AC_CLC_O'', 1226, EI 65536),
    (''CDC_OPTION_AC_DLD_M'', 1243, EI 67108864),
    (''CDC_OPTION_AC_DLN'', 1215, EI 32),
    (''CDC_OPTION_AC_DLNDA'', 1214, EI 16),
    (''CDC_OPTION_AC_LN0_EX'', 1242, EI 33554432),
    (''CDC_OPTION_AC_LN0_M'', 1241, EI 16777216),
    (''CDC_OPTION_AC_SCAV'', 1223, EI 8192),
    (''CDC_OPTION_ADDINFO'', 1219, EI 512),
    (''CDC_OPTION_ADDR'', 1218, EI 256),
    (''CDC_OPTION_ANGLE_REF'', 1235, EI 8388608),
    (''CDC_OPTION_BLK_ENA'', 1211, EI 2),
    (''CDC_OPTION_DESC'', 1212, EI 4),
    (''CDC_OPTION_DESC_UNICODE'', 1213, EI 8),
    (''CDC_OPTION_DPL_HWREV'', 1236, EI 131072),
    (''CDC_OPTION_DPL_LOCATION'', 1240, EI 2097152),
    (''CDC_OPTION_DPL_MODEL'', 1239, EI 1048576),
    (''CDC_OPTION_DPL_SERNUM'', 1238, EI 524288),
    (''CDC_OPTION_DPL_SWREV'', 1237, EI 262144),
    (''CDC_OPTION_FROZEN_VALUE'', 1217, EI 128),
    (''CDC_OPTION_INST_MAG'', 1220, EI 1024),
    (''CDC_OPTION_MAX'', 1225, EI 32768),
    (''CDC_OPTION_MIN'', 1224, EI 16384),
    (''CDC_OPTION_PHASES_ABC'', 1232, EI 1835008),
    (''CDC_OPTION_PHASES_ALL'', 1233, EI 3932160),
    (''CDC_OPTION_PHASE_A'', 1228, EI 262144),
    (''CDC_OPTION_PHASE_B'', 1229, EI 524288),
    (''CDC_OPTION_PHASE_C'', 1230, EI 1048576),
    (''CDC_OPTION_PHASE_NEUT'', 1231, EI 2097152),
    (''CDC_OPTION_PICS_SUBST'', 1210, EI 1),
    (''CDC_OPTION_RANGE'', 1221, EI 2048),
    (''CDC_OPTION_RANGE_ANG'', 1227, EI 131072),
    (''CDC_OPTION_STEP_SIZE'', 1234, EI 4194304),
    (''CDC_OPTION_UNIT'', 1216, EI 64),
    (''CDC_OPTION_UNIT_MULTIPLIER'', 1222, EI 4096),
    (''CDC_SAV_create'', 943, EF 4),
    (''CDC_SEC_create'', 940, EF 3),
    (''CDC_SPC_create'', 956, EF 4),
    (''CDC_SPG_create'', 949, EF 3),
    (''CDC_SPS_create'', 934, EF 3),
    (''CDC_SPV_create'', 964, EF 6),
    (''CDC_STV_create'', 965, EF 6),
    (''CDC_TMS_create'', 969, EF 6),
    (''CDC_VSG_create'', 950, EF 3),
    (''CDC_VSS_create'', 939, EF 3),
    (''CDC_WYE_create'', 954, EF 3),
    (''CONTROL_ACCEPTED'', 1088, EI (- 1)),
    (''CONTROL_ACTION_TYPE_CANCEL'', 747, EI 2),
    (''CONTROL_ACTION_TYPE_OPERATE'', 746, EI 1),
    (''CONTROL_ACTION_TYPE_SELECT'', 745, EI 0),
    (''CONTROL_HARDWARE_FAULT'', 1089, EI 1),
    (''CONTROL_MODEL_DIRECT_ENHANCED'', 235, EI 3),
    (''CONTROL_MODEL_DIRECT_NORMAL'', 233, EI 1),
    (''CONTROL_MODEL_SBO_ENHANCED'', 236, EI 4),
    (''CONTROL_MODEL_SBO_NORMAL'', 234, EI 2),
    (''CONTROL_MODEL_STATUS_ONLY'', 232, EI 0),
    (''CONTROL_OBJECT_ACCESS_DENIED'', 1091, EI 3),
    (''CONTROL_OBJECT_UNDEFINED'', 1092, EI 4),
    (''CONTROL_ORCAT_AUTOMATIC_BAY'', 1148, EI 4),
    (''CONTROL_ORCAT_AUTOMATIC_REMOTE'', 1150, EI 6),
    (''CONTROL_ORCAT_AUTOMATIC_STATION'', 1149, EI 5),
    (''CONTROL_ORCAT_BAY_CONTROL'', 1145, EI 1),
    (''CONTROL_ORCAT_MAINTENANCE'', 1151, EI 7),
    (''CONTROL_ORCAT_NOT_SUPPORTED'', 1144, EI 0),
    (''CONTROL_ORCAT_PROCESS'', 1152, EI 8),
    (''CONTROL_ORCAT_REMOTE_CONTROL'', 1147, EI 3),
    (''CONTROL_ORCAT_STATION_CONTROL'', 1146, EI 2),
    (''CONTROL_RESULT_FAILED'', 1096, EI 0),
    (''CONTROL_RESULT_OK'', 1097, EI 1),
    (''CONTROL_RESULT_WAITING'', 1098, EI 2),
    (''CONTROL_TEMPORARILY_UNAVAILABLE'', 1090, EI 2),
    (''CONTROL_VALUE_INVALID'', 1093, EI 11),
    (''CheckHandlerResult'', 1094, ET (CPrim c_int)),
    (''ClientConnection'', 1024, ET (CPtr (CStruct ''struct_sClientConnection''))),
    (''ClientConnection_getLocalAddress'', 1050, EF 1),
    (''ClientConnection_getPeerAddress'', 1049, EF 1),
    (''ClientConnection_getSecurityToken'', 1051, EF 1),
    (''ClientDataSet'', 521, ET (CPtr (CStruct ''struct_sClientDataSet''))),
    (''ClientDataSet_destroy'', 735, EF 1),
    (''ClientDataSet_getDataSetSize'', 738, EF 1),
    (''ClientDataSet_getReference'', 737, EF 1),
    (''ClientDataSet_getValues'', 736, EF 1),
    (''ClientGooseControlBlock'', 527, ET (CPtr (CStruct ''struct_sClientGooseControlBlock''))),
    (''ClientGooseControlBlock_create'', 609, EF 1),
    (''ClientGooseControlBlock_destroy'', 610, EF 1),
    (''ClientGooseControlBlock_getConfRev'', 617, EF 1),
    (''ClientGooseControlBlock_getDatSet'', 615, EF 1),
    (''ClientGooseControlBlock_getDstAddress'', 622, EF 1),
    (''ClientGooseControlBlock_getDstAddress_addr'', 624, EF 1),
    (''ClientGooseControlBlock_getDstAddress_appid'', 630, EF 1),
    (''ClientGooseControlBlock_getDstAddress_priority'', 626, EF 1),
    (''ClientGooseControlBlock_getDstAddress_vid'', 628, EF 1),
    (''ClientGooseControlBlock_getFixedOffs'', 621, EF 1),
    (''ClientGooseControlBlock_getGoEna'', 611, EF 1),
    (''ClientGooseControlBlock_getGoID'', 613, EF 1),
    (''ClientGooseControlBlock_getMaxTime'', 620, EF 1),
    (''ClientGooseControlBlock_getMinTime'', 619, EF 1),
    (''ClientGooseControlBlock_getNdsComm'', 618, EF 1),
    (''ClientGooseControlBlock_setDatSet'', 616, EF 2),
    (''ClientGooseControlBlock_setDstAddress'', 623, EF 2),
    (''ClientGooseControlBlock_setDstAddress_addr'', 625, EF 2),
    (''ClientGooseControlBlock_setDstAddress_appid'', 631, EF 2),
    (''ClientGooseControlBlock_setDstAddress_priority'', 627, EF 2)]"

definition names_3 :: "(string \<times> nat \<times> entry) list" where
  "names_3 = [
    (''ClientGooseControlBlock_setDstAddress_vid'', 629, EF 2),
    (''ClientGooseControlBlock_setGoEna'', 612, EF 2),
    (''ClientGooseControlBlock_setGoID'', 614, EF 2),
    (''ClientReport'', 523, ET (CPtr (CStruct ''struct_sClientReport''))),
    (''ClientReportControlBlock'', 525, ET (CPtr (CStruct ''struct_sClientReportControlBlock''))),
    (''ClientReportControlBlock_create'', 693, EF 1),
    (''ClientReportControlBlock_destroy'', 694, EF 1),
    (''ClientReportControlBlock_getBufTm'', 708, EF 1),
    (''ClientReportControlBlock_getConfRev'', 705, EF 1),
    (''ClientReportControlBlock_getDataSetReference'', 703, EF 1),
    (''ClientReportControlBlock_getEntryId'', 722, EF 1),
    (''ClientReportControlBlock_getEntryTime'', 724, EF 1),
    (''ClientReportControlBlock_getGI'', 715, EF 1),
    (''ClientReportControlBlock_getIntgPd'', 713, EF 1),
    (''ClientReportControlBlock_getObjectReference'', 695, EF 1),
    (''ClientReportControlBlock_getOptFlds'', 706, EF 1),
    (''ClientReportControlBlock_getOwner'', 725, EF 1),
    (''ClientReportControlBlock_getPurgeBuf'', 717, EF 1),
    (''ClientReportControlBlock_getResv'', 701, EF 1),
    (''ClientReportControlBlock_getResvTms'', 720, EF 1),
    (''ClientReportControlBlock_getRptEna'', 699, EF 1),
    (''ClientReportControlBlock_getRptId'', 697, EF 1),
    (''ClientReportControlBlock_getSqNum'', 710, EF 1),
    (''ClientReportControlBlock_getTrgOps'', 711, EF 1),
    (''ClientReportControlBlock_hasResvTms'', 719, EF 1),
    (''ClientReportControlBlock_isBuffered'', 696, EF 1),
    (''ClientReportControlBlock_setBufTm'', 709, EF 2),
    (''ClientReportControlBlock_setDataSetReference'', 704, EF 2),
    (''ClientReportControlBlock_setEntryId'', 723, EF 2),
    (''ClientReportControlBlock_setGI'', 716, EF 2),
    (''ClientReportControlBlock_setIntgPd'', 714, EF 2),
    (''ClientReportControlBlock_setOptFlds'', 707, EF 2),
    (''ClientReportControlBlock_setPurgeBuf'', 718, EF 2),
    (''ClientReportControlBlock_setResv'', 702, EF 2),
    (''ClientReportControlBlock_setResvTms'', 721, EF 2),
    (''ClientReportControlBlock_setRptEna'', 700, EF 2),
    (''ClientReportControlBlock_setRptId'', 698, EF 2),
    (''ClientReportControlBlock_setTrgOps'', 712, EF 2),
    (''ClientReport_getBufOvfl'', 685, EF 1),
    (''ClientReport_getConfRev'', 683, EF 1),
    (''ClientReport_getDataReference'', 687, EF 2),
    (''ClientReport_getDataSetName'', 671, EF 1),
    (''ClientReport_getDataSetValues'', 672, EF 1),
    (''ClientReport_getEntryId'', 676, EF 1),
    (''ClientReport_getMoreSeqmentsFollow'', 691, EF 1),
    (''ClientReport_getRcbReference'', 673, EF 1),
    (''ClientReport_getReasonForInclusion'', 675, EF 2),
    (''ClientReport_getRptId'', 674, EF 1),
    (''ClientReport_getSeqNum'', 679, EF 1),
    (''ClientReport_getSubSeqNum'', 690, EF 1),
    (''ClientReport_getTimestamp'', 688, EF 1),
    (''ClientReport_hasBufOvfl'', 684, EF 1),
    (''ClientReport_hasConfRev'', 682, EF 1),
    (''ClientReport_hasDataReference'', 686, EF 1),
    (''ClientReport_hasDataSetName'', 680, EF 1),
    (''ClientReport_hasReasonForInclusion'', 681, EF 1),
    (''ClientReport_hasSeqNum'', 678, EF 1),
    (''ClientReport_hasSubSeqNum'', 689, EF 1),
    (''ClientReport_hasTimestamp'', 677, EF 1),
    (''ClientSVControlBlock'', 592, ET (CPtr (CStruct ''struct_sClientSVControlBlock''))),
    (''ClientSVControlBlock_create'', 593, EF 2),
    (''ClientSVControlBlock_destroy'', 594, EF 1),
    (''ClientSVControlBlock_getConfRev'', 603, EF 1),
    (''ClientSVControlBlock_getDatSet'', 602, EF 1),
    (''ClientSVControlBlock_getDstAddress'', 605, EF 1),
    (''ClientSVControlBlock_getLastComError'', 596, EF 1),
    (''ClientSVControlBlock_getMsvID'', 601, EF 1),
    (''ClientSVControlBlock_getNoASDU'', 608, EF 1),
    (''ClientSVControlBlock_getOptFlds'', 606, EF 1),
    (''ClientSVControlBlock_getResv'', 600, EF 1),
    (''ClientSVControlBlock_getSmpMod'', 607, EF 1),
    (''ClientSVControlBlock_getSmpRate'', 604, EF 1),
    (''ClientSVControlBlock_getSvEna'', 598, EF 1),
    (''ClientSVControlBlock_isMulticast'', 595, EF 1),
    (''ClientSVControlBlock_setResv'', 599, EF 2),
    (''ClientSVControlBlock_setSvEna'', 597, EF 2),
    (''CommandTerminationHandler'', 772, ET (CFun (CPrim c_void_p) [CPrim c_void_p, CPtr (CStruct
        ''struct_sControlObjectClient'')])),
    (''ConfigFileParser_createModelFromConfigFile'', 994, EF 1),
    (''ConfigFileParser_createModelFromConfigFileEx'', 993, EF 1),
    (''ControlAction'', 1100, ET (CPrim c_void_p)),
    (''ControlActionType'', 748, ET (CPrim c_int)),
    (''ControlAction_getClientConnection'', 1106, EF 1),
    (''ControlAction_getControlObject'', 1107, EF 1),
    (''ControlAction_getControlTime'', 1108, EF 1),
    (''ControlAction_getCtlNum'', 1104, EF 1),
    (''ControlAction_getOrCat'', 1102, EF 1),
    (''ControlAction_getOrIdent'', 1103, EF 2),
    (''ControlAction_isSelect'', 1105, EF 1),
    (''ControlAction_setAddCause'', 1101, EF 2),
    (''ControlAddCause'', 267, ET (CPrim c_int)),
    (''ControlHandler'', 1111, ET (CFun (CPrim c_int) [CPrim c_void_p, CPrim c_void_p, CPtr
        (CStruct ''struct_sMmsValue''), CPrim c_bool])),
    (''ControlHandlerResult'', 1099, ET (CPrim c_int)),
    (''ControlModel'', 237, ET (CPrim c_int)),
    (''ControlObjectClient'', 740, ET (CPtr (CStruct ''struct_sControlObjectClient''))),
    (''ControlObjectClient_ControlActionHandler'', 749, ET (CFun (CPrim c_void_p) [CPrim
        c_uint32, CPrim c_void_p, CPrim c_int, CPrim c_int, CPrim c_bool])),
    (''ControlObjectClient_cancel'', 759, EF 1),
    (''ControlObjectClient_cancelAsync'', 763, EF 4),
    (''ControlObjectClient_changeServerControlModel'', 753, EF 2),
    (''ControlObjectClient_create'', 741, EF 2),
    (''ControlObjectClient_createEx'', 742, EF 4),
    (''ControlObjectClient_destroy'', 743, EF 1),
    (''ControlObjectClient_enableInterlockCheck'', 768, EF 1),
    (''ControlObjectClient_enableSynchroCheck'', 769, EF 1),
    (''ControlObjectClient_getControlModel'', 751, EF 1),
    (''ControlObjectClient_getCtlValType'', 754, EF 1),
    (''ControlObjectClient_getLastApplError'', 764, EF 1),
    (''ControlObjectClient_getLastError'', 755, EF 1),
    (''ControlObjectClient_getObjectReference'', 750, EF 1),
    (''ControlObjectClient_operate'', 756, EF 3),
    (''ControlObjectClient_operateAsync'', 760, EF 6)]"

definition names_4 :: "(string \<times> nat \<times> entry) list" where
  "names_4 = [
    (''ControlObjectClient_select'', 757, EF 1),
    (''ControlObjectClient_selectAsync'', 761, EF 4),
    (''ControlObjectClient_selectWithValue'', 758, EF 2),
    (''ControlObjectClient_selectWithValueAsync'', 762, EF 5),
    (''ControlObjectClient_setCommandTerminationHandler'', 773, EF 3),
    (''ControlObjectClient_setControlModel'', 752, EF 2),
    (''ControlObjectClient_setInterlockCheck'', 770, EF 2),
    (''ControlObjectClient_setOrigin'', 766, EF 3),
    (''ControlObjectClient_setSynchroCheck'', 771, EF 2),
    (''ControlObjectClient_setTestMode'', 765, EF 2),
    (''ControlObjectClient_useConstantT'', 767, EF 2),
    (''ControlPerformCheckHandler'', 1109, ET (CFun (CPrim c_int) [CPrim c_void_p, CPrim
        c_void_p, CPtr (CStruct ''struct_sMmsValue''), CPrim c_bool, CPrim c_bool])),
    (''ControlWaitForExecutionHandler'', 1110, ET (CFun (CPrim c_int) [CPrim c_void_p, CPrim
        c_void_p, CPtr (CStruct ''struct_sMmsValue''), CPrim c_bool, CPrim c_bool])),
    (''DATA_ACCESS_ERROR_HARDWARE_FAULT'', 99, EI 1),
    (''DATA_ACCESS_ERROR_INVALID_ADDRESS'', 103, EI 5),
    (''DATA_ACCESS_ERROR_NO_RESPONSE'', 96, EI (- 2)),
    (''DATA_ACCESS_ERROR_OBJECT_ACCESS_DENIED'', 101, EI 3),
    (''DATA_ACCESS_ERROR_OBJECT_ACCESS_UNSUPPORTED'', 107, EI 9),
    (''DATA_ACCESS_ERROR_OBJECT_ATTRIBUTE_INCONSISTENT'', 106, EI 8),
    (''DATA_ACCESS_ERROR_OBJECT_INVALIDATED'', 98, EI 0),
    (''DATA_ACCESS_ERROR_OBJECT_NONE_EXISTENT'', 108, EI 10),
    (''DATA_ACCESS_ERROR_OBJECT_UNDEFINED'', 102, EI 4),
    (''DATA_ACCESS_ERROR_OBJECT_VALUE_INVALID'', 109, EI 11),
    (''DATA_ACCESS_ERROR_SUCCESS'', 97, EI (- 1)),
    (''DATA_ACCESS_ERROR_TEMPORARILY_UNAVAILABLE'', 100, EI 2),
    (''DATA_ACCESS_ERROR_TYPE_INCONSISTENT'', 105, EI 7),
    (''DATA_ACCESS_ERROR_TYPE_UNSUPPORTED'', 104, EI 6),
    (''DATA_ACCESS_ERROR_UNKNOWN'', 110, EI 12),
    (''DBPOS_BAD_STATE'', 305, EI 3),
    (''DBPOS_INTERMEDIATE_STATE'', 302, EI 0),
    (''DBPOS_OFF'', 303, EI 1),
    (''DBPOS_ON'', 304, EI 2),
    (''DataAttribute'', 835, ET (CStruct ''struct_sDataAttribute'')),
    (''DataAttributeModelType'', 897, EI 3),
    (''DataAttributeType'', 892, ET (CPrim c_int)),
    (''DataAttribute_create'', 976, EF 7),
    (''DataObject'', 837, ET (CStruct ''struct_sDataObject'')),
    (''DataObjectModelType'', 896, EI 2),
    (''DataObject_create'', 975, EF 3),
    (''DataObject_hasFCData'', 926, EF 2),
    (''DataSet'', 845, ET (CStruct ''struct_sDataSet'')),
    (''DataSetEntry'', 900, ET (CStruct ''struct_sDataSetEntry'')),
    (''DataSetEntry_create'', 991, EF 4),
    (''DataSetEntry_getNext'', 990, EF 1),
    (''DataSet_create'', 987, EF 2),
    (''DataSet_getFirstEntry'', 989, EF 1),
    (''DataSet_getSize'', 988, EF 1),
    (''Dbpos'', 306, ET (CPrim c_int)),
    (''Dbpos_fromMmsValue'', 307, EF 1),
    (''Dbpos_toMmsValue'', 308, EF 2),
    (''EditSettingGroupChangedHandler'', 1083, ET (CFun (CPrim c_bool) [CPrim c_void_p, CPtr
        (CStruct ''struct_sSettingGroupControlBlock''), CPrim c_uint8, CPtr (CStruct
        ''struct_sClientConnection'')])),
    (''EditSettingGroupConfirmationHandler'', 1085, ET (CFun (CPrim c_void_p) [CPrim c_void_p,
        CPtr (CStruct ''struct_sSettingGroupControlBlock''), CPrim c_uint8])),
    (''FileDirectoryEntry'', 811, ET (CPtr (CStruct ''struct_sFileDirectoryEntry''))),
    (''FileDirectoryEntry_create'', 812, EF 3),
    (''FileDirectoryEntry_destroy'', 813, EF 1),
    (''FileDirectoryEntry_getFileName'', 814, EF 1),
    (''FileDirectoryEntry_getFileSize'', 815, EF 1),
    (''FileDirectoryEntry_getLastModified'', 816, EF 1),
    (''FileHandle'', 992, ET (CPrim c_void_p)),
    (''FunctionalConstraint'', 290, ET (CPrim c_int)),
    (''FunctionalConstraint_fromString'', 292, EF 1),
    (''FunctionalConstraint_toString'', 291, EF 1),
    (''GOCB_ELEMENT_ALL'', 1186, EI 511),
    (''GOCB_ELEMENT_CONF_REV'', 1180, EI 8),
    (''GOCB_ELEMENT_DATSET'', 1179, EI 4),
    (''GOCB_ELEMENT_DST_ADDRESS'', 1182, EI 32),
    (''GOCB_ELEMENT_FIXED_OFFS'', 1185, EI 256),
    (''GOCB_ELEMENT_GO_ENA'', 1177, EI 1),
    (''GOCB_ELEMENT_GO_ID'', 1178, EI 2),
    (''GOCB_ELEMENT_MAX_TIME'', 1184, EI 128),
    (''GOCB_ELEMENT_MIN_TIME'', 1183, EI 64),
    (''GOCB_ELEMENT_NDS_COMM'', 1181, EI 16),
    (''GSEControlBlock'', 851, ET (CStruct ''struct_sGSEControlBlock'')),
    (''GSEControlBlock_addPhyComAddress'', 985, EF 2),
    (''GSEControlBlock_create'', 982, EF 8),
    (''IEC61850_BOOLEAN'', 859, EI 0),
    (''IEC61850_CHECK'', 883, EI 24),
    (''IEC61850_CODEDENUM'', 884, EI 25),
    (''IEC61850_CONSTRUCTED'', 886, EI 27),
    (''IEC61850_CURRENCY'', 889, EI 30),
    (''IEC61850_ENTRY_TIME'', 887, EI 28),
    (''IEC61850_ENUMERATED'', 871, EI 12),
    (''IEC61850_FC_ALL'', 288, EI 99),
    (''IEC61850_FC_BL'', 279, EI 10),
    (''IEC61850_FC_BR'', 285, EI 16),
    (''IEC61850_FC_CF'', 273, EI 4),
    (''IEC61850_FC_CO'', 281, EI 12),
    (''IEC61850_FC_DC'', 274, EI 5),
    (''IEC61850_FC_EX'', 280, EI 11),
    (''IEC61850_FC_GO'', 287, EI 18),
    (''IEC61850_FC_LG'', 286, EI 17),
    (''IEC61850_FC_MS'', 283, EI 14),
    (''IEC61850_FC_MX'', 270, EI 1),
    (''IEC61850_FC_NONE'', 289, EI (- 1)),
    (''IEC61850_FC_OR'', 278, EI 9),
    (''IEC61850_FC_RP'', 284, EI 15),
    (''IEC61850_FC_SE'', 276, EI 7),
    (''IEC61850_FC_SG'', 275, EI 6),
    (''IEC61850_FC_SP'', 271, EI 2),
    (''IEC61850_FC_SR'', 277, EI 8),
    (''IEC61850_FC_ST'', 269, EI 0),
    (''IEC61850_FC_SV'', 272, EI 3),
    (''IEC61850_FC_US'', 282, EI 13),
    (''IEC61850_FLOAT32'', 869, EI 10),
    (''IEC61850_FLOAT64'', 870, EI 11),
    (''IEC61850_GENERIC_BITSTRING'', 885, EI 26),
    (''IEC61850_INT128'', 864, EI 5),
    (''IEC61850_INT16'', 861, EI 2),
    (''IEC61850_INT16U'', 866, EI 7),
    (''IEC61850_INT24U'', 867, EI 8)]"

definition names_5 :: "(string \<times> nat \<times> entry) list" where
  "names_5 = [
    (''IEC61850_INT32'', 862, EI 3),
    (''IEC61850_INT32U'', 868, EI 9),
    (''IEC61850_INT64'', 863, EI 4),
    (''IEC61850_INT8'', 860, EI 1),
    (''IEC61850_INT8U'', 865, EI 6),
    (''IEC61850_OCTET_STRING_6'', 873, EI 14),
    (''IEC61850_OCTET_STRING_64'', 872, EI 13),
    (''IEC61850_OCTET_STRING_8'', 874, EI 15),
    (''IEC61850_OPTFLDS'', 890, EI 31),
    (''IEC61850_PHYCOMADDR'', 888, EI 29),
    (''IEC61850_QUALITY'', 882, EI 23),
    (''IEC61850_REASON_DATA_CHANGE'', 658, EI 1),
    (''IEC61850_REASON_DATA_UPDATE'', 660, EI 3),
    (''IEC61850_REASON_GI'', 662, EI 5),
    (''IEC61850_REASON_INTEGRITY'', 661, EI 4),
    (''IEC61850_REASON_NOT_INCLUDED'', 657, EI 0),
    (''IEC61850_REASON_QUALITY_CHANGE'', 659, EI 2),
    (''IEC61850_REASON_UNKNOWN'', 663, EI 6),
    (''IEC61850_SVCB_EVENT_DISABLE'', 1276, EI 0),
    (''IEC61850_SVCB_EVENT_ENABLE'', 1275, EI 1),
    (''IEC61850_SV_OPT_DATA_SET'', 1172, EI 8),
    (''IEC61850_SV_OPT_REFRESH_TIME'', 1169, EI 1),
    (''IEC61850_SV_OPT_SAMPLE_RATE'', 1171, EI 4),
    (''IEC61850_SV_OPT_SAMPLE_SYNC'', 1170, EI 2),
    (''IEC61850_SV_OPT_SECURITY'', 1173, EI 16),
    (''IEC61850_SV_SMPMOD_SAMPLES_PER_PERIOD'', 1174, EI 0),
    (''IEC61850_SV_SMPMOD_SAMPLES_PER_SECOND'', 1175, EI 1),
    (''IEC61850_SV_SMPMOD_SECONDS_PER_SAMPLE'', 1176, EI 2),
    (''IEC61850_TIMESTAMP'', 881, EI 22),
    (''IEC61850_TRGOPS'', 891, EI 32),
    (''IEC61850_UNICODE_STRING_255'', 880, EI 21),
    (''IEC61850_VISIBLE_STRING_129'', 878, EI 19),
    (''IEC61850_VISIBLE_STRING_255'', 879, EI 20),
    (''IEC61850_VISIBLE_STRING_32'', 875, EI 16),
    (''IEC61850_VISIBLE_STRING_64'', 876, EI 17),
    (''IEC61850_VISIBLE_STRING_65'', 877, EI 18),
    (''IEC_61850_EDITION_1'', 1127, EI 0),
    (''IEC_61850_EDITION_2'', 1128, EI 1),
    (''IEC_61850_EDITION_2_1'', 1129, EI 2),
    (''IED_ERROR_ACCESS_DENIED'', 551, EI 21),
    (''IED_ERROR_ALREADY_CONNECTED'', 541, EI 2),
    (''IED_ERROR_CONNECTION_LOST'', 542, EI 3),
    (''IED_ERROR_CONNECTION_REJECTED'', 544, EI 5),
    (''IED_ERROR_ENABLE_REPORT_FAILED_DATASET_MISMATCH'', 547, EI 11),
    (''IED_ERROR_HARDWARE_FAULT'', 559, EI 29),
    (''IED_ERROR_INVALID_ADDRESS'', 558, EI 28),
    (''IED_ERROR_MALFORMED_MESSAGE'', 564, EI 34),
    (''IED_ERROR_NOT_CONNECTED'', 540, EI 1),
    (''IED_ERROR_OBJECT_ACCESS_UNSUPPORTED'', 554, EI 24),
    (''IED_ERROR_OBJECT_ATTRIBUTE_INCONSISTENT'', 561, EI 31),
    (''IED_ERROR_OBJECT_DOES_NOT_EXIST'', 552, EI 22),
    (''IED_ERROR_OBJECT_EXISTS'', 553, EI 23),
    (''IED_ERROR_OBJECT_INVALIDATED'', 563, EI 33),
    (''IED_ERROR_OBJECT_REFERENCE_INVALID'', 548, EI 12),
    (''IED_ERROR_OBJECT_UNDEFINED'', 557, EI 27),
    (''IED_ERROR_OBJECT_VALUE_INVALID'', 562, EI 32),
    (''IED_ERROR_OK'', 539, EI 0),
    (''IED_ERROR_OUTSTANDING_CALL_LIMIT_REACHED'', 545, EI 6),
    (''IED_ERROR_SERVICE_NOT_IMPLEMENTED'', 565, EI 98),
    (''IED_ERROR_SERVICE_NOT_SUPPORTED'', 543, EI 4),
    (''IED_ERROR_TEMPORARILY_UNAVAILABLE'', 556, EI 26),
    (''IED_ERROR_TIMEOUT'', 550, EI 20),
    (''IED_ERROR_TYPE_INCONSISTENT'', 555, EI 25),
    (''IED_ERROR_TYPE_UNSUPPORTED'', 560, EI 30),
    (''IED_ERROR_UNEXPECTED_VALUE_RECEIVED'', 549, EI 13),
    (''IED_ERROR_UNKNOWN'', 566, EI 99),
    (''IED_ERROR_USER_PROVIDED_INVALID_ARGUMENT'', 546, EI 10),
    (''IED_STATE_CLOSED'', 533, EI 0),
    (''IED_STATE_CLOSING'', 536, EI 3),
    (''IED_STATE_CONNECTED'', 535, EI 2),
    (''IED_STATE_CONNECTING'', 534, EI 1),
    (''IedClientError'', 567, ET (CPrim c_int)),
    (''IedClientGetFileHandler'', 821, ET (CFun (CPrim c_bool) [CPrim c_void_p, CPtr (CPrim
        c_uint8), CPrim c_uint32])),
    (''IedConnection'', 529, ET (CPtr (CStruct ''struct_sIedConnection''))),
    (''IedConnectionClosedHandler'', 586, ET (CFun (CPrim c_void_p) [CPrim c_void_p, CPtr
        (CStruct ''struct_sIedConnection'')])),
    (''IedConnectionIndicationHandler'', 1052, ET (CFun (CPrim c_void_p) [CPtr (CStruct
        ''struct_sIedServer''), CPtr (CStruct ''struct_sClientConnection''), CPrim c_bool, CPrim
        c_void_p])),
    (''IedConnectionState'', 537, ET (CPrim c_int)),
    (''IedConnection_FileDirectoryEntryHandler'', 819, ET (CFun (CPrim c_bool) [CPrim c_uint32,
        CPrim c_void_p, CPrim c_int, CPrim String, CPrim c_uint32, CPrim c_uint64, CPrim
        c_bool])),
    (''IedConnection_GenericServiceHandler'', 576, ET (CFun (CPrim c_void_p) [CPrim c_uint32,
        CPrim c_void_p, CPrim c_int])),
    (''IedConnection_GetFileAsyncHandler'', 823, ET (CFun (CPrim c_bool) [CPrim c_uint32, CPrim
        c_void_p, CPrim c_int, CPrim c_uint32, CPtr (CPrim c_uint8), CPrim c_uint32, CPrim
        c_bool])),
    (''IedConnection_GetNameListHandler'', 799, ET (CFun (CPrim c_void_p) [CPrim c_uint32, CPrim
        c_void_p, CPrim c_int, CPtr (CStruct ''struct_sLinkedList''), CPrim c_bool])),
    (''IedConnection_GetRCBValuesHandler'', 654, ET (CFun (CPrim c_void_p) [CPrim c_uint32, CPrim
        c_void_p, CPrim c_int, CPtr (CStruct ''struct_sClientReportControlBlock'')])),
    (''IedConnection_GetVariableSpecificationHandler'', 803, ET (CFun (CPrim c_void_p) [CPrim
        c_uint32, CPrim c_void_p, CPrim c_int, CPtr (CStruct
        ''struct_sMmsVariableSpecification'')])),
    (''IedConnection_QueryLogHandler'', 807, ET (CFun (CPrim c_void_p) [CPrim c_uint32, CPrim
        c_void_p, CPrim c_int, CPtr (CStruct ''struct_sLinkedList''), CPrim c_bool])),
    (''IedConnection_ReadDataSetHandler'', 727, ET (CFun (CPrim c_void_p) [CPrim c_uint32, CPrim
        c_void_p, CPrim c_int, CPtr (CStruct ''struct_sClientDataSet'')])),
    (''IedConnection_ReadObjectHandler'', 635, ET (CFun (CPrim c_void_p) [CPrim c_uint32, CPrim
        c_void_p, CPrim c_int, CPtr (CStruct ''struct_sMmsValue'')])),
    (''IedConnection_StateChangedHandler'', 588, ET (CFun (CPrim c_void_p) [CPrim c_void_p, CPtr
        (CStruct ''struct_sIedConnection''), CPrim c_int])),
    (''IedConnection_WriteDataSetHandler'', 733, ET (CFun (CPrim c_void_p) [CPrim c_uint32, CPrim
        c_void_p, CPrim c_int, CPtr (CStruct ''struct_sLinkedList'')])),
    (''IedConnection_abort'', 579, EF 2),
    (''IedConnection_abortAsync'', 580, EF 2),
    (''IedConnection_close'', 583, EF 1),
    (''IedConnection_connect'', 577, EF 4),
    (''IedConnection_connectAsync'', 578, EF 4),
    (''IedConnection_create'', 568, EF 0),
    (''IedConnection_createDataSet'', 729, EF 4),
    (''IedConnection_createEx'', 569, EF 2),
    (''IedConnection_createWithTlsSupport'', 570, EF 1),
    (''IedConnection_deleteDataSet'', 730, EF 3),
    (''IedConnection_deleteFile'', 828, EF 3),
    (''IedConnection_deleteFileAsync'', 829, EF 5),
    (''IedConnection_destroy'', 571, EF 1),
    (''IedConnection_getDataDirectory'', 793, EF 3),
    (''IedConnection_getDataDirectoryByFC'', 795, EF 4),
    (''IedConnection_getDataDirectoryFC'', 794, EF 3),
    (''IedConnection_getDataSetDirectory'', 731, EF 4),
    (''IedConnection_getDeviceModelFromServer'', 774, EF 2),
    (''IedConnection_getFile'', 822, EF 5),
    (''IedConnection_getFileAsync'', 824, EF 5),
    (''IedConnection_getFileDirectory'', 817, EF 3),
    (''IedConnection_getFileDirectoryAsyncEx'', 820, EF 6)]"

definition names_6 :: "(string \<times> nat \<times> entry) list" where
  "names_6 = [
    (''IedConnection_getFileDirectoryEx'', 818, EF 5),
    (''IedConnection_getGoCBValues'', 632, EF 4),
    (''IedConnection_getLastApplError'', 585, EF 1),
    (''IedConnection_getLogicalDeviceDataSets'', 798, EF 3),
    (''IedConnection_getLogicalDeviceDataSetsAsync'', 802, EF 7),
    (''IedConnection_getLogicalDeviceDirectory'', 777, EF 3),
    (''IedConnection_getLogicalDeviceList'', 775, EF 2),
    (''IedConnection_getLogicalDeviceVariables'', 797, EF 3),
    (''IedConnection_getLogicalDeviceVariablesAsync'', 801, EF 7),
    (''IedConnection_getLogicalNodeDirectory'', 792, EF 4),
    (''IedConnection_getLogicalNodeVariables'', 791, EF 3),
    (''IedConnection_getMmsConnection'', 590, EF 1),
    (''IedConnection_getRCBValues'', 653, EF 4),
    (''IedConnection_getRCBValuesAsync'', 655, EF 6),
    (''IedConnection_getRequestTimeout'', 574, EF 1),
    (''IedConnection_getServerDirectory'', 776, EF 3),
    (''IedConnection_getServerDirectoryAsync'', 800, EF 6),
    (''IedConnection_getState'', 584, EF 1),
    (''IedConnection_getVariableSpecification'', 796, EF 4),
    (''IedConnection_getVariableSpecificationAsync'', 804, EF 6),
    (''IedConnection_installConnectionClosedHandler'', 587, EF 3),
    (''IedConnection_installReportHandler'', 668, EF 5),
    (''IedConnection_installStateChangedHandler'', 589, EF 3),
    (''IedConnection_queryLogAfter'', 806, EF 6),
    (''IedConnection_queryLogAfterAsync'', 809, EF 7),
    (''IedConnection_queryLogByTime'', 805, EF 6),
    (''IedConnection_queryLogByTimeAsync'', 808, EF 7),
    (''IedConnection_readBooleanValue'', 639, EF 4),
    (''IedConnection_readDataSetValues'', 726, EF 4),
    (''IedConnection_readDataSetValuesAsync'', 728, EF 6),
    (''IedConnection_readFloatValue'', 640, EF 4),
    (''IedConnection_readInt32Value'', 642, EF 4),
    (''IedConnection_readInt64Value'', 643, EF 4),
    (''IedConnection_readObject'', 634, EF 4),
    (''IedConnection_readObjectAsync'', 636, EF 6),
    (''IedConnection_readQualityValue'', 646, EF 4),
    (''IedConnection_readStringValue'', 641, EF 4),
    (''IedConnection_readTimestampValue'', 645, EF 5),
    (''IedConnection_readUnsigned32Value'', 644, EF 4),
    (''IedConnection_release'', 581, EF 2),
    (''IedConnection_releaseAsync'', 582, EF 2),
    (''IedConnection_setConnectTimeout'', 572, EF 2),
    (''IedConnection_setFile'', 826, EF 4),
    (''IedConnection_setFileAsync'', 827, EF 6),
    (''IedConnection_setFilestoreBasepath'', 825, EF 2),
    (''IedConnection_setGoCBValues'', 633, EF 5),
    (''IedConnection_setRCBValues'', 665, EF 5),
    (''IedConnection_setRCBValuesAsync'', 666, EF 7),
    (''IedConnection_setRequestTimeout'', 573, EF 2),
    (''IedConnection_tick'', 575, EF 1),
    (''IedConnection_triggerGIReport'', 670, EF 3),
    (''IedConnection_uninstallReportHandler'', 669, EF 2),
    (''IedConnection_writeBooleanValue'', 647, EF 5),
    (''IedConnection_writeDataSetValues'', 732, EF 5),
    (''IedConnection_writeDataSetValuesAsync'', 734, EF 6),
    (''IedConnection_writeFloatValue'', 650, EF 5),
    (''IedConnection_writeInt32Value'', 648, EF 5),
    (''IedConnection_writeObject'', 637, EF 5),
    (''IedConnection_writeObjectAsync'', 638, EF 7),
    (''IedConnection_writeOctetString'', 652, EF 6),
    (''IedConnection_writeUnsigned32Value'', 649, EF 5),
    (''IedConnection_writeVisibleStringValue'', 651, EF 5),
    (''IedModel'', 843, ET (CStruct ''struct_sIedModel'')),
    (''IedModel_create'', 970, EF 1),
    (''IedModel_destroy'', 972, EF 1),
    (''IedModel_getDevice'', 916, EF 2),
    (''IedModel_getDeviceByIndex'', 912, EF 2),
    (''IedModel_getDeviceByInst'', 911, EF 2),
    (''IedModel_getLogicalDeviceCount'', 919, EF 1),
    (''IedModel_getModelNodeByObjectReference'', 907, EF 2),
    (''IedModel_getModelNodeByShortAddress'', 910, EF 2),
    (''IedModel_getModelNodeByShortObjectReference'', 909, EF 2),
    (''IedModel_getSVControlBlock'', 908, EF 3),
    (''IedModel_lookupDataAttributeByMmsValue'', 918, EF 2),
    (''IedModel_lookupDataSet'', 917, EF 2),
    (''IedModel_setAttributeValuesToNull'', 915, EF 1),
    (''IedModel_setIedName'', 906, EF 2),
    (''IedModel_setIedNameForDynamicModel'', 971, EF 2),
    (''IedServer'', 1022, ET (CPtr (CStruct ''struct_sIedServer''))),
    (''IedServerConfig'', 996, ET (CPtr (CStruct ''struct_sIedServerConfig''))),
    (''IedServerConfig_create'', 997, EF 0),
    (''IedServerConfig_destroy'', 998, EF 1),
    (''IedServerConfig_enableDynamicDataSetService'', 1011, EF 2),
    (''IedServerConfig_enableFileService'', 1009, EF 2),
    (''IedServerConfig_enableLogService'', 1019, EF 2),
    (''IedServerConfig_getEdition'', 1000, EF 1),
    (''IedServerConfig_getFileServiceBasePath'', 1008, EF 1),
    (''IedServerConfig_getMaxAssociationSpecificDataSets'', 1014, EF 1),
    (''IedServerConfig_getMaxDatasSetEntries'', 1018, EF 1),
    (''IedServerConfig_getMaxDomainSpecificDataSets'', 1016, EF 1),
    (''IedServerConfig_getMaxMmsConnections'', 1006, EF 1),
    (''IedServerConfig_getReportBufferSize'', 1002, EF 1),
    (''IedServerConfig_getReportBufferSizeForURCBs'', 1004, EF 1),
    (''IedServerConfig_isDynamicDataSetServiceEnabled'', 1012, EF 1),
    (''IedServerConfig_isFileServiceEnabled'', 1010, EF 1),
    (''IedServerConfig_isLogServiceEnabled'', 1020, EF 1),
    (''IedServerConfig_setEdition'', 999, EF 2),
    (''IedServerConfig_setFileServiceBasePath'', 1007, EF 2),
    (''IedServerConfig_setMaxAssociationSpecificDataSets'', 1013, EF 2),
    (''IedServerConfig_setMaxDataSetEntries'', 1017, EF 2),
    (''IedServerConfig_setMaxDomainSpecificDataSets'', 1015, EF 2),
    (''IedServerConfig_setMaxMmsConnections'', 1005, EF 2),
    (''IedServerConfig_setReportBufferSize'', 1001, EF 2),
    (''IedServerConfig_setReportBufferSizeForURCBs'', 1003, EF 2),
    (''IedServer_changeActiveSettingGroup'', 1079, EF 3),
    (''IedServer_create'', 1025, EF 1),
    (''IedServer_createWithConfig'', 1027, EF 3),
    (''IedServer_createWithTlsSupport'', 1026, EF 2),
    (''IedServer_destroy'', 1028, EF 1),
    (''IedServer_disableGoosePublishing'', 1044, EF 1)]"

definition names_7 :: "(string \<times> nat \<times> entry) list" where
  "names_7 = [
    (''IedServer_enableGoosePublishing'', 1043, EF 1),
    (''IedServer_getActiveSettingGroup'', 1080, EF 2),
    (''IedServer_getAttributeValue'', 1056, EF 2),
    (''IedServer_getBitStringAttributeValue'', 1063, EF 2),
    (''IedServer_getBooleanAttributeValue'', 1057, EF 2),
    (''IedServer_getDataModel'', 1039, EF 1),
    (''IedServer_getFloatAttributeValue'', 1061, EF 2),
    (''IedServer_getFunctionalConstrainedData'', 1065, EF 3),
    (''IedServer_getInt32AttributeValue'', 1058, EF 2),
    (''IedServer_getInt64AttributeValue'', 1059, EF 2),
    (''IedServer_getMmsServer'', 1042, EF 1),
    (''IedServer_getNumberOfOpenConnections'', 1041, EF 1),
    (''IedServer_getStringAttributeValue'', 1064, EF 2),
    (''IedServer_getUInt32AttributeValue'', 1060, EF 2),
    (''IedServer_getUTCTimeAttributeValue'', 1062, EF 2),
    (''IedServer_handleWriteAccess'', 1119, EF 4),
    (''IedServer_isRunning'', 1040, EF 1),
    (''IedServer_lockDataModel'', 1054, EF 1),
    (''IedServer_performPeriodicTasks'', 1037, EF 1),
    (''IedServer_processIncomingData'', 1036, EF 1),
    (''IedServer_setActiveSettingGroupChangedHandler'', 1082, EF 4),
    (''IedServer_setAuthenticator'', 1048, EF 3),
    (''IedServer_setConnectionIndicationHandler'', 1053, EF 3),
    (''IedServer_setControlHandler'', 1112, EF 4),
    (''IedServer_setEditSettingGroupChangedHandler'', 1084, EF 4),
    (''IedServer_setEditSettingGroupConfirmationHandler'', 1086, EF 4),
    (''IedServer_setFilestoreBasepath'', 1031, EF 2),
    (''IedServer_setGooseInterfaceId'', 1045, EF 2),
    (''IedServer_setGooseInterfaceIdEx'', 1046, EF 4),
    (''IedServer_setLocalIpAddress'', 1029, EF 2),
    (''IedServer_setLogStorage'', 1078, EF 3),
    (''IedServer_setPerformCheckHandler'', 1113, EF 4),
    (''IedServer_setReadAccessHandler'', 1126, EF 3),
    (''IedServer_setSVCBHandler'', 1117, EF 4),
    (''IedServer_setServerIdentity'', 1030, EF 4),
    (''IedServer_setWaitForExecutionHandler'', 1114, EF 4),
    (''IedServer_setWriteAccessPolicy'', 1124, EF 3),
    (''IedServer_start'', 1032, EF 2),
    (''IedServer_startThreadless'', 1034, EF 2),
    (''IedServer_stop'', 1033, EF 1),
    (''IedServer_stopThreadless'', 1038, EF 1),
    (''IedServer_unlockDataModel'', 1055, EF 1),
    (''IedServer_updateAttributeValue'', 1066, EF 3),
    (''IedServer_updateBitStringAttributeValue'', 1072, EF 3),
    (''IedServer_updateBooleanAttributeValue'', 1073, EF 3),
    (''IedServer_updateCtlModel'', 1115, EF 3),
    (''IedServer_updateDbposValue'', 1069, EF 3),
    (''IedServer_updateFloatAttributeValue'', 1067, EF 3),
    (''IedServer_updateInt32AttributeValue'', 1068, EF 3),
    (''IedServer_updateInt64AttributeValue'', 1070, EF 3),
    (''IedServer_updateQuality'', 1077, EF 3),
    (''IedServer_updateTimestampAttributeValue'', 1076, EF 3),
    (''IedServer_updateUTCTimeAttributeValue'', 1075, EF 3),
    (''IedServer_updateUnsignedAttributeValue'', 1071, EF 3),
    (''IedServer_updateVisibleStringAttributeValue'', 1074, EF 3),
    (''IedServer_useGooseVlanTag'', 1047, EF 4),
    (''IedServer_waitReady'', 1035, EF 2),
    (''IsoApplicationReference'', 80, ET (CStruct ''struct_anon_24'')),
    (''IsoConnectionParameters'', 367, ET (CPtr (CStruct ''struct_sIsoConnectionParameters''))),
    (''IsoConnectionParameters_create'', 368, EF 0),
    (''IsoConnectionParameters_destroy'', 369, EF 1),
    (''IsoConnectionParameters_setAcseAuthenticationParameter'', 371, EF 2),
    (''IsoConnectionParameters_setLocalAddresses'', 376, EF 4),
    (''IsoConnectionParameters_setLocalApTitle'', 375, EF 3),
    (''IsoConnectionParameters_setRemoteAddresses'', 374, EF 4),
    (''IsoConnectionParameters_setRemoteApTitle'', 373, EF 3),
    (''IsoConnectionParameters_setTcpParameters'', 372, EF 3),
    (''IsoConnectionParameters_setTlsConfiguration'', 370, EF 2),
    (''ItuObjectIdentifier'', 78, ET (CStruct ''struct_anon_23'')),
    (''LastApplError'', 531, ET (CStruct ''struct_anon_41'')),
    (''LibIEC61850_getVersionString'', 329, EF 0),
    (''LinkedList'', 209, ET (CPtr (CStruct ''struct_sLinkedList''))),
    (''LinkedListValueDeleteFunction'', 212, ET (CFun (CPrim c_void_p) [CPrim c_void_p])),
    (''LinkedList_add'', 215, EF 2),
    (''LinkedList_contains'', 216, EF 2),
    (''LinkedList_create'', 210, EF 0),
    (''LinkedList_destroy'', 211, EF 1),
    (''LinkedList_destroyDeep'', 213, EF 2),
    (''LinkedList_destroyStatic'', 214, EF 1),
    (''LinkedList_get'', 218, EF 2),
    (''LinkedList_getData'', 223, EF 1),
    (''LinkedList_getLastElement'', 220, EF 1),
    (''LinkedList_getNext'', 219, EF 1),
    (''LinkedList_insertAfter'', 221, EF 2),
    (''LinkedList_printStringList'', 224, EF 1),
    (''LinkedList_remove'', 217, EF 2),
    (''LinkedList_size'', 222, EF 1),
    (''Log'', 857, ET (CStruct ''struct_sLog'')),
    (''LogControlBlock'', 855, ET (CStruct ''struct_sLogControlBlock'')),
    (''LogControlBlock_create'', 979, EF 8),
    (''LogEntryCallback'', 227, ET (CFun (CPrim c_bool) [CPrim c_void_p, CPrim c_uint64, CPrim
        c_uint64, CPrim c_bool])),
    (''LogEntryDataCallback'', 228, ET (CFun (CPrim c_bool) [CPrim c_void_p, CPrim String, CPtr
        (CPrim c_uint8), CPrim c_int, CPrim c_uint8, CPrim c_bool])),
    (''LogStorage'', 226, ET (CPtr (CStruct ''struct_sLogStorage''))),
    (''Log_create'', 980, EF 2),
    (''LogicalDevice'', 841, ET (CStruct ''struct_sLogicalDevice'')),
    (''LogicalDeviceModelType'', 894, EI 0),
    (''LogicalDevice_create'', 973, EF 2),
    (''LogicalDevice_getChildByMmsVariableName'', 921, EF 2),
    (''LogicalDevice_getLogicalNode'', 913, EF 2),
    (''LogicalDevice_getLogicalNodeCount'', 920, EF 1),
    (''LogicalDevice_getSettingGroupControlBlock'', 914, EF 1),
    (''LogicalNode'', 839, ET (CStruct ''struct_sLogicalNode'')),
    (''LogicalNodeModelType'', 895, EI 1),
    (''LogicalNode_create'', 974, EF 2),
    (''LogicalNode_getDataSet'', 925, EF 2),
    (''LogicalNode_hasBufferedReports'', 923, EF 1),
    (''LogicalNode_hasFCData'', 922, EF 2),
    (''LogicalNode_hasUnbufferedReports'', 924, EF 1),
    (''MMS_ARRAY'', 51, EI 0),
    (''MMS_BCD'', 62, EI 11)]"

definition names_8 :: "(string \<times> nat \<times> entry) list" where
  "names_8 = [
    (''MMS_BINARY_TIME'', 61, EI 10),
    (''MMS_BIT_STRING'', 54, EI 3),
    (''MMS_BOOLEAN'', 53, EI 2),
    (''MMS_CONNECTION_STATE_CLOSED'', 382, EI 0),
    (''MMS_CONNECTION_STATE_CLOSING'', 385, EI 3),
    (''MMS_CONNECTION_STATE_CONNECTED'', 384, EI 2),
    (''MMS_CONNECTION_STATE_CONNECTING'', 383, EI 1),
    (''MMS_DATA_ACCESS_ERROR'', 66, EI 15),
    (''MMS_ERROR_ACCESS_OBJECT_ACCESS_DENIED'', 29, EI 83),
    (''MMS_ERROR_ACCESS_OBJECT_ACCESS_UNSUPPORTED'', 28, EI 82),
    (''MMS_ERROR_ACCESS_OBJECT_INVALIDATED'', 30, EI 84),
    (''MMS_ERROR_ACCESS_OBJECT_NON_EXISTENT'', 27, EI 81),
    (''MMS_ERROR_ACCESS_OBJECT_VALUE_INVALID'', 31, EI 85),
    (''MMS_ERROR_ACCESS_OTHER'', 26, EI 80),
    (''MMS_ERROR_ACCESS_TEMPORARILY_UNAVAILABLE'', 32, EI 86),
    (''MMS_ERROR_APPLICATION_REFERENCE_OTHER'', 12, EI 20),
    (''MMS_ERROR_CONCLUDE_REJECTED'', 7, EI 6),
    (''MMS_ERROR_CONNECTION_LOST'', 3, EI 2),
    (''MMS_ERROR_CONNECTION_REJECTED'', 2, EI 1),
    (''MMS_ERROR_DEFINITION_INVALID_ADDRESS'', 14, EI 31),
    (''MMS_ERROR_DEFINITION_OBJECT_ATTRIBUTE_INCONSISTENT'', 19, EI 36),
    (''MMS_ERROR_DEFINITION_OBJECT_EXISTS'', 18, EI 35),
    (''MMS_ERROR_DEFINITION_OBJECT_UNDEFINED'', 17, EI 34),
    (''MMS_ERROR_DEFINITION_OTHER'', 13, EI 30),
    (''MMS_ERROR_DEFINITION_TYPE_INCONSISTENT'', 16, EI 33),
    (''MMS_ERROR_DEFINITION_TYPE_UNSUPPORTED'', 15, EI 32),
    (''MMS_ERROR_FILE_CONTENT_TYPE_INVALID'', 37, EI 94),
    (''MMS_ERROR_FILE_DUPLICATE_FILENAME'', 41, EI 98),
    (''MMS_ERROR_FILE_FILENAME_AMBIGUOUS'', 34, EI 91),
    (''MMS_ERROR_FILE_FILENAME_SYNTAX_ERROR'', 36, EI 93),
    (''MMS_ERROR_FILE_FILE_ACCESS_DENIED'', 39, EI 96),
    (''MMS_ERROR_FILE_FILE_BUSY'', 35, EI 92),
    (''MMS_ERROR_FILE_FILE_NON_EXISTENT'', 40, EI 97),
    (''MMS_ERROR_FILE_INSUFFICIENT_SPACE_IN_FILESTORE'', 42, EI 99),
    (''MMS_ERROR_FILE_OTHER'', 33, EI 90),
    (''MMS_ERROR_FILE_POSITION_INVALID'', 38, EI 95),
    (''MMS_ERROR_HARDWARE_FAULT'', 6, EI 5),
    (''MMS_ERROR_INVALID_ARGUMENTS'', 8, EI 7),
    (''MMS_ERROR_NONE'', 1, EI 0),
    (''MMS_ERROR_OTHER'', 10, EI 9),
    (''MMS_ERROR_OUTSTANDING_CALL_LIMIT'', 9, EI 8),
    (''MMS_ERROR_PARSING_RESPONSE'', 5, EI 4),
    (''MMS_ERROR_REJECT_INVALID_PDU'', 45, EI 102),
    (''MMS_ERROR_REJECT_OTHER'', 43, EI 100),
    (''MMS_ERROR_REJECT_REQUEST_INVALID_ARGUMENT'', 48, EI 105),
    (''MMS_ERROR_REJECT_UNKNOWN_PDU_TYPE'', 44, EI 101),
    (''MMS_ERROR_REJECT_UNRECOGNIZED_MODIFIER'', 47, EI 104),
    (''MMS_ERROR_REJECT_UNRECOGNIZED_SERVICE'', 46, EI 103),
    (''MMS_ERROR_RESOURCE_CAPABILITY_UNAVAILABLE'', 21, EI 41),
    (''MMS_ERROR_RESOURCE_OTHER'', 20, EI 40),
    (''MMS_ERROR_SERVICE_OBJECT_CONSTRAINT_CONFLICT'', 23, EI 55),
    (''MMS_ERROR_SERVICE_OTHER'', 22, EI 50),
    (''MMS_ERROR_SERVICE_PREEMPT_OTHER'', 24, EI 60),
    (''MMS_ERROR_SERVICE_TIMEOUT'', 4, EI 3),
    (''MMS_ERROR_TIME_RESOLUTION_OTHER'', 25, EI 70),
    (''MMS_ERROR_VMDSTATE_OTHER'', 11, EI 10),
    (''MMS_FLOAT'', 57, EI 6),
    (''MMS_GENERALIZED_TIME'', 60, EI 9),
    (''MMS_INTEGER'', 55, EI 4),
    (''MMS_OBJ_ID'', 63, EI 12),
    (''MMS_OCTET_STRING'', 58, EI 7),
    (''MMS_STRING'', 64, EI 13),
    (''MMS_STRUCTURE'', 52, EI 1),
    (''MMS_UNSIGNED'', 56, EI 5),
    (''MMS_UTC_TIME'', 65, EI 14),
    (''MMS_VALUE_ACCESS_DENIED'', 84, EI 2),
    (''MMS_VALUE_NO_RESPONSE'', 82, EI 0),
    (''MMS_VALUE_OBJECT_ACCESS_UNSUPPORTED'', 87, EI 5),
    (''MMS_VALUE_OK'', 83, EI 1),
    (''MMS_VALUE_TEMPORARILY_UNAVAILABLE'', 86, EI 4),
    (''MMS_VALUE_VALUE_INVALID'', 85, EI 3),
    (''MMS_VISIBLE_STRING'', 59, EI 8),
    (''MmsAccessSpecifier'', 71, ET (CStruct ''struct_sMmsAccessSpecifier'')),
    (''MmsConnection'', 389, ET (CPtr (CStruct ''struct_sMmsConnection''))),
    (''MmsConnectionLostHandler'', 404, ET (CFun (CPrim c_void_p) [CPtr (CStruct
        ''struct_sMmsConnection''), CPrim c_void_p])),
    (''MmsConnectionParameters'', 378, ET (CStruct ''struct_sMmsConnectionParameters'')),
    (''MmsConnectionState'', 386, ET (CPrim c_int)),
    (''MmsConnectionStateChangedHandler'', 402, ET (CFun (CPrim c_void_p) [CPtr (CStruct
        ''struct_sMmsConnection''), CPrim c_void_p, CPrim c_int])),
    (''MmsConnection_ConcludeAbortHandler'', 412, ET (CFun (CPrim c_void_p) [CPrim c_void_p,
        CPrim c_int, CPrim c_bool])),
    (''MmsConnection_FileDirectoryHandler'', 487, ET (CFun (CPrim c_void_p) [CPrim c_uint32,
        CPrim c_void_p, CPrim c_int, CPrim String, CPrim c_uint32, CPrim c_uint64, CPrim
        c_bool])),
    (''MmsConnection_FileOpenHandler'', 491, ET (CFun (CPrim c_void_p) [CPrim c_uint32, CPrim
        c_void_p, CPrim c_int, CPrim c_int32, CPrim c_uint32, CPrim c_uint64])),
    (''MmsConnection_FileReadHandler'', 489, ET (CFun (CPrim c_void_p) [CPrim c_uint32, CPrim
        c_void_p, CPrim c_int, CPrim c_int32, CPtr (CPrim c_uint8), CPrim c_uint32, CPrim
        c_bool])),
    (''MmsConnection_GenericServiceHandler'', 417, ET (CFun (CPrim c_void_p) [CPrim c_uint32,
        CPrim c_void_p, CPrim c_int, CPrim c_bool])),
    (''MmsConnection_GetNameListHandler'', 418, ET (CFun (CPrim c_void_p) [CPrim c_uint32, CPrim
        c_void_p, CPrim c_int, CPtr (CStruct ''struct_sLinkedList''), CPrim c_bool])),
    (''MmsConnection_GetServerStatusHandler'', 484, ET (CFun (CPrim c_void_p) [CPrim c_uint32,
        CPrim c_void_p, CPrim c_int, CPrim c_int, CPrim c_int])),
    (''MmsConnection_GetVariableAccessAttributesHandler'', 455, ET (CFun (CPrim c_void_p) [CPrim
        c_uint32, CPrim c_void_p, CPrim c_int, CPtr (CStruct
        ''struct_sMmsVariableSpecification'')])),
    (''MmsConnection_IdentifyHandler'', 480, ET (CFun (CPrim c_void_p) [CPrim c_uint32, CPrim
        c_void_p, CPrim c_int, CPrim String, CPrim String, CPrim String])),
    (''MmsConnection_ReadJournalHandler'', 515, ET (CFun (CPrim c_void_p) [CPrim c_uint32, CPrim
        c_void_p, CPrim c_int, CPtr (CStruct ''struct_sLinkedList''), CPrim c_bool])),
    (''MmsConnection_ReadNVLDirectoryHandler'', 466, ET (CFun (CPrim c_void_p) [CPrim c_uint32,
        CPrim c_void_p, CPrim c_int, CPtr (CStruct ''struct_sLinkedList''), CPrim c_bool])),
    (''MmsConnection_ReadVariableHandler'', 432, ET (CFun (CPrim c_void_p) [CPrim c_uint32, CPrim
        c_void_p, CPrim c_int, CPtr (CStruct ''struct_sMmsValue'')])),
    (''MmsConnection_WriteMultipleVariablesHandler'', 449, ET (CFun (CPrim c_void_p) [CPrim
        c_uint32, CPrim c_void_p, CPrim c_int, CPtr (CStruct ''struct_sLinkedList'')])),
    (''MmsConnection_WriteVariableHandler'', 443, ET (CFun (CPrim c_void_p) [CPrim c_uint32,
        CPrim c_void_p, CPrim c_int, CPrim c_int])),
    (''MmsConnection_abort'', 413, EF 2),
    (''MmsConnection_abortAsync'', 414, EF 2),
    (''MmsConnection_close'', 411, EF 1),
    (''MmsConnection_conclude'', 415, EF 2),
    (''MmsConnection_concludeAsync'', 416, EF 4),
    (''MmsConnection_connect'', 408, EF 4),
    (''MmsConnection_connectAsync'', 409, EF 4),
    (''MmsConnection_create'', 390, EF 0),
    (''MmsConnection_createNonThreaded'', 392, EF 1),
    (''MmsConnection_createSecure'', 391, EF 1),
    (''MmsConnection_defineNamedVariableList'', 461, EF 5),
    (''MmsConnection_defineNamedVariableListAssociationSpecific'', 463, EF 4),
    (''MmsConnection_defineNamedVariableListAssociationSpecificAsync'', 464, EF 6),
    (''MmsConnection_defineNamedVariableListAsync'', 462, EF 7),
    (''MmsConnection_deleteAssociationSpecificNamedVariableList'', 472, EF 3),
    (''MmsConnection_deleteAssociationSpecificNamedVariableListAsync'', 473, EF 5),
    (''MmsConnection_deleteNamedVariableList'', 470, EF 4),
    (''MmsConnection_deleteNamedVariableListAsync'', 471, EF 6)]"

definition names_9 :: "(string \<times> nat \<times> entry) list" where
  "names_9 = [
    (''MmsConnection_destroy'', 407, EF 1),
    (''MmsConnection_fileClose'', 495, EF 3),
    (''MmsConnection_fileCloseAsync'', 496, EF 5),
    (''MmsConnection_fileDelete'', 497, EF 3),
    (''MmsConnection_fileDeleteAsync'', 498, EF 5),
    (''MmsConnection_fileOpen'', 490, EF 6),
    (''MmsConnection_fileOpenAsync'', 492, EF 6),
    (''MmsConnection_fileRead'', 493, EF 5),
    (''MmsConnection_fileReadAsync'', 494, EF 5),
    (''MmsConnection_fileRename'', 499, EF 4),
    (''MmsConnection_fileRenameAsync'', 500, EF 6),
    (''MmsConnection_getDomainJournals'', 427, EF 3),
    (''MmsConnection_getDomainJournalsAsync'', 428, EF 6),
    (''MmsConnection_getDomainNames'', 421, EF 2),
    (''MmsConnection_getDomainNamesAsync'', 422, EF 6),
    (''MmsConnection_getDomainVariableListNames'', 425, EF 3),
    (''MmsConnection_getDomainVariableListNamesAsync'', 426, EF 7),
    (''MmsConnection_getDomainVariableNames'', 423, EF 3),
    (''MmsConnection_getDomainVariableNamesAsync'', 424, EF 7),
    (''MmsConnection_getFileDirectory'', 503, EF 6),
    (''MmsConnection_getFileDirectoryAsync'', 504, EF 6),
    (''MmsConnection_getIsoConnectionParameters'', 400, EF 1),
    (''MmsConnection_getLocalDetail'', 478, EF 1),
    (''MmsConnection_getMmsConnectionParameters'', 401, EF 1),
    (''MmsConnection_getRequestTimeout'', 397, EF 1),
    (''MmsConnection_getServerStatus'', 483, EF 5),
    (''MmsConnection_getServerStatusAsync'', 485, EF 5),
    (''MmsConnection_getVMDVariableNames'', 419, EF 2),
    (''MmsConnection_getVMDVariableNamesAsync'', 420, EF 5),
    (''MmsConnection_getVariableAccessAttributes'', 454, EF 4),
    (''MmsConnection_getVariableAccessAttributesAsync'', 456, EF 6),
    (''MmsConnection_getVariableListNamesAssociationSpecific'', 429, EF 2),
    (''MmsConnection_getVariableListNamesAssociationSpecificAsync'', 430, EF 5),
    (''MmsConnection_identify'', 479, EF 2),
    (''MmsConnection_identifyAsync'', 481, EF 4),
    (''MmsConnection_obtainFile'', 501, EF 4),
    (''MmsConnection_obtainFileAsync'', 502, EF 6),
    (''MmsConnection_readArrayElements'', 436, EF 6),
    (''MmsConnection_readArrayElementsAsync'', 437, EF 8),
    (''MmsConnection_readJournalStartAfter'', 518, EF 7),
    (''MmsConnection_readJournalStartAfterAsync'', 519, EF 8),
    (''MmsConnection_readJournalTimeRange'', 516, EF 7),
    (''MmsConnection_readJournalTimeRangeAsync'', 517, EF 8),
    (''MmsConnection_readMultipleVariables'', 440, EF 4),
    (''MmsConnection_readMultipleVariablesAsync'', 441, EF 6),
    (''MmsConnection_readNamedVariableListDirectory'', 465, EF 5),
    (''MmsConnection_readNamedVariableListDirectoryAssociationSpecific'', 468, EF 4),
    (''MmsConnection_readNamedVariableListDirectoryAssociationSpecificAsync'', 469, EF 5),
    (''MmsConnection_readNamedVariableListDirectoryAsync'', 467, EF 6),
    (''MmsConnection_readNamedVariableListValues'', 457, EF 5),
    (''MmsConnection_readNamedVariableListValuesAssociationSpecific'', 459, EF 4),
    (''MmsConnection_readNamedVariableListValuesAssociationSpecificAsync'', 460, EF 6),
    (''MmsConnection_readNamedVariableListValuesAsync'', 458, EF 7),
    (''MmsConnection_readSingleArrayElementWithComponent'', 438, EF 6),
    (''MmsConnection_readSingleArrayElementWithComponentAsync'', 439, EF 8),
    (''MmsConnection_readVariable'', 431, EF 4),
    (''MmsConnection_readVariableAsync'', 433, EF 6),
    (''MmsConnection_readVariableComponent'', 434, EF 5),
    (''MmsConnection_readVariableComponentAsync'', 435, EF 7),
    (''MmsConnection_setConnectTimeout'', 398, EF 2),
    (''MmsConnection_setConnectionLostHandler'', 405, EF 3),
    (''MmsConnection_setConnectionStateChangedHandler'', 403, EF 3),
    (''MmsConnection_setFilestoreBasepath'', 395, EF 2),
    (''MmsConnection_setInformationReportHandler'', 399, EF 3),
    (''MmsConnection_setIsoConnectionParameters'', 406, EF 2),
    (''MmsConnection_setLocalDetail'', 477, EF 2),
    (''MmsConnection_setRawMessageHandler'', 394, EF 3),
    (''MmsConnection_setRequestTimeout'', 396, EF 2),
    (''MmsConnection_tick'', 410, EF 1),
    (''MmsConnection_writeArrayElements'', 447, EF 7),
    (''MmsConnection_writeArrayElementsAsync'', 448, EF 9),
    (''MmsConnection_writeMultipleVariables'', 450, EF 6),
    (''MmsConnection_writeMultipleVariablesAsync'', 451, EF 7),
    (''MmsConnection_writeNamedVariableList'', 452, EF 7),
    (''MmsConnection_writeNamedVariableListAsync'', 453, EF 8),
    (''MmsConnection_writeSingleArrayElementWithComponent'', 445, EF 7),
    (''MmsConnection_writeSingleArrayElementWithComponentAsync'', 446, EF 9),
    (''MmsConnection_writeVariable'', 442, EF 5),
    (''MmsConnection_writeVariableAsync'', 444, EF 7),
    (''MmsDataAccessError'', 111, ET (CPrim c_int)),
    (''MmsDomain'', 69, ET (CStruct ''struct_sMmsDomain'')),
    (''MmsError'', 49, ET (CPrim c_int)),
    (''MmsFileDirectoryHandler'', 486, ET (CFun (CPrim c_void_p) [CPrim c_void_p, CPrim String,
        CPrim c_uint32, CPrim c_uint64])),
    (''MmsFileReadHandler'', 488, ET (CFun (CPrim c_void_p) [CPrim c_void_p, CPrim c_int32, CPtr
        (CPrim c_uint8), CPrim c_uint32])),
    (''MmsInformationReportHandler'', 387, ET (CFun (CPrim c_void_p) [CPrim c_void_p, CPrim
        String, CPrim String, CPtr (CStruct ''struct_sMmsValue''), CPrim c_bool])),
    (''MmsJournalEntry'', 506, ET (CPtr (CStruct ''struct_sMmsJournalEntry''))),
    (''MmsJournalEntry_destroy'', 509, EF 1),
    (''MmsJournalEntry_getEntryID'', 510, EF 1),
    (''MmsJournalEntry_getJournalVariables'', 512, EF 1),
    (''MmsJournalEntry_getOccurenceTime'', 511, EF 1),
    (''MmsJournalVariable'', 508, ET (CPtr (CStruct ''struct_sMmsJournalVariable''))),
    (''MmsJournalVariable_getTag'', 513, EF 1),
    (''MmsJournalVariable_getValue'', 514, EF 1),
    (''MmsNamedVariableList'', 75, ET (CPtr (CStruct ''struct_sMmsNamedVariableList''))),
    (''MmsNamedVariableListEntry'', 76, ET (CPtr (CStruct ''struct_sMmsAccessSpecifier''))),
    (''MmsRawMessageHandler'', 393, ET (CFun (CPrim c_void_p) [CPrim c_void_p, CPtr (CPrim
        c_uint8), CPrim c_int, CPrim c_bool])),
    (''MmsServer'', 831, ET (CPtr (CStruct ''struct_sMmsServer''))),
    (''MmsServerIdentity'', 380, ET (CStruct ''struct_anon_39'')),
    (''MmsServerIdentity_destroy'', 482, EF 1),
    (''MmsType'', 67, ET (CPrim c_int)),
    (''MmsValue'', 113, ET (CStruct ''struct_sMmsValue'')),
    (''MmsValueIndication'', 88, ET (CPrim c_int)),
    (''MmsValue_clone'', 184, EF 1),
    (''MmsValue_cloneToBuffer'', 185, EF 2),
    (''MmsValue_createArray'', 114, EF 2),
    (''MmsValue_createEmptyArray'', 117, EF 1),
    (''MmsValue_createEmptyStructure'', 175, EF 1),
    (''MmsValue_decodeMmsData'', 206, EF 4),
    (''MmsValue_delete'', 187, EF 1),
    (''MmsValue_deleteAllBitStringBits'', 142, EF 1)]"

definition names_10 :: "(string \<times> nat \<times> entry) list" where
  "names_10 = [
    (''MmsValue_deleteConditional'', 188, EF 1),
    (''MmsValue_encodeMmsData'', 207, EF 4),
    (''MmsValue_equalTypes'', 167, EF 2),
    (''MmsValue_equals'', 166, EF 2),
    (''MmsValue_getArraySize'', 115, EF 1),
    (''MmsValue_getBinaryTimeAsUtcMs'', 160, EF 1),
    (''MmsValue_getBitStringAsInteger'', 147, EF 1),
    (''MmsValue_getBitStringAsIntegerBigEndian'', 149, EF 1),
    (''MmsValue_getBitStringBit'', 141, EF 2),
    (''MmsValue_getBitStringByteSize'', 144, EF 1),
    (''MmsValue_getBitStringSize'', 143, EF 1),
    (''MmsValue_getBoolean'', 136, EF 1),
    (''MmsValue_getDataAccessError'', 119, EF 1),
    (''MmsValue_getElement'', 116, EF 2),
    (''MmsValue_getNumberOfSetBits'', 145, EF 1),
    (''MmsValue_getOctetStringBuffer'', 164, EF 1),
    (''MmsValue_getOctetStringMaxSize'', 163, EF 1),
    (''MmsValue_getOctetStringSize'', 162, EF 1),
    (''MmsValue_getSizeInMemory'', 186, EF 1),
    (''MmsValue_getStringSize'', 138, EF 1),
    (''MmsValue_getSubElement'', 203, EF 3),
    (''MmsValue_getType'', 202, EF 1),
    (''MmsValue_getTypeString'', 204, EF 1),
    (''MmsValue_getUtcTimeBuffer'', 154, EF 1),
    (''MmsValue_getUtcTimeInMs'', 155, EF 1),
    (''MmsValue_getUtcTimeInMsWithUs'', 156, EF 2),
    (''MmsValue_getUtcTimeQuality'', 158, EF 1),
    (''MmsValue_isDeletable'', 201, EF 1),
    (''MmsValue_newBinaryTime'', 192, EF 1),
    (''MmsValue_newBitString'', 172, EF 1),
    (''MmsValue_newBoolean'', 171, EF 1),
    (''MmsValue_newDataAccessError'', 168, EF 1),
    (''MmsValue_newDefaultValue'', 176, EF 1),
    (''MmsValue_newDouble'', 183, EF 1),
    (''MmsValue_newFloat'', 182, EF 1),
    (''MmsValue_newInteger'', 169, EF 1),
    (''MmsValue_newIntegerFromInt16'', 178, EF 1),
    (''MmsValue_newIntegerFromInt32'', 179, EF 1),
    (''MmsValue_newIntegerFromInt64'', 180, EF 1),
    (''MmsValue_newIntegerFromInt8'', 177, EF 1),
    (''MmsValue_newMmsString'', 195, EF 1),
    (''MmsValue_newMmsStringFromByteArray'', 194, EF 2),
    (''MmsValue_newMmsStringWithSize'', 191, EF 1),
    (''MmsValue_newOctetString'', 173, EF 2),
    (''MmsValue_newStructure'', 174, EF 1),
    (''MmsValue_newUnsigned'', 170, EF 1),
    (''MmsValue_newUnsignedFromUint32'', 181, EF 1),
    (''MmsValue_newUtcTime'', 197, EF 1),
    (''MmsValue_newUtcTimeByMsTime'', 198, EF 1),
    (''MmsValue_newVisibleString'', 189, EF 1),
    (''MmsValue_newVisibleStringFromByteArray'', 193, EF 2),
    (''MmsValue_newVisibleStringWithSize'', 190, EF 1),
    (''MmsValue_printToBuffer'', 205, EF 3),
    (''MmsValue_setAllBitStringBits'', 146, EF 1),
    (''MmsValue_setBinaryTime'', 159, EF 2),
    (''MmsValue_setBitStringBit'', 140, EF 3),
    (''MmsValue_setBitStringFromInteger'', 148, EF 2),
    (''MmsValue_setBitStringFromIntegerBigEndian'', 150, EF 2),
    (''MmsValue_setBoolean'', 135, EF 2),
    (''MmsValue_setDeletable'', 199, EF 1),
    (''MmsValue_setDeletableRecursive'', 200, EF 1),
    (''MmsValue_setDouble'', 127, EF 2),
    (''MmsValue_setElement'', 118, EF 3),
    (''MmsValue_setFloat'', 126, EF 2),
    (''MmsValue_setInt16'', 129, EF 2),
    (''MmsValue_setInt32'', 130, EF 2),
    (''MmsValue_setInt64'', 131, EF 2),
    (''MmsValue_setInt8'', 128, EF 2),
    (''MmsValue_setMmsString'', 196, EF 2),
    (''MmsValue_setOctetString'', 161, EF 3),
    (''MmsValue_setUint16'', 133, EF 2),
    (''MmsValue_setUint32'', 134, EF 2),
    (''MmsValue_setUint8'', 132, EF 2),
    (''MmsValue_setUtcTime'', 151, EF 2),
    (''MmsValue_setUtcTimeByBuffer'', 153, EF 2),
    (''MmsValue_setUtcTimeMs'', 152, EF 2),
    (''MmsValue_setUtcTimeQuality'', 157, EF 2),
    (''MmsValue_setVisibleString'', 139, EF 2),
    (''MmsValue_toDouble'', 123, EF 1),
    (''MmsValue_toFloat'', 124, EF 1),
    (''MmsValue_toInt32'', 121, EF 1),
    (''MmsValue_toInt64'', 120, EF 1),
    (''MmsValue_toString'', 137, EF 1),
    (''MmsValue_toUint32'', 122, EF 1),
    (''MmsValue_toUnixTimestamp'', 125, EF 1),
    (''MmsValue_update'', 165, EF 2),
    (''MmsVariableAccessSpecification'', 73, ET (CStruct ''struct_anon_22'')),
    (''MmsVariableAccessSpecification_create'', 474, EF 2),
    (''MmsVariableAccessSpecification_createAlternateAccess'', 475, EF 4),
    (''MmsVariableAccessSpecification_destroy'', 476, EF 1),
    (''MmsVariableSpecification'', 90, ET (CStruct ''struct_sMmsVariableSpecification'')),
    (''MmsVariableSpecification_destroy'', 330, EF 1),
    (''MmsVariableSpecification_getArrayElementSpecification'', 340, EF 1),
    (''MmsVariableSpecification_getChildSpecificationByIndex'', 338, EF 2),
    (''MmsVariableSpecification_getChildSpecificationByName'', 339, EF 3),
    (''MmsVariableSpecification_getChildValue'', 331, EF 3),
    (''MmsVariableSpecification_getExponentWidth'', 341, EF 1),
    (''MmsVariableSpecification_getName'', 335, EF 1),
    (''MmsVariableSpecification_getNamedVariableRecursive'', 332, EF 2),
    (''MmsVariableSpecification_getSize'', 337, EF 1),
    (''MmsVariableSpecification_getStructureElements'', 336, EF 1),
    (''MmsVariableSpecification_getType'', 333, EF 1),
    (''MmsVariableSpecification_isValueOfType'', 334, EF 2),
    (''ModelNode'', 833, ET (CStruct ''struct_sModelNode'')),
    (''ModelNodeType'', 898, ET (CPrim c_int)),
    (''ModelNode_getChild'', 902, EF 2),
    (''ModelNode_getChildCount'', 901, EF 1),
    (''ModelNode_getChildWithFc'', 903, EF 3),
    (''ModelNode_getObjectReference'', 904, EF 2),
    (''ModelNode_getType'', 905, EF 1)]"

definition names_11 :: "(string \<times> nat \<times> entry) list" where
  "names_11 = [
    (''PSelector'', 365, ET (CStruct ''struct_anon_38'')),
    (''PhyComAddress'', 230, ET (CStruct ''struct_anon_27'')),
    (''PhyComAddress_create'', 986, EF 4),
    (''QUALITY_DERIVED'', 1168, EI 8192),
    (''QUALITY_DETAIL_BAD_REFERENCE'', 1159, EI 16),
    (''QUALITY_DETAIL_FAILURE'', 1161, EI 64),
    (''QUALITY_DETAIL_INACCURATE'', 1164, EI 512),
    (''QUALITY_DETAIL_INCONSISTENT'', 1163, EI 256),
    (''QUALITY_DETAIL_OLD_DATA'', 1162, EI 128),
    (''QUALITY_DETAIL_OSCILLATORY'', 1160, EI 32),
    (''QUALITY_DETAIL_OUT_OF_RANGE'', 1158, EI 8),
    (''QUALITY_DETAIL_OVERFLOW'', 1157, EI 4),
    (''QUALITY_OPERATOR_BLOCKED'', 1167, EI 4096),
    (''QUALITY_SOURCE_SUBSTITUTED'', 1165, EI 1024),
    (''QUALITY_TEST'', 1166, EI 2048),
    (''QUALITY_VALIDITY_GOOD'', 1153, EI 0),
    (''QUALITY_VALIDITY_INVALID'', 1154, EI 2),
    (''QUALITY_VALIDITY_QUESTIONABLE'', 1156, EI 3),
    (''QUALITY_VALIDITY_RESERVED'', 1155, EI 1),
    (''Quality'', 293, ET (CPrim c_uint16)),
    (''Quality_fromMmsValue'', 300, EF 1),
    (''Quality_getValidity'', 295, EF 1),
    (''Quality_isFlagSet'', 299, EF 2),
    (''Quality_setFlag'', 297, EF 2),
    (''Quality_setValidity'', 296, EF 2),
    (''Quality_unsetFlag'', 298, EF 2),
    (''RCB_ELEMENT_BUF_TM'', 1200, EI 64),
    (''RCB_ELEMENT_CONF_REV'', 1198, EI 16),
    (''RCB_ELEMENT_DATSET'', 1197, EI 8),
    (''RCB_ELEMENT_ENTRY_ID'', 1206, EI 4096),
    (''RCB_ELEMENT_GI'', 1204, EI 1024),
    (''RCB_ELEMENT_INTG_PD'', 1203, EI 512),
    (''RCB_ELEMENT_OPT_FLDS'', 1199, EI 32),
    (''RCB_ELEMENT_OWNER'', 1209, EI 32768),
    (''RCB_ELEMENT_PURGE_BUF'', 1205, EI 2048),
    (''RCB_ELEMENT_RESV'', 1196, EI 4),
    (''RCB_ELEMENT_RESV_TMS'', 1208, EI 16384),
    (''RCB_ELEMENT_RPT_ENA'', 1195, EI 2),
    (''RCB_ELEMENT_RPT_ID'', 1194, EI 1),
    (''RCB_ELEMENT_SQ_NUM'', 1201, EI 128),
    (''RCB_ELEMENT_TIME_OF_ENTRY'', 1207, EI 8192),
    (''RCB_ELEMENT_TRG_OPS'', 1202, EI 256),
    (''REASON_DATA_CHANGE'', 1188, EI 1),
    (''REASON_DATA_UPDATE'', 1190, EI 3),
    (''REASON_GI'', 1192, EI 5),
    (''REASON_INTEGRITY'', 1191, EI 4),
    (''REASON_NOT_INCLUDED'', 1187, EI 0),
    (''REASON_QUALITY_CHANGE'', 1189, EI 2),
    (''REASON_UNKNOWN'', 1193, EI 6),
    (''RPT_OPT_BUFFER_OVERFLOW'', 1141, EI 32),
    (''RPT_OPT_CONF_REV'', 1143, EI 128),
    (''RPT_OPT_DATA_REFERENCE'', 1140, EI 16),
    (''RPT_OPT_DATA_SET'', 1139, EI 8),
    (''RPT_OPT_ENTRY_ID'', 1142, EI 64),
    (''RPT_OPT_REASON_FOR_INCLUSION'', 1138, EI 4),
    (''RPT_OPT_SEQ_NUM'', 1136, EI 1),
    (''RPT_OPT_TIME_STAMP'', 1137, EI 2),
    (''ReadAccessHandler'', 1125, ET (CFun (CPrim c_int) [CPtr (CStruct
        ''struct_sLogicalDevice''), CPtr (CStruct ''struct_sLogicalNode''), CPtr (CStruct
        ''struct_sDataObject''), CPrim c_int, CPtr (CStruct ''struct_sClientConnection''), CPrim
        c_void_p])),
    (''ReasonForInclusion'', 664, ET (CPrim c_int)),
    (''ReasonForInclusion_getValueAsString'', 692, EF 1),
    (''ReportCallbackFunction'', 667, ET (CFun (CPrim c_void_p) [CPrim c_void_p, CPtr (CStruct
        ''struct_sClientReport'')])),
    (''ReportControlBlock'', 847, ET (CStruct ''struct_sReportControlBlock'')),
    (''ReportControlBlock_create'', 977, EF 10),
    (''ReportControlBlock_setPreconfiguredClient'', 978, EF 3),
    (''SSelector'', 363, ET (CStruct ''struct_anon_37'')),
    (''SVCBEventHandler'', 1116, ET (CFun (CPrim c_void_p) [CPtr (CStruct
        ''struct_sSVControlBlock''), CPrim c_int, CPrim c_void_p])),
    (''SVControlBlock'', 853, ET (CStruct ''struct_sSVControlBlock'')),
    (''SVControlBlock_addPhyComAddress'', 984, EF 2),
    (''SVControlBlock_create'', 983, EF 9),
    (''SettingGroupControlBlock'', 849, ET (CStruct ''struct_sSettingGroupControlBlock'')),
    (''SettingGroupControlBlock_create'', 981, EF 3),
    (''TLSConfiguration'', 343, ET (CPtr (CStruct ''struct_sTLSConfiguration''))),
    (''TRG_OPT_DATA_CHANGED'', 1130, EI 1),
    (''TRG_OPT_DATA_UPDATE'', 1132, EI 4),
    (''TRG_OPT_GI'', 1134, EI 16),
    (''TRG_OPT_INTEGRITY'', 1133, EI 8),
    (''TRG_OPT_QUALITY_CHANGED'', 1131, EI 2),
    (''TRG_OPT_TRANSIENT'', 1135, EI 128),
    (''TSelector'', 361, ET (CStruct ''struct_anon_36'')),
    (''Timestamp'', 310, ET (CUnion ''union_anon_31'')),
    (''Timestamp_clearFlags'', 314, EF 1),
    (''Timestamp_create'', 311, EF 0),
    (''Timestamp_createFromByteArray'', 312, EF 1),
    (''Timestamp_destroy'', 313, EF 1),
    (''Timestamp_getSubsecondPrecision'', 323, EF 1),
    (''Timestamp_getTimeInMs'', 316, EF 1),
    (''Timestamp_getTimeInSeconds'', 315, EF 1),
    (''Timestamp_hasClockFailure'', 319, EF 1),
    (''Timestamp_isClockNotSynchronized'', 321, EF 1),
    (''Timestamp_isLeapSecondKnown'', 317, EF 1),
    (''Timestamp_setByMmsUtcTime'', 327, EF 2),
    (''Timestamp_setClockFailure'', 320, EF 2),
    (''Timestamp_setClockNotSynchronized'', 322, EF 2),
    (''Timestamp_setLeapSecondKnown'', 318, EF 2),
    (''Timestamp_setSubsecondPrecision'', 324, EF 2),
    (''Timestamp_setTimeInMilliseconds'', 326, EF 2),
    (''Timestamp_setTimeInSeconds'', 325, EF 2),
    (''Timestamp_toMmsValue'', 328, EF 2),
    (''Validity'', 294, ET (CPrim c_uint16)),
    (''WriteAccessHandler'', 1118, ET (CFun (CPrim c_int) [CPtr (CStruct
        ''struct_sDataAttribute''), CPtr (CStruct ''struct_sMmsValue''), CPtr (CStruct
        ''struct_sClientConnection''), CPrim c_void_p])),
    (''enum_anon_20'', 0, ET (CPrim c_int)),
    (''enum_anon_21'', 50, ET (CPrim c_int)),
    (''enum_anon_25'', 81, ET (CPrim c_int)),
    (''enum_anon_26'', 95, ET (CPrim c_int)),
    (''enum_anon_28'', 231, ET (CPrim c_int)),
    (''enum_anon_29'', 238, ET (CPrim c_int)),
    (''enum_anon_30'', 301, ET (CPrim c_int)),
    (''enum_anon_32'', 344, ET (CPrim c_int)),
    (''enum_anon_40'', 381, ET (CPrim c_int)),
    (''enum_anon_42'', 532, ET (CPrim c_int))]"

definition names_12 :: "(string \<times> nat \<times> entry) list" where
  "names_12 = [
    (''enum_anon_43'', 538, ET (CPrim c_int)),
    (''enum_anon_44'', 656, ET (CPrim c_int)),
    (''enum_anon_45'', 744, ET (CPrim c_int)),
    (''enum_anon_46'', 778, ET (CPrim c_int)),
    (''enum_anon_50'', 858, ET (CPrim c_int)),
    (''enum_anon_51'', 893, ET (CPrim c_int)),
    (''enum_anon_52'', 1087, ET (CPrim c_int)),
    (''enum_anon_53'', 1095, ET (CPrim c_int)),
    (''enum_anon_54'', 1120, ET (CPrim c_int)),
    (''enum_eFunctionalConstraint'', 268, ET (CPrim c_int)),
    (''sAcseAuthenticationParameter'', 1287, ET (CStruct ''struct_sAcseAuthenticationParameter'')),
    (''sClientConnection'', 1317, ET (CStruct ''struct_sClientConnection'')),
    (''sClientDataSet'', 1293, ET (CStruct ''struct_sClientDataSet'')),
    (''sClientGooseControlBlock'', 1296, ET (CStruct ''struct_sClientGooseControlBlock'')),
    (''sClientReport'', 1294, ET (CStruct ''struct_sClientReport'')),
    (''sClientReportControlBlock'', 1295, ET (CStruct ''struct_sClientReportControlBlock'')),
    (''sClientSVControlBlock'', 1298, ET (CStruct ''struct_sClientSVControlBlock'')),
    (''sControlObjectClient'', 1299, ET (CStruct ''struct_sControlObjectClient'')),
    (''sDataAttribute'', 1302, ET (CStruct ''struct_sDataAttribute'')),
    (''sDataObject'', 1303, ET (CStruct ''struct_sDataObject'')),
    (''sDataSet'', 1307, ET (CStruct ''struct_sDataSet'')),
    (''sDataSetEntry'', 1314, ET (CStruct ''struct_sDataSetEntry'')),
    (''sFileDirectoryEntry'', 1300, ET (CStruct ''struct_sFileDirectoryEntry'')),
    (''sGSEControlBlock'', 1310, ET (CStruct ''struct_sGSEControlBlock'')),
    (''sIedConnection'', 1297, ET (CStruct ''struct_sIedConnection'')),
    (''sIedModel'', 1306, ET (CStruct ''struct_sIedModel'')),
    (''sIedServer'', 1316, ET (CStruct ''struct_sIedServer'')),
    (''sIedServerConfig'', 1315, ET (CStruct ''struct_sIedServerConfig'')),
    (''sIsoConnectionParameters'', 1288, ET (CStruct ''struct_sIsoConnectionParameters'')),
    (''sLinkedList'', 1286, ET (CStruct ''struct_sLinkedList'')),
    (''sLog'', 1313, ET (CStruct ''struct_sLog'')),
    (''sLogControlBlock'', 1312, ET (CStruct ''struct_sLogControlBlock'')),
    (''sLogicalDevice'', 1305, ET (CStruct ''struct_sLogicalDevice'')),
    (''sLogicalNode'', 1304, ET (CStruct ''struct_sLogicalNode'')),
    (''sMmsAccessSpecifier'', 1278, ET (CStruct ''struct_sMmsAccessSpecifier'')),
    (''sMmsArray'', 1281, ET (CStruct ''struct_sMmsArray'')),
    (''sMmsConnection'', 1290, ET (CStruct ''struct_sMmsConnection'')),
    (''sMmsConnectionParameters'', 1289, ET (CStruct ''struct_sMmsConnectionParameters'')),
    (''sMmsDomain'', 1277, ET (CStruct ''struct_sMmsDomain'')),
    (''sMmsFloat'', 1283, ET (CStruct ''struct_sMmsFloat'')),
    (''sMmsJournalEntry'', 1291, ET (CStruct ''struct_sMmsJournalEntry'')),
    (''sMmsJournalVariable'', 1292, ET (CStruct ''struct_sMmsJournalVariable'')),
    (''sMmsNamedVariableList'', 1279, ET (CStruct ''struct_sMmsNamedVariableList'')),
    (''sMmsStructure'', 1282, ET (CStruct ''struct_sMmsStructure'')),
    (''sMmsValue'', 1285, ET (CStruct ''struct_sMmsValue'')),
    (''sMmsVariableSpecification'', 1280, ET (CStruct ''struct_sMmsVariableSpecification'')),
    (''sModelNode'', 1301, ET (CStruct ''struct_sModelNode'')),
    (''sReportControlBlock'', 1308, ET (CStruct ''struct_sReportControlBlock'')),
    (''sSVControlBlock'', 1311, ET (CStruct ''struct_sSVControlBlock'')),
    (''sSettingGroupControlBlock'', 1309, ET (CStruct ''struct_sSettingGroupControlBlock'')),
    (''struct_anon_22'', 72, ET (CStruct ''struct_anon_22'')),
    (''struct_anon_23'', 77, ET (CStruct ''struct_anon_23'')),
    (''struct_anon_24'', 79, ET (CStruct ''struct_anon_24'')),
    (''struct_anon_27'', 229, ET (CStruct ''struct_anon_27'')),
    (''struct_anon_33'', 352, ET (CStruct ''struct_anon_33'')),
    (''struct_anon_34'', 353, ET (CStruct ''struct_anon_34'')),
    (''struct_anon_36'', 360, ET (CStruct ''struct_anon_36'')),
    (''struct_anon_37'', 362, ET (CStruct ''struct_anon_37'')),
    (''struct_anon_38'', 364, ET (CStruct ''struct_anon_38'')),
    (''struct_anon_39'', 379, ET (CStruct ''struct_anon_39'')),
    (''struct_anon_41'', 530, ET (CStruct ''struct_anon_41'')),
    (''struct_sAcseAuthenticationParameter'', 350, ET (CStruct
        ''struct_sAcseAuthenticationParameter'')),
    (''struct_sClientConnection'', 1023, ET (CStruct ''struct_sClientConnection'')),
    (''struct_sClientDataSet'', 520, ET (CStruct ''struct_sClientDataSet'')),
    (''struct_sClientGooseControlBlock'', 526, ET (CStruct ''struct_sClientGooseControlBlock'')),
    (''struct_sClientReport'', 522, ET (CStruct ''struct_sClientReport'')),
    (''struct_sClientReportControlBlock'', 524, ET (CStruct ''struct_sClientReportControlBlock'')),
    (''struct_sClientSVControlBlock'', 591, ET (CStruct ''struct_sClientSVControlBlock'')),
    (''struct_sControlObjectClient'', 739, ET (CStruct ''struct_sControlObjectClient'')),
    (''struct_sDataAttribute'', 834, ET (CStruct ''struct_sDataAttribute'')),
    (''struct_sDataObject'', 836, ET (CStruct ''struct_sDataObject'')),
    (''struct_sDataSet'', 844, ET (CStruct ''struct_sDataSet'')),
    (''struct_sDataSetEntry'', 899, ET (CStruct ''struct_sDataSetEntry'')),
    (''struct_sFileDirectoryEntry'', 810, ET (CStruct ''struct_sFileDirectoryEntry'')),
    (''struct_sGSEControlBlock'', 850, ET (CStruct ''struct_sGSEControlBlock'')),
    (''struct_sIedConnection'', 528, ET (CStruct ''struct_sIedConnection'')),
    (''struct_sIedModel'', 842, ET (CStruct ''struct_sIedModel'')),
    (''struct_sIedServer'', 1021, ET (CStruct ''struct_sIedServer'')),
    (''struct_sIedServerConfig'', 995, ET (CStruct ''struct_sIedServerConfig'')),
    (''struct_sIsoConnectionParameters'', 366, ET (CStruct ''struct_sIsoConnectionParameters'')),
    (''struct_sLinkedList'', 208, ET (CStruct ''struct_sLinkedList'')),
    (''struct_sLog'', 856, ET (CStruct ''struct_sLog'')),
    (''struct_sLogControlBlock'', 854, ET (CStruct ''struct_sLogControlBlock'')),
    (''struct_sLogStorage'', 225, ET (CStruct ''struct_sLogStorage'')),
    (''struct_sLogicalDevice'', 840, ET (CStruct ''struct_sLogicalDevice'')),
    (''struct_sLogicalNode'', 838, ET (CStruct ''struct_sLogicalNode'')),
    (''struct_sMmsAccessSpecifier'', 70, ET (CStruct ''struct_sMmsAccessSpecifier'')),
    (''struct_sMmsArray'', 91, ET (CStruct ''struct_sMmsArray'')),
    (''struct_sMmsConnection'', 388, ET (CStruct ''struct_sMmsConnection'')),
    (''struct_sMmsConnectionParameters'', 377, ET (CStruct ''struct_sMmsConnectionParameters'')),
    (''struct_sMmsDomain'', 68, ET (CStruct ''struct_sMmsDomain'')),
    (''struct_sMmsFloat'', 93, ET (CStruct ''struct_sMmsFloat'')),
    (''struct_sMmsJournalEntry'', 505, ET (CStruct ''struct_sMmsJournalEntry'')),
    (''struct_sMmsJournalVariable'', 507, ET (CStruct ''struct_sMmsJournalVariable'')),
    (''struct_sMmsNamedVariableList'', 74, ET (CStruct ''struct_sMmsNamedVariableList'')),
    (''struct_sMmsServer'', 830, ET (CStruct ''struct_sMmsServer'')),
    (''struct_sMmsStructure'', 92, ET (CStruct ''struct_sMmsStructure'')),
    (''struct_sMmsValue'', 112, ET (CStruct ''struct_sMmsValue'')),
    (''struct_sMmsVariableSpecification'', 89, ET (CStruct ''struct_sMmsVariableSpecification'')),
    (''struct_sModelNode'', 832, ET (CStruct ''struct_sModelNode'')),
    (''struct_sReportControlBlock'', 846, ET (CStruct ''struct_sReportControlBlock'')),
    (''struct_sSVControlBlock'', 852, ET (CStruct ''struct_sSVControlBlock'')),
    (''struct_sSettingGroupControlBlock'', 848, ET (CStruct ''struct_sSettingGroupControlBlock'')),
    (''struct_sTLSConfiguration'', 342, ET (CStruct ''struct_sTLSConfiguration'')),
    (''uMmsTypeSpecification'', 1284, ET (CUnion ''union_uMmsTypeSpecification'')),
    (''union_anon_31'', 309, ET (CUnion ''union_anon_31'')),
    (''union_anon_35'', 354, ET (CUnion ''union_anon_35'')),
    (''union_uMmsTypeSpecification'', 94, ET (CUnion ''union_uMmsTypeSpecification''))]"

end
