(* ===== verification/Lib_Import.thy ===== *)
theory Lib_Import
  imports Lib_Table_1 Lib_Table_2 Lib_Table_3 Lib_Table_4 Lib_Names
begin

text \<open>
  The import of the generated part of \<^verbatim>\<open>lib61850.py\<close>: all its statements, in order, run on an
  empty namespace. The statements are checked piece by piece against the table of \<open>Lib_Names\<close>;
  with the soundness of the check this gives the namespace after the import, for any library.
\<close>

section \<open>The table\<close>

definition lib_parts :: "(string \<times> nat \<times> entry) list list" where
  "lib_parts = [names_1, names_2, names_3, names_4, names_5, names_6, names_7, names_8, names_9, names_10, names_11, names_12]"

definition lib_table :: table where
  "lib_table = map_of (concat lib_parts)"

text \<open>The names ascend, so they are all different.\<close>

fun char_before :: "char \<Rightarrow> char \<Rightarrow> bool" where
  "char_before (Char a0 a1 a2 a3 a4 a5 a6 a7) (Char b0 b1 b2 b3 b4 b5 b6 b7) =
     (if a7 \<noteq> b7 then b7 else if a6 \<noteq> b6 then b6 else if a5 \<noteq> b5 then b5 else if a4 \<noteq> b4 then b4
      else if a3 \<noteq> b3 then b3 else if a2 \<noteq> b2 then b2 else if a1 \<noteq> b1 then b1 else b0 \<and> \<not> a0)"

fun before :: "string \<Rightarrow> string \<Rightarrow> bool" where
  "before [] ds = (ds \<noteq> [])"
| "before (c # cs) [] = False"
| "before (c # cs) (d # ds) = (if c = d then before cs ds else char_before c d)"

fun ascend :: "string \<Rightarrow> string list \<Rightarrow> string option" where
  "ascend x [] = Some x"
| "ascend x (y # ys) = (if before x y then ascend y ys else None)"

lemma char_before_trans: "char_before a b \<Longrightarrow> char_before b c \<Longrightarrow> char_before a c"
  by (cases a; cases b; cases c) (auto split: if_splits)

lemma char_before_asym: "char_before a b \<Longrightarrow> char_before b a \<Longrightarrow> False"
  by (cases a; cases b) (auto split: if_splits)

lemma before_irrefl: "\<not> before x x"
  by (induction x) auto

lemma before_trans: "before x y \<Longrightarrow> before y z \<Longrightarrow> before x z"
proof (induction x y arbitrary: z rule: before.induct)
  case (3 c cs d ds)
  then show ?case
    by (cases z) (auto split: if_splits dest: char_before_trans char_before_asym)
qed (auto simp: neq_Nil_conv elim: before.elims)

lemma ascend_append: "ascend x (xs @ ys) = (case ascend x xs of None \<Rightarrow> None | Some y \<Rightarrow> ascend y ys)"
  by (induction xs arbitrary: x) auto

lemma ascend_sorted: "ascend x ys = Some z \<Longrightarrow> sorted_wrt before (x # ys)"
proof (induction ys arbitrary: x)
  case (Cons y ys)
  then have xy: "before x y" and s: "sorted_wrt before (y # ys)"
    by (auto split: if_splits)
  from xy s have "\<forall>w\<in>set ys. before x w" by (auto intro: before_trans)
  with xy s show ?case by simp
qed simp

lemma ascend_distinct: "ascend x ys = Some z \<Longrightarrow> distinct ys"
proof -
  assume "ascend x ys = Some z"
  from ascend_sorted [OF this] have "sorted_wrt before ys" by simp
  then show ?thesis by (induction ys) (auto simp: before_irrefl)
qed

lemmas ascend_eval = ascend.simps before.simps char_before.simps list.map fst_conv list.distinct
  list.inject char.inject simp_thms if_True if_False option.inject

lemma ascend_1: "ascend [] (map fst names_1) = Some ''CDC_OPTION_61400_COUNTING_YEARLY''"
  by (simp only: names_1_def ascend_eval)

lemma ascend_2: "ascend ''CDC_OPTION_61400_COUNTING_YEARLY'' (map fst names_2) = Some ''ClientGooseControlBlock_setDstAddress_priority''"
  by (simp only: names_2_def ascend_eval)

lemma ascend_3: "ascend ''ClientGooseControlBlock_setDstAddress_priority'' (map fst names_3) = Some ''ControlObjectClient_operateAsync''"
  by (simp only: names_3_def ascend_eval)

lemma ascend_4: "ascend ''ControlObjectClient_operateAsync'' (map fst names_4) = Some ''IEC61850_INT24U''"
  by (simp only: names_4_def ascend_eval)

lemma ascend_5: "ascend ''IEC61850_INT24U'' (map fst names_5) = Some ''IedConnection_getFileDirectoryAsyncEx''"
  by (simp only: names_5_def ascend_eval)

lemma ascend_6: "ascend ''IedConnection_getFileDirectoryAsyncEx'' (map fst names_6) = Some ''IedServer_disableGoosePublishing''"
  by (simp only: names_6_def ascend_eval)

lemma ascend_7: "ascend ''IedServer_disableGoosePublishing'' (map fst names_7) = Some ''MMS_BCD''"
  by (simp only: names_7_def ascend_eval)

lemma ascend_8: "ascend ''MMS_BCD'' (map fst names_8) = Some ''MmsConnection_deleteNamedVariableListAsync''"
  by (simp only: names_8_def ascend_eval)

lemma ascend_9: "ascend ''MmsConnection_deleteNamedVariableListAsync'' (map fst names_9) = Some ''MmsValue_deleteAllBitStringBits''"
  by (simp only: names_9_def ascend_eval)

lemma ascend_10: "ascend ''MmsValue_deleteAllBitStringBits'' (map fst names_10) = Some ''ModelNode_getType''"
  by (simp only: names_10_def ascend_eval)

lemma ascend_11: "ascend ''ModelNode_getType'' (map fst names_11) = Some ''enum_anon_42''"
  by (simp only: names_11_def ascend_eval)

lemma ascend_12: "ascend ''enum_anon_42'' (map fst names_12) = Some ''union_uMmsTypeSpecification''"
  by (simp only: names_12_def ascend_eval)

lemmas ascend_parts = ascend_1 ascend_2 ascend_3 ascend_4 ascend_5 ascend_6 ascend_7 ascend_8 ascend_9 ascend_10 ascend_11 ascend_12

lemma names_distinct: "distinct (map fst (concat lib_parts))"
  by (rule ascend_distinct [of "[]" _ "''union_uMmsTypeSpecification''"])
    (simp only: lib_parts_def concat.simps append_Nil2 map_append ascend_append ascend_parts option.case)

lemma part_entries: "p \<in> set lib_parts \<Longrightarrow> list_all (\<lambda>(n, v). lib_table n = Some v) p"
  using names_distinct by (auto simp: lib_table_def list_all_iff)

lemma lib_table_names: "lib_table n \<noteq> None \<longleftrightarrow> n \<in> set (map fst (concat lib_parts))"
  by (auto simp: lib_table_def map_of_eq_None_iff)

lemma entries_1: "list_all (\<lambda>(n, v). lib_table n = Some v) names_1"
  by (rule part_entries) (simp add: lib_parts_def)

lemma entries_2: "list_all (\<lambda>(n, v). lib_table n = Some v) names_2"
  by (rule part_entries) (simp add: lib_parts_def)

lemma entries_3: "list_all (\<lambda>(n, v). lib_table n = Some v) names_3"
  by (rule part_entries) (simp add: lib_parts_def)

lemma entries_4: "list_all (\<lambda>(n, v). lib_table n = Some v) names_4"
  by (rule part_entries) (simp add: lib_parts_def)

lemma entries_5: "list_all (\<lambda>(n, v). lib_table n = Some v) names_5"
  by (rule part_entries) (simp add: lib_parts_def)

lemma entries_6: "list_all (\<lambda>(n, v). lib_table n = Some v) names_6"
  by (rule part_entries) (simp add: lib_parts_def)

lemma entries_7: "list_all (\<lambda>(n, v). lib_table n = Some v) names_7"
  by (rule part_entries) (simp add: lib_parts_def)

lemma entries_8: "list_all (\<lambda>(n, v). lib_table n = Some v) names_8"
  by (rule part_entries) (simp add: lib_parts_def)

lemma entries_9: "list_all (\<lambda>(n, v). lib_table n = Some v) names_9"
  by (rule part_entries) (simp add: lib_parts_def)

lemma entries_10: "list_all (\<lambda>(n, v). lib_table n = Some v) names_10"
  by (rule part_entries) (simp add: lib_parts_def)

lemma entries_11: "list_all (\<lambda>(n, v). lib_table n = Some v) names_11"
  by (rule part_entries) (simp add: lib_parts_def)

lemma entries_12: "list_all (\<lambda>(n, v). lib_table n = Some v) names_12"
  by (rule part_entries) (simp add: lib_parts_def)

lemmas look_1 = entries_1 [unfolded names_1_def list.pred_inject prod.case simp_thms]
lemmas look_2 = entries_2 [unfolded names_2_def list.pred_inject prod.case simp_thms]
lemmas look_3 = entries_3 [unfolded names_3_def list.pred_inject prod.case simp_thms]
lemmas look_4 = entries_4 [unfolded names_4_def list.pred_inject prod.case simp_thms]
lemmas look_5 = entries_5 [unfolded names_5_def list.pred_inject prod.case simp_thms]
lemmas look_6 = entries_6 [unfolded names_6_def list.pred_inject prod.case simp_thms]
lemmas look_7 = entries_7 [unfolded names_7_def list.pred_inject prod.case simp_thms]
lemmas look_8 = entries_8 [unfolded names_8_def list.pred_inject prod.case simp_thms]
lemmas look_9 = entries_9 [unfolded names_9_def list.pred_inject prod.case simp_thms]
lemmas look_10 = entries_10 [unfolded names_10_def list.pred_inject prod.case simp_thms]
lemmas look_11 = entries_11 [unfolded names_11_def list.pred_inject prod.case simp_thms]
lemmas look_12 = entries_12 [unfolded names_12_def list.pred_inject prod.case simp_thms]

lemmas looks = look_1 look_2 look_3 look_4 look_5 look_6 look_7 look_8 look_9 look_10 look_11 look_12

section \<open>Checking the statements\<close>

lemma shift_simps: "push_bit (nat 0) (i::int) = i" "push_bit (nat 1) (i::int) = i * 2"
    "push_bit (nat (numeral k)) (i::int) = i * 2 ^ numeral k"
  by (simp_all add: push_bit_eq_mult)

lemmas chk_eval = chk_all.simps chk.simps tchk.simps cchk.simps args_chk.simps
  class_positions.simps pointer_to.simps UNCHECKED.simps class_of.simps
  bound_def type_at_def int_at_def assign_def fun_chk_def int_chk_def type_chk_def fields_chk_def
  keep_open_def option.case prod.case entry.case option.inject option.distinct entry.inject
  cty.inject cty.distinct prim.distinct prod.inject list.simps list.size list.pred_inject
  filter.simps append.simps set_simps insert_iff empty_iff snd_conv if_True if_False simp_thms
  Suc_eq_plus1 shift_simps numeral_or_num or_num.simps power_numeral
  Num.pow.simps Num.sqr.simps mult_1_left mult_1_right
  rel_simps arith_simps add_0 add_0_right one_add_one le_numeral_extra less_numeral_extra
  one_plus_numeral numeral_plus_one add_num_simps order_refl

lemma chk_pieces_1:
  "chk_all lib_table (0, []) mms_common_1 =
     Some (71, [70, 68]) \<and>
   chk_all lib_table (71, [70, 68]) mms_common_2 =
     Some (81, [74, 68]) \<and>
   chk_all lib_table (81, [74, 68]) mms_types_1 =
     Some (95, [74, 68]) \<and>
   chk_all lib_table (95, [74, 68]) mms_value_1 =
     Some (132, [112, 74, 68]) \<and>
   chk_all lib_table (132, [112, 74, 68]) mms_value_2 =
     Some (157, [112, 74, 68]) \<and>
   chk_all lib_table (157, [112, 74, 68]) mms_value_3 =
     Some (182, [112, 74, 68]) \<and>
   chk_all lib_table (182, [112, 74, 68]) mms_value_4 =
     Some (206, [112, 74, 68]) \<and>
   chk_all lib_table (206, [112, 74, 68]) mms_value_5 =
     Some (208, [112, 74, 68]) \<and>
   chk_all lib_table (208, [112, 74, 68]) linked_list_1 =
     Some (225, [112, 74, 68]) \<and>
   chk_all lib_table (225, [112, 74, 68]) logging_api_1 =
     Some (229, [112, 74, 68]) \<and>
   chk_all lib_table (229, [112, 74, 68]) iec61850_common_1 =
     Some (292, [112, 74, 68]) \<and>
   chk_all lib_table (292, [112, 74, 68]) iec61850_common_2 =
     Some (322, [112, 74, 68]) \<and>
   chk_all lib_table (322, [112, 74, 68]) iec61850_common_3 =
     Some (330, [112, 74, 68]) \<and>
   chk_all lib_table (330, [112, 74, 68]) mms_type_spec_1 =
     Some (342, [112, 74, 68]) \<and>
   chk_all lib_table (342, [112, 74, 68]) tls_config_1 =
     Some (344, [342, 112, 74, 68]) \<and>
   chk_all lib_table (344, [342, 112, 74, 68]) iso_connection_parameters_1 =
     Some (367, [366, 342, 112, 74, 68]) \<and>
   chk_all lib_table (367, [366, 342, 112, 74, 68]) iso_connection_parameters_2 =
     Some (377, [342, 112, 74, 68])"
  unfolding
    mms_common_1_def mms_common_2_def mms_types_1_def mms_value_1_def mms_value_2_def
    mms_value_3_def mms_value_4_def mms_value_5_def linked_list_1_def logging_api_1_def
    iec61850_common_1_def iec61850_common_2_def iec61850_common_3_def mms_type_spec_1_def
    tls_config_1_def iso_connection_parameters_1_def iso_connection_parameters_2_def
  by (simp only: looks chk_eval cong: if_weak_cong)

lemma chk_pieces_2:
  "chk_all lib_table (377, [342, 112, 74, 68]) mms_client_connection_1 =
     Some (407, [388, 342, 112, 74, 68]) \<and>
   chk_all lib_table (407, [388, 342, 112, 74, 68]) mms_client_connection_2 =
     Some (435, [388, 342, 112, 74, 68]) \<and>
   chk_all lib_table (435, [388, 342, 112, 74, 68]) mms_client_connection_3 =
     Some (462, [388, 342, 112, 74, 68]) \<and>
   chk_all lib_table (462, [388, 342, 112, 74, 68]) mms_client_connection_4 =
     Some (492, [388, 342, 112, 74, 68]) \<and>
   chk_all lib_table (492, [388, 342, 112, 74, 68]) mms_client_connection_5 =
     Some (516, [388, 342, 112, 74, 68]) \<and>
   chk_all lib_table (516, [388, 342, 112, 74, 68]) mms_client_connection_6 =
     Some (520, [388, 342, 112, 74, 68]) \<and>
   chk_all lib_table (520, [388, 342, 112, 74, 68]) iec61850_client_1 =
     Some (573, [528, 526, 524, 522, 520, 388, 342, 112, 74, 68]) \<and>
   chk_all lib_table (573, [528, 526, 524, 522, 520, 388, 342, 112, 74, 68]) iec61850_client_2 =
     Some (601, [591, 528, 526, 524, 522, 520, 388, 342, 112, 74, 68]) \<and>
   chk_all lib_table (601, [591, 528, 526, 524, 522, 520, 388, 342, 112, 74, 68])
   iec61850_client_3 =
     Some (625, [591, 528, 526, 524, 522, 520, 388, 342, 112, 74, 68]) \<and>
   chk_all lib_table (625, [591, 528, 526, 524, 522, 520, 388, 342, 112, 74, 68])
   iec61850_client_4 =
     Some (650, [591, 528, 526, 524, 522, 520, 388, 342, 112, 74, 68]) \<and>
   chk_all lib_table (650, [591, 528, 526, 524, 522, 520, 388, 342, 112, 74, 68])
   iec61850_client_5 =
     Some (681, [591, 528, 526, 524, 522, 520, 388, 342, 112, 74, 68]) \<and>
   chk_all lib_table (681, [591, 528, 526, 524, 522, 520, 388, 342, 112, 74, 68])
   iec61850_client_6 =
     Some (705, [591, 528, 526, 524, 522, 520, 388, 342, 112, 74, 68]) \<and>
   chk_all lib_table (705, [591, 528, 526, 524, 522, 520, 388, 342, 112, 74, 68])
   iec61850_client_7 =
     Some (731, [591, 528, 526, 524, 522, 520, 388, 342, 112, 74, 68]) \<and>
   chk_all lib_table (731, [591, 528, 526, 524, 522, 520, 388, 342, 112, 74, 68])
   iec61850_client_8 =
     Some (761, [739, 591, 528, 526, 524, 522, 520, 388, 342, 112, 74, 68]) \<and>
   chk_all lib_table (761, [739, 591, 528, 526, 524, 522, 520, 388, 342, 112, 74, 68])
   iec61850_client_9 =
     Some (795, [739, 591, 528, 526, 524, 522, 520, 388, 342, 112, 74, 68]) \<and>
   chk_all lib_table (795, [739, 591, 528, 526, 524, 522, 520, 388, 342, 112, 74, 68])
   iec61850_client_10 =
     Some (825, [810, 739, 591, 528, 526, 524, 522, 520, 388, 342, 112, 74, 68]) \<and>
   chk_all lib_table (825, [810, 739, 591, 528, 526, 524, 522, 520, 388, 342, 112, 74, 68])
   iec61850_client_11 =
     Some (830, [810, 739, 591, 528, 526, 524, 522, 520, 388, 342, 112, 74, 68])"
  unfolding
    mms_client_connection_1_def mms_client_connection_2_def mms_client_connection_3_def
    mms_client_connection_4_def mms_client_connection_5_def mms_client_connection_6_def
    iec61850_client_1_def iec61850_client_2_def iec61850_client_3_def iec61850_client_4_def
    iec61850_client_5_def iec61850_client_6_def iec61850_client_7_def iec61850_client_8_def
    iec61850_client_9_def iec61850_client_10_def iec61850_client_11_def
  by (simp only: looks chk_eval cong: if_weak_cong)

lemma chk_pieces_3:
  "chk_all lib_table (830, [810, 739, 591, 528, 526, 524, 522, 520, 388, 342, 112, 74, 68])
   mms_server_1 =
     Some (832, [830, 810, 739, 591, 528, 526, 524, 522, 520, 388, 342, 112, 74, 68]) \<and>
   chk_all lib_table (832, [830, 810, 739, 591, 528, 526, 524, 522, 520, 388, 342, 112, 74, 68])
   iec61850_model_1 =
     Some (895, [856, 854, 852, 850, 848, 846, 844, 842, 840, 838, 836, 834, 832, 830, 810, 739,
     591, 528, 526, 524, 522, 520, 388, 342, 112, 74, 68]) \<and>
   chk_all lib_table (895, [856, 854, 852, 850, 848, 846, 844, 842, 840, 838, 836, 834, 832,
   830, 810, 739, 591, 528, 526, 524, 522, 520, 388, 342, 112, 74, 68]) iec61850_model_2 =
     Some (901, [856, 854, 852, 850, 848, 846, 844, 830, 810, 739, 591, 528, 526, 524, 522, 520,
     388, 342, 112, 74, 68]) \<and>
   chk_all lib_table (901, [856, 854, 852, 850, 848, 846, 844, 830, 810, 739, 591, 528, 526,
   524, 522, 520, 388, 342, 112, 74, 68]) iec61850_model_3 =
     Some (901, [852, 830, 810, 739, 591, 528, 526, 524, 522, 520, 388, 342, 112, 74, 68]) \<and>
   chk_all lib_table (901, [852, 830, 810, 739, 591, 528, 526, 524, 522, 520, 388, 342, 112, 74,
   68]) iec61850_model_4 =
     Some (923, [830, 810, 739, 591, 528, 526, 524, 522, 520, 388, 342, 112, 74, 68]) \<and>
   chk_all lib_table (923, [830, 810, 739, 591, 528, 526, 524, 522, 520, 388, 342, 112, 74, 68])
   iec61850_model_5 =
     Some (927, [830, 810, 739, 591, 528, 526, 524, 522, 520, 388, 342, 112, 74, 68]) \<and>
   chk_all lib_table (927, [830, 810, 739, 591, 528, 526, 524, 522, 520, 388, 342, 112, 74, 68])
   iec61850_cdc_1 =
     Some (951, [830, 810, 739, 591, 528, 526, 524, 522, 520, 388, 342, 112, 74, 68]) \<and>
   chk_all lib_table (951, [830, 810, 739, 591, 528, 526, 524, 522, 520, 388, 342, 112, 74, 68])
   iec61850_cdc_2 =
     Some (970, [830, 810, 739, 591, 528, 526, 524, 522, 520, 388, 342, 112, 74, 68]) \<and>
   chk_all lib_table (970, [830, 810, 739, 591, 528, 526, 524, 522, 520, 388, 342, 112, 74, 68])
   iec61850_dynamic_model_1 =
     Some (992, [830, 810, 739, 591, 528, 526, 524, 522, 520, 388, 342, 112, 74, 68]) \<and>
   chk_all lib_table (992, [830, 810, 739, 591, 528, 526, 524, 522, 520, 388, 342, 112, 74, 68])
   hal_filesystem_1 =
     Some (993, [830, 810, 739, 591, 528, 526, 524, 522, 520, 388, 342, 112, 74, 68]) \<and>
   chk_all lib_table (993, [830, 810, 739, 591, 528, 526, 524, 522, 520, 388, 342, 112, 74, 68])
   iec61850_config_file_parser_1 =
     Some (995, [830, 810, 739, 591, 528, 526, 524, 522, 520, 388, 342, 112, 74, 68]) \<and>
   chk_all lib_table (995, [830, 810, 739, 591, 528, 526, 524, 522, 520, 388, 342, 112, 74, 68])
   iec61850_server_1 =
     Some (1016, [830, 810, 739, 591, 528, 526, 524, 522, 520, 388, 342, 112, 74, 68]) \<and>
   chk_all lib_table (1016, [830, 810, 739, 591, 528, 526, 524, 522, 520, 388, 342, 112, 74,
   68]) iec61850_server_2 =
     Some (1043, [1023, 1021, 830, 810, 739, 591, 528, 526, 524, 522, 520, 388, 342, 112, 74,
     68]) \<and>
   chk_all lib_table (1043, [1023, 1021, 830, 810, 739, 591, 528, 526, 524, 522, 520, 388, 342,
   112, 74, 68]) iec61850_server_3 =
     Some (1068, [1023, 1021, 830, 810, 739, 591, 528, 526, 524, 522, 520, 388, 342, 112, 74,
     68]) \<and>
   chk_all lib_table (1068, [1023, 1021, 830, 810, 739, 591, 528, 526, 524, 522, 520, 388, 342,
   112, 74, 68]) iec61850_server_4 =
     Some (1104, [1023, 1021, 830, 810, 739, 591, 528, 526, 524, 522, 520, 388, 342, 112, 74,
     68]) \<and>
   chk_all lib_table (1104, [1023, 1021, 830, 810, 739, 591, 528, 526, 524, 522, 520, 388, 342,
   112, 74, 68]) iec61850_server_5 =
     Some (1127, [1023, 1021, 830, 810, 739, 591, 528, 526, 524, 522, 520, 388, 342, 112, 74,
     68])"
  unfolding
    mms_server_1_def iec61850_model_1_def iec61850_model_2_def iec61850_model_3_def
    iec61850_model_4_def iec61850_model_5_def iec61850_cdc_1_def iec61850_cdc_2_def
    iec61850_dynamic_model_1_def hal_filesystem_1_def iec61850_config_file_parser_1_def
    iec61850_server_1_def iec61850_server_2_def iec61850_server_3_def iec61850_server_4_def
    iec61850_server_5_def
  by (simp only: looks chk_eval cong: if_weak_cong)

lemma chk_pieces_4:
  "chk_all lib_table (1127, [1023, 1021, 830, 810, 739, 591, 528, 526, 524, 522, 520, 388, 342,
   112, 74, 68]) iec61850_common_4 =
     Some (1152, [1023, 1021, 830, 810, 739, 591, 528, 526, 524, 522, 520, 388, 342, 112, 74,
     68]) \<and>
   chk_all lib_table (1152, [1023, 1021, 830, 810, 739, 591, 528, 526, 524, 522, 520, 388, 342,
   112, 74, 68]) iec61850_common_5 =
     Some (1169, [1023, 1021, 830, 810, 739, 591, 528, 526, 524, 522, 520, 388, 342, 112, 74,
     68]) \<and>
   chk_all lib_table (1169, [1023, 1021, 830, 810, 739, 591, 528, 526, 524, 522, 520, 388, 342,
   112, 74, 68]) iec61850_client_12 =
     Some (1194, [1023, 1021, 830, 810, 739, 591, 528, 526, 524, 522, 520, 388, 342, 112, 74,
     68]) \<and>
   chk_all lib_table (1194, [1023, 1021, 830, 810, 739, 591, 528, 526, 524, 522, 520, 388, 342,
   112, 74, 68]) iec61850_client_13 =
     Some (1210, [1023, 1021, 830, 810, 739, 591, 528, 526, 524, 522, 520, 388, 342, 112, 74,
     68]) \<and>
   chk_all lib_table (1210, [1023, 1021, 830, 810, 739, 591, 528, 526, 524, 522, 520, 388, 342,
   112, 74, 68]) iec61850_cdc_3 =
     Some (1235, [1023, 1021, 830, 810, 739, 591, 528, 526, 524, 522, 520, 388, 342, 112, 74,
     68]) \<and>
   chk_all lib_table (1235, [1023, 1021, 830, 810, 739, 591, 528, 526, 524, 522, 520, 388, 342,
   112, 74, 68]) iec61850_cdc_4 =
     Some (1260, [1023, 1021, 830, 810, 739, 591, 528, 526, 524, 522, 520, 388, 342, 112, 74,
     68]) \<and>
   chk_all lib_table (1260, [1023, 1021, 830, 810, 739, 591, 528, 526, 524, 522, 520, 388, 342,
   112, 74, 68]) iec61850_cdc_5 =
     Some (1275, [1023, 1021, 830, 810, 739, 591, 528, 526, 524, 522, 520, 388, 342, 112, 74,
     68]) \<and>
   chk_all lib_table (1275, [1023, 1021, 830, 810, 739, 591, 528, 526, 524, 522, 520, 388, 342,
   112, 74, 68]) iec61850_server_6 =
     Some (1277, [1023, 1021, 830, 810, 739, 591, 528, 526, 524, 522, 520, 388, 342, 112, 74,
     68]) \<and>
   chk_all lib_table (1277, [1023, 1021, 830, 810, 739, 591, 528, 526, 524, 522, 520, 388, 342,
   112, 74, 68]) mms_common_3 =
     Some (1280, [1023, 1021, 830, 810, 739, 591, 528, 526, 524, 522, 520, 388, 342, 112, 74,
     68]) \<and>
   chk_all lib_table (1280, [1023, 1021, 830, 810, 739, 591, 528, 526, 524, 522, 520, 388, 342,
   112, 74, 68]) mms_types_2 =
     Some (1285, [1023, 1021, 830, 810, 739, 591, 528, 526, 524, 522, 520, 388, 342, 112, 74,
     68]) \<and>
   chk_all lib_table (1285, [1023, 1021, 830, 810, 739, 591, 528, 526, 524, 522, 520, 388, 342,
   112, 74, 68]) mms_value_6 =
     Some (1286, [1023, 1021, 830, 810, 739, 591, 528, 526, 524, 522, 520, 388, 342, 112, 74,
     68]) \<and>
   chk_all lib_table (1286, [1023, 1021, 830, 810, 739, 591, 528, 526, 524, 522, 520, 388, 342,
   112, 74, 68]) linked_list_2 =
     Some (1287, [1023, 1021, 830, 810, 739, 591, 528, 526, 524, 522, 520, 388, 342, 112, 74,
     68]) \<and>
   chk_all lib_table (1287, [1023, 1021, 830, 810, 739, 591, 528, 526, 524, 522, 520, 388, 342,
   112, 74, 68]) iso_connection_parameters_3 =
     Some (1289, [1023, 1021, 830, 810, 739, 591, 528, 526, 524, 522, 520, 388, 342, 112, 74,
     68]) \<and>
   chk_all lib_table (1289, [1023, 1021, 830, 810, 739, 591, 528, 526, 524, 522, 520, 388, 342,
   112, 74, 68]) mms_client_connection_7 =
     Some (1293, [1023, 1021, 830, 810, 739, 591, 528, 526, 524, 522, 520, 388, 342, 112, 74,
     68]) \<and>
   chk_all lib_table (1293, [1023, 1021, 830, 810, 739, 591, 528, 526, 524, 522, 520, 388, 342,
   112, 74, 68]) iec61850_client_14 =
     Some (1301, [1023, 1021, 830, 810, 739, 591, 528, 526, 524, 522, 520, 388, 342, 112, 74,
     68]) \<and>
   chk_all lib_table (1301, [1023, 1021, 830, 810, 739, 591, 528, 526, 524, 522, 520, 388, 342,
   112, 74, 68]) iec61850_model_6 =
     Some (1315, [1023, 1021, 830, 810, 739, 591, 528, 526, 524, 522, 520, 388, 342, 112, 74,
     68]) \<and>
   chk_all lib_table (1315, [1023, 1021, 830, 810, 739, 591, 528, 526, 524, 522, 520, 388, 342,
   112, 74, 68]) iec61850_server_7 =
     Some (1318, [1023, 1021, 830, 810, 739, 591, 528, 526, 524, 522, 520, 388, 342, 112, 74,
     68])"
  unfolding
    iec61850_common_4_def iec61850_common_5_def iec61850_client_12_def iec61850_client_13_def
    iec61850_cdc_3_def iec61850_cdc_4_def iec61850_cdc_5_def iec61850_server_6_def
    mms_common_3_def mms_types_2_def mms_value_6_def linked_list_2_def
    iso_connection_parameters_3_def mms_client_connection_7_def iec61850_client_14_def
    iec61850_model_6_def iec61850_server_7_def
  by (simp only: looks chk_eval cong: if_weak_cong)

lemmas chk_pieces = chk_pieces_1 chk_pieces_2 chk_pieces_3 chk_pieces_4

text \<open>All statements of lines 821 to 7558, in order.\<close>

definition lib61850 :: "stmt list" where
  "lib61850 = concat [
    mms_common_1, mms_common_2, mms_types_1, mms_value_1, mms_value_2, mms_value_3, mms_value_4,
    mms_value_5, linked_list_1, logging_api_1, iec61850_common_1, iec61850_common_2,
    iec61850_common_3, mms_type_spec_1, tls_config_1, iso_connection_parameters_1,
    iso_connection_parameters_2, mms_client_connection_1, mms_client_connection_2,
    mms_client_connection_3, mms_client_connection_4, mms_client_connection_5,
    mms_client_connection_6, iec61850_client_1, iec61850_client_2, iec61850_client_3,
    iec61850_client_4, iec61850_client_5, iec61850_client_6, iec61850_client_7,
    iec61850_client_8, iec61850_client_9, iec61850_client_10, iec61850_client_11, mms_server_1,
    iec61850_model_1, iec61850_model_2, iec61850_model_3, iec61850_model_4, iec61850_model_5,
    iec61850_cdc_1, iec61850_cdc_2, iec61850_dynamic_model_1, hal_filesystem_1,
    iec61850_config_file_parser_1, iec61850_server_1, iec61850_server_2, iec61850_server_3,
    iec61850_server_4, iec61850_server_5, iec61850_common_4, iec61850_common_5,
    iec61850_client_12, iec61850_client_13, iec61850_cdc_3, iec61850_cdc_4, iec61850_cdc_5,
    iec61850_server_6, mms_common_3, mms_types_2, mms_value_6, linked_list_2,
    iso_connection_parameters_3, mms_client_connection_7, iec61850_client_14, iec61850_model_6,
    iec61850_server_7]"

lemma chk_lib61850:
  "chk_all lib_table (0, []) lib61850 =
     Some (1318, [1023, 1021, 830, 810, 739, 591, 528, 526, 524, 522, 520, 388, 342, 112, 74, 68])"
  by (simp only: lib61850_def concat.simps append_Nil2 chk_all_append chk_pieces option.case)

end
