(* ===== verification/Lib_Spec.thy ===== *)
theory Lib_Spec
  imports Lib_Import Lib_Consts Client_Enums
begin

text \<open>
  What the import of \<^verbatim>\<open>lib61850.py\<close> leaves behind, and that the client fits it: the library
  functions the client calls have as many arguments as it passes, the constants it names have
  the values the client's model uses, and its two enumerations are those of the library.
\<close>

section \<open>The table as a name table\<close>

lemma assign_position:
  "assign tab c n e = Some c' \<Longrightarrow> c' = c \<or> c' = c + 1 \<and> (\<exists>n e. tab n = Some (c, e))"
  by (fastforce simp: assign_def split: option.splits if_splits)

lemma chk_positions:
  "chk_all tab (c, os) ss = Some (c', os') \<Longrightarrow> c \<le> i \<Longrightarrow> i < c' \<Longrightarrow> \<exists>n e. tab n = Some (i, e)"
proof (induction ss arbitrary: c os)
  case (Cons s ss)
  from Cons.prems(1) obtain c1 os1 where s: "chk tab (c, os) s = Some (c1, os1)"
    and rest: "chk_all tab (c1, os1) ss = Some (c', os')"
    by (auto split: option.splits)
  have step: "c1 = c \<or> c1 = c + 1 \<and> (\<exists>n e. tab n = Some (c, e))"
    using s by (cases s) (auto simp: keep_open_def fun_chk_def int_chk_def type_chk_def
      split: option.splits if_splits dest: assign_position)
  show ?case
  proof (cases "c1 \<le> i")
    case True
    with Cons.IH [OF rest] Cons.prems(3) show ?thesis by blast
  next
    case False
    with step Cons.prems(2) have "c1 = c + 1" "i = c" by auto
    with step show ?thesis by auto
  qed
qed simp

lemma lib_names_length: "length (concat lib_parts) = 1318"
  unfolding lib_parts_def
    names_1_def names_2_def names_3_def names_4_def names_5_def names_6_def names_7_def
    names_8_def names_9_def names_10_def names_11_def names_12_def
  by simp

lemma no_lib_name: "list_all (\<lambda>(n, _). n \<noteq> ''_lib'') (concat lib_parts)"
  unfolding lib_parts_def
    names_1_def names_2_def names_3_def names_4_def names_5_def names_6_def names_7_def
    names_8_def names_9_def names_10_def names_11_def names_12_def
  by (simp only: concat.simps append.simps list.pred_inject prod.case list.inject char.inject simp_thms)

lemma positions:
  defines "pos \<equiv> \<lambda>n. fst (the (lib_table n))"
  shows "pos ` dom lib_table = {..<1318}" and "inj_on pos (dom lib_table)"
proof -
  have dom: "dom lib_table = set (map fst (concat lib_parts))"
    using lib_table_names by (auto simp: dom_def)
  then have card: "card (dom lib_table) = 1318"
    using distinct_card [OF names_distinct] lib_names_length by simp
  have fin: "finite (dom lib_table)" using dom by simp
  have sub: "{..<1318} \<subseteq> pos ` dom lib_table"
  proof
    fix i :: nat assume "i \<in> {..<1318}"
    then obtain n e where "lib_table n = Some (i, e)"
      using chk_positions [OF chk_lib61850, of i] by auto
    then show "i \<in> pos ` dom lib_table" by (force simp: pos_def)
  qed
  have "card (pos ` dom lib_table) \<le> 1318"
    using card_image_le [OF fin, of pos] card by simp
  with sub card_subset_eq [of "pos ` dom lib_table" "{..<1318}"] card_mono [OF finite_imageI [OF fin] sub]
  show img: "pos ` dom lib_table = {..<1318}" using fin by simp
  show "inj_on pos (dom lib_table)"
    by (rule eq_card_imp_inj_on [OF fin]) (simp add: img card)
qed

interpretation lib: name_table lib_table
proof
  show "n = n'" if "lib_table n = Some (i, e)" "lib_table n' = Some (i, e')" for n n' i e e'
    by (rule inj_onD [OF positions(2)]) (use that in auto)
  show "lib_table ''_lib'' = None"
    using no_lib_name unfolding lib_table_def map_of_eq_None_iff list_all_iff by fastforce
qed

definition no_names :: lmod where
  "no_names = \<lparr>gnames = [], gopen = []\<rparr>"

lemma bound_all: "bound lib_table 1318 n = map_option snd (lib_table n)"
proof (cases "lib_table n")
  case (Some p)
  have "fst p \<in> (\<lambda>n. fst (the (lib_table n))) ` dom lib_table"
    using Some by (auto intro!: rev_image_eqI [of n])
  then have "fst p < 1318" unfolding positions(1) by simp
  with Some show ?thesis by (auto simp: bound_def split: prod.split)
qed (simp add: bound_def)

lemma lib_runs:
  "\<exists>m. exec_all E lib61850 no_names = (Val (), m) \<and> (\<forall>n. n \<noteq> ''_lib'' \<longrightarrow> (case lib_table n of
     Some (_, e) \<Rightarrow> holds E m n e | None \<Rightarrow> map_of (gnames m) n = None))"
proof -
  have "agrees lib_table E 0 no_names" "open_ok lib_table [] no_names"
    by (auto simp: agrees_def bound_def open_ok_def no_names_def split: option.split)
  from lib.chk_all_sound [OF this chk_lib61850] obtain m
    where run: "exec_all E lib61850 no_names = (Val (), m)" and "agrees lib_table E 1318 m"
    by blast
  have "case lib_table n of Some (_, e) \<Rightarrow> holds E m n e | None \<Rightarrow> map_of (gnames m) n = None"
    if "n \<noteq> ''_lib''" for n
  proof -
    from that \<open>agrees lib_table E 1318 m\<close>
    have "case bound lib_table 1318 n of Some e \<Rightarrow> holds E m n e | None \<Rightarrow> map_of (gnames m) n = None"
      by (simp add: agrees_def)
    then show ?thesis by (cases "lib_table n") (auto simp: bound_all)
  qed
  with run show ?thesis by blast
qed

lemma lib_table_not_lib: "lib_table n = Some p \<Longrightarrow> n \<noteq> ''_lib''"
  using lib.no_lib by auto

text \<open>A list of names with entries of the table holds after the import.\<close>

lemma lib_runs_entries:
  assumes "list_all (\<lambda>(n, e). map_option snd (lib_table n) = Some e) xs"
  shows "\<exists>m. exec_all E lib61850 no_names = (Val (), m) \<and> list_all (\<lambda>(n, e). holds E m n e) xs"
proof -
  from lib_runs [of E] obtain m where run: "exec_all E lib61850 no_names = (Val (), m)"
    and all: "\<And>n. n \<noteq> ''_lib'' \<Longrightarrow> (case lib_table n of
      Some (_, e) \<Rightarrow> holds E m n e | None \<Rightarrow> map_of (gnames m) n = None)" by blast
  have "holds E m n e" if "(n, e) \<in> set xs" for n e
  proof -
    from assms that obtain i where "lib_table n = Some (i, e)" by (force simp: list_all_iff)
    with all [OF lib_table_not_lib [OF this]] show ?thesis by simp
  qed
  with run show ?thesis by (auto simp: list_all_iff)
qed

section \<open>The client fits the library\<close>

text \<open>The library functions that \<^verbatim>\<open>libiec61850client.py\<close> calls, with the number of arguments passed.\<close>

definition client_calls :: "(string \<times> nat) list" where
  "client_calls = [
    (''ClientReportControlBlock_getRptEna'', 1), (''ClientReportControlBlock_getRptId'', 1),
    (''ClientReportControlBlock_setGI'', 2), (''ClientReportControlBlock_setRptEna'', 2),
    (''ClientReport_getDataSetValues'', 1), (''ClientReport_getRcbReference'', 1),
    (''ClientReport_getReasonForInclusion'', 2), (''ClientReport_getRptId'', 1),
    (''ControlObjectClient_cancel'', 1), (''ControlObjectClient_create'', 2),
    (''ControlObjectClient_getControlModel'', 1), (''ControlObjectClient_getCtlValType'', 1),
    (''ControlObjectClient_getLastApplError'', 1), (''ControlObjectClient_operate'', 3),
    (''ControlObjectClient_select'', 1), (''ControlObjectClient_selectWithValue'', 2),
    (''ControlObjectClient_setCommandTerminationHandler'', 3),
    (''ControlObjectClient_setOrigin'', 3), (''FunctionalConstraint_fromString'', 1),
    (''IedConnection_connect'', 4), (''IedConnection_create'', 0),
    (''IedConnection_destroy'', 1), (''IedConnection_getDataDirectoryFC'', 3),
    (''IedConnection_getDataSetDirectory'', 4),
    (''IedConnection_getLogicalDeviceDirectory'', 3),
    (''IedConnection_getLogicalDeviceList'', 2), (''IedConnection_getLogicalNodeDirectory'', 4),
    (''IedConnection_getRCBValues'', 4), (''IedConnection_installReportHandler'', 5),
    (''IedConnection_readObject'', 4), (''IedConnection_setRCBValues'', 5),
    (''IedConnection_writeObject'', 5), (''LinkedList_destroy'', 1),
    (''LinkedList_getData'', 1), (''LinkedList_getNext'', 1), (''MmsValue_delete'', 1),
    (''MmsValue_getBinaryTimeAsUtcMs'', 1), (''MmsValue_getBitStringAsInteger'', 1),
    (''MmsValue_getBoolean'', 1), (''MmsValue_getElement'', 2),
    (''MmsValue_getOctetStringBuffer'', 1), (''MmsValue_getOctetStringSize'', 1),
    (''MmsValue_getTypeString'', 1), (''MmsValue_getUtcTimeInMs'', 1),
    (''MmsValue_newBinaryTime'', 1), (''MmsValue_newBitString'', 1),
    (''MmsValue_newBoolean'', 1), (''MmsValue_newFloat'', 1), (''MmsValue_newInteger'', 1),
    (''MmsValue_newMmsString'', 1), (''MmsValue_newOctetString'', 2),
    (''MmsValue_newUnsignedFromUint32'', 1), (''MmsValue_newUtcTimeByMsTime'', 1),
    (''MmsValue_newVisibleString'', 1), (''MmsValue_setBitStringFromInteger'', 2),
    (''MmsValue_toFloat'', 1), (''MmsValue_toInt64'', 1), (''MmsValue_toString'', 1),
    (''MmsValue_toUint32'', 1), (''MmsValue_toUnixTimestamp'', 1),
    (''ReasonForInclusion_getValueAsString'', 1)]"

text \<open>
  C12 After the import, each library function the client calls is bound, if the library has it, to
  a function with exactly as many argument types as the client passes arguments, in all its calls.
\<close>
theorem client_calls_fit:
  "\<exists>m. exec_all E lib61850 no_names = (Val (), m) \<and>
     list_all (\<lambda>(f, k). if sym E f
       then \<exists>as r. map_of (gnames m) f = Some (GFun as r) \<and> length as = k
       else map_of (gnames m) f = None) client_calls"
proof -
  have "list_all (\<lambda>(n, e). map_option snd (lib_table n) = Some e) (map (\<lambda>(f, k). (f, EF k)) client_calls)"
    unfolding client_calls_def
    by (simp only: list.map list.pred_inject prod.case looks option.map snd_conv simp_thms)
  from lib_runs_entries [OF this, of E] show ?thesis
    by (simp add: list.pred_map comp_def split_def)
qed

text \<open>
  The constants the model of the client uses are the ones the import binds, under the names
  the client gives for them.
\<close>
theorem client_constants_fit:
  "\<exists>m. exec_all E lib61850 no_names = (Val (), m) \<and>
     list_all (\<lambda>(n, i). map_of (gnames m) n = Some (GInt i)) [
      (''MMS_ARRAY'', MMS_ARRAY), (''MMS_STRUCTURE'', MMS_STRUCTURE),
      (''MMS_BOOLEAN'', MMS_BOOLEAN), (''MMS_BIT_STRING'', MMS_BIT_STRING),
      (''MMS_INTEGER'', MMS_INTEGER), (''MMS_UNSIGNED'', MMS_UNSIGNED),
      (''MMS_FLOAT'', MMS_FLOAT), (''MMS_OCTET_STRING'', MMS_OCTET_STRING),
      (''MMS_VISIBLE_STRING'', MMS_VISIBLE_STRING),
      (''MMS_GENERALIZED_TIME'', MMS_GENERALIZED_TIME), (''MMS_BINARY_TIME'', MMS_BINARY_TIME),
      (''MMS_BCD'', MMS_BCD), (''MMS_OBJ_ID'', MMS_OBJ_ID), (''MMS_STRING'', MMS_STRING),
      (''MMS_UTC_TIME'', MMS_UTC_TIME), (''MMS_DATA_ACCESS_ERROR'', MMS_DATA_ACCESS_ERROR),
      (''ACSI_CLASS_DATA_OBJECT'', ACSI_CLASS_DATA_OBJECT),
      (''ACSI_CLASS_DATA_SET'', ACSI_CLASS_DATA_SET), (''ACSI_CLASS_BRCB'', ACSI_CLASS_BRCB),
      (''ACSI_CLASS_URCB'', ACSI_CLASS_URCB),
      (''CONTROL_MODEL_SBO_NORMAL'', CONTROL_MODEL_SBO_NORMAL),
      (''CONTROL_MODEL_DIRECT_ENHANCED'', CONTROL_MODEL_DIRECT_ENHANCED),
      (''CONTROL_MODEL_SBO_ENHANCED'', CONTROL_MODEL_SBO_ENHANCED),
      (''IED_ERROR_OK'', IED_ERROR_OK),
      (''IEC61850_REASON_NOT_INCLUDED'', IEC61850_REASON_NOT_INCLUDED),
      (''RCB_ELEMENT_RPT_ENA'', RCB_ELEMENT_RPT_ENA), (''RCB_ELEMENT_GI'', RCB_ELEMENT_GI)]"
proof -
  have "list_all (\<lambda>(n, e). map_option snd (lib_table n) = Some e) (map (\<lambda>(n, i). (n, EI i)) [
      (''MMS_ARRAY'', MMS_ARRAY), (''MMS_STRUCTURE'', MMS_STRUCTURE),
      (''MMS_BOOLEAN'', MMS_BOOLEAN), (''MMS_BIT_STRING'', MMS_BIT_STRING),
      (''MMS_INTEGER'', MMS_INTEGER), (''MMS_UNSIGNED'', MMS_UNSIGNED),
      (''MMS_FLOAT'', MMS_FLOAT), (''MMS_OCTET_STRING'', MMS_OCTET_STRING),
      (''MMS_VISIBLE_STRING'', MMS_VISIBLE_STRING),
      (''MMS_GENERALIZED_TIME'', MMS_GENERALIZED_TIME), (''MMS_BINARY_TIME'', MMS_BINARY_TIME),
      (''MMS_BCD'', MMS_BCD), (''MMS_OBJ_ID'', MMS_OBJ_ID), (''MMS_STRING'', MMS_STRING),
      (''MMS_UTC_TIME'', MMS_UTC_TIME), (''MMS_DATA_ACCESS_ERROR'', MMS_DATA_ACCESS_ERROR),
      (''ACSI_CLASS_DATA_OBJECT'', ACSI_CLASS_DATA_OBJECT),
      (''ACSI_CLASS_DATA_SET'', ACSI_CLASS_DATA_SET), (''ACSI_CLASS_BRCB'', ACSI_CLASS_BRCB),
      (''ACSI_CLASS_URCB'', ACSI_CLASS_URCB),
      (''CONTROL_MODEL_SBO_NORMAL'', CONTROL_MODEL_SBO_NORMAL),
      (''CONTROL_MODEL_DIRECT_ENHANCED'', CONTROL_MODEL_DIRECT_ENHANCED),
      (''CONTROL_MODEL_SBO_ENHANCED'', CONTROL_MODEL_SBO_ENHANCED),
      (''IED_ERROR_OK'', IED_ERROR_OK),
      (''IEC61850_REASON_NOT_INCLUDED'', IEC61850_REASON_NOT_INCLUDED),
      (''RCB_ELEMENT_RPT_ENA'', RCB_ELEMENT_RPT_ENA), (''RCB_ELEMENT_GI'', RCB_ELEMENT_GI)])"
    by (simp only: list.map list.pred_inject prod.case looks option.map snd_conv simp_thms option.inject
        entry.inject mms_type_defs acsi_class_defs control_model_defs IED_ERROR_OK_def
        IEC61850_REASON_NOT_INCLUDED_def RCB_ELEMENT_RPT_ENA_def RCB_ELEMENT_GI_def)
      simp
  from lib_runs_entries [OF this, of E] show ?thesis
    by (simp add: list.pred_map comp_def split_def)
qed

section \<open>The enumerations\<close>

fun has_prefix :: "string \<Rightarrow> string \<Rightarrow> bool" where
  "has_prefix [] ds = True"
| "has_prefix (c # cs) [] = False"
| "has_prefix (c # cs) (d # ds) = (c = d \<and> has_prefix cs ds)"

text \<open>The entries of the table whose names begin with a prefix.\<close>

definition with_prefix :: "string \<Rightarrow> (string \<times> nat \<times> entry) list" where
  "with_prefix p = filter (\<lambda>(n, _). has_prefix p n) (concat lib_parts)"

lemma lib_table_entries: "lib_table n = Some v \<longleftrightarrow> (n, v) \<in> set (concat lib_parts)"
  unfolding lib_table_def by (rule map_of_eq_Some_iff [OF names_distinct])

lemma with_prefix_iff: "(n, v) \<in> set (with_prefix p) \<longleftrightarrow> has_prefix p n \<and> lib_table n = Some v"
  by (auto simp: with_prefix_def lib_table_entries)


lemma with_prefix_parts:
  "with_prefix p = concat (map (filter (\<lambda>(n, _). has_prefix p n)) lib_parts)"
  by (simp add: with_prefix_def filter_concat)

lemmas prefix_eval = filter.simps prod.case has_prefix.simps list.inject char.inject simp_thms if_True if_False
  concat.simps list.map append.simps append_Nil2

text \<open>The integers of a list of entries.\<close>

fun ints_of :: "(string \<times> nat \<times> entry) list \<Rightarrow> (string \<times> int) list" where
  "ints_of [] = []"
| "ints_of ((n, _, e) # xs) = (case e of EI i \<Rightarrow> (n, i) # ints_of xs | _ \<Rightarrow> ints_of xs)"

lemma ints_of_iff: "(n, i) \<in> set (ints_of xs) \<longleftrightarrow> (\<exists>k. (n, k, EI i) \<in> set xs)"
  by (induction xs rule: ints_of.induct) (auto split: entry.split)

lemma add_causes: "with_prefix ''ADD_CAUSE_'' = [
    (''ADD_CAUSE_1_OF_N_CONTROL'', 253, EI 14),
    (''ADD_CAUSE_ABORTION_BY_CANCEL'', 254, EI 15),
    (''ADD_CAUSE_ABORTION_BY_COMMAND'', 263, EI 24),
    (''ADD_CAUSE_ABORTION_BY_COMMUNICATION_LOSS'', 262, EI 23),
    (''ADD_CAUSE_ABORTION_BY_TRIP'', 256, EI 17),
    (''ADD_CAUSE_ABORTION_DUE_TO_DEVIATION'', 261, EI 22),
    (''ADD_CAUSE_BLOCKED_BY_HEALTH'', 252, EI 13),
    (''ADD_CAUSE_BLOCKED_BY_INTERLOCKING'', 249, EI 10),
    (''ADD_CAUSE_BLOCKED_BY_MODE'', 247, EI 8),
    (''ADD_CAUSE_BLOCKED_BY_PROCESS'', 248, EI 9),
    (''ADD_CAUSE_BLOCKED_BY_SWITCHING_HIERARCHY'', 241, EI 2),
    (''ADD_CAUSE_BLOCKED_BY_SYNCHROCHECK'', 250, EI 11),
    (''ADD_CAUSE_COMMAND_ALREADY_IN_EXECUTION'', 251, EI 12),
    (''ADD_CAUSE_ENDED_WITH_OVERSHOOT'', 260, EI 21),
    (''ADD_CAUSE_INCONSISTENT_PARAMETERS'', 265, EI 26),
    (''ADD_CAUSE_INVALID_POSITION'', 243, EI 4),
    (''ADD_CAUSE_LOCKED_BY_OTHER_CLIENT'', 266, EI 27),
    (''ADD_CAUSE_NONE'', 264, EI 25),
    (''ADD_CAUSE_NOT_SUPPORTED'', 240, EI 1),
    (''ADD_CAUSE_NO_ACCESS_AUTHORITY'', 259, EI 20),
    (''ADD_CAUSE_OBJECT_ALREADY_SELECTED'', 258, EI 19),
    (''ADD_CAUSE_OBJECT_NOT_SELECTED'', 257, EI 18),
    (''ADD_CAUSE_PARAMETER_CHANGE_IN_EXECUTION'', 245, EI 6),
    (''ADD_CAUSE_POSITION_REACHED'', 244, EI 5),
    (''ADD_CAUSE_SELECT_FAILED'', 242, EI 3),
    (''ADD_CAUSE_STEP_LIMIT'', 246, EI 7),
    (''ADD_CAUSE_TIME_LIMIT_OVER'', 255, EI 16),
    (''ADD_CAUSE_UNKNOWN'', 239, EI 0)]"
  unfolding with_prefix_parts lib_parts_def
    names_1_def names_2_def names_3_def names_4_def names_5_def names_6_def names_7_def
    names_8_def names_9_def names_10_def names_11_def names_12_def
  by (simp only: prefix_eval cong: if_weak_cong)

lemma ied_errors: "with_prefix ''IED_ERROR_'' = [
    (''IED_ERROR_ACCESS_DENIED'', 551, EI 21),
    (''IED_ERROR_ALREADY_CONNECTED'', 541, EI 2),
    (''IED_ERROR_CONNECTION_LOST'', 542, EI 3),
    (''IED_ERROR_CONNECTION_REJECTED'', 544, EI 5),
    (''IED_ERROR_ENABLE_REPORT_FAILED_DATASET_MISMATCH'', 547, EI 11),
    (''IED_ERROR_HARDWARE_FAULT'', 559, EI 29),
    (''IED_ERROR_INVALID_ADDRESS'', 558, EI 28),
    (''IED_ERROR_MALFORMED_MESSAGE'', 564, EI 34),
    (''IED_ERROR_NOT_CONNECTED'', 540, EI 1),
    (''IED_ERROR_OBJECT_ACCESS_UNSUPPORTED'', 554, EI 24),
    (''IED_ERROR_OBJECT_ATTRIBUTE_INCONSISTENT'', 561, EI 31),
    (''IED_ERROR_OBJECT_DOES_NOT_EXIST'', 552, EI 22),
    (''IED_ERROR_OBJECT_EXISTS'', 553, EI 23),
    (''IED_ERROR_OBJECT_INVALIDATED'', 563, EI 33),
    (''IED_ERROR_OBJECT_REFERENCE_INVALID'', 548, EI 12),
    (''IED_ERROR_OBJECT_UNDEFINED'', 557, EI 27),
    (''IED_ERROR_OBJECT_VALUE_INVALID'', 562, EI 32),
    (''IED_ERROR_OK'', 539, EI 0),
    (''IED_ERROR_OUTSTANDING_CALL_LIMIT_REACHED'', 545, EI 6),
    (''IED_ERROR_SERVICE_NOT_IMPLEMENTED'', 565, EI 98),
    (''IED_ERROR_SERVICE_NOT_SUPPORTED'', 543, EI 4),
    (''IED_ERROR_TEMPORARILY_UNAVAILABLE'', 556, EI 26),
    (''IED_ERROR_TIMEOUT'', 550, EI 20),
    (''IED_ERROR_TYPE_INCONSISTENT'', 555, EI 25),
    (''IED_ERROR_TYPE_UNSUPPORTED'', 560, EI 30),
    (''IED_ERROR_UNEXPECTED_VALUE_RECEIVED'', 549, EI 13),
    (''IED_ERROR_UNKNOWN'', 566, EI 99),
    (''IED_ERROR_USER_PROVIDED_INVALID_ARGUMENT'', 546, EI 10)]"
  unfolding with_prefix_parts lib_parts_def
    names_1_def names_2_def names_3_def names_4_def names_5_def names_6_def names_7_def
    names_8_def names_9_def names_10_def names_11_def names_12_def
  by (simp only: prefix_eval cong: if_weak_cong)

lemma add_cause_ints: "set (ints_of (with_prefix ''ADD_CAUSE_'')) = set AddCause"
proof -
  have "sort_key snd (ints_of (with_prefix ''ADD_CAUSE_'')) = AddCause"
    unfolding add_causes AddCause_def by simp
  then show ?thesis by (metis set_sort)
qed

lemma ied_error_ints: "set (ints_of (with_prefix ''IED_ERROR_'')) = set IedClientError"
proof -
  have "sort_key snd (ints_of (with_prefix ''IED_ERROR_'')) = IedClientError"
    unfolding ied_errors IedClientError_def by simp
  then show ?thesis by (metis set_sort)
qed

text \<open>
  C37 The two enumerations of the client are complete: after the import the integers of \<open>lib61850\<close>
  whose names begin with \<open>ADD_CAUSE_\<close> are the members of \<open>AddCause\<close>, name and value, and those
  whose names begin with \<open>IED_ERROR_\<close> are the members of \<open>IedClientError\<close>.
\<close>
theorem client_enums_complete:
  "\<exists>m. exec_all E lib61850 no_names = (Val (), m) \<and>
     {(n, i). has_prefix ''ADD_CAUSE_'' n \<and> map_of (gnames m) n = Some (GInt i)} = set AddCause \<and>
     {(n, i). has_prefix ''IED_ERROR_'' n \<and> map_of (gnames m) n = Some (GInt i)} = set IedClientError"
proof -
  from lib_runs [of E] obtain m where run: "exec_all E lib61850 no_names = (Val (), m)"
    and all: "\<And>n. n \<noteq> ''_lib'' \<Longrightarrow> (case lib_table n of
      Some (_, e) \<Rightarrow> holds E m n e | None \<Rightarrow> map_of (gnames m) n = None)" by blast
  have int: "map_of (gnames m) n = Some (GInt i) \<longleftrightarrow> (\<exists>k. lib_table n = Some (k, EI i))"
    if "n \<noteq> ''_lib''" for n i
    using all [OF that]
    by (auto split: option.splits prod.splits elim!: holds.elims split: if_splits)
  have "{(n, i). has_prefix p n \<and> map_of (gnames m) n = Some (GInt i)} = set (ints_of (with_prefix p))"
    if "\<not> has_prefix p ''_lib''" for p
  proof -
    have "has_prefix p n \<and> map_of (gnames m) n = Some (GInt i) \<longleftrightarrow> (n, i) \<in> set (ints_of (with_prefix p))"
      for n i
      using int [of n i] that by (cases "n = ''_lib''") (auto simp: ints_of_iff with_prefix_iff)
    then show ?thesis by auto
  qed
  with run add_cause_ints ied_error_ints show ?thesis by simp
qed

end
