(* ===== verification/Py_Text.thy ===== *)
theory Py_Text
  imports Py_Str
begin

text \<open>
  Python text as it is: a \<open>str\<close> is a sequence of code points, \<open>encode\<close> makes UTF-8 bytes of it
  and \<open>decode\<close> reads them. Where a theory only splits, joins and compares text it represents a
  \<open>str\<close> by its bytes (\<open>Py_Str\<close>); the string classes of the binding, which convert between
  the two, use this one.
\<close>

section \<open>Encoding\<close>

type_synonym pystr = "nat list"

text \<open>The code points of a Python \<open>str\<close>; a lone surrogate is one of them, but has no encoding.\<close>

definition is_text :: "pystr \<Rightarrow> bool" where
  "is_text s \<longleftrightarrow> (\<forall>c \<in> set s. c < 1114112)"

definition surrogate :: "nat \<Rightarrow> bool" where
  "surrogate c \<longleftrightarrow> 55296 \<le> c \<and> c \<le> 57343"

definition utf8_bytes :: "nat \<Rightarrow> nat list" where
  "utf8_bytes c =
     (if c < 128 then [c]
      else if c < 2048 then [192 + c div 64, 128 + c mod 64]
      else if c < 65536 then [224 + c div 4096, 128 + c div 64 mod 64, 128 + c mod 64]
      else [240 + c div 262144, 128 + c div 4096 mod 64, 128 + c div 64 mod 64, 128 + c mod 64])"

definition utf8 :: "pystr \<Rightarrow> string" where
  "utf8 s = concat (map (\<lambda>c. map char_of (utf8_bytes c)) s)"

definition str_encode :: "pystr \<Rightarrow> string result" where
  "str_encode s = (if \<exists>c \<in> set s. surrogate c then Exn UnicodeEncodeError else Val (utf8 s))"

section \<open>Decoding\<close>

fun code_points :: "nat list \<Rightarrow> pystr" where
  "code_points [] = []"
| "code_points (a # bs) =
     (if a < 128 then a # code_points bs
      else case bs of
        [] \<Rightarrow> []
      | b # cs \<Rightarrow>
          if a < 224 then ((a - 192) * 64 + (b - 128)) # code_points cs
          else (case cs of
            [] \<Rightarrow> []
          | c # ds \<Rightarrow>
              if a < 240 then ((a - 224) * 4096 + (b - 128) * 64 + (c - 128)) # code_points ds
              else (case ds of
                [] \<Rightarrow> []
              | d # es \<Rightarrow>
                  ((a - 240) * 262144 + (b - 128) * 4096 + (c - 128) * 64 + (d - 128)) # code_points es)))"

definition str_decode :: "string \<Rightarrow> pystr result" where
  "str_decode b =
     (if utf8_valid (map of_char b) then Val (code_points (map of_char b)) else Exn UnicodeDecodeError)"

section \<open>Round trip\<close>

lemma utf8_bytes_small: "c < 1114112 \<Longrightarrow> \<forall>b \<in> set (utf8_bytes c). b < 256"
  by (auto simp: utf8_bytes_def)

lemma of_char_utf8_bytes:
  "c < 1114112 \<Longrightarrow> map (of_char :: char \<Rightarrow> nat) (map char_of (utf8_bytes c)) = utf8_bytes c"
  using utf8_bytes_small [of c] by (auto simp: comp_def intro!: map_idI)

text \<open>The base-64 digits of a code point.\<close>

lemma digits3: "(c :: nat) div 4096 * 4096 + c div 64 mod 64 * 64 + c mod 64 = c"
proof -
  have "c div 4096 = c div 64 div 64" by (simp add: div_mult2_eq [symmetric])
  then show ?thesis using div_mult_mod_eq [of "c div 64" 64] div_mult_mod_eq [of c 64] by linarith
qed

lemma digits4: "(c :: nat) div 262144 * 262144 + c div 4096 mod 64 * 4096 + c div 64 mod 64 * 64 + c mod 64 = c"
proof -
  have "c div 262144 = c div 4096 div 64" by (simp add: div_mult2_eq [symmetric])
  then show ?thesis using div_mult_mod_eq [of "c div 4096" 64] digits3 [of c] by linarith
qed

text \<open>The shapes of an encoded code point.\<close>

lemma utf8_shape:
  assumes "c < 1114112"
  obtains (one) "c < 128" "utf8_bytes c = [c]"
  | (two) q r where "utf8_bytes c = [192 + q, 128 + r]" "2 \<le> q" "q < 32" "r < 64" "c = q * 64 + r"
  | (three) p q r where "utf8_bytes c = [224 + p, 128 + q, 128 + r]" "p < 16" "q < 64" "r < 64"
      "c = p * 4096 + q * 64 + r" "2048 \<le> c"
  | (four) o' p q r where "utf8_bytes c = [240 + o', 128 + p, 128 + q, 128 + r]" "o' < 5" "p < 64" "q < 64"
      "r < 64" "c = o' * 262144 + p * 4096 + q * 64 + r" "65536 \<le> c"
proof -
  consider "c < 128" | "128 \<le> c" "c < 2048" | "2048 \<le> c" "c < 65536" | "65536 \<le> c" by linarith
  then show thesis
  proof cases
    case 1
    then show ?thesis by (intro one) (simp_all add: utf8_bytes_def)
  next
    case 2
    then show ?thesis by (intro two [of "c div 64" "c mod 64"]) (simp_all add: utf8_bytes_def)
  next
    case 3
    then show ?thesis
      using digits3 [of c]
      by (intro three [of "c div 4096" "c div 64 mod 64" "c mod 64"]) (simp_all add: utf8_bytes_def)
  next
    case 4
    then show ?thesis
      using digits4 [of c] assms
      by (intro four [of "c div 262144" "c div 4096 mod 64" "c div 64 mod 64" "c mod 64"])
        (simp_all add: utf8_bytes_def)
  qed
qed

lemma code_points_char:
  assumes "c < 1114112"
  shows "code_points (utf8_bytes c @ bs) = c # code_points bs"
  using assms by (cases rule: utf8_shape) simp_all

lemma utf8_valid_char:
  assumes "c < 1114112" and "\<not> surrogate c"
  shows "utf8_valid (utf8_bytes c @ bs) = utf8_valid bs"
  using assms(1)
proof (cases rule: utf8_shape)
  case (two q r)
  then show ?thesis by (simp add: cont_def)
next
  case (three p q r)
  have "p = 0 \<Longrightarrow> 32 \<le> q" "p = 13 \<Longrightarrow> q < 32"
    using three assms(2) unfolding surrogate_def by linarith+
  with three show ?thesis by (auto simp: cont_def)
next
  case (four o' p q r)
  have "o' = 0 \<Longrightarrow> 16 \<le> p" "o' = 4 \<Longrightarrow> p < 16"
    using four assms(1) by linarith+
  with four show ?thesis by (auto simp: cont_def)
qed simp

lemma of_char_utf8: "is_text s \<Longrightarrow> map of_char (utf8 s) = concat (map utf8_bytes s)"
  by (induction s) (simp_all add: utf8_def is_text_def of_char_utf8_bytes del: map_map)

lemma decode_utf8_text:
  assumes "is_text s" and "\<forall>c \<in> set s. \<not> surrogate c"
  shows "str_decode (utf8 s) = Val s"
proof -
  have "utf8_valid (concat (map utf8_bytes s)) \<and> code_points (concat (map utf8_bytes s)) = s"
    using assms by (induction s) (simp_all add: is_text_def utf8_valid_char code_points_char)
  with of_char_utf8 [OF assms(1)] show ?thesis by (simp add: str_decode_def)
qed

text \<open>A NUL byte is in the encoding only where the text has the character NUL.\<close>

lemma utf8_bytes_nul: "c < 1114112 \<Longrightarrow> 0 \<in> set (utf8_bytes c) \<longleftrightarrow> c = 0"
  by (auto simp: utf8_bytes_def)

lemma utf8_take_nul:
  assumes "is_text s"
  shows "takeWhile (\<lambda>c. c \<noteq> CHR 0x00) (utf8 s) = utf8 (takeWhile (\<lambda>c. c \<noteq> 0) s)"
  using assms
proof (induction s)
  case Nil
  then show ?case by (simp add: utf8_def)
next
  case (Cons c s)
  then have c: "c < 1114112" and s: "is_text s" by (simp_all add: is_text_def)
  have no: "\<forall>x \<in> set (map char_of (utf8_bytes c)). x \<noteq> CHR 0x00" if "c \<noteq> 0"
  proof
    fix x :: char
    assume "x \<in> set (map char_of (utf8_bytes c))"
    then obtain b where b: "b \<in> set (utf8_bytes c)" "x = char_of b" by auto
    with that utf8_bytes_nul [OF c] utf8_bytes_small [OF c] have "b \<noteq> 0" "b < 256" by metis+
    then have "(of_char x :: nat) \<noteq> 0" using b(2) by simp
    then show "x \<noteq> CHR 0x00" by auto
  qed
  show ?case
  proof (cases "c = 0")
    case True
    then show ?thesis by (simp add: utf8_def utf8_bytes_def char_of_def)
  next
    case False
    with no have "takeWhile (\<lambda>c. c \<noteq> CHR 0x00) (map char_of (utf8_bytes c) @ utf8 s) =
        map char_of (utf8_bytes c) @ takeWhile (\<lambda>c. c \<noteq> CHR 0x00) (utf8 s)"
      by (intro takeWhile_append2) blast
    with False Cons.IH [OF s] show ?thesis by (simp add: utf8_def)
  qed
qed

end
