(* ===== verification/Lib_String.thy ===== *)
theory Lib_String
  imports Py_Text
begin

text \<open>
  The string classes in the preamble of \<^verbatim>\<open>lib61850.py\<close>: \<open>UserString\<close> and \<open>MutableString\<close> over
  bytes, and \<open>String\<close>, the union of two C pointers that every string argument and result of the
  library goes through. Bytes are HOL strings and a Python \<open>str\<close> is its code points, so that
  \<open>encode\<close> and \<open>decode\<close> convert and can fail.
\<close>

section \<open>UserString\<close>

datatype seq = SBytes string | SUser string | SStr pystr | SInt int

text \<open>\<open>__init__\<close>: bytes are kept, another \<open>UserString\<close> is copied, the rest goes through \<open>str\<close>.\<close>

fun user_init :: "seq \<Rightarrow> string result" where
  "user_init (SBytes b) = Val b"
| "user_init (SUser d) = Val d"
| "user_init (SStr s) = str_encode s"
| "user_init (SInt i) = Val (int_str i)"

definition user_str :: "string \<Rightarrow> pystr result" where
  "user_str d = str_decode d"

text \<open>\<open>int\<close> of the decoded text; of its digits the model covers the ASCII ones.\<close>

definition user_int :: "string \<Rightarrow> int result" where
  "user_int d = rbind (decode_utf8 d) py_int_of_str"

text \<open>The bytes an operand stands for; a \<open>str\<close> is compared with bytes as it is, and differs.\<close>

fun user_eq :: "string \<Rightarrow> seq \<Rightarrow> bool" where
  "user_eq d (SUser e) = (d = e)"
| "user_eq d (SBytes e) = (d = e)"
| "user_eq d _ = False"

definition user_ne :: "string \<Rightarrow> seq \<Rightarrow> bool" where
  "user_ne d x = (\<not> user_eq d x)"

text \<open>Byte order, lexicographic; with anything but bytes or a \<open>UserString\<close> a TypeError.\<close>

fun bytes_less :: "string \<Rightarrow> string \<Rightarrow> bool" where
  "bytes_less [] e = (e \<noteq> [])"
| "bytes_less (c # d) [] = False"
| "bytes_less (c # d) (c' # e) =
     ((of_char c :: nat) < of_char c' \<or> c = c' \<and> bytes_less d e)"

fun user_order :: "(string \<Rightarrow> string \<Rightarrow> bool) \<Rightarrow> string \<Rightarrow> seq \<Rightarrow> bool result" where
  "user_order r d (SUser e) = Val (r d e)"
| "user_order r d (SBytes e) = Val (r d e)"
| "user_order r d _ = Exn TypeError"

definition user_lt :: "string \<Rightarrow> seq \<Rightarrow> bool result" where "user_lt = user_order bytes_less"
definition user_le :: "string \<Rightarrow> seq \<Rightarrow> bool result" where
  "user_le = user_order (\<lambda>d e. bytes_less d e \<or> d = e)"
definition user_gt :: "string \<Rightarrow> seq \<Rightarrow> bool result" where
  "user_gt = user_order (\<lambda>d e. bytes_less e d)"
definition user_ge :: "string \<Rightarrow> seq \<Rightarrow> bool result" where
  "user_ge = user_order (\<lambda>d e. bytes_less e d \<or> d = e)"

text \<open>\<open>__cmp__\<close> calls \<open>cmp\<close>, which Python 3 does not have.\<close>

definition user_cmp :: "string \<Rightarrow> seq \<Rightarrow> int result" where
  "user_cmp d x = Exn NameError"

text \<open>The index of a sequence of length \<open>n\<close>, negative from the end.\<close>

definition seq_index :: "nat \<Rightarrow> int \<Rightarrow> nat result" where
  "seq_index n i = (let j = (if i < 0 then i + int n else i)
     in if 0 \<le> j \<and> j < int n then Val (nat j) else Exn IndexError)"

text \<open>\<open>__getitem__\<close> with an integer: \<open>self.data[index]\<close> is the number of the byte.\<close>

definition user_getitem :: "string \<Rightarrow> int \<Rightarrow> string result" where
  "user_getitem d i = rbind (seq_index (length d) i)
     (\<lambda>k. user_init (SInt (int (of_char (d ! k) :: nat))))"

text \<open>A slice \<open>data[a:b]\<close> with bounds that are not negative.\<close>

definition slice :: "nat \<Rightarrow> nat \<Rightarrow> string \<Rightarrow> string" where
  "slice a b d = drop a (take b d)"

definition user_getslice :: "string \<Rightarrow> int \<Rightarrow> int \<Rightarrow> string" where
  "user_getslice d a b = slice (nat (max a 0)) (nat (max b 0)) d"

text \<open>Operands of \<open>+\<close>: a \<open>UserString\<close>, bytes, or anything through \<open>str\<close>.\<close>

definition user_add :: "string \<Rightarrow> seq \<Rightarrow> string result" where
  "user_add d x = rbind (user_init x) (\<lambda>b. Val (d @ b))"

text \<open>\<open>__radd__\<close> has no case of its own for a \<open>UserString\<close>, which goes through \<open>str\<close>.\<close>

fun user_radd :: "string \<Rightarrow> seq \<Rightarrow> string result" where
  "user_radd d (SUser e) = rbind (user_str e) (\<lambda>s. rbind (str_encode s) (\<lambda>b. Val (b @ d)))"
| "user_radd d x = rbind (user_init x) (\<lambda>b. Val (b @ d))"

definition user_mul :: "string \<Rightarrow> int \<Rightarrow> string" where
  "user_mul d n = concat (replicate (nat n) d)"

text \<open>\<open>char in self.data\<close>: a number of a byte, or bytes; a \<open>str\<close> is a TypeError.\<close>

fun user_contains :: "string \<Rightarrow> seq \<Rightarrow> bool result" where
  "user_contains d (SInt i) = (if 0 \<le> i \<and> i < 256 then Val (i \<in> set (map (\<lambda>c. int (of_char c :: nat)) d))
     else Exn ValueError)"
| "user_contains d (SBytes b) = Val (has_substring d b)"
| "user_contains d _ = Exn TypeError"

text \<open>\<open>decode\<close> without an encoding gives a \<open>UserString\<close> of the decoded text, encoded again.\<close>

definition user_decode :: "string \<Rightarrow> string result" where
  "user_decode d = rbind (user_str d) (\<lambda>s. user_init (SStr s))"

text \<open>Methods that bytes do not have.\<close>

definition user_encode :: "string \<Rightarrow> string result" where "user_encode d = Exn AttributeError"
definition user_isdecimal :: "string \<Rightarrow> bool result" where "user_isdecimal d = Exn AttributeError"
definition user_isnumeric :: "string \<Rightarrow> bool result" where "user_isnumeric d = Exn AttributeError"

section \<open>MutableString\<close>

text \<open>With bytes as data; the methods change the data in place.\<close>

definition mut_setitem :: "int \<Rightarrow> string \<Rightarrow> (string, unit) prog" where
  "mut_setitem index sub d =
     (let i = (if index < 0 then index + int (length d) else index)
      in if i < 0 \<or> int (length d) \<le> i then (Exn IndexError, d)
         else (Val (), slice 0 (nat i) d @ sub @ drop (nat i + 1) d))"

definition mut_delitem :: "int \<Rightarrow> (string, unit) prog" where
  "mut_delitem index d =
     (let i = (if index < 0 then index + int (length d) else index)
      in if i < 0 \<or> int (length d) \<le> i then (Exn IndexError, d)
         else (Val (), slice 0 (nat i) d @ drop (nat i + 1) d))"

definition mut_setslice :: "int \<Rightarrow> int \<Rightarrow> seq \<Rightarrow> (string, unit) prog" where
  "mut_setslice a b sub d =
     (let a = nat (max a 0); b = nat (max b 0)
      in bnd (lift (user_init sub)) (\<lambda>x. modify (\<lambda>d. take a d @ x @ drop b d)) d)"

definition mut_delslice :: "int \<Rightarrow> int \<Rightarrow> (string, unit) prog" where
  "mut_delslice a b d =
     (let a = nat (max a 0); b = nat (max b 0) in (Val (), take a d @ drop b d))"

definition mut_immutable :: "string \<Rightarrow> string result" where
  "mut_immutable d = user_init (SBytes d)"

definition mut_iadd :: "seq \<Rightarrow> (string, unit) prog" where
  "mut_iadd x = bnd (lift (user_init x)) (\<lambda>b. modify (\<lambda>d. d @ b))"

definition mut_imul :: "int \<Rightarrow> (string, unit) prog" where
  "mut_imul n d = (Val (), user_mul d n)"

definition mut_hash :: "string \<Rightarrow> int result" where
  "mut_hash d = Exn TypeError"

section \<open>String\<close>

text \<open>A \<open>char *\<close>: NULL, or the bytes in memory from there to the first NUL.\<close>

datatype cptr = Null | Chars string

definition upto_nul :: "string \<Rightarrow> string" where
  "upto_nul b = takeWhile (\<lambda>c. c \<noteq> CHR 0x00) b"

text \<open>
  What can be passed for a string argument. An object is one with or without a length and with or
  without \<open>_as_parameter_\<close>.
\<close>

datatype arg =
    ANone | AInt int | ABytes string | AStr pystr | AString cptr | ACharP cptr | ACharPtr cptr
  | AArray string | AObject bool "arg option"

text \<open>The constructor: bytes and \<open>UserString\<close> set \<open>data\<close>, a pointer sets \<open>raw\<close>; nothing else can.\<close>

fun string_init :: "arg \<Rightarrow> cptr result" where
  "string_init (ABytes b) = Val (Chars (upto_nul b))"
| "string_init (AString Null) = Exn TypeError"
| "string_init (AString (Chars d)) = Val (Chars d)"
| "string_init (ACharPtr p) = Val p"
| "string_init _ = Exn TypeError"

text \<open>\<open>String()\<close> has the empty \<open>str\<close> as default.\<close>

definition string_default :: "cptr result" where
  "string_default = string_init (AStr [])"

definition string_len :: "cptr \<Rightarrow> nat" where
  "string_len p = (case p of Null \<Rightarrow> 0 | Chars d \<Rightarrow> length d)"

text \<open>
  \<open>from_param\<close>, with the memory as \<open>at\<close>: what an address points to. A \<open>String\<close>, a pointer or an
  array is returned as it is; the rest becomes a \<open>String\<close>.
\<close>

fun from_param :: "(int \<Rightarrow> string) \<Rightarrow> arg \<Rightarrow> arg result" where
  "from_param at ANone = rbind (string_init (ACharPtr Null)) (\<lambda>p. Val (AString p))"
| "from_param at (AString p) = Val (AString p)"
| "from_param at (ABytes b) = rbind (string_init (ABytes b)) (\<lambda>p. Val (AString p))"
| "from_param at (AStr s) = rbind (str_encode s) (\<lambda>b. rbind (string_init (ABytes b)) (\<lambda>p. Val (AString p)))"
| "from_param at (ACharP p) = Val (ACharP p)"
| "from_param at (ACharPtr p) = Val (ACharPtr p)"
| "from_param at (AInt i) = rbind (string_init (ACharPtr (if i = 0 then Null else Chars (at i))))
     (\<lambda>p. Val (AString p))"
| "from_param at (AArray b) = Val (AArray b)"
| "from_param at (AObject has_len a) =
     (if \<not> has_len then Exn TypeError
      else (case a of None \<Rightarrow> Exn AttributeError | Some x \<Rightarrow> from_param at x))"

definition ReturnString :: "(int \<Rightarrow> string) \<Rightarrow> arg \<Rightarrow> arg result" where
  "ReturnString at obj = from_param at obj"

text \<open>What the C function sees of a converted argument.\<close>

fun c_view :: "arg \<Rightarrow> cptr" where
  "c_view (AString p) = p"
| "c_view (ACharP p) = p"
| "c_view (ACharPtr p) = p"
| "c_view (AArray b) = Chars (upto_nul b)"
| "c_view _ = Null"

text \<open>\<open>str\<close> of a \<open>String\<close>: \<open>data\<close> is None for NULL, which has no \<open>decode\<close>.\<close>

definition string_str :: "cptr \<Rightarrow> pystr result" where
  "string_str p = (case p of Null \<Rightarrow> Exn AttributeError | Chars d \<Rightarrow> user_str d)"

section \<open>Simple conversions\<close>

datatype ovalue = VBytes string | VStr pystr | VOther int

text \<open>\<open>ord_if_char\<close>: the number of a single byte or the code point of a single character.\<close>

fun ord_if_char :: "ovalue \<Rightarrow> int result" where
  "ord_if_char (VBytes b) = (case b of [c] \<Rightarrow> Val (int (of_char c :: nat)) | _ \<Rightarrow> Exn TypeError)"
| "ord_if_char (VStr s) = (case s of [c] \<Rightarrow> Val (int c) | _ \<Rightarrow> Exn TypeError)"
| "ord_if_char (VOther i) = Val i"

text \<open>
  A call of a variadic function: the fixed arguments go through the converters of their types,
  the others are passed as they are. Too few arguments are an IndexError.
\<close>

fun variadic_args :: "('a \<Rightarrow> 'a result) list \<Rightarrow> 'a list \<Rightarrow> 'a list result" where
  "variadic_args [] args = Val args"
| "variadic_args (f # fs) [] = Exn IndexError"
| "variadic_args (f # fs) (a # args) =
     rbind (f a) (\<lambda>x. rbind (variadic_args fs args) (\<lambda>xs. Val (x # xs)))"

section \<open>String arguments\<close>

text \<open>
  C40 A Python string passed to the library is refused with UnicodeEncodeError exactly when it has
  a lone surrogate. Otherwise it becomes a \<open>String\<close> that shows the C function the UTF-8 bytes of
  its characters up to the first NUL character; \<open>ReturnString\<close> of it is the same \<open>String\<close>, and \<open>str\<close>
  decodes it back to the characters before the first NUL, so to the whole string when it has none.
\<close>
theorem string_argument_roundtrip:
  assumes "is_text s"
  shows "if \<exists>c \<in> set s. surrogate c then from_param at (AStr s) = Exn UnicodeEncodeError
         else \<exists>p. from_param at (AStr s) = Val (AString p) \<and> ReturnString at (AString p) = Val (AString p) \<and>
                c_view (AString p) = Chars (utf8 (takeWhile (\<lambda>c. c \<noteq> 0) s)) \<and>
                string_str p = Val (takeWhile (\<lambda>c. c \<noteq> 0) s)"
proof (cases "\<exists>c \<in> set s. surrogate c")
  case True
  then show ?thesis by (simp add: str_encode_def)
next
  case False
  let ?t = "takeWhile (\<lambda>c. c \<noteq> 0) s"
  have "set ?t \<subseteq> set s" by (auto dest: set_takeWhileD)
  then have "str_decode (utf8 ?t) = Val ?t"
    using assms False by (intro decode_utf8_text) (auto simp: is_text_def)
  with False show ?thesis
    by (simp add: str_encode_def ReturnString_def upto_nul_def utf8_take_nul [OF assms] string_str_def user_str_def)
qed

lemma string_argument_roundtrip_witness:
  "from_param (\<lambda>a. []) (AStr [55296]) = Exn UnicodeEncodeError \<and>
   (\<exists>p. from_param (\<lambda>a. []) (AStr [233, 65, 0, 66]) = Val (AString p) \<and>
      c_view (AString p) = Chars [CHR 0xC3, CHR 0xA9, CHR 0x41] \<and> string_str p = Val [233, 65])"
proof -
  have "utf8 [233, 65] = [CHR 0xC3, CHR 0xA9, CHR 0x41]" by code_simp
  then show ?thesis
    using string_argument_roundtrip [of "[55296]" "\<lambda>a. []"] string_argument_roundtrip [of "[233, 65, 0, 66]" "\<lambda>a. []"]
    by (simp add: is_text_def surrogate_def)
qed

section \<open>Items of mutable and immutable strings\<close>

lemma seq_index_cases:
  "seq_index n i = (if - int n \<le> i \<and> i < int n then Val (if i < 0 then n - nat (- i) else nat i)
     else Exn IndexError)"
  by (auto simp: seq_index_def Let_def nat_diff_distrib)

text \<open>Setting an item to one byte is the update of a list; out of range it is an IndexError.\<close>

lemma mut_setitem_update:
  "mut_setitem i [c] d = (case seq_index (length d) i of
     Val k \<Rightarrow> (Val (), d[k := c]) | _ \<Rightarrow> (Exn IndexError, d))"
  by (auto simp: mut_setitem_def seq_index_def Let_def slice_def upd_conv_take_nth_drop)

text \<open>
  An item is not the byte at the index but the decimal digits of its number, which never spell
  that byte.
\<close>
lemma user_getitem_digits:
  assumes "seq_index (length d) i = Val k"
  shows "user_getitem d i = Val (nat_str (of_char (d ! k))) \<and> user_getitem d i \<noteq> Val [d ! k]"
proof -
  have "nat_str (of_char c) \<noteq> [c]" for c
  proof
    assume eq: "nat_str (of_char c) = [c]"
    then have "is_digit c" using nat_str_digits [of "of_char c"] by simp
    moreover have "str_nat [c] = of_char c" using eq str_nat_nat_str [of "of_char c"] by simp
    ultimately show False by (auto simp: str_nat_def is_digit_def digit_val_def)
  qed
  with assms show ?thesis by (simp add: user_getitem_def int_str_def)
qed

end
