(* ===== verification/Lib_Bytes.thy ===== *)
theory Lib_Bytes
  imports Lib_String
begin

text \<open>
  The methods of \<open>UserString\<close> that pass on to the method of \<open>bytes\<close> of the same name. The
  methods of \<open>bytes\<close> are those of Python's standard library, on ASCII letters; what returns
  bytes there is a \<open>UserString\<close> here, except for \<open>join\<close>, \<open>partition\<close> and the splits.
\<close>

section \<open>Arguments\<close>

text \<open>A bytes-like argument; where a number is accepted too it is one byte.\<close>

fun bytes_like :: "seq \<Rightarrow> string result" where
  "bytes_like (SBytes b) = Val b"
| "bytes_like _ = Exn TypeError"

fun byte_or_bytes :: "seq \<Rightarrow> string result" where
  "byte_or_bytes (SInt i) = (if 0 \<le> i \<and> i < 256 then Val [char_of (nat i)] else Exn ValueError)"
| "byte_or_bytes x = bytes_like x"

text \<open>The bounds \<open>start\<close> and \<open>end\<close> of a search, negative from the end of \<open>n\<close> bytes.\<close>

definition from_bound :: "nat \<Rightarrow> int \<Rightarrow> int" where
  "from_bound n a = (if a < 0 then max 0 (a + int n) else a)"

definition to_bound :: "nat \<Rightarrow> int \<Rightarrow> int" where
  "to_bound n b = (if int n < b then int n else if b < 0 then max 0 (b + int n) else b)"

text \<open>\<open>sys.maxsize\<close>\<close>

definition maxsize :: int where
  "maxsize = 9223372036854775807"

section \<open>Searching\<close>

text \<open>The positions between the bounds where \<open>sub\<close> begins, in ascending order.\<close>

definition occurrences :: "string \<Rightarrow> string \<Rightarrow> int \<Rightarrow> int \<Rightarrow> nat list" where
  "occurrences d sub a b =
     (let a = from_bound (length d) a; b = to_bound (length d) b; m = length sub
      in if b - a < int m then []
         else filter (\<lambda>i. slice i (i + m) d = sub) [nat a ..< nat b - m + 1])"

definition user_find :: "string \<Rightarrow> seq \<Rightarrow> int \<Rightarrow> int \<Rightarrow> int result" where
  "user_find d sub a b = rbind (byte_or_bytes sub) (\<lambda>s.
     Val (case occurrences d s a b of [] \<Rightarrow> -1 | i # _ \<Rightarrow> int i))"

definition user_rfind :: "string \<Rightarrow> seq \<Rightarrow> int \<Rightarrow> int \<Rightarrow> int result" where
  "user_rfind d sub a b = rbind (byte_or_bytes sub) (\<lambda>s.
     Val (case rev (occurrences d s a b) of [] \<Rightarrow> -1 | i # _ \<Rightarrow> int i))"

definition found :: "int \<Rightarrow> int result" where
  "found i = (if i = -1 then Exn ValueError else Val i)"

definition user_index :: "string \<Rightarrow> seq \<Rightarrow> int \<Rightarrow> int \<Rightarrow> int result" where
  "user_index d sub a b = rbind (user_find d sub a b) found"

definition user_rindex :: "string \<Rightarrow> seq \<Rightarrow> int \<Rightarrow> int \<Rightarrow> int result" where
  "user_rindex d sub a b = rbind (user_rfind d sub a b) found"

text \<open>Occurrences that do not overlap, from the left; the empty string is between all bytes.\<close>

fun count_in :: "string \<Rightarrow> string \<Rightarrow> nat" where
  "count_in sub [] = 0"
| "count_in sub (c # cs) =
     (if starts_with (c # cs) sub then Suc (count_in sub (drop (length sub - 1) cs))
      else count_in sub cs)"

definition user_count :: "string \<Rightarrow> seq \<Rightarrow> int \<Rightarrow> int \<Rightarrow> int result" where
  "user_count d sub a b = rbind (byte_or_bytes sub) (\<lambda>s.
     let a = from_bound (length d) a; b = to_bound (length d) b
     in Val (if b < a then 0
             else if s = [] then b - a + 1
             else int (count_in s (slice (nat a) (nat b) d))))"

text \<open>A prefix or suffix to test for, or a tuple of them.\<close>

datatype affix = One seq | Tuple "seq list"

fun any_match :: "(string \<Rightarrow> bool) \<Rightarrow> seq list \<Rightarrow> bool result" where
  "any_match f [] = Val False"
| "any_match f (x # xs) = rbind (bytes_like x) (\<lambda>s. if f s then Val True else any_match f xs)"

fun affix_match :: "(string \<Rightarrow> bool) \<Rightarrow> affix \<Rightarrow> bool result" where
  "affix_match f (One x) = any_match f [x]"
| "affix_match f (Tuple xs) = any_match f xs"

definition user_startswith :: "string \<Rightarrow> affix \<Rightarrow> int \<Rightarrow> int \<Rightarrow> bool result" where
  "user_startswith d p a b =
     (let a = from_bound (length d) a; b = to_bound (length d) b
      in affix_match (\<lambda>s. int (length s) \<le> b - a \<and> take (length s) (drop (nat a) d) = s) p)"

definition user_endswith :: "string \<Rightarrow> affix \<Rightarrow> int \<Rightarrow> int \<Rightarrow> bool result" where
  "user_endswith d p a b =
     (let a = from_bound (length d) a; b = to_bound (length d) b
      in affix_match (\<lambda>s. int (length s) \<le> b - a \<and> slice (nat b - length s) (nat b) d = s) p)"

section \<open>Classes of bytes\<close>

definition byte_space :: "char \<Rightarrow> bool" where
  "byte_space c = (let n = (of_char c :: nat) in 9 \<le> n \<and> n \<le> 13 \<or> n = 32)"

definition upper_char :: "char \<Rightarrow> char" where
  "upper_char c = (if is_lower c then char_of ((of_char c :: nat) - 32) else c)"

definition swap_char :: "char \<Rightarrow> char" where
  "swap_char c = (if is_lower c then upper_char c else lower_char c)"

definition all_of :: "(char \<Rightarrow> bool) \<Rightarrow> string \<Rightarrow> bool" where
  "all_of f d \<longleftrightarrow> d \<noteq> [] \<and> list_all f d"

definition user_isalpha :: "string \<Rightarrow> bool" where "user_isalpha = all_of is_alpha"
definition user_isalnum :: "string \<Rightarrow> bool" where "user_isalnum = all_of (\<lambda>c. is_alpha c \<or> is_digit c)"
definition user_isdigit :: "string \<Rightarrow> bool" where "user_isdigit = all_of is_digit"
definition user_isspace :: "string \<Rightarrow> bool" where "user_isspace = all_of byte_space"

definition user_islower :: "string \<Rightarrow> bool" where
  "user_islower d \<longleftrightarrow> list_ex is_lower d \<and> \<not> list_ex is_upper d"

definition user_isupper :: "string \<Rightarrow> bool" where
  "user_isupper d \<longleftrightarrow> list_ex is_upper d \<and> \<not> list_ex is_lower d"

text \<open>Titles: a letter is a capital exactly when no letter stands before it.\<close>

fun title_ok :: "bool \<Rightarrow> string \<Rightarrow> bool" where
  "title_ok after [] = True"
| "title_ok after (c # cs) =
     (if is_upper c then \<not> after \<and> title_ok True cs
      else if is_lower c then after \<and> title_ok True cs
      else title_ok False cs)"

definition user_istitle :: "string \<Rightarrow> bool" where
  "user_istitle d \<longleftrightarrow> title_ok False d \<and> list_ex is_alpha d"

fun titled :: "bool \<Rightarrow> string \<Rightarrow> string" where
  "titled after [] = []"
| "titled after (c # cs) =
     (if after then lower_char c else upper_char c) # titled (is_alpha c) cs"

definition user_title :: "string \<Rightarrow> string" where "user_title = titled False"
definition user_lower :: "string \<Rightarrow> string" where "user_lower = map lower_char"
definition user_upper :: "string \<Rightarrow> string" where "user_upper = map upper_char"
definition user_swapcase :: "string \<Rightarrow> string" where "user_swapcase = map swap_char"

definition user_capitalize :: "string \<Rightarrow> string" where
  "user_capitalize d = (case d of [] \<Rightarrow> [] | c # cs \<Rightarrow> upper_char c # map lower_char cs)"

section \<open>Padding and stripping\<close>

text \<open>The optional fill character: one argument at most, a single byte.\<close>

fun fill_of :: "seq list \<Rightarrow> char result" where
  "fill_of [] = Val (CHR '' '')"
| "fill_of [SBytes [c]] = Val c"
| "fill_of _ = Exn TypeError"

definition pad :: "char \<Rightarrow> nat \<Rightarrow> nat \<Rightarrow> string \<Rightarrow> string" where
  "pad c l r d = replicate l c @ d @ replicate r c"

definition user_ljust :: "string \<Rightarrow> int \<Rightarrow> seq list \<Rightarrow> string result" where
  "user_ljust d width args = rbind (fill_of args) (\<lambda>c. Val (pad c 0 (nat width - length d) d))"

definition user_rjust :: "string \<Rightarrow> int \<Rightarrow> seq list \<Rightarrow> string result" where
  "user_rjust d width args = rbind (fill_of args) (\<lambda>c. Val (pad c (nat width - length d) 0 d))"

text \<open>An odd number of fill bytes has the extra one on the left when the width is odd.\<close>

definition user_center :: "string \<Rightarrow> int \<Rightarrow> seq list \<Rightarrow> string result" where
  "user_center d width args = rbind (fill_of args) (\<lambda>c.
     let m = nat width - length d; l = m div 2 + (if odd m \<and> odd (nat width) then 1 else 0)
     in Val (pad c l (m - l) d))"

text \<open>Zeros go between a sign and the rest.\<close>

definition user_zfill :: "string \<Rightarrow> int \<Rightarrow> string" where
  "user_zfill d width =
     (let z = replicate (nat width - length d) (CHR ''0'')
      in case d of
           [] \<Rightarrow> z
         | c # cs \<Rightarrow> if c = CHR ''+'' \<or> c = CHR ''-'' then c # z @ cs else z @ d)"

text \<open>Tabs to spaces, at column \<open>col\<close> of the line.\<close>

fun expand :: "int \<Rightarrow> nat \<Rightarrow> string \<Rightarrow> string" where
  "expand tabsize col [] = []"
| "expand tabsize col (c # cs) =
     (if c = CHR 0x09 then
        if 0 < tabsize then
          let n = nat tabsize - col mod nat tabsize
          in replicate n (CHR '' '') @ expand tabsize (col + n) cs
        else expand tabsize col cs
      else c # expand tabsize (if c = CHR 0x0A \<or> c = CHR 0x0D then 0 else Suc col) cs)"

definition user_expandtabs :: "string \<Rightarrow> int \<Rightarrow> string" where
  "user_expandtabs d tabsize = expand tabsize 0 d"

definition strip_set :: "seq option \<Rightarrow> (char \<Rightarrow> bool) result" where
  "strip_set chars = (case chars of
     None \<Rightarrow> Val byte_space | Some x \<Rightarrow> rbind (bytes_like x) (\<lambda>s. Val (\<lambda>c. c \<in> set s)))"

definition strip_left :: "(char \<Rightarrow> bool) \<Rightarrow> string \<Rightarrow> string" where
  "strip_left f d = dropWhile f d"

definition strip_right :: "(char \<Rightarrow> bool) \<Rightarrow> string \<Rightarrow> string" where
  "strip_right f d = rev (dropWhile f (rev d))"

definition user_lstrip :: "string \<Rightarrow> seq option \<Rightarrow> string result" where
  "user_lstrip d chars = rbind (strip_set chars) (\<lambda>f. Val (strip_left f d))"

definition user_rstrip :: "string \<Rightarrow> seq option \<Rightarrow> string result" where
  "user_rstrip d chars = rbind (strip_set chars) (\<lambda>f. Val (strip_right f d))"

definition user_strip :: "string \<Rightarrow> seq option \<Rightarrow> string result" where
  "user_strip d chars = rbind (strip_set chars) (\<lambda>f. Val (strip_right f (strip_left f d)))"

section \<open>Cutting\<close>

text \<open>What stands before and after the first occurrence of a separator.\<close>

fun cut :: "string \<Rightarrow> string \<Rightarrow> (string \<times> string) option" where
  "cut sep [] = None"
| "cut sep (c # cs) =
     (if starts_with (c # cs) sep then Some ([], drop (length sep) (c # cs))
      else map_option (\<lambda>(a, b). (c # a, b)) (cut sep cs))"

definition separator :: "seq \<Rightarrow> string result" where
  "separator x = rbind (bytes_like x) (\<lambda>s. if s = [] then Exn ValueError else Val s)"

definition user_partition :: "string \<Rightarrow> seq \<Rightarrow> (string \<times> string \<times> string) result" where
  "user_partition d sep = rbind (separator sep) (\<lambda>s.
     Val (case cut s d of None \<Rightarrow> (d, [], []) | Some (a, b) \<Rightarrow> (a, s, b)))"

definition user_rpartition :: "string \<Rightarrow> seq \<Rightarrow> (string \<times> string \<times> string) result" where
  "user_rpartition d sep = rbind (separator sep) (\<lambda>s.
     Val (case cut (rev s) (rev d) of None \<Rightarrow> ([], [], d) | Some (a, b) \<Rightarrow> (rev b, s, rev a)))"

lemma cut_Some: "cut sep d = Some (a, b) \<Longrightarrow> d = a @ sep @ b"
proof (induction d arbitrary: a)
  case (Cons c d)
  show ?case
  proof (cases "starts_with (c # d) sep")
    case True
    with Cons.prems have "a = []" "b = drop (length sep) (c # d)" by simp_all
    moreover obtain r where "c # d = sep @ r" using True by (auto simp: starts_with_iff)
    ultimately show ?thesis by simp
  next
    case False
    with Cons.prems Cons.IH show ?thesis by auto
  qed
qed simp

lemma cut_shorter: "cut sep d = Some (a, b) \<Longrightarrow> sep \<noteq> [] \<Longrightarrow> length b < length d"
  by (auto dest: cut_Some)

text \<open>At most \<open>n\<close> cuts, or any number when \<open>n\<close> is negative.\<close>

function split_sep :: "string \<Rightarrow> int \<Rightarrow> string \<Rightarrow> string list" where
  "split_sep sep n d =
     (if n = 0 \<or> sep = [] then [d]
      else case cut sep d of None \<Rightarrow> [d] | Some (a, b) \<Rightarrow> a # split_sep sep (n - 1) b)"
  by auto
termination
  by (relation "measure (\<lambda>(sep, n, d). length d)") (auto dest: cut_shorter)

declare split_sep.simps [simp del]

function split_space :: "int \<Rightarrow> string \<Rightarrow> string list" where
  "split_space n d =
     (let d = dropWhile byte_space d
      in if d = [] then [] else if n = 0 then [d]
         else takeWhile (\<lambda>c. \<not> byte_space c) d
                # split_space (n - 1) (dropWhile (\<lambda>c. \<not> byte_space c) d))"
  by auto
termination
proof (relation "measure (\<lambda>(n, d). length d)")
  fix n :: int and d d' :: string
  assume d': "d' = dropWhile byte_space d" "d' \<noteq> []"
  then obtain c cs where "d' = c # cs" using list.exhaust by blast
  moreover from this have "\<not> byte_space c" using hd_dropWhile [of byte_space d] d' by simp
  ultimately have "length (dropWhile (\<lambda>c. \<not> byte_space c) d') < length d'"
    using length_dropWhile_le [of "\<lambda>c. \<not> byte_space c" cs] by simp
  also have "\<dots> \<le> length d" using d' by (simp add: length_dropWhile_le)
  finally show "((n - 1, dropWhile (\<lambda>c. \<not> byte_space c) d'), n, d) \<in> measure (\<lambda>(n, d). length d)"
    by simp
qed simp

declare split_space.simps [simp del]

definition user_split :: "string \<Rightarrow> seq option \<Rightarrow> int \<Rightarrow> string list result" where
  "user_split d sep n = (case sep of
     None \<Rightarrow> Val (split_space n d)
   | Some x \<Rightarrow> rbind (separator x) (\<lambda>s. Val (split_sep s n d)))"

text \<open>From the right: the mirror image.\<close>

definition user_rsplit :: "string \<Rightarrow> seq option \<Rightarrow> int \<Rightarrow> string list result" where
  "user_rsplit d sep n = (case sep of
     None \<Rightarrow> Val (rev (map rev (split_space n (rev d))))
   | Some x \<Rightarrow> rbind (separator x) (\<lambda>s. Val (rev (map rev (split_sep (rev s) n (rev d))))))"

text \<open>A line, its end, which is LF, CR or CR LF, and the rest.\<close>

fun cut_line :: "string \<Rightarrow> string \<times> string \<times> string" where
  "cut_line [] = ([], [], [])"
| "cut_line (c # cs) =
     (if c = CHR 0x0A then ([], [c], cs)
      else if c = CHR 0x0D then
        (case cs of
           [] \<Rightarrow> ([], [c], [])
         | c' # r \<Rightarrow> if c' = CHR 0x0A then ([], [c, c'], r) else ([], [c], cs))
      else (case cut_line cs of (a, e, r) \<Rightarrow> (c # a, e, r)))"

lemma cut_line_parts: "cut_line d = (a, e, r) \<Longrightarrow> d = a @ e @ r"
  by (induction d arbitrary: a e r rule: cut_line.induct) (auto split: if_splits list.splits prod.splits)

lemma cut_line_shorter: "cut_line (c # d) = (a, e, r) \<Longrightarrow> length r < Suc (length d)"
  using cut_line_parts [of "c # d" a e r]
  by (auto split: if_splits list.splits prod.splits)

function lines_of :: "bool \<Rightarrow> string \<Rightarrow> string list" where
  "lines_of keep [] = []"
| "lines_of keep (c # cs) =
     (case cut_line (c # cs) of (a, e, r) \<Rightarrow> (if keep then a @ e else a) # lines_of keep r)"
  by pat_completeness auto
termination
  by (relation "measure (\<lambda>(keep, d). length d)") (auto intro: cut_line_shorter [OF sym] simp del: cut_line.simps)

definition user_splitlines :: "string \<Rightarrow> int \<Rightarrow> string list" where
  "user_splitlines d keepends = lines_of (keepends \<noteq> 0) d"

section \<open>Joining and replacing\<close>

fun all_bytes :: "seq list \<Rightarrow> string list result" where
  "all_bytes [] = Val []"
| "all_bytes (x # xs) = rbind (bytes_like x) (\<lambda>s. rbind (all_bytes xs) (\<lambda>ss. Val (s # ss)))"

definition user_join :: "string \<Rightarrow> seq list \<Rightarrow> string result" where
  "user_join d xs = rbind (all_bytes xs) (\<lambda>ss. Val (join_with d ss))"

text \<open>Up to \<open>n\<close> occurrences, all when negative; the empty string is before each byte and at the end.\<close>

fun replace_in :: "string \<Rightarrow> string \<Rightarrow> int \<Rightarrow> string \<Rightarrow> string" where
  "replace_in old new n [] = []"
| "replace_in old new n (c # cs) =
     (if n \<noteq> 0 \<and> starts_with (c # cs) old
      then new @ replace_in old new (n - 1) (drop (length old - 1) cs)
      else c # replace_in old new n cs)"

fun interleave :: "string \<Rightarrow> int \<Rightarrow> string \<Rightarrow> string" where
  "interleave new n [] = (if n = 0 then [] else new)"
| "interleave new n (c # cs) =
     (if n = 0 then c # cs else new @ c # interleave new (n - 1) cs)"

definition user_replace :: "string \<Rightarrow> seq \<Rightarrow> seq \<Rightarrow> int \<Rightarrow> string result" where
  "user_replace d old new n = rbind (bytes_like old) (\<lambda>s. rbind (bytes_like new) (\<lambda>t.
     Val (if s = [] then interleave t n d else replace_in s t n d)))"

text \<open>\<open>translate\<close>: a table of 256 bytes or None, then the bytes to leave out.\<close>

fun translate_table :: "seq option \<Rightarrow> (char \<Rightarrow> char) result" where
  "translate_table None = Val (\<lambda>c. c)"
| "translate_table (Some x) = rbind (bytes_like x) (\<lambda>t.
     if length t = 256 then Val (\<lambda>c. t ! of_char c) else Exn ValueError)"

fun user_translate :: "string \<Rightarrow> seq option list \<Rightarrow> string result" where
  "user_translate d [t] = rbind (translate_table t) (\<lambda>f. Val (map f d))"
| "user_translate d [t, Some x] = rbind (translate_table t) (\<lambda>f.
     rbind (bytes_like x) (\<lambda>s. Val (map f (filter (\<lambda>c. c \<notin> set s) d))))"
| "user_translate d [t, None] = rbind (translate_table t) (\<lambda>f. Exn TypeError)"
| "user_translate d _ = Exn TypeError"

section \<open>The object itself\<close>

definition user_bytes :: "string \<Rightarrow> string" where "user_bytes d = d"
definition user_len :: "string \<Rightarrow> nat" where "user_len d = length d"

end
