(* ===== verification/Lib_Bytes_Spec.thy ===== *)
theory Lib_Bytes_Spec
  imports Lib_Bytes
begin

text \<open>Properties of the methods of \<open>UserString\<close>: searching, cutting and putting together.\<close>

section \<open>Bounds\<close>

text \<open>The default bounds 0 and \<open>sys.maxsize\<close> are the whole string.\<close>

lemma whole_bounds:
  "from_bound n 0 = 0" "int n \<le> maxsize \<Longrightarrow> to_bound n maxsize = int n"
  by (auto simp: from_bound_def to_bound_def maxsize_def)

lemma slice_at: "slice i (i + length s) d = s \<and> i + length s \<le> length d \<longleftrightarrow>
    (\<exists>a b. d = a @ s @ b \<and> length a = i)"
proof
  assume s: "slice i (i + length s) d = s \<and> i + length s \<le> length d"
  have "d = take i d @ drop i (take (i + length s) d) @ drop (i + length s) d"
    by (metis append_assoc append_take_drop_id le_add1 min.absorb1 take_take)
  with s have "d = take i d @ s @ drop (i + length s) d" by (simp add: slice_def)
  moreover have "length (take i d) = i" using s by simp
  ultimately show "\<exists>a b. d = a @ s @ b \<and> length a = i" by blast
qed (auto simp: slice_def)

lemma occurrences_whole:
  assumes "int (length d) \<le> maxsize"
  shows "i \<in> set (occurrences d s 0 maxsize) \<longleftrightarrow> (\<exists>a b. d = a @ s @ b \<and> length a = i)"
proof -
  have "i \<in> set (occurrences d s 0 maxsize) \<longleftrightarrow>
      slice i (i + length s) d = s \<and> i + length s \<le> length d"
    using assms by (auto simp: occurrences_def whole_bounds Let_def simp del: upt_Suc)
  then show ?thesis by (simp add: slice_at)
qed

lemma occurrences_sorted: "sorted (occurrences d s a b)"
  by (simp add: occurrences_def Let_def sorted_wrt_filter del: upt_Suc)

section \<open>Searching\<close>

text \<open>
  \<open>find\<close> and \<open>rfind\<close> give the least and the greatest position of a substring, and -1
  when there is none.
\<close>

lemma find_least:
  assumes "int (length d) \<le> maxsize"
  shows "user_find d (SBytes s) 0 maxsize = Val i \<longleftrightarrow>
    (if has_substring d s then \<exists>a b. d = a @ s @ b \<and> i = int (length a) \<and>
       (\<forall>a' b'. d = a' @ s @ b' \<longrightarrow> length a \<le> length a') else i = -1)"
proof (cases "occurrences d s 0 maxsize")
  case Nil
  then have "\<not> has_substring d s"
    using occurrences_whole [OF assms, of _ s] by (fastforce simp: has_substring_iff)
  with Nil show ?thesis by (auto simp: user_find_def)
next
  case (Cons k ks)
  then obtain a b where k: "d = a @ s @ b" "length a = k"
    using occurrences_whole [OF assms, of k s] by auto
  have least: "k \<le> length a'" if "d = a' @ s @ b'" for a' b'
  proof -
    have "length a' \<in> set (k # ks)" using occurrences_whole [OF assms, of "length a'" s] Cons that by auto
    then show ?thesis using occurrences_sorted [of d s 0 maxsize] Cons by auto
  qed
  have "has_substring d s" using k by (auto simp: has_substring_iff)
  moreover have "user_find d (SBytes s) 0 maxsize = Val (int k)"
    using Cons by (simp add: user_find_def)
  moreover have "i = int k \<longleftrightarrow> (\<exists>a b. d = a @ s @ b \<and> i = int (length a) \<and>
      (\<forall>a' b'. d = a' @ s @ b' \<longrightarrow> length a \<le> length a'))"
  proof
    assume "i = int k"
    with k least show "\<exists>a b. d = a @ s @ b \<and> i = int (length a) \<and>
      (\<forall>a' b'. d = a' @ s @ b' \<longrightarrow> length a \<le> length a')" by metis
  next
    assume "\<exists>a b. d = a @ s @ b \<and> i = int (length a) \<and>
      (\<forall>a' b'. d = a' @ s @ b' \<longrightarrow> length a \<le> length a')"
    with k least show "i = int k" by (metis le_antisym)
  qed
  ultimately show ?thesis by auto
qed

text \<open>\<open>index\<close> raises ValueError exactly when \<open>find\<close> answers -1.\<close>

lemma index_find:
  "user_index d x a b = Exn ValueError \<longleftrightarrow>
     user_find d x a b = Val (-1) \<or> user_find d x a b = Exn ValueError"
  by (cases "user_find d x a b") (auto simp: user_index_def found_def)

section \<open>Cutting and putting together\<close>

lemma split_sep_nonempty [simp]: "split_sep s n d \<noteq> []"
  by (subst split_sep.simps) (auto split: option.splits)

lemma join_with_Cons: "ss \<noteq> [] \<Longrightarrow> join_with s (t # ss) = t @ s @ join_with s ss"
  by (cases ss) simp_all

lemma join_split_sep: "join_with s (split_sep s n d) = d"
proof (induction s n d rule: split_sep.induct)
  case (1 s n d)
  show ?case
  proof (cases "n = 0 \<or> s = []")
    case False
    then show ?thesis
      using "1.IH" by (subst split_sep.simps) (auto simp: join_with_Cons dest: cut_Some split: option.splits)
  qed (subst split_sep.simps, simp)
qed

lemma all_bytes_map: "all_bytes (map SBytes ss) = Val ss"
  by (induction ss) simp_all

text \<open>
  Splitting at a separator and joining the pieces with it gives the string back, from the left
  and from the right, and so do the parts of a partition.
\<close>

lemma mirror_join: "join_with s (rev (map rev ss)) = rev (join_with (rev s) ss)"
proof (induction ss)
  case (Cons t ss)
  have "join_with s (xs @ [y]) = join_with s xs @ s @ y" if "xs \<noteq> []" for xs y
    using that
  proof (induction xs)
    case (Cons x xs)
    then show ?case by (cases "xs = []") (simp_all add: join_with_Cons)
  qed simp
  with Cons show ?case by (cases "ss = []") (simp_all add: join_with_Cons)
qed simp

lemma split_join_bytes:
  assumes "s \<noteq> []" and "user_split d (Some (SBytes s)) n = Val ps \<or> user_rsplit d (Some (SBytes s)) n = Val ps"
  shows "user_join s (map SBytes ps) = Val d"
proof -
  have "join_with s ps = d"
    using assms(2)
    by (auto simp: user_split_def user_rsplit_def separator_def assms(1) join_split_sep mirror_join)
  then show ?thesis by (simp add: user_join_def all_bytes_map)
qed

lemma partition_whole:
  assumes "user_partition d (SBytes s) = Val (a, m, b) \<or> user_rpartition d (SBytes s) = Val (a, m, b)"
  shows "a @ m @ b = d"
proof -
  have "rev b @ s @ rev a = d" if "cut (rev s) (rev d) = Some (a, b)" for a b
    using cut_Some [OF that] by (metis append_assoc rev_append rev_rev_ident)
  with assms show ?thesis
    by (auto simp: user_partition_def user_rpartition_def separator_def
        split: if_splits option.splits dest: cut_Some)
qed

lemma lines_keep: "concat (lines_of True d) = d"
  by (induction True d rule: lines_of.induct)
    (auto split: prod.splits dest: cut_line_parts simp del: cut_line.simps)

text \<open>Replacing all occurrences is splitting at the one and joining with the other.\<close>

lemma split_sep_skip:
  assumes "s \<noteq> []" and "\<not> starts_with (c # d) s"
  obtains p ps where "split_sep s n d = p # ps" and "split_sep s n (c # d) = (c # p) # ps"
proof (cases "split_sep s n d")
  case (Cons p ps)
  then have "split_sep s n (c # d) = (c # p) # ps"
    using assms by (subst split_sep.simps, subst (asm) split_sep.simps) (auto split: option.splits)
  with Cons that show ?thesis by blast
qed simp

lemma split_sep_hit:
  assumes "s \<noteq> []" and "n \<noteq> 0" and "starts_with (c # d) s"
  shows "split_sep s n (c # d) = [] # split_sep s (n - 1) (drop (length s - 1) d)"
  using assms by (subst split_sep.simps) (cases s; simp)

lemma replace_split: "s \<noteq> [] \<Longrightarrow> replace_in s t n d = join_with t (split_sep s n d)"
proof (induction s t n d rule: replace_in.induct)
  case (1 s t n)
  show ?case by (subst split_sep.simps) simp
next
  case (2 s t n c d)
  consider (zero) "n = 0" | (hit) "n \<noteq> 0" "starts_with (c # d) s" | (skip) "\<not> starts_with (c # d) s" by blast
  then show ?case
  proof cases
    case zero
    with 2 show ?thesis by (simp add: split_sep.simps [of s 0])
  next
    case hit
    with 2 show ?thesis by (simp add: split_sep_hit join_with_Cons)
  next
    case skip
    from split_sep_skip [OF 2(3) skip] obtain p ps where
      p: "split_sep s n d = p # ps" "split_sep s n (c # d) = (c # p) # ps" by blast
    have "join_with t ((c # p) # ps) = c # join_with t (p # ps)" by (cases ps) simp_all
    with 2 skip p show ?thesis by simp
  qed
qed

lemma swap_char_twice: "swap_char (swap_char c) = c"
  by (auto simp: swap_char_def upper_char_def lower_char_def is_lower_def is_upper_def)

lemma swapcase_twice: "user_swapcase (user_swapcase d) = d"
  by (induction d) (simp_all add: user_swapcase_def swap_char_twice)

end
