(* ===== verification/Lib_Loader.thy ===== *)
theory Lib_Loader
  imports Py_Str
begin

text \<open>
  The library loader of \<^verbatim>\<open>lib61850.py\<close> (lines 487-814): where a shared library is looked for, on
  POSIX systems and on Darwin, and how the first one that loads is taken. The host, that is the
  environment variables, the file system, the dynamic linker and the interpreter's own paths, is
  the parameter \<open>host\<close>. Paths are those of \<open>posixpath\<close>.
\<close>

section \<open>The host and its paths\<close>

text \<open>
  \<open>conf_lines\<close> are the lines read from a file before its end or the first error, so that a file
  that cannot be opened has none; \<open>conf_undecodable\<close> says that this error is text that is not
  valid, a ValueError, and not an IOError. \<open>set_order\<close> is the order in which a set is iterated.
\<close>

record host =
  environ :: "string \<Rightarrow> string option"
  path_exists :: "string \<Rightarrow> bool"
  conf_lines :: "string \<Rightarrow> string list"
  conf_undecodable :: "string \<Rightarrow> bool"
  globbed :: "string \<Rightarrow> string list"
  find_library :: "string \<Rightarrow> string option"
  loads :: "string \<Rightarrow> bool"
  symbols :: "string \<Rightarrow> string \<Rightarrow> bool"
  set_order :: "string list \<Rightarrow> string list"
  sys_platform :: string
  bitage :: string
  cwd :: string
  module_dir :: string
  home_lib :: string
  frozen :: "string option"

definition isabs :: "string \<Rightarrow> bool" where
  "isabs p = starts_with p ''/''"

definition path_join :: "string \<Rightarrow> string \<Rightarrow> string" where
  "path_join a b =
     (if isabs b then b
      else if a = [] \<or> last a = CHR ''/'' then a @ b
      else a @ ''/'' @ b)"

text \<open>\<open>normpath\<close>: the components that remain, in reverse, then the path.\<close>

definition norm_step :: "bool \<Rightarrow> string list \<Rightarrow> string \<Rightarrow> string list" where
  "norm_step rooted acc c =
     (if c = [] \<or> c = ''.'' then acc
      else if c \<noteq> ''..'' \<or> (\<not> rooted \<and> acc = []) \<or> (acc \<noteq> [] \<and> hd acc = ''..'') then c # acc
      else if acc \<noteq> [] then tl acc
      else acc)"

definition normpath :: "string \<Rightarrow> string" where
  "normpath p =
     (if p = [] then ''.''
      else let slashes = (if starts_with p ''//'' \<and> \<not> starts_with p ''///'' then ''//''
                          else if starts_with p ''/'' then ''/'' else []);
               comps = rev (foldl (norm_step (slashes \<noteq> [])) [] (split_on (CHR ''/'') p));
               r = slashes @ join_with ''/'' comps
           in if r = [] then ''.'' else r)"

definition abspath :: "host \<Rightarrow> string \<Rightarrow> string" where
  "abspath H p = normpath (if isabs p then p else path_join (cwd H) p)"

definition basename :: "string \<Rightarrow> string" where
  "basename p = last (split_on (CHR ''/'') p)"

text \<open>\<open>fmt % name\<close> for a format with one \<open>%s\<close>.\<close>

fun percent_s :: "string \<Rightarrow> string \<Rightarrow> string" where
  "percent_s (c # d # cs) x = (if c = CHR ''%'' \<and> d = CHR ''s'' then x @ cs else c # percent_s (d # cs) x)"
| "percent_s cs x = cs"

section \<open>Environment and search directories\<close>

definition environ_path :: "host \<Rightarrow> string \<Rightarrow> string list" where
  "environ_path H name = (case environ H name of Some v \<Rightarrow> split_on (CHR '':'') v | None \<Rightarrow> [])"

text \<open>The class \<open>_Directories\<close>: a dictionary from directories to their order, and the next order.\<close>

record directories =
  dir_items :: "(string \<times> nat) list"
  dir_order :: nat

definition no_dirs :: directories where
  "no_dirs = \<lparr>dir_items = [], dir_order = 0\<rparr>"

definition strip_seps :: "string \<Rightarrow> string" where
  "strip_seps d = rev (dropWhile (\<lambda>c. c = CHR ''/'') (rev d))"

definition clean_dir :: "string \<Rightarrow> string" where
  "clean_dir d = (if 1 < length d then strip_seps d else d)"

definition dir_add :: "host \<Rightarrow> string \<Rightarrow> directories \<Rightarrow> directories" where
  "dir_add H d D =
     (let d = clean_dir d in
      if \<not> path_exists H d then D
      else let o' = (case map_of (dir_items D) d of Some k \<Rightarrow> k | None \<Rightarrow> dir_order D);
               items = (if map_of (dir_items D) d = None then dir_items D @ [(d, dir_order D)]
                        else dir_items D)
           in D\<lparr>dir_items := items,
                dir_order := (if o' = dir_order D then dir_order D + 1 else dir_order D)\<rparr>)"

definition dir_extend :: "host \<Rightarrow> string list \<Rightarrow> directories \<Rightarrow> directories" where
  "dir_extend H ds D = foldl (\<lambda>D d. dir_add H d D) D ds"

definition dir_ordered :: "directories \<Rightarrow> string list" where
  "dir_ordered D = map fst (sort_key snd (dir_items D))"

section \<open>The linker's configuration\<close>

text \<open>The pattern of \<open>_include\<close>, for a line without space around it.\<close>

definition include_pattern :: "string \<Rightarrow> string option" where
  "include_pattern d =
     (let r = drop 7 d in
      if starts_with d ''include'' \<and> r \<noteq> [] \<and> is_space (hd r) then Some (dropWhile is_space r) else None)"

text \<open>
  \<open>_get_ld_so_conf_dirs\<close>; the first argument is what is left of Python's recursion limit. A file
  that includes itself exhausts it. An IOError is passed over; a file that is not valid text raises
  UnicodeDecodeError once the lines before the error have been handled, and nobody catches it.
\<close>

fun conf_dirs :: "nat \<Rightarrow> host \<Rightarrow> string \<Rightarrow> (directories, unit) prog" where
  "conf_dirs 0 H conf = raise RecursionError"
| "conf_dirs (Suc n) H conf =
     andthen
       (for_each (conf_lines H conf) (\<lambda>line.
          let d = strip_space line in
          if d = [] then ret ()
          else (case include_pattern d of
              None \<Rightarrow> modify (dir_add H d)
            | Some p \<Rightarrow> for_each (globbed H p) (conf_dirs n H))))
       (if conf_undecodable H conf then raise UnicodeDecodeError else ret ())"

definition env_dir_names :: "string list" where
  "env_dir_names = [''LD_LIBRARY_PATH'', ''SHLIB_PATH'', ''LIBPATH'', ''LIBRARY_PATH'']"

definition unix_lib_dirs :: "host \<Rightarrow> string list" where
  "unix_lib_dirs H =
     (if starts_with (bitage H) ''64'' then [''/lib64'', ''/usr/lib64''] else []) @
     [''/lib'', ''/usr/lib''] @
     (if starts_with (sys_platform H) ''linux''
      then (if starts_with (bitage H) ''32'' then [''/lib/i386-linux-gnu'', ''/usr/lib/i386-linux-gnu'']
            else if starts_with (bitage H) ''64''
              then [''/lib/x86_64-linux-gnu'', ''/usr/lib/x86_64-linux-gnu'']
            else globbed H ''/lib/*linux-gnu'')
      else [])"

text \<open>The group of \<open>lib(.*)\.s[ol]\<close>: up to the last \<open>.so\<close> or \<open>.sl\<close>.\<close>

fun upto_ext :: "string \<Rightarrow> string option" where
  "upto_ext [] = None"
| "upto_ext (c # cs) = (case upto_ext cs of
     Some r \<Rightarrow> Some (c # r)
   | None \<Rightarrow> if starts_with (c # cs) ''.so'' \<or> starts_with (c # cs) ''.sl'' then Some [] else None)"

definition library_of :: "string \<Rightarrow> string option" where
  "library_of file = (if starts_with file ''lib'' then upto_ext (drop 3 file) else None)"

type_synonym ld_cache = "(string \<times> string list) list"

text \<open>\<open>cache.setdefault(key, set()).add(path)\<close>, the set as the list of what was added.\<close>

definition cache_add :: "string \<Rightarrow> string \<Rightarrow> ld_cache \<Rightarrow> ld_cache" where
  "cache_add key path c =
     (let ps = (case map_of c key of Some ps \<Rightarrow> ps | None \<Rightarrow> [])
      in dset key (if path \<in> set ps then ps else ps @ [path]) c)"

definition cache_file :: "string \<Rightarrow> ld_cache \<Rightarrow> ld_cache" where
  "cache_file path c =
     (let file = basename path; c = cache_add file path c
      in case library_of file of Some library \<Rightarrow> cache_add library path c | None \<Rightarrow> c)"

text \<open>The directories searched, then the files in them, indexed by file and by library name.\<close>

definition ld_dirs :: "nat \<Rightarrow> host \<Rightarrow> string list result" where
  "ld_dirs n H =
     (let D = foldl (\<lambda>D name. case environ H name of
            Some v \<Rightarrow> dir_extend H (split_on (CHR '':'') v) D | None \<Rightarrow> D) no_dirs env_dir_names
      in case conf_dirs n H ''/etc/ld.so.conf'' D of
           (Val _, D) \<Rightarrow> Val (dir_ordered (dir_extend H (unix_lib_dirs H) D))
         | (Exn e, _) \<Rightarrow> Exn e
         | (NoReturn, _) \<Rightarrow> NoReturn)"

definition dir_files :: "host \<Rightarrow> string list \<Rightarrow> string list" where
  "dir_files H dirs = concat (map (\<lambda>dir. globbed H (dir @ ''/*.s[ol]*'')) dirs)"

definition create_ld_so_cache :: "nat \<Rightarrow> host \<Rightarrow> ld_cache result" where
  "create_ld_so_cache n H =
     rbind (ld_dirs n H) (\<lambda>dirs. Val (foldl (\<lambda>c path. cache_file path c) [] (dir_files H dirs)))"

section \<open>Loaders\<close>

datatype loader_class = LibraryLoader | DarwinLibraryLoader | PosixLibraryLoader | WindowsLibraryLoader

record loader =
  class_of_loader :: loader_class
  other_dirs :: "string list"
  ld_so_cache :: "ld_cache option"

fun name_formats :: "loader_class \<Rightarrow> string list" where
  "name_formats DarwinLibraryLoader = [''lib%s.dylib'', ''lib%s.so'', ''lib%s.bundle'', ''%s.dylib'',
     ''%s.so'', ''%s.bundle'', ''%s'']"
| "name_formats WindowsLibraryLoader = [''%s.dll'', ''lib%s.dll'', ''%slib.dll'', ''%s'']"
| "name_formats _ = [''%s'']"

definition formatted :: "loader \<Rightarrow> string \<Rightarrow> string list" where
  "formatted L libname = map (\<lambda>f. percent_s f libname) (name_formats (class_of_loader L))"

definition darwin_getdirs :: "host \<Rightarrow> string \<Rightarrow> string list result" where
  "darwin_getdirs H libname =
     (let fallback = environ_path H ''DYLD_FALLBACK_LIBRARY_PATH'';
          fallback = (if fallback = [] then [home_lib H, ''/usr/local/lib'', ''/usr/lib''] else fallback);
          dirs = (if CHR ''/'' \<in> set libname then environ_path H ''DYLD_LIBRARY_PATH''
                  else environ_path H ''LD_LIBRARY_PATH'' @ environ_path H ''DYLD_LIBRARY_PATH'')
      in if frozen H = Some ''macosx_app''
         then (case environ H ''RESOURCEPATH'' of
             Some r \<Rightarrow> Val (dirs @ [path_join (path_join r ''..'') ''Frameworks''] @ fallback)
           | None \<Rightarrow> Exn KeyError)
         else Val (dirs @ fallback))"

definition darwin_platformpaths :: "host \<Rightarrow> loader \<Rightarrow> string \<Rightarrow> string list result" where
  "darwin_platformpaths H L libname =
     (let names = (if CHR '':'' \<in> set libname then [libname] else formatted L libname)
      in case darwin_getdirs H libname of
           Val dirs \<Rightarrow> Val (concat (map (\<lambda>dir. map (path_join dir) names) dirs))
         | Exn e \<Rightarrow> Exn e | NoReturn \<Rightarrow> NoReturn)"

definition posix_platformpaths :: "nat \<Rightarrow> host \<Rightarrow> string \<Rightarrow> (loader, string list) prog" where
  "posix_platformpaths n H libname L =
     (let r = (case ld_so_cache L of Some c \<Rightarrow> Val c | None \<Rightarrow> create_ld_so_cache n H)
      in case r of
           Val c \<Rightarrow> (Val (set_order H (case map_of c libname of Some ps \<Rightarrow> ps | None \<Rightarrow> [])),
                     L\<lparr>ld_so_cache := Some c\<rparr>)
         | Exn e \<Rightarrow> (Exn e, L) | NoReturn \<Rightarrow> (NoReturn, L))"

definition getplatformpaths :: "nat \<Rightarrow> host \<Rightarrow> string \<Rightarrow> (loader, string list) prog" where
  "getplatformpaths n H libname L =
     (case class_of_loader L of
        DarwinLibraryLoader \<Rightarrow> (darwin_platformpaths H L libname, L)
      | PosixLibraryLoader \<Rightarrow> posix_platformpaths n H libname L
      | _ \<Rightarrow> (Val [], L))"

text \<open>
  The generator \<open>getpaths\<close> in three parts, since what comes after a path is only computed when
  that path does not load: the paths before the platform's, the platform's, and the last ones.
\<close>

definition first_paths :: "host \<Rightarrow> loader \<Rightarrow> string \<Rightarrow> string list" where
  "first_paths H L libname =
     concat (map (\<lambda>dir. map (path_join dir) (formatted L libname)) (other_dirs L)) @
     map (\<lambda>f. abspath H (path_join (module_dir H) f)) (formatted L libname) @
     filter (\<lambda>p. p \<noteq> []) (List.map_filter (find_library H) (formatted L libname))"

definition last_paths :: "host \<Rightarrow> loader \<Rightarrow> string \<Rightarrow> string list" where
  "last_paths H L libname = map (\<lambda>f. abspath H (path_join ''.'' f)) (formatted L libname)"

definition load_from :: "host \<Rightarrow> string list \<Rightarrow> string option" where
  "load_from H ps = List.find (loads H) ps"

text \<open>\<open>__call__\<close>: the path of the library loaded.\<close>

definition load_library :: "nat \<Rightarrow> host \<Rightarrow> string \<Rightarrow> (loader, string) prog" where
  "load_library n H libname L =
     (if isabs libname
      then (if loads H libname then (Val libname, L) else (Exn ImportError, L))
      else case load_from H (first_paths H L libname) of
          Some p \<Rightarrow> (Val p, L)
        | None \<Rightarrow> bnd (getplatformpaths n H libname) (\<lambda>ps L.
            case load_from H (ps @ last_paths H L libname) of
              Some p \<Rightarrow> (Val p, L)
            | None \<Rightarrow> (Exn ImportError, L)) L)"

text \<open>The platform switch and \<open>add_library_search_dirs\<close>.\<close>

definition loaderclass :: "(string \<times> loader_class) list" where
  "loaderclass = [(''darwin'', DarwinLibraryLoader), (''cygwin'', WindowsLibraryLoader),
     (''win32'', WindowsLibraryLoader), (''msys'', WindowsLibraryLoader)]"

definition new_loader :: "host \<Rightarrow> loader" where
  "new_loader H = \<lparr>class_of_loader = (case map_of loaderclass (sys_platform H) of
       Some c \<Rightarrow> c | None \<Rightarrow> PosixLibraryLoader), other_dirs = [], ld_so_cache = None\<rparr>"

definition add_library_search_dirs :: "host \<Rightarrow> string list \<Rightarrow> (loader, unit) prog" where
  "add_library_search_dirs H ds =
     for_each ds (\<lambda>F. modify (\<lambda>L. L\<lparr>other_dirs := other_dirs L @ [if isabs F then F else abspath H F]\<rparr>))"

text \<open>
  A loaded library, \<open>Lookup\<close>: its calling conventions, each with the symbols found under it.
\<close>

type_synonym lookup = "(string \<times> (string \<Rightarrow> bool)) list"

definition Lookup :: "host \<Rightarrow> loader_class \<Rightarrow> string \<Rightarrow> lookup" where
  "Lookup H c path = (''cdecl'', symbols H path) #
     (if c = WindowsLibraryLoader then [(''stdcall'', symbols H path)] else [])"

definition lookup_get :: "lookup \<Rightarrow> string \<Rightarrow> string \<Rightarrow> string result" where
  "lookup_get A name cc = (case map_of A cc of
     None \<Rightarrow> Exn LookupError
   | Some syms \<Rightarrow> if syms name then Val name else Exn AttributeError)"

definition lookup_has :: "lookup \<Rightarrow> string \<Rightarrow> string \<Rightarrow> bool" where
  "lookup_has A name cc = (case map_of A cc of None \<Rightarrow> False | Some syms \<Rightarrow> syms name)"

section \<open>The library of the module\<close>

definition lib_path :: string where
  "lib_path = ''/usr/local/lib/libiec61850.so''"

text \<open>Lines 811 and 814: no search directories are added, then the library is loaded.\<close>

definition load_module_library :: "nat \<Rightarrow> host \<Rightarrow> (loader, lookup) prog" where
  "load_module_library n H =
     andthen (add_library_search_dirs H [])
       (bnd (load_library n H lib_path) (\<lambda>p L. (Val (Lookup H (class_of_loader L) p), L)))"

end
