(* ===== verification/Lib_Loader_Spec.thy ===== *)
theory Lib_Loader_Spec
  imports Lib_Loader
begin

text \<open>
  What the loader does: \<open>_Directories\<close> keeps the first occurrences in order, the linker's
  configuration is read to its end unless it includes itself or is not valid text, and the cache
  holds exactly the files of the directories.
\<close>

section \<open>Directories in order\<close>

text \<open>The reference: the elements of a list that do not occur before.\<close>

fun firsts :: "'a list \<Rightarrow> 'a list \<Rightarrow> 'a list" where
  "firsts seen [] = seen"
| "firsts seen (x # xs) = firsts (if x \<in> set seen then seen else seen @ [x]) xs"

definition dirs_ok :: "directories \<Rightarrow> bool" where
  "dirs_ok D \<longleftrightarrow> distinct (map fst (dir_items D)) \<and>
     map snd (dir_items D) = [0..<length (dir_items D)] \<and> dir_order D = length (dir_items D)"

lemma dirs_ok_order: "dirs_ok D \<Longrightarrow> map_of (dir_items D) d = Some k \<Longrightarrow> k < dir_order D"
proof -
  assume ok: "dirs_ok D" and "map_of (dir_items D) d = Some k"
  then have "k \<in> set (map snd (dir_items D))" by (force dest: map_of_SomeD)
  with ok show "k < dir_order D" by (simp add: dirs_ok_def)
qed

lemma dir_ordered_ok: "dirs_ok D \<Longrightarrow> dir_ordered D = map fst (dir_items D)"
  unfolding dir_ordered_def dirs_ok_def
  by (metis sort_key_id_if_sorted sorted_upt)

lemma dir_add_ok:
  assumes "dirs_ok D"
  shows "dirs_ok (dir_add H d D)"
    and "map fst (dir_items (dir_add H d D)) =
      firsts (map fst (dir_items D)) (filter (path_exists H) [clean_dir d])"
proof -
  have iff: "map_of (dir_items D) (clean_dir d) = None \<longleftrightarrow> clean_dir d \<notin> set (map fst (dir_items D))"
    by (simp add: map_of_eq_None_iff)
  show "dirs_ok (dir_add H d D)"
  proof (cases "map_of (dir_items D) (clean_dir d)")
    case None
    with assms iff show ?thesis by (auto simp: dir_add_def Let_def dirs_ok_def)
  next
    case (Some k)
    with assms dirs_ok_order [OF assms Some] show ?thesis by (simp add: dir_add_def Let_def)
  qed
  show "map fst (dir_items (dir_add H d D)) =
      firsts (map fst (dir_items D)) (filter (path_exists H) [clean_dir d])"
    using iff by (auto simp: dir_add_def Let_def)
qed

lemma dir_extend_ok:
  assumes "dirs_ok D"
  shows "dirs_ok (dir_extend H ds D) \<and> map fst (dir_items (dir_extend H ds D)) =
    firsts (map fst (dir_items D)) (filter (path_exists H) (map clean_dir ds))"
  using assms
proof (induction ds arbitrary: D)
  case (Cons d ds)
  from Cons.IH [OF dir_add_ok(1) [OF Cons.prems]] dir_add_ok(2) [OF Cons.prems, of H d]
  show ?case by (auto simp: dir_extend_def)
qed (simp add: dir_extend_def)

text \<open>
  C38 Extending an empty \<open>_Directories\<close> by a list and asking for the order gives the existing
  directories of the list without their trailing separators, each once, in the order of first
  occurrence.
\<close>
theorem directories_keep_first:
  "dir_ordered (dir_extend H ds no_dirs) = firsts [] (filter (path_exists H) (map clean_dir ds))"
proof -
  have "dirs_ok no_dirs" by (simp add: dirs_ok_def no_dirs_def)
  from dir_extend_ok [OF this] show ?thesis
    by (simp add: dir_ordered_ok) (simp add: no_dirs_def)
qed

section \<open>Reading the configuration\<close>

text \<open>The files that a configuration file includes.\<close>

definition included :: "host \<Rightarrow> string \<Rightarrow> string set" where
  "included H f = {g. \<exists>line \<in> set (conf_lines H f). \<exists>p. strip_space line \<noteq> [] \<and>
     include_pattern (strip_space line) = Some p \<and> g \<in> set (globbed H p)}"

lemma for_each_cong:
  "(\<And>x s. x \<in> set xs \<Longrightarrow> f x s = g x s) \<Longrightarrow> for_each xs f s = for_each xs g s"
  by (induction xs arbitrary: s) (auto simp: andthen_def bnd_def split: prod.splits result.splits)

text \<open>A loop whose rounds raise the same exception or nothing.\<close>

lemma for_each_raises:
  "(\<And>x s. x \<in> set xs \<Longrightarrow> fst (f x s) = (if P x then Exn e else Val ())) \<Longrightarrow>
   fst (for_each xs f s) = (if \<exists>x \<in> set xs. P x then Exn e else Val ())"
proof (induction xs arbitrary: s)
  case (Cons x xs)
  obtain r s' where "f x s = (r, s')" by (cases "f x s")
  with Cons.prems [of x s] Cons.IH [of s'] Cons.prems show ?case
    by (cases "P x") (auto simp: andthen_def bnd_def)
qed simp

text \<open>The files a configuration file reaches by includes, itself among them.\<close>

definition reaches :: "host \<Rightarrow> string \<Rightarrow> string \<Rightarrow> bool" where
  "reaches H f g \<longleftrightarrow> (\<lambda>f g. g \<in> included H f)\<^sup>*\<^sup>* f g"

lemma reaches_step: "(\<exists>g. reaches H f g \<and> P g) \<longleftrightarrow> (\<exists>g \<in> included H f. \<exists>k. reaches H g k \<and> P k) \<or> P f"
  unfolding reaches_def
  by (auto elim: converse_rtranclpE intro: converse_rtranclp_into_rtranclp)

text \<open>
  C13 If the files reachable from a configuration file can be ranked so that every file includes
  only files of lower rank, that is if no file includes itself directly or through others, then
  reading the file comes to an end with any recursion limit above its rank, and the limit does not
  matter: it ends normally when all the files it reaches are valid text, and with
  UnicodeDecodeError when one of them is not.
\<close>
theorem conf_dirs_terminates:
  assumes "\<And>f g. f \<in> A \<Longrightarrow> g \<in> included H f \<Longrightarrow> g \<in> A \<and> rank g < (rank f :: nat)"
    and "f \<in> A" and "rank f < n" and "rank f < n'"
  shows "fst (conf_dirs n H f D) =
           (if \<exists>g. reaches H f g \<and> conf_undecodable H g then Exn UnicodeDecodeError else Val ()) \<and>
         conf_dirs n' H f D = conf_dirs n H f D"
  using assms(2-4)
proof (induction "rank f" arbitrary: f n n' D rule: less_induct)
  case less
  define m m' where "m = n - 1" and "m' = n' - 1"
  with less.prems have n: "n = Suc m" "n' = Suc m'" "rank f \<le> m" "rank f \<le> m'" by auto
  let ?bad = "\<lambda>f. \<exists>g. reaches H f g \<and> conf_undecodable H g"
  let ?E = "Exn UnicodeDecodeError"
  let ?body = "\<lambda>k line. let d = strip_space line in if d = [] then ret ()
    else (case include_pattern d of None \<Rightarrow> modify (dir_add H d) | Some p \<Rightarrow> for_each (globbed H p) (conf_dirs k H))"
  let ?by = "\<lambda>line. {g. \<exists>p. strip_space line \<noteq> [] \<and> include_pattern (strip_space line) = Some p \<and> g \<in> set (globbed H p)}"
  have inner: "fst (conf_dirs m H g D) = (if ?bad g then ?E else Val ()) \<and> conf_dirs m' H g D = conf_dirs m H g D"
    if "g \<in> included H f" for g D
    using assms(1) [OF less.prems(1) that] n by (intro less.hyps) auto
  have body: "fst (?body m line D) = (if \<exists>g \<in> ?by line. ?bad g then ?E else Val ()) \<and>
      ?body m' line D = ?body m line D"
    if line: "line \<in> set (conf_lines H f)" for line D
  proof (cases "strip_space line = [] \<or> include_pattern (strip_space line) = None")
    case False
    then obtain p where p: "strip_space line \<noteq> []" "include_pattern (strip_space line) = Some p" by auto
    have "g \<in> included H f" if "g \<in> set (globbed H p)" for g
      using that line p by (auto simp: included_def)
    note inner' = inner [OF this]
    have "fst (for_each (globbed H p) (conf_dirs m H) D) = (if \<exists>g \<in> set (globbed H p). ?bad g then ?E else Val ())"
      by (rule for_each_raises) (simp add: inner')
    moreover have "for_each (globbed H p) (conf_dirs m' H) D = for_each (globbed H p) (conf_dirs m H) D"
      by (rule for_each_cong) (simp add: inner')
    ultimately show ?thesis using p by simp
  qed (auto simp: Let_def)
  have loop: "fst (for_each (conf_lines H f) (?body m) D) = (if \<exists>g \<in> included H f. ?bad g then ?E else Val ())" for D
  proof -
    have "fst (for_each (conf_lines H f) (?body m) D) =
        (if \<exists>line \<in> set (conf_lines H f). \<exists>g \<in> ?by line. ?bad g then ?E else Val ())"
      by (rule for_each_raises) (rule body [THEN conjunct1])
    moreover have "(\<exists>line \<in> set (conf_lines H f). \<exists>g \<in> ?by line. ?bad g) \<longleftrightarrow> (\<exists>g \<in> included H f. ?bad g)"
      unfolding included_def by blast
    ultimately show ?thesis by simp
  qed
  have same: "for_each (conf_lines H f) (?body m') D = for_each (conf_lines H f) (?body m) D" for D
    by (rule for_each_cong) (rule body [THEN conjunct2])
  obtain r D' where run: "for_each (conf_lines H f) (?body m) D = (r, D')"
    by (cases "for_each (conf_lines H f) (?body m) D")
  have step: "?bad f \<longleftrightarrow> (\<exists>g \<in> included H f. ?bad g) \<or> conf_undecodable H f"
    using reaches_step [of H f "conf_undecodable H"] by simp
  show ?case
    unfolding n conf_dirs.simps
    using loop [of D] same run step by (auto simp: andthen_def bnd_def)
qed

definition demo_host :: host where
  "demo_host = \<lparr>environ = (\<lambda>v. if v = ''LIBPATH'' then Some ''/opt/lib:/usr/lib/'' else None),
     path_exists = (\<lambda>p. p \<in> {''/opt/lib'', ''/usr/lib''}),
     conf_lines = (\<lambda>f. if f = ''/etc/ld.so.conf'' then [''include /etc/x.conf'', ''/usr/lib'']
       else if f = ''/etc/loop.conf'' then [''include /etc/loop.conf'']
       else if f = ''/etc/bad.conf'' then [''include /etc/x.conf''] else []),
     conf_undecodable = (\<lambda>f. f = ''/etc/bad.conf''),
     globbed = (\<lambda>p. if p = ''/opt/lib/*.s[ol]*'' then [''/opt/lib/libdemo.so.1''] else [p]),
     find_library = (\<lambda>_. None), loads = (\<lambda>p. p = ''/opt/lib/libdemo.so.1''),
     symbols = (\<lambda>_ f. f = ''f''), set_order = id, sys_platform = ''linux'', bitage = ''64bit'',
     cwd = ''/root'', module_dir = ''/root/x'', home_lib = ''/root/lib'', frozen = None\<rparr>"

lemma demo_included: "included demo_host ''/etc/ld.so.conf'' = {''/etc/x.conf''}"
  "included demo_host ''/etc/x.conf'' = {}" "included demo_host ''/etc/bad.conf'' = {''/etc/x.conf''}"
  by (auto simp: included_def demo_host_def include_pattern_def strip_space_def is_space_def)

lemma conf_dirs_terminates_witness:
  "fst (conf_dirs 2 demo_host ''/etc/ld.so.conf'' no_dirs) = Val () \<and>
   fst (conf_dirs 2 demo_host ''/etc/bad.conf'' no_dirs) = Exn UnicodeDecodeError \<and>
   conf_dirs 1000 demo_host ''/etc/ld.so.conf'' no_dirs = conf_dirs 2 demo_host ''/etc/ld.so.conf'' no_dirs"
proof -
  let ?A = "{''/etc/ld.so.conf'', ''/etc/x.conf'', ''/etc/bad.conf''}"
  let ?rank = "\<lambda>f. if f = ''/etc/x.conf'' then 0 else 1 :: nat"
  have ranked: "g \<in> ?A \<and> ?rank g < ?rank f" if "f \<in> ?A" "g \<in> included demo_host f" for f g
    using that by (auto simp: demo_included)
  have run: "fst (conf_dirs 2 demo_host f D) =
      (if \<exists>g. reaches demo_host f g \<and> conf_undecodable demo_host g then Exn UnicodeDecodeError else Val ()) \<and>
      conf_dirs 1000 demo_host f D = conf_dirs 2 demo_host f D" if "f \<in> ?A" for f D
    by (rule conf_dirs_terminates [OF ranked that]) simp_all
  have x: "(\<exists>g. reaches demo_host ''/etc/x.conf'' g \<and> conf_undecodable demo_host g) = False"
    by (subst reaches_step) (simp add: demo_included, simp add: demo_host_def)
  have good: "(\<exists>g. reaches demo_host ''/etc/ld.so.conf'' g \<and> conf_undecodable demo_host g) = False"
    by (subst reaches_step) (simp add: demo_included x, simp add: demo_host_def)
  have bad: "(\<exists>g. reaches demo_host ''/etc/bad.conf'' g \<and> conf_undecodable demo_host g) = True"
    by (subst reaches_step) (simp add: demo_host_def)
  show ?thesis
    using run [of "''/etc/ld.so.conf''"] run [of "''/etc/bad.conf''"] good bad by simp
qed

text \<open>A file that includes itself exhausts every recursion limit.\<close>

lemma conf_dirs_loops:
  assumes "conf_lines H f = [line]" "strip_space line \<noteq> []"
    and "include_pattern (strip_space line) = Some p" "globbed H p = [f]"
  shows "conf_dirs n H f D = (Exn RecursionError, D)"
  using assms by (induction n) auto

section \<open>The cache\<close>

text \<open>The paths the cache holds for a name.\<close>

definition cached :: "ld_cache \<Rightarrow> string \<Rightarrow> string list" where
  "cached c key = (case map_of c key of Some ps \<Rightarrow> ps | None \<Rightarrow> [])"

definition names_file :: "string \<Rightarrow> string \<Rightarrow> bool" where
  "names_file key path \<longleftrightarrow> basename path = key \<or> library_of (basename path) = Some key"

lemma cached_add:
  "cached (cache_add key path c) k =
     (if k = key \<and> path \<notin> set (cached c key) then cached c key @ [path] else cached c k)"
  by (auto simp: cached_def cache_add_def update_conv split: option.split)

lemma cached_file: "set (cached (cache_file path c) k) = set (cached c k) \<union> (if names_file k path then {path} else {})"
  by (auto simp: cache_file_def Let_def cached_add names_file_def split: option.split)

lemma cached_files:
  "set (cached (foldl (\<lambda>c path. cache_file path c) c ps) k) = set (cached c k) \<union> {p \<in> set ps. names_file k p}"
  by (induction ps arbitrary: c) (auto simp: cached_file)

text \<open>
  C39 When the cache is made, the paths it yields for a library name are exactly the files of the
  searched directories that have that name, or are called \<open>lib\<close>name\<open>.so\<close> or \<open>.sl\<close> with anything
  after it.
\<close>
theorem cache_exact:
  assumes "ld_dirs n H = Val dirs" and "\<And>ps. set (set_order H ps) = set ps"
    and "class_of_loader L = PosixLibraryLoader" and "ld_so_cache L = None"
  shows "\<exists>ps L'. getplatformpaths n H name L = (Val ps, L') \<and>
           set ps = {p \<in> set (dir_files H dirs). names_file name p} \<and>
           getplatformpaths n' H name L' = (Val ps, L')"
proof -
  define c where "c = foldl (\<lambda>c path. cache_file path c) [] (dir_files H dirs)"
  have "set (cached c name) = {p \<in> set (dir_files H dirs). names_file name p}"
    unfolding c_def cached_files by (simp add: cached_def)
  with assms show ?thesis
    by (simp add: getplatformpaths_def posix_platformpaths_def create_ld_so_cache_def Let_def
        c_def [symmetric] cached_def [symmetric])
qed

definition posix_loader :: loader where
  "posix_loader = \<lparr>class_of_loader = PosixLibraryLoader, other_dirs = [], ld_so_cache = None\<rparr>"

lemma cache_exact_witness:
  "\<exists>ps L'. getplatformpaths 2 demo_host ''demo'' posix_loader = (Val ps, L') \<and>
     set ps = {''/opt/lib/libdemo.so.1''} \<and> getplatformpaths 9 demo_host ''demo'' L' = (Val ps, L')"
proof -
  have dirs: "ld_dirs 2 demo_host = Val [''/opt/lib'', ''/usr/lib'']"
    by code_simp
  have files: "{p \<in> set (dir_files demo_host [''/opt/lib'', ''/usr/lib'']). names_file ''demo'' p} =
      {''/opt/lib/libdemo.so.1''}"
    by (auto simp: dir_files_def demo_host_def names_file_def basename_def library_of_def starts_with_iff)
  from cache_exact [OF dirs, of posix_loader "''demo''" 9] files show ?thesis
    by (simp add: posix_loader_def demo_host_def)
qed

end
