(* ===== verification/Lib_Module.thy ===== *)
theory Lib_Module
  imports Lib_Spec Lib_Loader_Spec
begin

text \<open>
  The import of \<^verbatim>\<open>lib61850.py\<close> as a whole: the C library is loaded first, and its symbols decide
  which functions the generated part binds.
\<close>

definition import_module :: "nat \<Rightarrow> host \<Rightarrow> bool \<Rightarrow> lmod result" where
  "import_module n H p =
     (case load_module_library n H (new_loader H) of
        (Val A, _) \<Rightarrow>
          (case exec_all \<lparr>sym = (\<lambda>f. lookup_has A f ''cdecl''), int_is_ptr = p\<rparr> lib61850 no_names of
             (Val _, m) \<Rightarrow> Val m | (Exn e, _) \<Rightarrow> Exn e | (NoReturn, _) \<Rightarrow> NoReturn)
      | (Exn e, _) \<Rightarrow> Exn e
      | (NoReturn, _) \<Rightarrow> NoReturn)"

lemma load_module_exact:
  "fst (load_module_library n H (new_loader H)) =
     (if loads H lib_path then Val (Lookup H (class_of_loader (new_loader H)) lib_path) else Exn ImportError)"
  by (simp add: load_module_library_def add_library_search_dirs_def load_library_def isabs_def lib_path_def
      bnd_def andthen_def ret_def)

lemma lookup_cdecl: "lookup_has (Lookup H c path) f ''cdecl'' = symbols H path f"
  by (simp add: lookup_has_def Lookup_def)

text \<open>
  C11 Importing \<open>lib61850\<close> tries one path only, whatever the environment says, and raises ImportError
  if that library does not load. Otherwise the import ends normally, and the namespace is the one
  of the name table: every type and every constant with its value, every function that the
  library has with its number of arguments, and no other name but \<open>_lib\<close>.
\<close>
theorem import_exact:
  "if loads H lib_path
   then \<exists>m. import_module n H p = Val m \<and> (\<forall>k. k \<noteq> ''_lib'' \<longrightarrow> (case lib_table k of
          Some (_, e) \<Rightarrow> holds \<lparr>sym = symbols H lib_path, int_is_ptr = p\<rparr> m k e
        | None \<Rightarrow> map_of (gnames m) k = None))
   else import_module n H p = Exn ImportError"
proof (cases "loads H lib_path")
  case True
  define E where "E = \<lparr>sym = symbols H lib_path, int_is_ptr = p\<rparr>"
  from True load_module_exact [of n H] obtain L where
    L: "load_module_library n H (new_loader H) = (Val (Lookup H (class_of_loader (new_loader H)) lib_path), L)"
    by (cases "load_module_library n H (new_loader H)") auto
  from lib_runs [of E] obtain m where m: "exec_all E lib61850 no_names = (Val (), m)"
    "\<forall>k. k \<noteq> ''_lib'' \<longrightarrow> (case lib_table k of
       Some (_, e) \<Rightarrow> holds E m k e | None \<Rightarrow> map_of (gnames m) k = None)" by blast
  have "import_module n H p = Val m"
    using L m(1) by (simp add: import_module_def lookup_cdecl E_def)
  with True m(2) show ?thesis unfolding E_def by auto
next
  case False
  with load_module_exact [of n H] show ?thesis
    by (cases "load_module_library n H (new_loader H)") (simp add: import_module_def)
qed

lemma import_exact_witness:
  "\<exists>m. import_module 0 (demo_host\<lparr>loads := (\<lambda>p. p = lib_path), symbols := (\<lambda>_ f. f = ''MmsValue_delete'')\<rparr>) False = Val m \<and>
     map_of (gnames m) ''MMS_BOOLEAN'' = Some (GInt 2) \<and>
     map_of (gnames m) ''IedConnection_create'' = None \<and>
     map_of (gnames m) ''MmsValue_delete'' \<noteq> None"
proof -
  define H where "H = demo_host\<lparr>loads := (\<lambda>p. p = lib_path), symbols := (\<lambda>_ f. f = ''MmsValue_delete'')\<rparr>"
  have H: "loads H lib_path" "symbols H lib_path = (\<lambda>f. f = ''MmsValue_delete'')" by (simp_all add: H_def)
  from import_exact [of H 0 False] H obtain m where run: "import_module 0 H False = Val m"
    and all: "\<And>k. k \<noteq> ''_lib'' \<Longrightarrow> (case lib_table k of
      Some (_, e) \<Rightarrow> holds \<lparr>sym = symbols H lib_path, int_is_ptr = False\<rparr> m k e
    | None \<Rightarrow> map_of (gnames m) k = None)" by auto
  from all [of "''MMS_BOOLEAN''"] all [of "''IedConnection_create''"] all [of "''MmsValue_delete''"] H
  have "map_of (gnames m) ''MMS_BOOLEAN'' = Some (GInt 2)" "map_of (gnames m) ''IedConnection_create'' = None"
    "map_of (gnames m) ''MmsValue_delete'' \<noteq> None"
    by (auto simp: looks)
  with run show ?thesis unfolding H_def by blast
qed

end
