(* ===== verification/Spec2Isabelle.thy ===== *)
theory Spec2Isabelle
  imports Py_Prelude Py_Struct Py_IO Py_Str Py_Url Mem_File Mem_File_Facts Mem_File_Main Mem_File_Spec
    Lock_Race Example_Spec Data_Model Data_Model_Spec C_Api Lib_Consts Client_Values Client_Values_Spec
    Client_Discovery Client_Discovery_Facts Client_Discovery_Spec Client_Discovery_Exact Client_Ownership Client_Update Client_Update_Spec
    Client_Enums Client_State Client_Ops Client_Reports Client_Control Client_Demo Client_Invariants
    Client_State_Spec Client_Ops_Spec Client_Main Client_Session_Spec Client_Poll_Spec
    Lib_Syntax Lib_Check Lib_Table_1 Lib_Table_2 Lib_Table_3 Lib_Table_4 Lib_Names Lib_Import Lib_Spec
    Py_Text Lib_String Lib_Bytes Lib_Bytes_Spec Lib_Loader Lib_Loader_Spec Lib_Module
begin

text \<open>
  Verification of the Python programs of tmee.

  tmee is an engine for IEC 61850 signals: C modules exchange samples through memory-mapped
  ring buffers, and Python programs read those buffers and talk to devices over MMS. This
  development covers the Python: the buffer module \<^verbatim>\<open>other/python_example/mem_file.py\<close> with the
  example \<^verbatim>\<open>program.py\<close>, the client \<^verbatim>\<open>tools/python_client/libiec61850client.py\<close>, and the binding
  \<^verbatim>\<open>lib61850.py\<close> through which the client reaches the C library libiec61850.

  How the parts interact. \<^verbatim>\<open>program.py\<close> prints the index of a buffer through \<^verbatim>\<open>mem_file.py\<close>
  whenever a message arrives. The client keeps, for each device, a connection, a data model made
  by \<open>discovery\<close>, and the reports and control objects it uses; every operation goes through
  \<open>getIED\<close>, and every call of the library goes through the binding, whose import decides which
  functions exist and how many arguments they take.

  \<^bold>\<open>Vocabulary.\<close> \<open>Py_Prelude\<close> has results (\<open>Val\<close>, \<open>Exn\<close> with a Python exception, \<open>NoReturn\<close> for a
  call that does not come back), programs over a state, loops with early return, the rules
  \<open>keeps\<close> and \<open>triple\<close> for invariants, and dictionaries as association lists in insertion order
  (locale \<open>ordered_dict\<close>). \<open>Py_Struct\<close> has \<open>struct.pack\<close> and \<open>unpack\<close> of the fixed-width formats
  (locale \<open>codec\<close>, interpreted for each format), \<open>Py_IO\<close> memory maps and files as mutable byte
  lists, \<open>Py_Str\<close> strings, \<open>Py_Url\<close> what the client uses of \<open>urllib.parse\<close>. A Python \<open>str\<close> is its
  UTF-8 encoding, except in the string classes of the binding, where it is its code points and
  \<open>Py_Text\<close> has the encoding and the decoding; integers are \<open>int\<close>, C integers are words.

  \<^bold>\<open>Buffers.\<close> \<open>Mem_File\<close>: the header fields, the semaphore and the six slot writers, one
  definition for each function of \<^verbatim>\<open>mem_file.py\<close>. The state \<open>io\<close> is the map with the schedule of
  what other processes write while a loop waits; \<open>spin_while\<close> goes round once for each step of
  the schedule, so that a loop that has not ended when the schedule has is one that no other
  process ends, and its result is \<open>NoReturn\<close>. \<open>Mem_File_Facts\<close> has the abstract buffer \<open>ring\<close>,
  \<open>Mem_File_Spec\<close> the refinement of the header writes and the behaviour of locking; \<open>Lock_Race\<close>
  the steps of several processes as an inductive relation; \<open>Mem_File_Main\<close> and \<open>Example_Spec\<close> the
  two main programs, the subscriber with what other processes write before each of its accesses.

  \<^bold>\<open>Client.\<close> \<open>C_Api\<close> is libiec61850 as a parameter: the record
  \<open>capi\<close> answers each call from the trace of all calls before it, so it stands for
  any library and any device. What the properties assume of it is named: an answer with an error
  has a NULL pointer (\<open>null_on_error\<close>), an object that accepted a value gives it back until
  the next call that may change it (\<open>keeps_writes\<close>), a server answers with a given tree
  (\<open>serves_model\<close>) or answers every read of an object (\<open>answers\<close>).
  \<open>Data_Model\<close> has the nested dictionaries with
  \<open>parseRef\<close>, \<open>getRef\<close> and \<open>printrefs\<close>;
  \<open>Client_Values\<close> \<open>printValue\<close> and \<open>getMMsValue\<close>;
  \<open>Client_Discovery\<close> \<open>printDataDirectory\<close> and \<open>discovery\<close>;
  \<open>Client_Update\<close> \<open>updateValueInModel\<close> and \<open>writeValue\<close>;
  \<open>Client_State\<close> the record \<open>client\<close> for the attributes of the object
  and \<open>getIED\<close>; \<open>Client_Ops\<close> \<open>registerWriteValue\<close>,
  \<open>ReadValue\<close>, \<open>poll\<close> and the queries; \<open>Client_Reports\<close> the
  registration of reports and \<open>ReportHandler_cb\<close>; \<open>Client_Control\<close>
  \<open>operate\<close>, \<open>select\<close>, \<open>cancel\<close> and the termination
  handler; \<open>Client_Enums\<close> and \<open>Lib_Consts\<close> the constants;
  \<open>Client_Main\<close> the demonstration at the end of the file. The first argument of
  \<open>printDataDirectory\<close>, and of every operation that can reach it, is what is left of
  Python's recursion limit; the properties that promise a result ask for a limit above the depth
  of the device's tree, and 0 is a RecursionError.

  \<open>Client_Ownership\<close> is a calculus of what a program acquires and releases (locale
  \<open>resource\<close>, interpreted for linked lists, values and connections);
  \<open>Client_Discovery_Facts\<close> applies it to the discovery,
  \<open>Client_Invariants\<close> to the connections: \<open>reachable\<close> are the states of
  a client after any list of operations and callbacks, and \<open>conns_upto\<close> holds in all of them: the
  table owns every connection but those lost to calls with a text for the port, and no call is
  made on a connection that is gone.
  The theories ending in \<open>_Spec\<close> have the properties,
  \<open>Client_Discovery_Exact\<close> of the discovery of a whole device,
  \<open>Client_Session_Spec\<close> of a write followed by a read,
  \<open>Client_Poll_Spec\<close> of a round of polling; \<open>Client_Demo\<close> is a small
  library on which they are run.

  \<^bold>\<open>Binding.\<close> \<open>Lib_Syntax\<close> has the forms of the generated
  statements of \<^verbatim>\<open>lib61850.py\<close> and their meaning in the module's
  namespace, \<open>Lib_Table_1\<close> to \<open>Lib_Table_4\<close> all of them, from line 821
  to the end, in pieces of at most 150 lines named by the header they come from.
  \<open>Lib_Check\<close> is a static check of such statements against a table of names, sound
  for every library (locale \<open>name_table\<close>, interpreted on the table of
  \<open>Lib_Names\<close>); \<open>Lib_Import\<close> runs the check piece by piece,
  \<open>Lib_Spec\<close> concludes what the import binds and that the calls, constants and
  enumerations of the client fit. \<open>Lib_String\<close> has the string classes of the
  preamble, \<open>Lib_Bytes\<close> those of their methods that pass on to bytes,
  \<open>Lib_Bytes_Spec\<close> that searching is least and that cutting loses nothing,
  \<open>Lib_Loader\<close> the search for shared libraries over a parameter \<open>host\<close>,
  \<open>Lib_Loader_Spec\<close> its properties, and \<open>Lib_Module\<close> joins loader and
  generated statements into the import of the module. The first argument of
  \<open>conf_dirs\<close> is again what is left of the recursion limit; \<open>host\<close> says of each configuration
  file which lines can be read and whether reading ends with text that is not valid.

  \<^bold>\<open>Not modelled.\<close> The C engine, its modules and tools are another language.
  Sockets, files opened by name, sleeping and logging have no effect on the state modelled. A
  dictionary or list that an operation returns is a snapshot here, where Python returns a
  reference into the model. An error of iteration over a dictionary that a callback changes is not
  modelled, nor is a callback that runs while an operation does: callbacks are steps of their own
  in \<open>reachable\<close>. Of \<open>UserString\<close> the operator \<open>%\<close>,
  \<open>decode\<close> with a named encoding and the conversions to float, complex, hash and repr
  are left out, which only call Python. The Windows loader has the path functions of POSIX. Floats
  are exact dyadic numbers with two conversions of Python as parameters (\<open>pyfloat\<close>).
\<close>

end
